(* ===== verification/Nex_Prelude.thy ===== *)
theory Nex_Prelude
  imports Main "HOL-Library.Word"
begin

text \<open>
  Shared vocabulary of the development: the machine types of the Go sources, the outcome of
  a Go call (a value, a \<open>*nex.Error\<close>, a run-time panic, or a call that never returns because
  it waits for a mutex), the state-passing combinators in which every operation is written,
  the primitives for one SQL statement, and the proof rules for invariants that all component
  theories use.

  An operation of the program is a function from a state to an outcome and the next state.
  The state always survives an error: the Go handlers have no transaction around their
  statements (the one exception, the score upload, is modelled in its own theory), so effects
  before an early return stay.
\<close>

unbundle bit_operations_syntax

named_theorems run_simps "unfolding one step of a state-passing operation"
named_theorems keeps_rules "introduction rules for preserved state predicates"

section \<open>Machine types\<close>

type_synonym u8 = "8 word"
type_synonym u16 = "16 word"
type_synonym u32 = "32 word"
type_synonym u64 = "64 word"
type_synonym pid = "64 word"
type_synonym bytes = "8 word list"

lemma unat_ucast_u16 [simp]: "unat (ucast (x :: u16) :: u32) = unat x"
proof -
  have "unat x < 2 ^ 16" using unsigned_less [of x] by simp
  then have "take_bit 32 (unat x) = unat x" by (simp add: take_bit_nat_eq_self_iff)
  then show ?thesis by (simp add: unsigned_ucast_eq)
qed

lemma int_fits_u32 [simp]: "(2 ^ 32 :: int) \<le> int n \<longleftrightarrow> 2 ^ 32 \<le> n" "(4294967296 :: int) \<le> int n \<longleftrightarrow> 4294967296 \<le> n"
  by simp_all

lemma unat_of_nat_u32: "n < 2 ^ 32 \<Longrightarrow> unat (word_of_nat n :: u32) = n"
  by (simp add: unsigned_of_nat take_bit_nat_eq_self)

lemma ucast_u16_eq_0 [simp]: "(ucast (x :: u16) :: u32) = 0 \<longleftrightarrow> x = 0"
  by (metis unat_ucast_u16 unsigned_0 unsigned_word_eqI)

lemma word_of_unat_u16 [simp]: "(word_of_nat (unat (x :: u16)) :: u32) = ucast x"
  by (simp add: unsigned_ucast_eq)

section \<open>Result codes and outcomes\<close>

text \<open>
  The numeric values of \<open>nex.ResultCodes\<close> belong to the library; the handlers only choose
  between the names, so a code is its name. The text of an error is never sent to a client.
\<close>

datatype result_code =
    Core_Unknown
  | Core_NotImplemented
  | Core_InvalidIndex
  | Core_InvalidArgument
  | Core_Exception
  | RendezVous_InvalidUsername
  | RendezVous_AccountDisabled
  | RendezVous_PermissionDenied
  | RendezVous_InvalidOperation
  | RendezVous_InvalidPassword
  | RendezVous_InvalidGID
  | RendezVous_SessionVoid
  | RendezVous_SessionFull
  | RendezVous_NotParticipatedGathering
  | RendezVous_AlreadyParticipatedGathering
  | RendezVous_PersistentGatheringCreationMax
  | Authentication_Unknown
  | Authentication_ValidationFailed
  | Authentication_TokenExpired
  | Authentication_PrincipalIDUnmatched
  | DataStore_Unknown
  | DataStore_InvalidArgument
  | DataStore_PermissionDenied
  | DataStore_NotFound
  | DataStore_OperationNotAllowed
  | Ranking_Unknown
  | Ranking_InvalidArgument
  | Ranking_NotFound

datatype 'a outcome = Ok 'a | Err result_code | Panic | Blocked

type_synonym ('s, 'a) nex = "'s \<Rightarrow> 'a outcome \<times> 's"

section \<open>State-passing combinators\<close>

definition retM :: "'a \<Rightarrow> ('s, 'a) nex" where
  "retM a s = (Ok a, s)"

definition throwM :: "result_code \<Rightarrow> ('s, 'a) nex" where
  "throwM e s = (Err e, s)"

definition panicM :: "('s, 'a) nex" where
  "panicM s = (Panic, s)"

definition bindM :: "('s, 'a) nex \<Rightarrow> ('a \<Rightarrow> ('s, 'b) nex) \<Rightarrow> ('s, 'b) nex" where
  "bindM m f s = (case m s of
      (Ok a, s') \<Rightarrow> f a s'
    | (Err e, s') \<Rightarrow> (Err e, s')
    | (Panic, s') \<Rightarrow> (Panic, s')
    | (Blocked, s') \<Rightarrow> (Blocked, s'))"

definition getM :: "('s \<Rightarrow> 'a) \<Rightarrow> ('s, 'a) nex" where
  "getM f s = (Ok (f s), s)"

definition modM :: "('s \<Rightarrow> 's) \<Rightarrow> ('s, unit) nex" where
  "modM f s = (Ok (), f s)"

text \<open>
  \<open>catchM\<close> is the Go idiom \<open>x, nexError := f()\<close> where the caller looks at the error itself
  instead of returning it: the error becomes a value, a panic still unwinds.
\<close>

definition catchM :: "('s, 'a) nex \<Rightarrow> ('s, result_code + 'a) nex" where
  "catchM m s = (case m s of
      (Ok a, s') \<Rightarrow> (Ok (Inr a), s')
    | (Err e, s') \<Rightarrow> (Ok (Inl e), s')
    | (Panic, s') \<Rightarrow> (Panic, s')
    | (Blocked, s') \<Rightarrow> (Blocked, s'))"

text \<open>A \<open>for range\<close> loop whose body may return early.\<close>

primrec forM :: "'a list \<Rightarrow> ('a \<Rightarrow> ('s, unit) nex) \<Rightarrow> ('s, unit) nex" where
  "forM [] f = retM ()"
| "forM (x # xs) f = bindM (f x) (\<lambda>_. forM xs f)"

text \<open>Loops that carry a value: an accumulator, and a result list to which a pass may add.\<close>

primrec foldM :: "('b \<Rightarrow> 'a \<Rightarrow> ('s, 'b) nex) \<Rightarrow> 'b \<Rightarrow> 'a list \<Rightarrow> ('s, 'b) nex" where
  "foldM f b [] = retM b"
| "foldM f b (x # xs) = bindM (f b x) (\<lambda>b'. foldM f b' xs)"

definition collectM :: "('a \<Rightarrow> ('s, 'b option) nex) \<Rightarrow> 'a list \<Rightarrow> ('s, 'b list) nex" where
  "collectM f xs = foldM (\<lambda>bs x. bindM (f x) (\<lambda>r. retM (case r of None \<Rightarrow> bs | Some b \<Rightarrow> bs @ [b]))) [] xs"

lemma run_ret [run_simps]: "retM a s = (Ok a, s)" by (simp add: retM_def)
lemma run_throw [run_simps]: "throwM e s = (Err e, s)" by (simp add: throwM_def)
lemma run_panic [run_simps]: "panicM s = (Panic, s)" by (simp add: panicM_def)
lemma run_get [run_simps]: "getM f s = (Ok (f s), s)" by (simp add: getM_def)
lemma run_mod [run_simps]: "modM f s = (Ok (), f s)" by (simp add: modM_def)

lemma bind_ret [simp]: "bindM (retM a) f = f a"
  by (rule ext) (simp add: bindM_def retM_def)

lemma bind_throw [simp]: "bindM (throwM e) f = throwM e"
  by (rule ext) (simp add: bindM_def throwM_def)

lemma bind_panic [simp]: "bindM panicM f = panicM"
  by (rule ext) (simp add: bindM_def panicM_def)

lemma bind_ret_right [simp]: "bindM m retM = m"
  by (rule ext) (simp add: bindM_def retM_def split: prod.splits outcome.splits)

lemma bind_assoc: "bindM (bindM m f) g = bindM m (\<lambda>a. bindM (f a) g)"
  by (rule ext) (simp add: bindM_def split: prod.splits outcome.splits)

lemma run_bind_Ok: "m s = (Ok a, s') \<Longrightarrow> bindM m f s = f a s'"
  by (simp add: bindM_def)

lemma run_bind_Err: "m s = (Err e, s') \<Longrightarrow> bindM m f s = (Err e, s')"
  by (simp add: bindM_def)

lemma run_bind_Panic: "m s = (Panic, s') \<Longrightarrow> bindM m f s = (Panic, s')"
  by (simp add: bindM_def)

lemma run_catch_Ok: "m s = (Ok a, s') \<Longrightarrow> catchM m s = (Ok (Inr a), s')"
  by (simp add: catchM_def)

lemma run_catch_Err: "m s = (Err e, s') \<Longrightarrow> catchM m s = (Ok (Inl e), s')"
  by (simp add: catchM_def)

lemma run_catch_Panic: "m s = (Panic, s') \<Longrightarrow> catchM m s = (Panic, s')"
  by (simp add: catchM_def)

lemmas run_bind = run_bind_Ok run_bind_Err run_bind_Panic
lemmas run_catch = run_catch_Ok run_catch_Err run_catch_Panic

lemma run_bind_get [run_simps]: "bindM (getM g) f s = f (g s) s"
  by (simp add: bindM_def getM_def)

lemma run_bind_mod [run_simps]: "bindM (modM g) f s = f () (g s)"
  by (simp add: bindM_def modM_def)

text \<open>What a run that ended with a value did before.\<close>

lemma bind_OkD:
  assumes "bindM m f s = (Ok b, t)"
  obtains a s' where "m s = (Ok a, s')" and "f a s' = (Ok b, t)"
  using assms by (auto simp: bindM_def split: prod.splits outcome.splits)

lemma catch_OkD:
  assumes "catchM m s = (Ok r, t)"
  obtains (ok) a where "m s = (Ok a, t)" and "r = Inr a" | (err) e where "m s = (Err e, t)" and "r = Inl e"
  using assms by (auto simp: catchM_def split: prod.splits outcome.splits)

lemma catch_not_Err: "catchM m s = (Err e, s') \<Longrightarrow> False"
  by (simp add: catchM_def split: prod.splits outcome.splits)

section \<open>Preserved predicates\<close>

text \<open>
  \<open>keeps I m\<close>: operation \<open>m\<close> ends in a state with \<open>I\<close> from every state with \<open>I\<close>, on every
  path (success, error, panic). A field that \<open>m\<close> never writes is the special case of \<open>I\<close> being
  \<open>\<lambda>s. field s = v\<close>.
\<close>

definition keeps :: "('s \<Rightarrow> bool) \<Rightarrow> ('s, 'a) nex \<Rightarrow> bool" where
  "keeps I m \<longleftrightarrow> (\<forall>s. I s \<longrightarrow> I (snd (m s)))"

lemma keepsI: "(\<And>s. I s \<Longrightarrow> I (snd (m s))) \<Longrightarrow> keeps I m"
  by (simp add: keeps_def)

lemma keepsD: "keeps I m \<Longrightarrow> I s \<Longrightarrow> I (snd (m s))"
  by (simp add: keeps_def)

lemma keeps_run: "keeps I m \<Longrightarrow> I s \<Longrightarrow> m s = (r, s') \<Longrightarrow> I s'"
  by (auto dest: keepsD)

lemma keeps_ret [keeps_rules]: "keeps I (retM a)"
  by (simp add: keeps_def retM_def)

lemma keeps_throw [keeps_rules]: "keeps I (throwM e)"
  by (simp add: keeps_def throwM_def)

lemma keeps_panic [keeps_rules]: "keeps I panicM"
  by (simp add: keeps_def panicM_def)

lemma keeps_get [keeps_rules]: "keeps I (getM f)"
  by (simp add: keeps_def getM_def)

lemma keeps_mod: "(\<And>s. I s \<Longrightarrow> I (f s)) \<Longrightarrow> keeps I (modM f)"
  by (simp add: keeps_def modM_def)

lemma keeps_bind [keeps_rules]:
  assumes "keeps I m" and "\<And>a. keeps I (f a)"
  shows "keeps I (bindM m f)"
  using assms by (auto simp: keeps_def bindM_def split: prod.splits outcome.splits)

lemma keeps_catch [keeps_rules]: "keeps I m \<Longrightarrow> keeps I (catchM m)"
  by (auto simp: keeps_def catchM_def split: prod.splits outcome.splits)

lemma keeps_if [keeps_rules]:
  "(b \<Longrightarrow> keeps I m) \<Longrightarrow> (\<not> b \<Longrightarrow> keeps I n) \<Longrightarrow> keeps I (if b then m else n)"
  by simp

lemma keeps_let [keeps_rules]: "(\<And>x. keeps I (f x)) \<Longrightarrow> keeps I (Let v f)"
  by (simp add: Let_def)

lemma keeps_prod [keeps_rules]: "(\<And>a b. keeps I (f a b)) \<Longrightarrow> keeps I (case p of (a, b) \<Rightarrow> f a b)"
  by (cases p) simp

lemma keeps_option [keeps_rules]:
  "keeps I m \<Longrightarrow> (\<And>a. keeps I (f a)) \<Longrightarrow> keeps I (case x of None \<Rightarrow> m | Some a \<Rightarrow> f a)"
  by (cases x) simp_all

lemma keeps_sum [keeps_rules]:
  "(\<And>a. keeps I (f a)) \<Longrightarrow> (\<And>b. keeps I (g b)) \<Longrightarrow> keeps I (case x of Inl a \<Rightarrow> f a | Inr b \<Rightarrow> g b)"
  by (cases x) simp_all

lemma keeps_list [keeps_rules]:
  "keeps I m \<Longrightarrow> (\<And>y ys. keeps I (f y ys)) \<Longrightarrow> keeps I (case xs of [] \<Rightarrow> m | y # ys \<Rightarrow> f y ys)"
  by (cases xs) simp_all

lemma keeps_for [keeps_rules]: "(\<And>x. keeps I (f x)) \<Longrightarrow> keeps I (forM xs f)"
  by (induction xs) (auto intro: keeps_rules)

lemma keeps_fold [keeps_rules]: "(\<And>b x. keeps I (f b x)) \<Longrightarrow> keeps I (foldM f b xs)"
  by (induction xs arbitrary: b) (auto intro: keeps_rules)

lemma keeps_collect [keeps_rules]: "(\<And>x. keeps I (f x)) \<Longrightarrow> keeps I (collectM f xs)"
  unfolding collectM_def by (intro keeps_rules)

lemma keeps_conj: "keeps I m \<Longrightarrow> keeps J m \<Longrightarrow> keeps (\<lambda>s. I s \<and> J s) m"
  by (simp add: keeps_def)

text \<open>
  \<open>result_in R m\<close>: every outcome of \<open>m\<close> lies in \<open>R\<close>. Used for "this call never returns that
  error" and "this call neither panics nor blocks".
\<close>

definition result_in :: "('a outcome \<Rightarrow> bool) \<Rightarrow> ('s, 'a) nex \<Rightarrow> bool" where
  "result_in R m \<longleftrightarrow> (\<forall>s. R (fst (m s)))"

definition safe :: "'a outcome \<Rightarrow> bool" where
  "safe r \<longleftrightarrow> r \<noteq> Panic \<and> r \<noteq> Blocked"

named_theorems safe_rules "introduction rules for operations that neither panic nor block"

lemma safe_simps [simp]: "safe (Ok a)" "safe (Err e)" "\<not> safe Panic" "\<not> safe Blocked"
  by (simp_all add: safe_def)

lemma safe_ret [safe_rules]: "result_in safe (retM a)"
  by (simp add: result_in_def retM_def)

lemma safe_throw [safe_rules]: "result_in safe (throwM e)"
  by (simp add: result_in_def throwM_def)

lemma safe_get [safe_rules]: "result_in safe (getM f)"
  by (simp add: result_in_def getM_def)

lemma safe_mod [safe_rules]: "result_in safe (modM f)"
  by (simp add: result_in_def modM_def)

lemma safe_bind [safe_rules]:
  assumes "result_in safe m" and "\<And>a. result_in safe (f a)"
  shows "result_in safe (bindM m f)"
  unfolding result_in_def
proof
  fix s
  have m: "safe (fst (m s))" using assms(1) by (simp add: result_in_def)
  have f: "safe (fst (f a t))" for a t using assms(2) by (simp add: result_in_def)
  from m f show "safe (fst (bindM m f s))"
    by (auto simp: bindM_def split: prod.splits outcome.splits)
qed

lemma safe_catch [safe_rules]: "result_in safe m \<Longrightarrow> result_in safe (catchM m)"
  by (auto simp: result_in_def catchM_def safe_def split: prod.splits outcome.splits)
    (metis fst_conv)+

lemma safe_if [safe_rules]:
  "result_in safe m \<Longrightarrow> result_in safe n \<Longrightarrow> result_in safe (if b then m else n)"
  by simp

lemma safe_let [safe_rules]: "(\<And>x. result_in safe (f x)) \<Longrightarrow> result_in safe (Let v f)"
  by (simp add: Let_def)

lemma safe_prod [safe_rules]:
  "(\<And>a b. result_in safe (f a b)) \<Longrightarrow> result_in safe (case p of (a, b) \<Rightarrow> f a b)"
  by (cases p) simp

lemma safe_option [safe_rules]:
  "result_in safe m \<Longrightarrow> (\<And>a. result_in safe (f a)) \<Longrightarrow>
   result_in safe (case x of None \<Rightarrow> m | Some a \<Rightarrow> f a)"
  by (cases x) simp_all

lemma safe_sum [safe_rules]:
  "(\<And>a. result_in safe (f a)) \<Longrightarrow> (\<And>b. result_in safe (g b)) \<Longrightarrow>
   result_in safe (case x of Inl a \<Rightarrow> f a | Inr b \<Rightarrow> g b)"
  by (cases x) simp_all

lemma safe_list [safe_rules]:
  "result_in safe m \<Longrightarrow> (\<And>y ys. result_in safe (f y ys)) \<Longrightarrow>
   result_in safe (case xs of [] \<Rightarrow> m | y # ys \<Rightarrow> f y ys)"
  by (cases xs) simp_all

lemma safe_for [safe_rules]: "(\<And>x. result_in safe (f x)) \<Longrightarrow> result_in safe (forM xs f)"
  by (induction xs) (auto intro: safe_rules)

lemma safe_fold [safe_rules]: "(\<And>b x. result_in safe (f b x)) \<Longrightarrow> result_in safe (foldM f b xs)"
  by (induction xs arbitrary: b) (auto intro: safe_rules)

lemma safe_collect [safe_rules]: "(\<And>x. result_in safe (f x)) \<Longrightarrow> result_in safe (collectM f xs)"
  unfolding collectM_def by (intro safe_rules)

text \<open>\<open>always_ok m\<close>: \<open>m\<close> returns a value on every path.\<close>

definition always_ok :: "('s, 'a) nex \<Rightarrow> bool" where
  "always_ok m \<longleftrightarrow> (\<forall>s. \<exists>a s'. m s = (Ok a, s'))"

lemma always_ok_ret: "always_ok (retM a)"
  by (simp add: always_ok_def retM_def)

lemma always_ok_bind:
  assumes "always_ok m" and "\<And>a. always_ok (f a)"
  shows "always_ok (bindM m f)"
  unfolding always_ok_def
proof
  fix s
  obtain a t where "m s = (Ok a, t)" using assms(1) unfolding always_ok_def by blast
  moreover obtain b u where "f a t = (Ok b, u)" using assms(2) by (meson always_ok_def)
  ultimately show "\<exists>a s'. bindM m f s = (Ok a, s')" by (simp add: bindM_def)
qed

lemma always_ok_catch:
  assumes "result_in safe m"
  shows "always_ok (catchM m)"
  unfolding always_ok_def
proof
  fix s
  have "safe (fst (m s))" using assms by (simp add: result_in_def)
  then show "\<exists>a s'. catchM m s = (Ok a, s')"
    by (cases "m s"; cases "fst (m s)") (auto simp: catchM_def)
qed

lemma always_ok_for: "(\<And>x. always_ok (f x)) \<Longrightarrow> always_ok (forM xs f)"
  by (induction xs) (auto intro: always_ok_ret always_ok_bind)

section \<open>One SQL statement\<close>

text \<open>
  Every component keeps its tables in a record that extends \<open>db_env\<close>. \<open>db_faults\<close> is the
  fate of the statements still to come: \<open>True\<close> makes the next statement fail without any
  effect (a lost connection, a value outside its column's domain, a refused statement), \<open>False\<close>
  lets it run, and an exhausted list means that no further statement fails. A theorem over all
  \<open>db_faults\<close> therefore covers every place where the database may fail; a theorem about the
  normal case assumes \<open>db_faults s = []\<close>.
\<close>

record db_env =
  db_faults :: "bool list"

datatype sql_error = ErrNoRows | ErrDatabase

definition db_call ::
  "('z db_env_scheme \<Rightarrow> 'a \<times> 'z db_env_scheme) \<Rightarrow> ('z db_env_scheme, sql_error + 'a) nex" where
  "db_call q s = (case db_faults s of
      [] \<Rightarrow> (let (a, s') = q s in (Ok (Inr a), s'))
    | b # bs \<Rightarrow>
        (if b then (Ok (Inl ErrDatabase), s\<lparr>db_faults := bs\<rparr>)
         else (let (a, s') = q (s\<lparr>db_faults := bs\<rparr>) in (Ok (Inr a), s'))))"

text \<open>\<open>db.Query\<close>: the result rows, as of the time of the call.\<close>

definition sql_query ::
  "('z db_env_scheme \<Rightarrow> 'r list) \<Rightarrow> ('z db_env_scheme, sql_error + 'r list) nex" where
  "sql_query q = db_call (\<lambda>s. (q s, s))"

text \<open>\<open>db.Exec\<close>: the effect, and the number of rows affected.\<close>

definition sql_exec ::
  "('z db_env_scheme \<Rightarrow> nat) \<Rightarrow> ('z db_env_scheme \<Rightarrow> 'z db_env_scheme) \<Rightarrow>
   ('z db_env_scheme, sql_error + nat) nex" where
  "sql_exec n f = db_call (\<lambda>s. (n s, f s))"

text \<open>\<open>db.QueryRow(...).Scan(...)\<close>: the first row, \<open>sql.ErrNoRows\<close> when there is none.\<close>

definition first_row :: "sql_error + 'r list \<Rightarrow> sql_error + 'r" where
  "first_row r = (case r of Inl e \<Rightarrow> Inl e | Inr rs \<Rightarrow> (case rs of [] \<Rightarrow> Inl ErrNoRows | x # _ \<Rightarrow> Inr x))"

definition sql_query_row ::
  "('z db_env_scheme \<Rightarrow> 'r list) \<Rightarrow> ('z db_env_scheme, sql_error + 'r) nex" where
  "sql_query_row q = bindM (sql_query q) (\<lambda>r. retM (first_row r))"

text \<open>\<open>UPDATE ... RETURNING\<close> and \<open>INSERT ... RETURNING\<close> through \<open>QueryRow\<close>.\<close>

definition sql_returning ::
  "('z db_env_scheme \<Rightarrow> 'r list) \<Rightarrow> ('z db_env_scheme \<Rightarrow> 'z db_env_scheme) \<Rightarrow>
   ('z db_env_scheme, sql_error + 'r) nex" where
  "sql_returning q f = bindM (db_call (\<lambda>s. (q s, f s))) (\<lambda>r. retM (first_row r))"

text \<open>\<open>INSERT\<close> into a table with a key: a row whose key exists is refused.\<close>

definition sql_insert ::
  "('z db_env_scheme \<Rightarrow> bool) \<Rightarrow> ('z db_env_scheme \<Rightarrow> 'z db_env_scheme) \<Rightarrow>
   ('z db_env_scheme, sql_error + unit) nex" where
  "sql_insert conflict f = bindM (db_call (\<lambda>s. if conflict s then (False, s) else (True, f s)))
     (\<lambda>r. retM (case r of Inl e \<Rightarrow> Inl e | Inr ok \<Rightarrow> if ok then Inr () else Inl ErrDatabase))"

lemma first_row_simps [simp]:
  "first_row (Inl e) = Inl e"
  "first_row (Inr []) = Inl ErrNoRows"
  "first_row (Inr (x # xs)) = Inr x"
  by (simp_all add: first_row_def)

lemma keeps_sql_error [keeps_rules]:
  "keeps I m \<Longrightarrow> keeps I n \<Longrightarrow> keeps I (case e of ErrNoRows \<Rightarrow> m | ErrDatabase \<Rightarrow> n)"
  by (cases e) simp_all

lemma safe_sql_error [safe_rules]:
  "result_in safe m \<Longrightarrow> result_in safe n \<Longrightarrow> result_in safe (case e of ErrNoRows \<Rightarrow> m | ErrDatabase \<Rightarrow> n)"
  by (cases e) simp_all

lemma run_query [run_simps]:
  "db_faults s = [] \<Longrightarrow> sql_query q s = (Ok (Inr (q s)), s)"
  by (simp add: sql_query_def db_call_def)

lemma run_query_row [run_simps]:
  "db_faults s = [] \<Longrightarrow> sql_query_row q s = (Ok (first_row (Inr (q s))), s)"
  by (simp add: sql_query_row_def sql_query_def db_call_def bindM_def retM_def)

lemma run_exec [run_simps]:
  "db_faults s = [] \<Longrightarrow> sql_exec n f s = (Ok (Inr (n s)), f s)"
  by (simp add: sql_exec_def db_call_def)

lemma run_returning [run_simps]:
  "db_faults s = [] \<Longrightarrow> sql_returning q f s = (Ok (first_row (Inr (q s))), f s)"
  by (simp add: sql_returning_def db_call_def bindM_def retM_def)

lemma run_insert [run_simps]:
  "db_faults s = [] \<Longrightarrow> sql_insert c f s = (if c s then (Ok (Inl ErrDatabase), s) else (Ok (Inr ()), f s))"
  by (simp add: sql_insert_def db_call_def bindM_def retM_def)

lemma keeps_db_call:
  assumes "\<And>s bs. I s \<Longrightarrow> I (s\<lparr>db_faults := bs\<rparr>)" and "\<And>s. I s \<Longrightarrow> I (snd (q s))"
  shows "keeps I (db_call q)"
  using assms by (auto simp: keeps_def db_call_def split: list.splits prod.splits) (metis snd_conv)+

lemma keeps_query:
  "(\<And>s bs. I s \<Longrightarrow> I (s\<lparr>db_faults := bs\<rparr>)) \<Longrightarrow> keeps I (sql_query q)"
  by (simp add: sql_query_def keeps_db_call)

lemma keeps_query_row:
  "(\<And>s bs. I s \<Longrightarrow> I (s\<lparr>db_faults := bs\<rparr>)) \<Longrightarrow> keeps I (sql_query_row q)"
  by (auto simp: sql_query_row_def intro!: keeps_rules keeps_query)

lemma keeps_exec:
  "(\<And>s bs. I s \<Longrightarrow> I (s\<lparr>db_faults := bs\<rparr>)) \<Longrightarrow> (\<And>s. I s \<Longrightarrow> I (f s)) \<Longrightarrow> keeps I (sql_exec n f)"
  by (simp add: sql_exec_def keeps_db_call)

lemma keeps_returning:
  "(\<And>s bs. I s \<Longrightarrow> I (s\<lparr>db_faults := bs\<rparr>)) \<Longrightarrow> (\<And>s. I s \<Longrightarrow> I (f s)) \<Longrightarrow> keeps I (sql_returning q f)"
  by (auto simp: sql_returning_def intro!: keeps_rules keeps_db_call)

lemma keeps_insert:
  "(\<And>s bs. I s \<Longrightarrow> I (s\<lparr>db_faults := bs\<rparr>)) \<Longrightarrow> (\<And>s. I s \<Longrightarrow> \<not> c s \<Longrightarrow> I (f s)) \<Longrightarrow> keeps I (sql_insert c f)"
  by (auto simp: sql_insert_def intro!: keeps_rules keeps_db_call)

lemma safe_db_call [safe_rules]: "result_in safe (db_call q)"
  by (auto simp: result_in_def db_call_def split: list.splits prod.splits)

lemma safe_query [safe_rules]: "result_in safe (sql_query q)"
  by (simp add: sql_query_def safe_db_call)

lemma safe_query_row [safe_rules]: "result_in safe (sql_query_row q)"
  by (auto simp: sql_query_row_def intro!: safe_rules)

lemma safe_exec [safe_rules]: "result_in safe (sql_exec n f)"
  by (simp add: sql_exec_def safe_db_call)

lemma safe_returning [safe_rules]: "result_in safe (sql_returning q f)"
  by (auto simp: sql_returning_def intro!: safe_rules)

lemma safe_insert [safe_rules]: "result_in safe (sql_insert c f)"
  by (auto simp: sql_insert_def intro!: safe_rules)

text \<open>
  The error handling that follows nearly every statement:
  \<open>if err == sql.ErrNoRows { return void } else { return Core.Unknown }\<close>, and its short form,
  which maps every error to \<open>Core.Unknown\<close>.
\<close>

definition row_or :: "result_code \<Rightarrow> sql_error + 'a \<Rightarrow> ('a \<Rightarrow> ('s, 'b) nex) \<Rightarrow> ('s, 'b) nex" where
  "row_or void r k = (case r of
      Inl ErrNoRows \<Rightarrow> throwM void
    | Inl ErrDatabase \<Rightarrow> throwM Core_Unknown
    | Inr a \<Rightarrow> k a)"

definition ok_or :: "result_code \<Rightarrow> sql_error + 'a \<Rightarrow> ('a \<Rightarrow> ('s, 'b) nex) \<Rightarrow> ('s, 'b) nex" where
  "ok_or e r k = (case r of Inl _ \<Rightarrow> throwM e | Inr a \<Rightarrow> k a)"

lemma row_or_simps [simp]:
  "row_or v (Inl ErrNoRows) k = throwM v"
  "row_or v (Inl ErrDatabase) k = throwM Core_Unknown"
  "row_or v (Inr a) k = k a"
  by (simp_all add: row_or_def)

lemma ok_or_simps [simp]:
  "ok_or e (Inl x) k = throwM e"
  "ok_or e (Inr a) k = k a"
  by (simp_all add: ok_or_def)

lemma keeps_row_or [keeps_rules]: "(\<And>a. keeps I (k a)) \<Longrightarrow> keeps I (row_or v r k)"
  by (cases r) (auto simp: row_or_def intro: keeps_rules split: sql_error.splits)

lemma keeps_ok_or [keeps_rules]: "(\<And>a. keeps I (k a)) \<Longrightarrow> keeps I (ok_or e r k)"
  by (cases r) (auto simp: ok_or_def intro: keeps_rules)

lemma safe_row_or [safe_rules]: "(\<And>a. result_in safe (k a)) \<Longrightarrow> result_in safe (row_or v r k)"
  by (cases r) (auto simp: row_or_def intro: safe_rules split: sql_error.splits)

lemma safe_ok_or [safe_rules]: "(\<And>a. result_in safe (k a)) \<Longrightarrow> result_in safe (ok_or e r k)"
  by (cases r) (auto simp: ok_or_def intro: safe_rules)

section \<open>INSERT ... ON CONFLICT DO UPDATE\<close>

text \<open>
  On a list of rows with a unique key: the rows with the key of the new row are changed, and the
  new row is appended when there is none.
\<close>

definition upsert :: "('r \<Rightarrow> 'k) \<Rightarrow> ('r \<Rightarrow> 'r) \<Rightarrow> 'r \<Rightarrow> 'r list \<Rightarrow> 'r list" where
  "upsert key change new rows =
     (if list_ex (\<lambda>r. key r = key new) rows
      then map (\<lambda>r. if key r = key new then change r else r) rows
      else rows @ [new])"

text \<open>The one contract such a statement needs: the change does not touch the key.\<close>

locale upsert_table =
  fixes key :: "'r \<Rightarrow> 'k" and change :: "'r \<Rightarrow> 'r" and new :: 'r
  assumes key_change: "key (change r) = key r"
begin

lemma distinct_upsert: "distinct (map key rows) \<Longrightarrow> distinct (map key (upsert key change new rows))"
proof -
  assume d: "distinct (map key rows)"
  have "map key (map (\<lambda>r. if key r = key new then change r else r) rows) = map key rows"
    by (simp add: key_change)
  with d show ?thesis
    unfolding upsert_def by (auto simp: list_ex_iff simp del: map_map)
qed

lemma other_rows_upsert:
  "k \<noteq> key new \<Longrightarrow> filter (\<lambda>r. key r = k) (upsert key change new rows) = filter (\<lambda>r. key r = k) rows"
proof -
  assume k: "k \<noteq> key new"
  have "filter (\<lambda>r. key r = k) (map (\<lambda>r. if key r = key new then change r else r) rows)
      = filter (\<lambda>r. key r = k) rows"
    using k by (induction rows) (auto simp: key_change)
  with k show ?thesis by (auto simp: upsert_def)
qed

lemma key_rows_upsert:
  "filter (\<lambda>r. key r = key new) (upsert key change new rows) =
     (case filter (\<lambda>r. key r = key new) rows of [] \<Rightarrow> [new] | rs \<Rightarrow> map change rs)"
proof -
  have m: "filter (\<lambda>r. key r = key new) (map (\<lambda>r. if key r = key new then change r else r) rows)
      = map change (filter (\<lambda>r. key r = key new) rows)"
    by (induction rows) (auto simp: key_change)
  have e: "list_ex (\<lambda>r. key r = key new) rows \<longleftrightarrow> filter (\<lambda>r. key r = key new) rows \<noteq> []"
    by (auto simp: list_ex_iff filter_empty_conv)
  show ?thesis
    by (cases "filter (\<lambda>r. key r = key new) rows") (use m e in \<open>auto simp: upsert_def\<close>)
qed

lemma one_row_upsert:
  "distinct (map key rows) \<Longrightarrow> \<exists>r. filter (\<lambda>r. key r = key new) (upsert key change new rows) = [r]"
proof -
  assume "distinct (map key rows)"
  then have "length (filter (\<lambda>r. key r = key new) rows) \<le> 1"
    by (induction rows) (auto simp: filter_empty_conv, metis image_eqI)
  then show ?thesis
    unfolding key_rows_upsert by (cases "filter (\<lambda>r. key r = key new) rows") auto
qed

end

end
