(* ===== verification/Nex_Types.thy ===== *)
theory Nex_Types
  imports Nex_Prelude
begin

text \<open>
  The values the matchmaking handlers exchange: gatherings, matchmake sessions, persistent
  gatherings, notification events, RMC responses, and the record \<open>nexlib\<close> of everything the
  handlers take from libraries outside this repository (flag masks, enumeration values,
  notification types, the wire form of a \<open>MatchmakeParam\<close>). The handlers use these by name
  only, so each definition that needs one takes a \<open>nexlib\<close> as its first argument and no
  property fixes their values; \<open>sample_lib\<close> is one concrete instance for the witnesses.

  Field names are those of the Go structs, with a prefix where two structs share a name.
  Strings are byte strings, as in Go, so \<open>length\<close> is Go's \<open>len\<close>.
\<close>

section \<open>Variants and matchmake parameters\<close>

datatype rv_value = RvBool bool | RvInt64 int | RvOther bytes

record variant =
  TypeID :: u8
  VariantType :: rv_value

type_synonym matchmake_param = "string \<Rightarrow> variant option"

section \<open>Gatherings\<close>

record gathering =
  ID :: u32
  OwnerPID :: pid
  HostPID :: pid
  MinimumParticipants :: u16
  MaximumParticipants :: u16
  ParticipationPolicy :: u32
  PolicyArgument :: u32
  Flags :: u32
  GState :: u32
  Description :: string

record matchmake_session = gathering +
  GameMode :: u32
  Attributes :: "u32 list"
  OpenParticipation :: bool
  MatchmakeSystemType :: u32
  ApplicationBuffer :: bytes
  ParticipationCount :: u32
  ProgressScore :: u8
  SessionKey :: bytes
  OptionZero :: u32
  MatchmakeParam :: matchmake_param
  StartedTime :: u64
  UserPassword :: string
  ReferGID :: u32
  UserPasswordEnabled :: bool
  SystemPasswordEnabled :: bool
  CodeWord :: string

record persistent_gathering = gathering +
  CommunityType :: u32
  PgPassword :: string
  PgAttribs :: "u32 list"
  PgApplicationBuffer :: bytes
  ParticipationStartDate :: u64
  ParticipationEndDate :: u64
  MatchmakeSessionCount :: u32
  PgParticipationCount :: u32

text \<open>
  A \<open>GatheringHolder\<close> holds any of the three; \<open>OtherHeld\<close> is a holder whose object is some
  further type, of which a handler only ever asks the name.
\<close>

datatype gathering_object =
    HeldGathering gathering
  | HeldMatchmakeSession matchmake_session
  | HeldPersistentGathering persistent_gathering
  | OtherHeld string

record result_range =
  RangeOffset :: u32
  RangeLength :: u32

text \<open>
  A search criteria: numbers and number ranges arrive as decimal strings (\<open>v\<close> or \<open>min,max\<close>,
  empty for no condition).
\<close>

record search_criteria =
  Attribs :: "string list"
  sc_GameMode :: string
  MinParticipants :: string
  MaxParticipants :: string
  sc_MatchmakeSystemType :: string
  VacantOnly :: bool
  ExcludeLocked :: bool
  ExcludeNonHostPID :: bool
  SelectionMethod :: u32
  VacantParticipants :: u16
  ExcludeUserPasswordSet :: bool
  ExcludeSystemPasswordSet :: bool
  sc_ReferGID :: u32
  sc_CodeWord :: string
  ResultRange :: result_range

record simple_playing_session =
  sps_PrincipalID :: pid
  sps_GatheringID :: u32
  sps_GameMode :: u32
  sps_Attribute0 :: u32

record simple_community =
  com_GatheringID :: u32
  com_MatchmakeSessionCount :: u32

record create_session_param =
  csp_SourceMatchmakeSession :: matchmake_session
  csp_AdditionalParticipants :: "pid list"
  csp_GIDForParticipationCheck :: u32
  csp_JoinMessage :: string

record auto_matchmake_param =
  amp_SourceMatchmakeSession :: matchmake_session
  amp_AdditionalParticipants :: "pid list"
  amp_GIDForParticipationCheck :: u32
  amp_JoinMessage :: string
  amp_LstSearchCriteria :: "search_criteria list"

record join_session_param =
  jsp_GID :: u32
  jsp_AdditionalParticipants :: "pid list"
  jsp_GIDForParticipationCheck :: u32
  jsp_JoinMatchmakeSessionBehavior :: u8
  jsp_StrUserPassword :: string
  jsp_StrSystemPassword :: string
  jsp_JoinMessage :: string

record notification_event =
  PIDSource :: pid
  NType :: u32
  Param1 :: u32
  Param2 :: u32
  StrParam :: string
  Param3 :: u32

section \<open>Connections and RMC responses\<close>

record connection =
  conn_PID :: pid
  conn_ID :: u32
  conn_StationURLs :: "string list"

datatype rmc_protocol =
    MatchMaking_Protocol
  | MatchMakingExt_Protocol
  | MatchmakeExtension_Protocol
  | Ranking_Protocol
  | DataStore_Protocol
  | SecureConnection_Protocol
  | NATTraversal_Protocol
  | TicketGranting_Protocol
  | Utility_Protocol

datatype rmc_method =
    MethodUnregisterGathering
  | MethodFindBySingleID
  | MethodUpdateSessionURL
  | MethodUpdateSessionHostV1
  | MethodGetSessionURLs
  | MethodUpdateSessionHost
  | MethodEndParticipation
  | MethodCloseParticipation
  | MethodOpenParticipation
  | MethodAutoMatchmakePostpone
  | MethodAutoMatchmakeWithParamPostpone
  | MethodAutoMatchmakeWithSearchCriteriaPostpone
  | MethodBrowseMatchmakeSession
  | MethodCreateCommunity
  | MethodCreateMatchmakeSession
  | MethodCreateMatchmakeSessionWithParam
  | MethodFindCommunityByGatheringID
  | MethodFindCommunityByParticipant
  | MethodFindOfficialCommunity
  | MethodGetFriendNotificationData
  | MethodGetlstFriendNotificationData
  | MethodGetSimpleCommunity
  | MethodGetSimplePlayingSession
  | MethodJoinMatchmakeSession
  | MethodJoinMatchmakeSessionEx
  | MethodJoinMatchmakeSessionWithParam
  | MethodModifyCurrentGameAttribute
  | MethodUpdateApplicationBuffer
  | MethodUpdateNotificationData
  | MethodUpdateProgressScore

text \<open>
  A successful response. \<open>Body\<close> is the list of values that the handler writes to the response
  stream, in the order of the \<open>WriteTo\<close> calls; their byte layout is the library's.
\<close>

record ('m, 'b) rmc_response =
  RmcProtocolID :: rmc_protocol
  RmcMethodID :: 'm
  RmcCallID :: u32
  Body :: "'b list"

datatype mm_body =
    WBool bool
  | WUInt32 u32
  | WBuffer bytes
  | WStationURLs "string list"
  | WGatheringHolder gathering_object
  | WGatheringHolders "gathering_object list"
  | WMatchmakeSession matchmake_session
  | WPersistentGatherings "persistent_gathering list"
  | WSimpleCommunities "simple_community list"
  | WSimplePlayingSessions "simple_playing_session list"
  | WNotificationEvents "notification_event list"

type_synonym mm_response = "(rmc_method, mm_body) rmc_response"

definition rmcSuccess :: "rmc_protocol \<Rightarrow> 'm \<Rightarrow> u32 \<Rightarrow> 'b list \<Rightarrow> ('m, 'b) rmc_response" where
  "rmcSuccess protocol method callID body =
     \<lparr> RmcProtocolID = protocol, RmcMethodID = method, RmcCallID = callID, Body = body \<rparr>"

section \<open>What the handlers take from outside the repository\<close>

record nexlib =
  GF_PersistentGathering :: u32
  GF_DisconnectChangeOwner :: u32
  GF_PersistentGatheringLeaveParticipation :: u32
  GF_PersistentGatheringAllowZeroUsers :: u32
  GF_ParticipantsChangeOwner :: u32
  GF_VerboseParticipants :: u32
  GF_VerboseParticipantsEx :: u32
  NC_Participation :: u32
  NC_SwitchGathering :: u32
  NC_GatheringUnregistered :: u32
  NC_OwnershipChanged :: u32
  NC_HostChanged :: u32
  NS_Participation_NewParticipant :: u32
  NS_Participation_Disconnected :: u32
  NS_Participation_Ended :: u32
  NS_SwitchGathering_None :: u32
  NS_GatheringUnregistered_None :: u32
  NS_OwnershipChanged_None :: u32
  NS_HostChanged_None :: u32
  BuildNotificationType :: "u32 \<Rightarrow> u32 \<Rightarrow> u32"
  PersistentGatheringTypeOpen :: u32
  PersistentGatheringTypePasswordLocked :: u32
  MatchmakeSystemTypePersistentGathering :: u32
  JoinBehaviorJoinMyself :: u8
  JoinBehaviorImAlreadyJoined :: u8
  SelectionMethodRandom :: u32
  SelectionMethodNearestNeighbor :: u32
  SelectionMethodBroadenRange :: u32
  SelectionMethodProgressScore :: u32
  SelectionMethodBroadenRangeWithProgressScore :: u32
  CounterNext :: "u32 \<Rightarrow> u32"
  MatchmakeParam_WriteTo :: "matchmake_param \<Rightarrow> bytes"
  MatchmakeParam_ExtractFrom :: "bytes \<Rightarrow> matchmake_param"
  ScanNullUInt32 :: "u32 option"
  DateTime_FromTimestamp :: "int \<Rightarrow> u64"
  DateTime_Standard :: "u64 \<Rightarrow> int"
  MatchMaking_AtLeast_3_0_0 :: bool

text \<open>
  \<open>ScanNullUInt32\<close> is what scanning an SQL \<open>NULL\<close> into a \<open>types.UInt32\<close> gives: an error
  (\<open>None\<close>) or a value. \<open>CounterNext\<close> is \<open>nex.Counter.Next\<close> on the outgoing call counter.
  \<open>DateTime_FromTimestamp\<close> and \<open>DateTime_Standard\<close> pack a time stamp into the library's
  64-bit \<open>DateTime\<close> and back; \<open>DateTime.Now()\<close> is the former on the clock of the state.
  \<open>MatchMaking_AtLeast_3_0_0\<close> is the library version test of the join and create handlers.

  The sample instance uses one bit per gathering flag and pairwise different enumeration
  values, as the handlers' own \<open>&\<close> and \<open>switch\<close> expressions require to be useful.
\<close>

definition sample_lib :: nexlib where
  "sample_lib = \<lparr>
     GF_PersistentGathering = 0x1,
     GF_DisconnectChangeOwner = 0x10,
     GF_PersistentGatheringLeaveParticipation = 0x40,
     GF_PersistentGatheringAllowZeroUsers = 0x80,
     GF_ParticipantsChangeOwner = 0x200,
     GF_VerboseParticipants = 0x400,
     GF_VerboseParticipantsEx = 0x800,
     NC_Participation = 3,
     NC_SwitchGathering = 122,
     NC_GatheringUnregistered = 109,
     NC_OwnershipChanged = 4,
     NC_HostChanged = 110,
     NS_Participation_NewParticipant = 1,
     NS_Participation_Disconnected = 7,
     NS_Participation_Ended = 8,
     NS_SwitchGathering_None = 0,
     NS_GatheringUnregistered_None = 0,
     NS_OwnershipChanged_None = 0,
     NS_HostChanged_None = 0,
     BuildNotificationType = (\<lambda>c t. c * 1000 + t),
     PersistentGatheringTypeOpen = 0,
     PersistentGatheringTypePasswordLocked = 1,
     MatchmakeSystemTypePersistentGathering = 5,
     JoinBehaviorJoinMyself = 0,
     JoinBehaviorImAlreadyJoined = 1,
     SelectionMethodRandom = 0,
     SelectionMethodNearestNeighbor = 1,
     SelectionMethodBroadenRange = 2,
     SelectionMethodProgressScore = 3,
     SelectionMethodBroadenRangeWithProgressScore = 4,
     CounterNext = (\<lambda>n. n + 1),
     MatchmakeParam_WriteTo = (\<lambda>_. []),
     MatchmakeParam_ExtractFrom = (\<lambda>_. Map.empty),
     ScanNullUInt32 = None,
     DateTime_FromTimestamp = word_of_int,
     DateTime_Standard = uint,
     MatchMaking_AtLeast_3_0_0 = True \<rparr>"

lemma sample_flags [simp]:
  "GF_PersistentGathering sample_lib = 0x1"
  "GF_DisconnectChangeOwner sample_lib = 0x10"
  "GF_PersistentGatheringLeaveParticipation sample_lib = 0x40"
  "GF_PersistentGatheringAllowZeroUsers sample_lib = 0x80"
  "GF_ParticipantsChangeOwner sample_lib = 0x200"
  "GF_VerboseParticipants sample_lib = 0x400"
  "GF_VerboseParticipantsEx sample_lib = 0x800"
  by (simp_all add: sample_lib_def)

lemma sample_enums [simp]:
  "MatchmakeSystemTypePersistentGathering sample_lib = 5"
  "JoinBehaviorJoinMyself sample_lib = 0"
  "JoinBehaviorImAlreadyJoined sample_lib = 1"
  "SelectionMethodRandom sample_lib = 0"
  "SelectionMethodNearestNeighbor sample_lib = 1"
  "SelectionMethodBroadenRange sample_lib = 2"
  "SelectionMethodProgressScore sample_lib = 3"
  "SelectionMethodBroadenRangeWithProgressScore sample_lib = 4"
  "ScanNullUInt32 sample_lib = None"
  by (simp_all add: sample_lib_def)

section \<open>The manager of the matchmaking protocols\<close>

text \<open>
  \<open>MatchmakingManager.GetUserFriendPIDs\<close> is an optional callback; \<open>nex/secure.go\<close> sets it to
  \<open>globals.GetUserFriendPIDs\<close>, which knows no friends.
\<close>

record manager =
  GetUserFriendPIDs :: "(u32 \<Rightarrow> u32 list) option"

definition globals_GetUserFriendPIDs :: "u32 \<Rightarrow> u32 list" where
  "globals_GetUserFriendPIDs _ = []"

definition friends_of :: "manager \<Rightarrow> pid \<Rightarrow> u32 list" where
  "friends_of M p = (case GetUserFriendPIDs M of None \<Rightarrow> [] | Some f \<Rightarrow> f (ucast p))"

definition server_manager :: manager where
  "server_manager = \<lparr> GetUserFriendPIDs = Some globals_GetUserFriendPIDs \<rparr>"

text \<open>
  The configuration of the matchmake-extension protocol. \<open>nex/secure.go\<close> sets the two cleanup
  callbacks to functions that do nothing and leaves \<open>CanJoinMatchmakeSession\<close> unset;
  \<open>NewCommonProtocol\<close> sets the limit of four persistent gatherings.
\<close>

record mm_protocol =
  PersistentGatheringCreationMax :: int
  CanJoinCallback :: "(pid \<Rightarrow> matchmake_session \<Rightarrow> result_code option) option"
  CleanupSearchMatchmakeSession :: "(matchmake_session \<Rightarrow> matchmake_session) option"
  CleanupMatchmakeSessionSearchCriterias :: "(search_criteria list \<Rightarrow> search_criteria list) option"

definition server_protocol :: mm_protocol where
  "server_protocol = \<lparr> PersistentGatheringCreationMax = 4, CanJoinCallback = None,
     CleanupSearchMatchmakeSession = Some (\<lambda>s. s),
     CleanupMatchmakeSessionSearchCriterias = Some (\<lambda>cs. cs) \<rparr>"

end
