(* ===== verification/Mm_World.thy ===== *)
theory Mm_World
  imports Nex_Types
begin

text \<open>
  The state behind the matchmaking protocols: the tables of the \<open>matchmaking\<close> schema with the
  columns that \<open>SetManager\<close> of \<open>match-making/protocol.go\<close> and \<open>matchmake-extension/protocol.go\<close>
  creates, the append-only \<open>tracking\<close> tables, the manager's mutex, the clock and the random
  source, and what the endpoint sends. The functions of \<open>match-making/tracking\<close> and
  \<open>matchmake-extension/tracking\<close> are here too, as they only append to the log.

  A table is the list of its rows. \<open>UPDATE\<close> changes rows in place and \<open>INSERT\<close> appends; a
  \<open>SELECT\<close> without \<open>ORDER BY\<close> reads in list order, which stands for whatever order the server
  chooses, since every statement is about all lists. Column values are kept at the width of the
  Go variable they are written from; the row key is the \<open>bigserial\<close>, an unbounded number, so
  a Go \<open>uint32\<close> reaches it through \<open>unat\<close>.
\<close>

section \<open>Rows\<close>

record gathering_row =
  g_id :: nat
  g_owner_pid :: pid
  g_host_pid :: pid
  g_min_participants :: u16
  g_max_participants :: u16
  g_participation_policy :: u32
  g_policy_argument :: u32
  g_flags :: u32
  g_state :: u32
  g_description :: string
  g_registered :: bool
  g_type :: string
  g_started_time :: int
  g_participants :: "pid list"

record session_row =
  ms_id :: nat
  ms_game_mode :: u32
  ms_attribs :: "u32 list"
  ms_open_participation :: bool
  ms_matchmake_system_type :: u32
  ms_application_buffer :: bytes
  ms_progress_score :: u8
  ms_session_key :: bytes
  ms_option_zero :: u32
  ms_matchmake_param :: bytes
  ms_user_password :: string
  ms_refer_gid :: u32
  ms_user_password_enabled :: bool
  ms_system_password_enabled :: bool
  ms_codeword :: string
  ms_system_password :: string

record persistent_row =
  pg_id :: nat
  pg_community_type :: u32
  pg_password :: string
  pg_attribs :: "u32 list"
  pg_application_buffer :: bytes
  pg_participation_start_date :: int
  pg_participation_end_date :: int

record participation_row =
  cp_user_pid :: pid
  cp_gathering_id :: u32
  cp_participation_count :: nat

record notification_row =
  n_source_pid :: pid
  n_type :: u32
  n_param_1 :: u32
  n_param_2 :: u32
  n_param_str :: string
  n_active :: bool

datatype tracking_event =
    TrackRegisterGathering pid u32
  | TrackUnregisterGathering pid u32
  | TrackJoinGathering pid u32 "pid list" "pid list"
  | TrackLeaveGathering pid u32 "pid list"
  | TrackDisconnectGathering pid u32 "pid list"
  | TrackChangeHost pid u32 pid pid
  | TrackChangeOwner pid u32 pid pid
  | TrackParticipateCommunity pid u32 u32 u32
  | TrackNotificationData pid u32 u32 u32 string

section \<open>The state\<close>

datatype mutex = Unlocked | Locked | RLocked

record mm_world = db_env +
  t_gatherings :: "gathering_row list"
  next_gathering_id :: nat
  t_sessions :: "session_row list"
  t_persistent :: "persistent_row list"
  t_participations :: "participation_row list"
  t_notifications :: "notification_row list"
  tracking_log :: "(int \<times> tracking_event) list"
  w_now :: int
  w_random :: "nat \<Rightarrow> u8"
  w_random_pos :: nat
  w_order :: "nat \<Rightarrow> int"
  w_order_pos :: nat
  w_mutex :: mutex
  w_connections :: "pid \<Rightarrow> connection option"
  w_call_id :: u32
  w_sent :: "(pid \<times> u32 \<times> notification_event) list"

text \<open>
  \<open>w_random\<close> is the stream behind \<open>rand.Read\<close> and \<open>w_order\<close> the one behind SQL's
  \<open>ORDER BY RANDOM()\<close>, each with the position of the next draw.
  \<open>w_connections\<close> is the answer of the endpoint's \<open>FindConnectionByPID\<close>. \<open>w_sent\<close> lists the
  notification packets handed to \<open>server.Send\<close>, oldest first: target, call ID, event.
\<close>

type_synonym 'a mm = "(mm_world, 'a) nex"

text \<open>The zeroed state of a server with no tables filled in, at the start of the epoch.\<close>

definition empty_world :: mm_world where
  "empty_world = \<lparr> db_faults = [], t_gatherings = [], next_gathering_id = 1, t_sessions = [],
     t_persistent = [], t_participations = [], t_notifications = [], tracking_log = [],
     w_now = 0, w_random = (\<lambda>_. 0), w_random_pos = 0,
     w_order = (\<lambda>_. 0), w_order_pos = 0, w_mutex = Unlocked,
     w_connections = Map.empty, w_call_id = 0, w_sent = [] \<rparr>"

section \<open>Row access\<close>

definition gathering_rows :: "u32 \<Rightarrow> mm_world \<Rightarrow> gathering_row list" where
  "gathering_rows gid s = filter (\<lambda>g. g_id g = unat gid) (t_gatherings s)"

definition update_gathering :: "u32 \<Rightarrow> (gathering_row \<Rightarrow> gathering_row) \<Rightarrow> mm_world \<Rightarrow> mm_world" where
  "update_gathering gid f s =
     s\<lparr>t_gatherings := map (\<lambda>g. if g_id g = unat gid then f g else g) (t_gatherings s)\<rparr>"

definition session_rows :: "u32 \<Rightarrow> mm_world \<Rightarrow> session_row list" where
  "session_rows gid s = filter (\<lambda>r. ms_id r = unat gid) (t_sessions s)"

definition update_session :: "u32 \<Rightarrow> (session_row \<Rightarrow> session_row) \<Rightarrow> mm_world \<Rightarrow> mm_world" where
  "update_session gid f s =
     s\<lparr>t_sessions := map (\<lambda>r. if ms_id r = unat gid then f r else r) (t_sessions s)\<rparr>"

definition count_gathering :: "u32 \<Rightarrow> mm_world \<Rightarrow> nat" where
  "count_gathering gid s = length (gathering_rows gid s)"

section \<open>The manager's mutex\<close>

text \<open>
  \<open>Mutex.Lock()\<close> waits while the mutex is held. Handlers run one after the other here, so a
  handler that meets a held mutex waits for a holder that is gone: \<open>Blocked\<close>.
\<close>

definition mutexLock :: "unit mm" where
  "mutexLock s = (if w_mutex s = Unlocked then (Ok (), s\<lparr>w_mutex := Locked\<rparr>) else (Blocked, s))"

definition mutexRLock :: "unit mm" where
  "mutexRLock s = (if w_mutex s = Unlocked then (Ok (), s\<lparr>w_mutex := RLocked\<rparr>) else (Blocked, s))"

definition mutexUnlock :: "unit mm" where
  "mutexUnlock = modM (\<lambda>s. s\<lparr>w_mutex := Unlocked\<rparr>)"

abbreviation mutexRUnlock :: "unit mm" where
  "mutexRUnlock \<equiv> mutexUnlock"

text \<open>
  \<open>manager.Mutex.Unlock(); return nil, nex.NewError(e)\<close>
\<close>

definition unlock_throw :: "result_code \<Rightarrow> 'a mm" where
  "unlock_throw e = bindM mutexUnlock (\<lambda>_. throwM e)"

text \<open>
  \<open>x, nexError := f(); if nexError != nil { manager.Mutex.Unlock(); return nil, nexError }\<close>
\<close>

definition or_unlock :: "'a mm \<Rightarrow> ('a \<Rightarrow> 'b mm) \<Rightarrow> 'b mm" where
  "or_unlock m k = bindM (catchM m) (\<lambda>r. case r of Inl e \<Rightarrow> unlock_throw e | Inr a \<Rightarrow> k a)"

lemma run_lock [run_simps]:
  "w_mutex s = Unlocked \<Longrightarrow> mutexLock s = (Ok (), s\<lparr>w_mutex := Locked\<rparr>)"
  by (simp add: mutexLock_def)

lemma run_rlock [run_simps]:
  "w_mutex s = Unlocked \<Longrightarrow> mutexRLock s = (Ok (), s\<lparr>w_mutex := RLocked\<rparr>)"
  by (simp add: mutexRLock_def)

lemma run_unlock [run_simps]: "mutexUnlock s = (Ok (), s\<lparr>w_mutex := Unlocked\<rparr>)"
  by (simp add: mutexUnlock_def modM_def)

lemma run_unlock_throw [run_simps]: "unlock_throw e s = (Err e, s\<lparr>w_mutex := Unlocked\<rparr>)"
  by (simp add: unlock_throw_def bindM_def run_simps)

lemma run_or_unlock_Ok: "m s = (Ok a, s') \<Longrightarrow> or_unlock m k s = k a s'"
  by (simp add: or_unlock_def bindM_def catchM_def)

lemma run_or_unlock_Err: "m s = (Err e, s') \<Longrightarrow> or_unlock m k s = (Err e, s'\<lparr>w_mutex := Unlocked\<rparr>)"
  by (simp add: or_unlock_def bindM_def catchM_def run_simps)

lemma run_or_unlock_Panic: "m s = (Panic, s') \<Longrightarrow> or_unlock m k s = (Panic, s')"
  by (simp add: or_unlock_def bindM_def catchM_def)

lemmas run_or_unlock = run_or_unlock_Ok run_or_unlock_Err run_or_unlock_Panic

section \<open>Tracking (match-making/tracking, matchmake-extension/tracking)\<close>

definition track :: "tracking_event \<Rightarrow> unit mm" where
  "track e = bindM (sql_exec (\<lambda>_. 1) (\<lambda>s. s\<lparr>tracking_log := tracking_log s @ [(w_now s, e)]\<rparr>))
     (\<lambda>r. ok_or Core_Unknown r (\<lambda>_. retM ()))"

definition LogRegisterGathering :: "pid \<Rightarrow> u32 \<Rightarrow> unit mm" where
  "LogRegisterGathering sourcePID gatheringID = track (TrackRegisterGathering sourcePID gatheringID)"

definition LogUnregisterGathering :: "pid \<Rightarrow> u32 \<Rightarrow> unit mm" where
  "LogUnregisterGathering sourcePID gatheringID = track (TrackUnregisterGathering sourcePID gatheringID)"

definition LogJoinGathering :: "pid \<Rightarrow> u32 \<Rightarrow> pid list \<Rightarrow> pid list \<Rightarrow> unit mm" where
  "LogJoinGathering sourcePID gatheringID newParticipants totalParticipants =
     track (TrackJoinGathering sourcePID gatheringID newParticipants totalParticipants)"

definition LogLeaveGathering :: "pid \<Rightarrow> u32 \<Rightarrow> pid list \<Rightarrow> unit mm" where
  "LogLeaveGathering sourcePID gatheringID totalParticipants =
     track (TrackLeaveGathering sourcePID gatheringID totalParticipants)"

definition LogDisconnectGathering :: "pid \<Rightarrow> u32 \<Rightarrow> pid list \<Rightarrow> unit mm" where
  "LogDisconnectGathering sourcePID gatheringID totalParticipants =
     track (TrackDisconnectGathering sourcePID gatheringID totalParticipants)"

definition LogChangeHost :: "pid \<Rightarrow> u32 \<Rightarrow> pid \<Rightarrow> pid \<Rightarrow> unit mm" where
  "LogChangeHost sourcePID gatheringID oldHostPID newHostPID =
     track (TrackChangeHost sourcePID gatheringID oldHostPID newHostPID)"

definition LogChangeOwner :: "pid \<Rightarrow> u32 \<Rightarrow> pid \<Rightarrow> pid \<Rightarrow> unit mm" where
  "LogChangeOwner sourcePID gatheringID oldOwnerPID newOwnerPID =
     track (TrackChangeOwner sourcePID gatheringID oldOwnerPID newOwnerPID)"

definition LogParticipateCommunity :: "pid \<Rightarrow> u32 \<Rightarrow> u32 \<Rightarrow> u32 \<Rightarrow> unit mm" where
  "LogParticipateCommunity sourcePID communityGID gatheringID participationCount =
     track (TrackParticipateCommunity sourcePID communityGID gatheringID participationCount)"

definition LogNotificationData :: "notification_event \<Rightarrow> unit mm" where
  "LogNotificationData d =
     track (TrackNotificationData (PIDSource d) (NType d) (Param1 d) (Param2 d) (StrParam d))"

lemmas log_defs = LogRegisterGathering_def LogUnregisterGathering_def LogJoinGathering_def
  LogLeaveGathering_def LogDisconnectGathering_def LogChangeHost_def LogChangeOwner_def
  LogParticipateCommunity_def LogNotificationData_def

lemma run_track [run_simps]:
  "db_faults s = [] \<Longrightarrow> track e s = (Ok (), s\<lparr>tracking_log := tracking_log s @ [(w_now s, e)]\<rparr>)"
  by (simp add: track_def run_exec bindM_def retM_def)

lemma safe_track [safe_rules]: "result_in safe (track e)"
  by (auto simp: track_def intro!: safe_rules)

lemma safe_logs [safe_rules]:
  "result_in safe (LogRegisterGathering p g)"
  "result_in safe (LogUnregisterGathering p g)"
  "result_in safe (LogJoinGathering p g xs ys)"
  "result_in safe (LogLeaveGathering p g xs)"
  "result_in safe (LogDisconnectGathering p g xs)"
  "result_in safe (LogChangeHost p g a b)"
  "result_in safe (LogChangeOwner p g a b)"
  "result_in safe (LogParticipateCommunity p g c d)"
  "result_in safe (LogNotificationData e)"
  by (auto simp: log_defs intro!: safe_rules)

section \<open>State predicates that ignore the log, the faults and the traffic\<close>

text \<open>
  A predicate on the tables alone is kept by everything that only reads, logs or sends. Such
  predicates are the ones that factor through \<open>tables\<close>.
\<close>

definition tables :: "mm_world \<Rightarrow> gathering_row list \<times> nat \<times> session_row list \<times> persistent_row list \<times>
    participation_row list \<times> notification_row list" where
  "tables s = (t_gatherings s, next_gathering_id s, t_sessions s, t_persistent s,
     t_participations s, t_notifications s)"

definition on_tables :: "(mm_world \<Rightarrow> bool) \<Rightarrow> bool" where
  "on_tables I \<longleftrightarrow> (\<forall>s t. tables s = tables t \<longrightarrow> I s = I t)"

lemma on_tablesD: "on_tables I \<Longrightarrow> tables s = tables t \<Longrightarrow> I t \<Longrightarrow> I s"
  unfolding on_tables_def by blast

lemma tables_simps [simp]:
  "tables (s\<lparr>db_faults := x1\<rparr>) = tables s"
  "tables (s\<lparr>tracking_log := x2\<rparr>) = tables s"
  "tables (s\<lparr>w_mutex := x3\<rparr>) = tables s"
  "tables (s\<lparr>w_call_id := x4\<rparr>) = tables s"
  "tables (s\<lparr>w_sent := x5\<rparr>) = tables s"
  "tables (s\<lparr>w_random_pos := x6\<rparr>) = tables s"
  "tables (s\<lparr>w_order_pos := x7\<rparr>) = tables s"
  by (simp_all add: tables_def)

lemma on_tables_upd:
  assumes "on_tables I" and "I s"
  shows "I (s\<lparr>db_faults := x1\<rparr>)" and "I (s\<lparr>tracking_log := x2\<rparr>)" and "I (s\<lparr>w_mutex := x3\<rparr>)"
    and "I (s\<lparr>w_call_id := x4\<rparr>)" and "I (s\<lparr>w_sent := x5\<rparr>)" and "I (s\<lparr>w_random_pos := x6\<rparr>)"
    and "I (s\<lparr>w_order_pos := x7\<rparr>)"
  by (rule on_tablesD [OF assms(1) _ assms(2)], simp)+

lemma on_tables_conj: "on_tables I \<Longrightarrow> on_tables J \<Longrightarrow> on_tables (\<lambda>s. I s \<and> J s)"
  unfolding on_tables_def by blast

lemma on_tables_const [simp]: "on_tables (\<lambda>_. b)"
  by (simp add: on_tables_def)

lemma on_tables_rows [simp]: "on_tables (\<lambda>s. \<exists>r \<in> set (gathering_rows gid s). p r)"
  by (auto simp: on_tables_def tables_def gathering_rows_def)

lemma keeps_tables_mod:
  assumes "on_tables I" and "\<And>s. tables (f s) = tables s"
  shows "keeps I (modM f)"
  by (rule keeps_mod) (rule on_tablesD [OF assms])

lemma keeps_tables_query [keeps_rules]: "on_tables I \<Longrightarrow> keeps I (sql_query q)"
  by (rule keeps_query) (erule (1) on_tables_upd [of I])

lemma keeps_tables_query_row [keeps_rules]: "on_tables I \<Longrightarrow> keeps I (sql_query_row q)"
  by (rule keeps_query_row) (erule (1) on_tables_upd [of I])

lemma keeps_tables_exec:
  "on_tables I \<Longrightarrow> (\<And>s. I s \<Longrightarrow> I (f s)) \<Longrightarrow> keeps I (sql_exec n f)"
  by (rule keeps_exec) (erule (1) on_tables_upd [of I])

lemma keeps_tables_insert:
  "on_tables I \<Longrightarrow> (\<And>s. I s \<Longrightarrow> \<not> c s \<Longrightarrow> I (f s)) \<Longrightarrow> keeps I (sql_insert c f)"
  by (rule keeps_insert) (erule (1) on_tables_upd [of I])

lemma keeps_tables_returning:
  "on_tables I \<Longrightarrow> (\<And>s. I s \<Longrightarrow> I (f s)) \<Longrightarrow> keeps I (sql_returning q f)"
  by (rule keeps_returning) (erule (1) on_tables_upd [of I])

lemma keeps_track [keeps_rules]: "on_tables I \<Longrightarrow> keeps I (track e)"
  unfolding track_def
  by (rule keeps_bind, rule keeps_tables_exec, assumption, erule (1) on_tables_upd [of I], intro keeps_rules)

lemma keeps_logs [keeps_rules]:
  assumes "on_tables I"
  shows "keeps I (LogRegisterGathering p g)" and "keeps I (LogUnregisterGathering p g)"
    and "keeps I (LogJoinGathering p g xs ys)" and "keeps I (LogLeaveGathering p g xs)"
    and "keeps I (LogDisconnectGathering p g xs)" and "keeps I (LogChangeHost p g a b)"
    and "keeps I (LogChangeOwner p g a b)" and "keeps I (LogParticipateCommunity p g c d)"
    and "keeps I (LogNotificationData e)"
  using assms by (auto simp: log_defs intro: keeps_rules)

lemma keeps_mutex [keeps_rules]:
  assumes "on_tables I"
  shows "keeps I mutexLock" and "keeps I mutexRLock" and "keeps I mutexUnlock"
    and "keeps I (unlock_throw e)"
proof -
  have upd: "I (s\<lparr>w_mutex := m\<rparr>)" if "I s" for s m
    by (rule on_tables_upd(3) [OF assms that])
  show "keeps I mutexLock" "keeps I mutexRLock"
    by (auto simp: keeps_def mutexLock_def mutexRLock_def upd)
  show u: "keeps I mutexUnlock"
    by (simp add: mutexUnlock_def keeps_mod upd)
  show "keeps I (unlock_throw e)"
    unfolding unlock_throw_def by (intro keeps_rules u)
qed

lemma keeps_or_unlock [keeps_rules]:
  "on_tables I \<Longrightarrow> keeps I m \<Longrightarrow> (\<And>a. keeps I (k a)) \<Longrightarrow> keeps I (or_unlock m k)"
  unfolding or_unlock_def by (intro keeps_rules)

text \<open>
  A write that depends on a row read before: \<open>ends P m Q\<close> takes the state from \<open>P\<close> to \<open>Q\<close>,
  and the row that a \<open>SELECT\<close> returned is known to be in the table until something is written.
\<close>

definition ends :: "('s \<Rightarrow> bool) \<Rightarrow> ('s, 'a) nex \<Rightarrow> ('s \<Rightarrow> bool) \<Rightarrow> bool" where
  "ends P m Q \<longleftrightarrow> (\<forall>s. P s \<longrightarrow> Q (snd (m s)))"

lemma keeps_ends: "ends I m I \<Longrightarrow> keeps I m"
  by (simp add: ends_def keeps_def)

lemma ends_keeps: "keeps I m \<Longrightarrow> (\<And>s. P s \<Longrightarrow> I s) \<Longrightarrow> ends P m I"
  by (simp add: ends_def keeps_def)

lemma ends_if: "(b \<Longrightarrow> ends P m Q) \<Longrightarrow> (\<not> b \<Longrightarrow> ends P n Q) \<Longrightarrow> ends P (if b then m else n) Q"
  by simp

lemma ends_bind:
  assumes "keeps Q m" and "\<And>s. Q s \<Longrightarrow> I s" and "\<And>a. ends Q (f a) I"
  shows "ends Q (bindM m f) I"
  using assms by (auto simp: ends_def keeps_def bindM_def split: prod.splits outcome.splits)

lemma ends_const: "(c \<Longrightarrow> ends (\<lambda>s. I s \<and> R s) m I) \<Longrightarrow> ends (\<lambda>s. I s \<and> R s \<and> c) m I"
  by (auto simp: ends_def)

definition gives :: "('s \<Rightarrow> bool) \<Rightarrow> ('s, 'a) nex \<Rightarrow> ('a \<Rightarrow> 's \<Rightarrow> bool) \<Rightarrow> bool" where
  "gives P m Q \<longleftrightarrow> (\<forall>s a s'. P s \<longrightarrow> m s = (Ok a, s') \<longrightarrow> Q a s')"

lemma keeps_bind_gives:
  assumes "keeps I m" and "gives I m Q" and "\<And>a. ends (Q a) (f a) I"
  shows "keeps I (bindM m f)"
proof (rule keepsI)
  fix s assume "I s"
  then have "I (snd (m s))" using assms(1) by (rule keepsD [rotated])
  moreover have "I (snd (f a t))" if "m s = (Ok a, t)" for a t
    using assms(2,3) \<open>I s\<close> that unfolding gives_def ends_def by blast
  ultimately show "I (snd (bindM m f s))"
    by (auto simp: bindM_def split: prod.splits outcome.splits)
qed

definition tables_query :: "(mm_world \<Rightarrow> 'a) \<Rightarrow> bool" where
  "tables_query q \<longleftrightarrow> (\<forall>s t. tables s = tables t \<longrightarrow> q s = q t)"

lemma ends_query_row:
  assumes I: "on_tables I" and q: "tables_query q"
    and err: "\<And>e. keeps I (f (Inl e))"
    and row: "\<And>x. ends (\<lambda>s. I s \<and> x \<in> set (q s)) (f (Inr x)) I"
  shows "keeps I (bindM (sql_query_row q) f)"
proof (rule keepsI)
  fix s assume "I s"
  have Ib: "I (s\<lparr>db_faults := bs\<rparr>)" for bs by (rule on_tables_upd(1) [OF I \<open>I s\<close>])
  have e: "I (snd (f (Inl e) (s\<lparr>db_faults := bs\<rparr>)))" for e bs
    using keepsD [OF err Ib] .
  have r: "I (snd (f (Inr x) (s\<lparr>db_faults := bs\<rparr>)))" if "x \<in> set (q (s\<lparr>db_faults := bs\<rparr>))" for x bs
    using row [of x] that Ib unfolding ends_def by blast
  have f: "I (snd (f (first_row (Inr (q (s\<lparr>db_faults := bs\<rparr>)))) (s\<lparr>db_faults := bs\<rparr>)))" for bs
    using e r by (cases "q (s\<lparr>db_faults := bs\<rparr>)") auto
  have s: "s\<lparr>db_faults := []\<rparr> = s" if "db_faults s = []" using that by simp
  show "I (snd (bindM (sql_query_row q) f s))"
    using f [of "[]"] f e s
    by (cases "db_faults s")
      (auto simp: bindM_def sql_query_row_def sql_query_def db_call_def retM_def)
qed

lemma ends_query_row_or:
  assumes "on_tables I" and "tables_query q"
    and "\<And>x. ends (\<lambda>s. I s \<and> x \<in> set (q s)) (k x) I"
  shows "keeps I (bindM (sql_query_row q) (\<lambda>r. row_or v r k))"
proof (rule ends_query_row [OF assms(1,2)])
  show "keeps I (row_or v (Inl e) k)" for e
    by (cases e) (auto intro: keeps_rules)
  show "ends (\<lambda>s. I s \<and> x \<in> set (q s)) (row_or v (Inr x) k) I" for x
    using assms(3) by simp
qed

lemma ends_exec:
  assumes I: "on_tables I" and P: "\<And>s. P s \<Longrightarrow> I s" and pf: "\<And>s bs. P s \<Longrightarrow> P (s\<lparr>db_faults := bs\<rparr>)"
    and u: "\<And>s. P s \<Longrightarrow> I (u s)" and k: "\<And>r. keeps I (k r)"
  shows "ends P (bindM (sql_exec n u) k) I"
  unfolding ends_def
proof (intro allI impI)
  fix s assume "P s"
  have "I (s\<lparr>db_faults := bs\<rparr>)" for bs using P [OF pf [OF \<open>P s\<close>]] .
  moreover have "I (u (s\<lparr>db_faults := bs\<rparr>))" for bs using u [OF pf [OF \<open>P s\<close>]] .
  moreover have "I (u s)" using u [OF \<open>P s\<close>] .
  ultimately show "I (snd (bindM (sql_exec n u) k s))"
    using k unfolding keeps_def
    by (cases "db_faults s") (auto simp: bindM_def sql_exec_def db_call_def)
qed

lemma ends_insert:
  assumes I: "on_tables I" and P: "\<And>s. P s \<Longrightarrow> I s" and pf: "\<And>s bs. P s \<Longrightarrow> P (s\<lparr>db_faults := bs\<rparr>)"
    and u: "\<And>s. P s \<Longrightarrow> \<not> c s \<Longrightarrow> I (u s)" and k: "\<And>r. keeps I (k r)"
  shows "ends P (bindM (sql_insert c u) k) I"
  unfolding ends_def
proof (intro allI impI)
  fix s assume "P s"
  have "I (s\<lparr>db_faults := bs\<rparr>)" for bs using P [OF pf [OF \<open>P s\<close>]] .
  moreover have "\<not> c (s\<lparr>db_faults := bs\<rparr>) \<Longrightarrow> I (u (s\<lparr>db_faults := bs\<rparr>))" for bs
    using u [OF pf [OF \<open>P s\<close>]] .
  moreover have "\<not> c s \<Longrightarrow> I (u s)" using u [OF \<open>P s\<close>] .
  ultimately show "I (snd (bindM (sql_insert c u) k s))"
    using k P [OF \<open>P s\<close>] unfolding keeps_def
    by (cases "db_faults s") (auto simp: bindM_def sql_insert_def db_call_def retM_def)
qed

lemma tables_query_rows [simp]:
  "tables_query t_gatherings" "tables_query (gathering_rows gid)" "tables_query (session_rows gid)"
  by (auto simp: tables_query_def tables_def gathering_rows_def session_rows_def)

lemma tables_query_filter: "tables_query q \<Longrightarrow> tables_query (\<lambda>s. filter p (q s))"
  unfolding tables_query_def by metis

lemma rows_ignore_env [simp]:
  "gathering_rows gid (s\<lparr>db_faults := x1\<rparr>) = gathering_rows gid s"
  "gathering_rows gid (s\<lparr>tracking_log := x2\<rparr>) = gathering_rows gid s"
  "gathering_rows gid (s\<lparr>w_mutex := x3\<rparr>) = gathering_rows gid s"
  "gathering_rows gid (s\<lparr>w_call_id := x4\<rparr>) = gathering_rows gid s"
  "gathering_rows gid (s\<lparr>w_sent := x5\<rparr>) = gathering_rows gid s"
  by (simp_all add: gathering_rows_def)

section \<open>Lock discipline\<close>

text \<open>
  \<open>lock_free m\<close>: \<open>m\<close> never touches the mutex and never waits for it. \<open>releases m\<close>: run with
  the mutex held, \<open>m\<close> frees it on every path, except where it panics. \<open>lock_ok m\<close>: run with
  the mutex free, \<open>m\<close> never waits and leaves it free, except where it panics.
\<close>

definition lock_free :: "'a mm \<Rightarrow> bool" where
  "lock_free m \<longleftrightarrow> (\<forall>s. w_mutex (snd (m s)) = w_mutex s \<and> fst (m s) \<noteq> Blocked)"

definition releases :: "'a mm \<Rightarrow> bool" where
  "releases m \<longleftrightarrow> (\<forall>s. w_mutex s \<noteq> Unlocked \<longrightarrow>
     fst (m s) \<noteq> Blocked \<and> (fst (m s) \<noteq> Panic \<longrightarrow> w_mutex (snd (m s)) = Unlocked))"

definition lock_ok :: "'a mm \<Rightarrow> bool" where
  "lock_ok m \<longleftrightarrow> (\<forall>s. w_mutex s = Unlocked \<longrightarrow>
     fst (m s) \<noteq> Blocked \<and> (fst (m s) \<noteq> Panic \<longrightarrow> w_mutex (snd (m s)) = Unlocked))"

named_theorems lock_rules "introduction rules for the lock discipline"

lemma lock_free_ret [lock_rules]: "lock_free (retM a)"
  by (simp add: lock_free_def retM_def)

lemma lock_free_throw [lock_rules]: "lock_free (throwM e)"
  by (simp add: lock_free_def throwM_def)

lemma lock_free_panic [lock_rules]: "lock_free panicM"
  by (simp add: lock_free_def panicM_def)

lemma lock_free_get [lock_rules]: "lock_free (getM f)"
  by (simp add: lock_free_def getM_def)

lemma lock_free_mod: "(\<And>s. w_mutex (f s) = w_mutex s) \<Longrightarrow> lock_free (modM f)"
  by (simp add: lock_free_def modM_def)

lemma lock_free_bind [lock_rules]:
  assumes "lock_free m" and "\<And>a. lock_free (f a)"
  shows "lock_free (bindM m f)"
  unfolding lock_free_def
proof
  fix s
  have m: "w_mutex (snd (m s)) = w_mutex s \<and> fst (m s) \<noteq> Blocked"
    using assms(1) by (simp add: lock_free_def)
  have f: "w_mutex (snd (f a t)) = w_mutex t \<and> fst (f a t) \<noteq> Blocked" for a t
    using assms(2) by (simp add: lock_free_def)
  from m f show "w_mutex (snd (bindM m f s)) = w_mutex s \<and> fst (bindM m f s) \<noteq> Blocked"
    by (auto simp: bindM_def split: prod.splits outcome.splits)
qed

lemma lock_free_catch [lock_rules]: "lock_free m \<Longrightarrow> lock_free (catchM m)"
  by (auto simp: lock_free_def catchM_def split: prod.splits outcome.splits)
    (metis fst_conv snd_conv)+

lemma lock_free_if [lock_rules]: "lock_free m \<Longrightarrow> lock_free n \<Longrightarrow> lock_free (if b then m else n)"
  by simp

lemma lock_free_let [lock_rules]: "(\<And>x. lock_free (f x)) \<Longrightarrow> lock_free (Let v f)"
  by (simp add: Let_def)

lemma lock_free_prod [lock_rules]:
  "(\<And>a b. lock_free (f a b)) \<Longrightarrow> lock_free (case p of (a, b) \<Rightarrow> f a b)"
  by (cases p) simp

lemma lock_free_option [lock_rules]:
  "lock_free m \<Longrightarrow> (\<And>a. lock_free (f a)) \<Longrightarrow> lock_free (case x of None \<Rightarrow> m | Some a \<Rightarrow> f a)"
  by (cases x) simp_all

lemma lock_free_sum [lock_rules]:
  "(\<And>a. lock_free (f a)) \<Longrightarrow> (\<And>b. lock_free (g b)) \<Longrightarrow> lock_free (case x of Inl a \<Rightarrow> f a | Inr b \<Rightarrow> g b)"
  by (cases x) simp_all

lemma lock_free_list [lock_rules]:
  "lock_free m \<Longrightarrow> (\<And>y ys. lock_free (f y ys)) \<Longrightarrow> lock_free (case xs of [] \<Rightarrow> m | y # ys \<Rightarrow> f y ys)"
  by (cases xs) simp_all

lemma lock_free_for [lock_rules]: "(\<And>x. lock_free (f x)) \<Longrightarrow> lock_free (forM xs f)"
  by (induction xs) (auto intro: lock_rules)

lemma lock_free_row_or [lock_rules]: "(\<And>a. lock_free (k a)) \<Longrightarrow> lock_free (row_or v r k)"
  by (cases r) (auto simp: row_or_def intro: lock_rules split: sql_error.splits)

lemma lock_free_ok_or [lock_rules]: "(\<And>a. lock_free (k a)) \<Longrightarrow> lock_free (ok_or e r k)"
  by (cases r) (auto simp: ok_or_def intro: lock_rules)

lemma lock_free_sql_error [lock_rules]:
  "lock_free m \<Longrightarrow> lock_free n \<Longrightarrow> lock_free (case e of ErrNoRows \<Rightarrow> m | ErrDatabase \<Rightarrow> n)"
  by (cases e) simp_all

lemma lock_free_db_call:
  assumes "\<And>s. w_mutex (snd (q s)) = w_mutex s"
  shows "lock_free (db_call q)"
proof -
  have "w_mutex t = w_mutex s" if "q s = (a, t)" for s a t
    using assms [of s] that by simp
  then show ?thesis
    by (auto simp: lock_free_def db_call_def split: list.splits prod.splits)
qed

lemma lock_free_query [lock_rules]: "lock_free (sql_query q)"
  by (simp add: sql_query_def lock_free_db_call)

lemma lock_free_query_row [lock_rules]: "lock_free (sql_query_row q)"
  unfolding sql_query_row_def by (intro lock_rules)

lemma lock_free_exec: "(\<And>s. w_mutex (f s) = w_mutex s) \<Longrightarrow> lock_free (sql_exec n f)"
  by (simp add: sql_exec_def lock_free_db_call)

lemma lock_free_returning: "(\<And>s. w_mutex (f s) = w_mutex s) \<Longrightarrow> lock_free (sql_returning q f)"
  unfolding sql_returning_def by (intro lock_rules lock_free_db_call) simp

lemma lock_free_insert: "(\<And>s. w_mutex (f s) = w_mutex s) \<Longrightarrow> lock_free (sql_insert c f)"
  unfolding sql_insert_def by (intro lock_rules lock_free_db_call) simp

lemma lock_free_fold [lock_rules]: "(\<And>b x. lock_free (f b x)) \<Longrightarrow> lock_free (foldM f b xs)"
  by (induction xs arbitrary: b) (auto intro: lock_rules)

lemma lock_free_collect [lock_rules]: "(\<And>x. lock_free (f x)) \<Longrightarrow> lock_free (collectM f xs)"
  unfolding collectM_def by (intro lock_rules)

lemma lock_free_track [lock_rules]: "lock_free (track e)"
  unfolding track_def by (intro lock_rules lock_free_exec) simp

lemma lock_free_logs [lock_rules]:
  "lock_free (LogRegisterGathering p g)" "lock_free (LogUnregisterGathering p g)"
  "lock_free (LogJoinGathering p g xs ys)" "lock_free (LogLeaveGathering p g xs)"
  "lock_free (LogDisconnectGathering p g xs)" "lock_free (LogChangeHost p g a b)"
  "lock_free (LogChangeOwner p g a b)" "lock_free (LogParticipateCommunity p g c d)"
  "lock_free (LogNotificationData e)"
  by (auto simp: log_defs intro: lock_rules)

lemma update_keeps_mutex [simp]:
  "w_mutex (update_gathering gid f s) = w_mutex s"
  "w_mutex (update_session gid h s) = w_mutex s"
  by (simp_all add: update_gathering_def update_session_def)

text \<open>Handlers: what runs before \<open>Lock\<close>, between \<open>Lock\<close> and \<open>Unlock\<close>, and after.\<close>

lemma releases_unlock: "lock_free m \<Longrightarrow> releases (bindM mutexUnlock (\<lambda>_. m))"
  by (auto simp: releases_def lock_free_def bindM_def run_simps)

lemma releases_unlock_throw [lock_rules]: "releases (unlock_throw e)"
  by (simp add: releases_def run_simps)

lemma releases_bind:
  assumes "lock_free m" and "\<And>s e. fst (m s) \<noteq> Err e" and "\<And>a. releases (f a)"
  shows "releases (bindM m f)"
  unfolding releases_def
proof (intro allI impI)
  fix s :: mm_world
  assume held: "w_mutex s \<noteq> Unlocked"
  have m: "w_mutex (snd (m s)) = w_mutex s \<and> fst (m s) \<noteq> Blocked \<and> (\<forall>e. fst (m s) \<noteq> Err e)"
    using assms(1,2) by (simp add: lock_free_def)
  have f: "w_mutex t \<noteq> Unlocked \<Longrightarrow> fst (f a t) \<noteq> Blocked \<and>
      (fst (f a t) \<noteq> Panic \<longrightarrow> w_mutex (snd (f a t)) = Unlocked)" for a t
    using assms(3) by (simp add: releases_def)
  from m f held
  show "fst (bindM m f s) \<noteq> Blocked \<and> (fst (bindM m f s) \<noteq> Panic \<longrightarrow> w_mutex (snd (bindM m f s)) = Unlocked)"
    by (cases "m s") (auto simp: bindM_def split: outcome.splits)
qed

lemma catch_no_Err: "fst (catchM m s) \<noteq> Err e"
  by (auto simp: catchM_def split: prod.splits outcome.splits)

lemma releases_or_unlock [lock_rules]:
  assumes "lock_free m" and "\<And>a. releases (k a)"
  shows "releases (or_unlock m k)"
  unfolding or_unlock_def
proof (rule releases_bind)
  show "lock_free (catchM m)" using assms(1) by (rule lock_rules)
  show "fst (catchM m s) \<noteq> Err e" for s e by (rule catch_no_Err)
  show "releases (case r of Inl e \<Rightarrow> unlock_throw e | Inr a \<Rightarrow> k a)" for r
    using assms(2) by (cases r) (auto intro: lock_rules)
qed

lemma releases_if [lock_rules]: "releases m \<Longrightarrow> releases n \<Longrightarrow> releases (if b then m else n)"
  by simp

lemma releases_let [lock_rules]: "(\<And>x. releases (f x)) \<Longrightarrow> releases (Let v f)"
  by (simp add: Let_def)

lemma releases_prod [lock_rules]:
  "(\<And>a b. releases (f a b)) \<Longrightarrow> releases (case p of (a, b) \<Rightarrow> f a b)"
  by (cases p) simp

lemma releases_option [lock_rules]:
  "releases m \<Longrightarrow> (\<And>a. releases (f a)) \<Longrightarrow> releases (case x of None \<Rightarrow> m | Some a \<Rightarrow> f a)"
  by (cases x) simp_all

lemma releases_list [lock_rules]:
  "releases m \<Longrightarrow> (\<And>y ys. releases (f y ys)) \<Longrightarrow> releases (case xs of [] \<Rightarrow> m | y # ys \<Rightarrow> f y ys)"
  by (cases xs) simp_all

lemma releases_get [lock_rules]: "(\<And>a. releases (f a)) \<Longrightarrow> releases (bindM (getM g) f)"
  by (auto simp: releases_def run_simps)

lemma lock_ok_lock: "releases m \<Longrightarrow> lock_ok (bindM mutexLock (\<lambda>_. m))"
  by (auto simp: lock_ok_def releases_def bindM_def run_simps)

lemma lock_ok_rlock: "releases m \<Longrightarrow> lock_ok (bindM mutexRLock (\<lambda>_. m))"
  by (auto simp: lock_ok_def releases_def bindM_def run_simps)

lemma lock_ok_free: "lock_free m \<Longrightarrow> lock_ok m"
  by (simp add: lock_ok_def lock_free_def)

lemma lock_ok_if [lock_rules]: "lock_ok m \<Longrightarrow> lock_ok n \<Longrightarrow> lock_ok (if b then m else n)"
  by simp

lemma lock_ok_option [lock_rules]:
  "lock_ok m \<Longrightarrow> (\<And>a. lock_ok (f a)) \<Longrightarrow> lock_ok (case x of None \<Rightarrow> m | Some a \<Rightarrow> f a)"
  by (cases x) simp_all

lemma lock_ok_let [lock_rules]: "(\<And>x. lock_ok (f x)) \<Longrightarrow> lock_ok (Let v f)"
  by (simp add: Let_def)

lemma lock_ok_throw [lock_rules]: "lock_ok (throwM e)"
  by (simp add: lock_ok_free lock_free_throw)

end
