(* ===== verification/Global_Utils.thy ===== *)
theory Global_Utils
  imports Mm_World
begin

text \<open>
  The helpers of \<open>globals/utils.go\<close>: list utilities, validity checks of client-supplied
  gatherings, the join permission check, and the delivery of notification events.
\<close>

section \<open>List utilities\<close>

text \<open>
  \<open>DeleteIndex\<close> overwrites the slot with the last element and drops the last slot; both index
  expressions panic out of range (\<open>None\<close>).
\<close>

definition DeleteIndex :: "u32 list \<Rightarrow> int \<Rightarrow> u32 list option" where
  "DeleteIndex s index =
     (if 0 \<le> index \<and> index < int (length s) then Some (butlast (s[nat index := last s])) else None)"

text \<open>The loop of \<open>RemoveDuplicates\<close>, with the Go map \<open>allKeys\<close> and the slice \<open>list\<close>.\<close>

fun RemoveDuplicates_loop :: "('a \<rightharpoonup> bool) \<Rightarrow> 'a list \<Rightarrow> 'a list \<Rightarrow> 'a list" where
  "RemoveDuplicates_loop allKeys list [] = list"
| "RemoveDuplicates_loop allKeys list (item # rest) =
     (case allKeys item of
        None \<Rightarrow> RemoveDuplicates_loop (allKeys(item \<mapsto> True)) (list @ [item]) rest
      | Some _ \<Rightarrow> RemoveDuplicates_loop allKeys list rest)"

definition RemoveDuplicates :: "'a list \<Rightarrow> 'a list" where
  "RemoveDuplicates sliceList = RemoveDuplicates_loop Map.empty [] sliceList"

text \<open>The specification: the first occurrence of every value, in order.\<close>

fun first_occurrences :: "'a list \<Rightarrow> 'a list" where
  "first_occurrences [] = []"
| "first_occurrences (x # xs) = x # filter (\<lambda>y. y \<noteq> x) (first_occurrences xs)"

lemma filter_first_occurrences: "filter P (first_occurrences xs) = first_occurrences (filter P xs)"
proof (induction xs)
  case (Cons x xs)
  have swap: "filter P (filter (\<lambda>y. y \<noteq> x) ys) = filter (\<lambda>y. y \<noteq> x) (filter P ys)" for ys
    by (induction ys) auto
  show ?case
  proof (cases "P x")
    case True
    with Cons.IH show ?thesis by (simp add: swap del: filter_filter)
  next
    case False
    then have "filter (\<lambda>y. y \<noteq> x) (filter P ys) = filter P ys" for ys
      by (induction ys) auto
    with False show ?thesis by (simp add: swap Cons.IH [symmetric] del: filter_filter)
  qed
qed simp

lemma RemoveDuplicates_loop_eq:
  "RemoveDuplicates_loop m acc xs = acc @ filter (\<lambda>x. x \<notin> dom m) (first_occurrences xs)"
proof (induction xs arbitrary: m acc)
  case Nil
  then show ?case by simp
next
  case (Cons x xs)
  have "filter (\<lambda>y. y \<noteq> x \<and> y \<notin> dom m) ys = filter (\<lambda>y. y \<notin> dom m) (filter (\<lambda>y. y \<noteq> x) ys)" for ys
    by (induction ys) auto
  then show ?case
    using Cons.IH by (cases "m x") (auto simp: filter_filter dom_def intro!: filter_cong)
qed

lemma RemoveDuplicates_eq: "RemoveDuplicates xs = first_occurrences xs"
  by (simp add: RemoveDuplicates_def RemoveDuplicates_loop_eq)

lemma set_first_occurrences [simp]: "set (first_occurrences xs) = set xs"
  by (induction xs) auto

lemma distinct_first_occurrences [simp]: "distinct (first_occurrences xs)"
  by (induction xs) auto

lemma set_RemoveDuplicates [simp]: "set (RemoveDuplicates xs) = set xs"
  by (simp add: RemoveDuplicates_eq)

lemma distinct_RemoveDuplicates [simp]: "distinct (RemoveDuplicates xs)"
  by (simp add: RemoveDuplicates_eq)

lemma RemoveDuplicates_Nil [simp]: "RemoveDuplicates [] = []"
  by (simp add: RemoveDuplicates_eq)

lemma RemoveDuplicates_Cons:
  "RemoveDuplicates (x # xs) = x # RemoveDuplicates (filter (\<lambda>y. y \<noteq> x) xs)"
  by (simp add: RemoveDuplicates_eq filter_first_occurrences)

lemma length_RemoveDuplicates: "length (RemoveDuplicates xs) = card (set xs)"
  using distinct_card [OF distinct_RemoveDuplicates [of xs]] by simp

lemma distinct_fixed: "distinct xs \<Longrightarrow> first_occurrences xs = xs"
proof (induction xs)
  case (Cons x xs)
  have "filter (\<lambda>y. y \<noteq> x) xs = xs" using Cons.prems by (auto simp: filter_id_conv)
  with Cons show ?case by simp
qed simp

lemma DeleteIndex_length: "DeleteIndex s i = Some t \<Longrightarrow> length t + 1 = length s"
  by (auto simp: DeleteIndex_def split: if_splits)

section \<open>Validity checks\<close>

definition CheckValidGathering :: "'z gathering_scheme \<Rightarrow> bool" where
  "CheckValidGathering g = (if length (Description g) > 256 then False else True)"

definition CheckValidMatchmakeSession :: "matchmake_session \<Rightarrow> bool" where
  "CheckValidMatchmakeSession m =
    (if \<not> CheckValidGathering m then False
     else if length (Attributes m) \<noteq> 6 then False
     else if ProgressScore m > 100 then False
     else if length (UserPassword m) > 32 then False
     else if length (CodeWord m) > 256 then False
     else if length (ApplicationBuffer m) > 512 then False
     else if length (SessionKey m) > 512 then False
     else True)"

definition CheckValidPersistentGathering :: "nexlib \<Rightarrow> u64 \<Rightarrow> persistent_gathering \<Rightarrow> bool" where
  "CheckValidPersistentGathering K currentTime p =
    (if \<not> CheckValidGathering p then False
     else if CommunityType p \<noteq> PersistentGatheringTypeOpen K
        \<and> CommunityType p \<noteq> PersistentGatheringTypePasswordLocked K then False
     else if length (PgPassword p) > 32 then False
     else if length (PgAttribs p) \<noteq> 6 then False
     else if length (PgApplicationBuffer p) > 512 then False
     else if ParticipationStartDate p \<noteq> 0 \<and> ParticipationStartDate p > currentTime then False
     else if ParticipationEndDate p \<noteq> 0 \<and> ParticipationEndDate p < currentTime then False
     else True)"

text \<open>
  \<open>currentTime\<close> is \<open>types.NewDateTime(0).Now()\<close>; the callers pass \<open>nowDateTime\<close>.
\<close>

definition nowDateTime :: "nexlib \<Rightarrow> u64 mm" where
  "nowDateTime K = getM (\<lambda>s. DateTime_FromTimestamp K (w_now s))"

text \<open>
  \<open>CanJoinMatchmakeSession\<close>: \<open>None\<close> is Go's \<open>nil\<close> error. Participation policy 98 (friends
  only) has an empty branch.
\<close>

definition CanJoinMatchmakeSession :: "manager \<Rightarrow> pid \<Rightarrow> matchmake_session \<Rightarrow> result_code option" where
  "CanJoinMatchmakeSession mgr p m =
    (if \<not> OpenParticipation m then Some RendezVous_PermissionDenied
     else if ParticipationPolicy m = 98 then None
     else None)"

lemma CanJoin_iff: "CanJoinMatchmakeSession mgr p m = None \<longleftrightarrow> OpenParticipation m"
  by (simp add: CanJoinMatchmakeSession_def)

section \<open>Notification events\<close>

text \<open>A \<open>notifications_types.NewNotificationEvent()\<close> with its first three fields set.\<close>

definition mkEvent :: "nexlib \<Rightarrow> pid \<Rightarrow> u32 \<Rightarrow> u32 \<Rightarrow> u32 \<Rightarrow> notification_event" where
  "mkEvent K source category subtype gid = \<lparr> PIDSource = source,
     NType = BuildNotificationType K category subtype, Param1 = gid, Param2 = 0, StrParam = [],
     Param3 = 0 \<rparr>"

text \<open>
  One RMC request, with one fresh call ID, is sent to every target that is connected; a target
  without a connection is skipped.
\<close>

definition send_to :: "notification_event \<Rightarrow> pid \<Rightarrow> unit mm" where
  "send_to event p = bindM (getM (\<lambda>s. w_connections s p)) (\<lambda>target. case target of
       None \<Rightarrow> retM ()
     | Some _ \<Rightarrow> modM (\<lambda>s. s\<lparr>w_sent := w_sent s @ [(p, w_call_id s, event)]\<rparr>))"

definition SendNotificationEvent :: "nexlib \<Rightarrow> notification_event \<Rightarrow> pid list \<Rightarrow> unit mm" where
  "SendNotificationEvent K event targets =
    bindM (modM (\<lambda>s. s\<lparr>w_call_id := CounterNext K (w_call_id s)\<rparr>)) (\<lambda>_. forM targets (send_to event))"

definition deliver :: "mm_world \<Rightarrow> notification_event \<Rightarrow> pid list \<Rightarrow> (pid \<times> u32 \<times> notification_event) list" where
  "deliver s event targets =
     map (\<lambda>p. (p, w_call_id s, event)) (filter (\<lambda>p. w_connections s p \<noteq> None) targets)"

lemma run_send_to:
  "send_to event p s = (Ok (), s\<lparr>w_sent := w_sent s @ deliver s event [p]\<rparr>)"
  by (cases "w_connections s p") (simp_all add: send_to_def run_simps deliver_def)

lemma run_send_loop: "forM targets (send_to event) s = (Ok (), s\<lparr>w_sent := w_sent s @ deliver s event targets\<rparr>)"
proof (induction targets arbitrary: s)
  case (Cons p ps)
  show ?case by (simp add: run_bind_Ok [OF run_send_to] Cons.IH) (simp add: deliver_def)
qed (simp add: run_ret deliver_def)

lemma run_SendNotificationEvent [run_simps]:
  "SendNotificationEvent K event targets s =
    (let s' = s\<lparr>w_call_id := CounterNext K (w_call_id s)\<rparr>
     in (Ok (), s'\<lparr>w_sent := w_sent s' @ deliver s' event targets\<rparr>))"
  by (simp add: SendNotificationEvent_def run_bind_mod run_send_loop Let_def)

lemma send_Ok: "fst (SendNotificationEvent K event targets s) = Ok ()"
  by (simp add: run_SendNotificationEvent Let_def)

lemma keeps_send [keeps_rules]: "on_tables I \<Longrightarrow> keeps I (SendNotificationEvent K event targets)"
  by (rule keepsI) (simp add: run_SendNotificationEvent Let_def on_tables_upd)

lemma lock_free_send [lock_rules]: "lock_free (SendNotificationEvent K event targets)"
  by (simp add: lock_free_def run_SendNotificationEvent Let_def)

lemma safe_send [safe_rules]: "result_in safe (SendNotificationEvent K event targets)"
  by (simp add: result_in_def send_Ok)

lemma send_keeps_faults [simp]:
  "db_faults (snd (SendNotificationEvent K event targets s)) = db_faults s"
  by (simp add: run_SendNotificationEvent Let_def)

end
