(* ===== verification/Match_Making_Db.thy ===== *)
theory Match_Making_Db
  imports Global_Utils
begin

text \<open>
  The functions of \<open>match-making/database\<close>: registering and unregistering a gathering, joining
  it (alone, or with further participants), leaving it, losing the connection, and the hand-over
  of ownership and host role that these may cause.
\<close>

section \<open>Finding, registering, unregistering\<close>

definition hasFlags :: "u32 \<Rightarrow> u32 \<Rightarrow> bool" where
  "hasFlags flags bits \<longleftrightarrow> flags AND bits \<noteq> 0"

definition row_gathering :: "gathering_row \<Rightarrow> gathering" where
  "row_gathering g = \<lparr> ID = word_of_nat (g_id g), OwnerPID = g_owner_pid g, HostPID = g_host_pid g,
     MinimumParticipants = g_min_participants g, MaximumParticipants = g_max_participants g,
     ParticipationPolicy = g_participation_policy g, PolicyArgument = g_policy_argument g,
     Flags = g_flags g, GState = g_state g, Description = g_description g \<rparr>"

definition FindGatheringByID :: "nexlib \<Rightarrow> u32 \<Rightarrow> (gathering \<times> string \<times> pid list \<times> u64) mm" where
  "FindGatheringByID K gid =
    bindM (sql_query_row (\<lambda>s. filter g_registered (gathering_rows gid s))) (\<lambda>r.
    row_or RendezVous_SessionVoid r (\<lambda>row.
    retM ((row_gathering row)\<lparr>ID := gid\<rparr>, g_type row, g_participants row,
      DateTime_FromTimestamp K (g_started_time row))))"

text \<open>
  The \<open>bigserial\<close> of the new row is scanned into a \<open>uint32\<close>; \<open>database/sql\<close> reports a value
  that does not fit. The caller's gathering gets its new ID, owner and host.
\<close>

definition new_gathering_row :: "nat \<Rightarrow> pid \<Rightarrow> pid \<Rightarrow> 'z gathering_scheme \<Rightarrow> string \<Rightarrow> int \<Rightarrow> gathering_row" where
  "new_gathering_row n ownerPID hostPID gathering gatheringType started = \<lparr>
     g_id = n, g_owner_pid = ownerPID, g_host_pid = hostPID,
     g_min_participants = MinimumParticipants gathering,
     g_max_participants = MaximumParticipants gathering,
     g_participation_policy = ParticipationPolicy gathering,
     g_policy_argument = PolicyArgument gathering, g_flags = Flags gathering,
     g_state = GState gathering, g_description = Description gathering, g_registered = True,
     g_type = gatheringType, g_started_time = started, g_participants = [] \<rparr>"

definition RegisterGathering ::
  "nexlib \<Rightarrow> pid \<Rightarrow> pid \<Rightarrow> 'z gathering_scheme \<Rightarrow> string \<Rightarrow> ('z gathering_scheme \<times> u64) mm" where
  "RegisterGathering K ownerPID hostPID gathering gatheringType =
    bindM (nowDateTime K) (\<lambda>startedTime.
    bindM (sql_returning (\<lambda>s. [next_gathering_id s])
      (\<lambda>s. s\<lparr>t_gatherings := t_gatherings s @
               [new_gathering_row (next_gathering_id s) ownerPID hostPID gathering gatheringType
                  (DateTime_Standard K startedTime)],
             next_gathering_id := Suc (next_gathering_id s)\<rparr>)) (\<lambda>r.
    ok_or Core_Unknown r (\<lambda>n.
    if int n \<ge> 2 ^ 32 then throwM Core_Unknown
    else
      bindM (LogRegisterGathering ownerPID (word_of_nat n)) (\<lambda>_.
      retM (gathering\<lparr>ID := word_of_nat n, OwnerPID := ownerPID, HostPID := hostPID\<rparr>, startedTime)))))"

definition UnregisterGathering :: "pid \<Rightarrow> u32 \<Rightarrow> unit mm" where
  "UnregisterGathering sourcePID gid =
    bindM (sql_exec (count_gathering gid) (update_gathering gid (\<lambda>g. g\<lparr>g_registered := False\<rparr>))) (\<lambda>r.
    ok_or Core_Unknown r (\<lambda>rowsAffected.
    if rowsAffected = 0 then throwM RendezVous_SessionVoid
    else LogUnregisterGathering sourcePID gid))"

definition UpdateSessionHost :: "u32 \<Rightarrow> pid \<Rightarrow> pid \<Rightarrow> unit mm" where
  "UpdateSessionHost gid ownerPID hostPID =
    bindM (sql_exec (count_gathering gid)
      (update_gathering gid (\<lambda>g. g\<lparr>g_owner_pid := ownerPID, g_host_pid := hostPID\<rparr>))) (\<lambda>r.
    ok_or Core_Unknown r (\<lambda>rowsAffected.
    if rowsAffected = 0 then throwM RendezVous_SessionVoid else retM ()))"

text \<open>\<open>array_remove\<close> removes every occurrence; \<open>RETURNING\<close> gives the updated lists.\<close>

definition RemoveParticipantFromGathering :: "u32 \<Rightarrow> pid \<Rightarrow> pid list mm" where
  "RemoveParticipantFromGathering gid participant =
    bindM (sql_returning (\<lambda>s. map (\<lambda>g. removeAll participant (g_participants g)) (gathering_rows gid s))
      (update_gathering gid (\<lambda>g. g\<lparr>g_participants := removeAll participant (g_participants g)\<rparr>))) (\<lambda>r.
    row_or RendezVous_SessionVoid r retM)"

definition GetDetailedGatheringByID_base :: "nexlib \<Rightarrow> pid \<Rightarrow> u32 \<Rightarrow> (gathering_object \<times> string) mm" where
  "GetDetailedGatheringByID_base K sourcePID gid =
    bindM (FindGatheringByID K gid) (\<lambda>(gathering, gatheringType, _, _).
    if gatheringType \<noteq> ''Gathering'' then throwM Core_Exception
    else retM (HeldGathering gathering, gatheringType))"

section \<open>Joining\<close>

definition verboseMask :: "nexlib \<Rightarrow> u32" where
  "verboseMask K = (GF_VerboseParticipants K OR GF_VerboseParticipantsEx K)"

definition newParticipantEvent ::
  "nexlib \<Rightarrow> pid \<Rightarrow> u32 \<Rightarrow> pid \<Rightarrow> string \<Rightarrow> u32 \<Rightarrow> notification_event" where
  "newParticipantEvent K source gid participant message count =
    (mkEvent K source (NC_Participation K) (NS_Participation_NewParticipant K) gid)
      \<lparr>Param2 := ucast participant, StrParam := message, Param3 := count\<rparr>"

definition JoinGathering :: "nexlib \<Rightarrow> u32 \<Rightarrow> connection \<Rightarrow> u16 \<Rightarrow> string \<Rightarrow> u32 mm" where
  "JoinGathering K gid connection vacantParticipants joinMessage =
    (let vacant = (if vacantParticipants = 0 then 1 else vacantParticipants);
         caller = conn_PID connection in
    bindM (sql_query_row (gathering_rows gid)) (\<lambda>r.
    row_or RendezVous_SessionVoid r (\<lambda>row.
    let ownerPID = g_owner_pid row; maxParticipants = (ucast (g_max_participants row) :: u32);
        flags = g_flags row; participants = g_participants row in
    if maxParticipants \<noteq> 0 \<and> word_of_nat (length participants) + ucast vacant > maxParticipants
    then throwM RendezVous_SessionFull
    else if caller \<in> set participants then throwM RendezVous_AlreadyParticipatedGathering
    else
      let newParticipants = replicate (unat vacant) caller;
          totalParticipants = participants @ newParticipants in
      bindM (sql_exec (count_gathering gid)
        (update_gathering gid (\<lambda>g. g\<lparr>g_participants := totalParticipants\<rparr>))) (\<lambda>r.
      row_or RendezVous_SessionVoid r (\<lambda>_.
      bindM (LogJoinGathering caller gid newParticipants totalParticipants) (\<lambda>_.
      if \<not> hasFlags flags (verboseMask K) \<and> caller = ownerPID
      then retM (word_of_nat (length totalParticipants))
      else
        let participantJoinedTargets =
              (if hasFlags flags (verboseMask K) then RemoveDuplicates totalParticipants else [ownerPID]) in
        bindM (SendNotificationEvent K
          (newParticipantEvent K caller gid caller joinMessage (ucast vacant)) participantJoinedTargets) (\<lambda>_.
        bindM (if hasFlags flags (GF_VerboseParticipantsEx K)
               then forM (RemoveDuplicates participants) (\<lambda>participant.
                      SendNotificationEvent K
                        (newParticipantEvent K caller gid participant joinMessage (ucast vacant)) [caller])
               else retM ()) (\<lambda>_.
        retM (word_of_nat (length totalParticipants))))))))))"

text \<open>
  \<open>JoinGatheringWithParticipants\<close>. The capacity test counts the caller whether or not the
  caller is already in the gathering.
\<close>

definition JoinGatheringWithParticipants ::
  "nexlib \<Rightarrow> u32 \<Rightarrow> connection \<Rightarrow> pid list \<Rightarrow> string \<Rightarrow> u8 \<Rightarrow> u32 mm" where
  "JoinGatheringWithParticipants K gid connection additionalParticipants joinMessage joinBehavior =
    (let caller = conn_PID connection in
    bindM (sql_query_row (gathering_rows gid)) (\<lambda>r.
    row_or RendezVous_SessionVoid r (\<lambda>row.
    let ownerPID = g_owner_pid row; maxParticipants = (ucast (g_max_participants row) :: u32);
        flags = g_flags row; oldParticipants = g_participants row in
    if word_of_nat (length oldParticipants + 1 + length additionalParticipants) > maxParticipants
    then throwM RendezVous_SessionFull
    else if joinBehavior = JoinBehaviorImAlreadyJoined K \<and> caller \<notin> set oldParticipants
    then throwM RendezVous_NotParticipatedGathering
    else if joinBehavior \<noteq> JoinBehaviorImAlreadyJoined K \<and> caller \<in> set oldParticipants
    then throwM RendezVous_AlreadyParticipatedGathering
    else
      let newParticipants =
            (if joinBehavior = JoinBehaviorImAlreadyJoined K then [] else [caller]) @ additionalParticipants;
          participants = oldParticipants @ newParticipants in
      bindM (sql_exec (count_gathering gid)
        (update_gathering gid (\<lambda>g. g\<lparr>g_participants := participants\<rparr>))) (\<lambda>r.
      ok_or Core_Unknown r (\<lambda>_.
      bindM (LogJoinGathering caller gid newParticipants participants) (\<lambda>_.
      let participantJoinedTargets =
            (if hasFlags flags (verboseMask K) then RemoveDuplicates participants else [ownerPID]) in
      bindM (forM (RemoveDuplicates newParticipants) (\<lambda>participant.
        if caller = participant then retM ()
        else SendNotificationEvent K
          ((mkEvent K caller (NC_SwitchGathering K) (NS_SwitchGathering_None K) gid)
             \<lparr>Param2 := ucast participant\<rparr>) [participant])) (\<lambda>_.
      bindM (forM newParticipants (\<lambda>participant.
        bindM (if hasFlags flags (verboseMask K) \<or> caller \<noteq> ownerPID
               then SendNotificationEvent K
                 (newParticipantEvent K caller gid participant joinMessage (word_of_nat (length participants)))
                 participantJoinedTargets
               else retM ()) (\<lambda>_.
        if hasFlags flags (GF_VerboseParticipantsEx K)
        then forM (RemoveDuplicates oldParticipants) (\<lambda>oldParticipant.
               SendNotificationEvent K
                 (newParticipantEvent K caller gid oldParticipant joinMessage
                    (word_of_nat (length participants))) [participant])
        else retM ()))) (\<lambda>_.
      retM (word_of_nat (length participants))))))))))"

section \<open>Handing over the ownership\<close>

text \<open>The loop that looks for a new owner, with Go's zero value when there is none.\<close>

fun find_newOwner :: "pid \<Rightarrow> pid list \<Rightarrow> pid" where
  "find_newOwner owner [] = 0"
| "find_newOwner owner (p # ps) = (if p \<noteq> owner then p else find_newOwner owner ps)"

definition MigrateGatheringOwnership :: "nexlib \<Rightarrow> connection \<Rightarrow> gathering \<Rightarrow> pid list \<Rightarrow> pid mm" where
  "MigrateGatheringOwnership K connection gathering participants =
    (let uniqueParticipants = RemoveDuplicates participants;
         newOwner = find_newOwner (OwnerPID gathering) uniqueParticipants;
         caller = conn_PID connection in
    if newOwner = 0 then
      bindM (UnregisterGathering caller (ID gathering)) (\<lambda>_.
      bindM (SendNotificationEvent K
        (mkEvent K caller (NC_GatheringUnregistered K) (NS_GatheringUnregistered_None K) (ID gathering))
        uniqueParticipants) (\<lambda>_.
      retM 0))
    else
      bindM (UpdateSessionHost (ID gathering) newOwner (HostPID gathering)) (\<lambda>_.
      bindM (LogChangeOwner caller (ID gathering) (OwnerPID gathering) newOwner) (\<lambda>_.
      bindM (SendNotificationEvent K
        ((mkEvent K caller (NC_OwnershipChanged K) (NS_OwnershipChanged_None K) (ID gathering))
           \<lparr>Param2 := ucast newOwner\<rparr>)
        uniqueParticipants) (\<lambda>_.
      retM newOwner))))"

section \<open>Leaving and losing the connection\<close>

definition keepsEmptyMask :: "nexlib \<Rightarrow> u32" where
  "keepsEmptyMask K = (GF_PersistentGathering K OR GF_PersistentGatheringAllowZeroUsers K)"

definition EndGatheringParticipation :: "nexlib \<Rightarrow> u32 \<Rightarrow> connection \<Rightarrow> string \<Rightarrow> unit mm" where
  "EndGatheringParticipation K gid connection message =
    (let caller = conn_PID connection in
    bindM (FindGatheringByID K gid) (\<lambda>(gathering, _, participants, _).
    if caller \<notin> set participants then throwM RendezVous_NotParticipatedGathering
    else
      bindM (RemoveParticipantFromGathering gid caller) (\<lambda>newParticipants.
      bindM (LogLeaveGathering caller gid newParticipants) (\<lambda>_.
      if hasFlags (Flags gathering) (keepsEmptyMask K) then retM ()
      else if newParticipants = [] then UnregisterGathering caller gid
      else if caller = OwnerPID gathering \<and> \<not> hasFlags (Flags gathering) (GF_DisconnectChangeOwner K) then
        bindM (UnregisterGathering caller gid) (\<lambda>_.
        SendNotificationEvent K
          (mkEvent K caller (NC_GatheringUnregistered K) (NS_GatheringUnregistered_None K) gid)
          (RemoveDuplicates newParticipants))
      else
        bindM (if caller = OwnerPID gathering
               then MigrateGatheringOwnership K connection gathering newParticipants
               else retM (OwnerPID gathering)) (\<lambda>ownerPID.
        bindM (if caller = HostPID gathering \<and> ownerPID \<noteq> 0 then
                 bindM (UpdateSessionHost gid ownerPID ownerPID) (\<lambda>_.
                 bindM (SendNotificationEvent K
                   (mkEvent K caller (NC_HostChanged K) (NS_HostChanged_None K) gid)
                   (RemoveDuplicates participants)) (\<lambda>_.
                 LogChangeHost caller gid (HostPID gathering) ownerPID))
               else retM ()) (\<lambda>_.
        SendNotificationEvent K
          ((mkEvent K caller (NC_Participation K) (NS_Participation_Ended K) gid)
             \<lparr>Param2 := ucast caller, StrParam := message\<rparr>)
          (if hasFlags (Flags gathering) (verboseMask K) then RemoveDuplicates participants
           else [OwnerPID gathering])))))))"

text \<open>
  The loop body of \<open>DisconnectParticipant\<close>. An error that the loop answers with \<open>continue\<close> is
  thrown here and dropped by the loop; the errors that the code only logs are caught in place.
\<close>

definition disconnect_from :: "nexlib \<Rightarrow> connection \<Rightarrow> gathering_row \<Rightarrow> unit mm" where
  "disconnect_from K connection row =
    (let caller = conn_PID connection; gathering = row_gathering row; flags = Flags gathering;
         gid = ID gathering in
    if hasFlags flags (GF_PersistentGathering K)
       \<or> (g_type row = ''PersistentGathering'' \<and> \<not> hasFlags flags (GF_PersistentGatheringLeaveParticipation K))
    then retM ()
    else
      bindM (RemoveParticipantFromGathering gid caller) (\<lambda>participants.
      bindM (LogDisconnectGathering caller gid participants) (\<lambda>_.
      if hasFlags flags (keepsEmptyMask K) then retM ()
      else if participants = [] then UnregisterGathering caller gid
      else if caller = OwnerPID gathering \<and> \<not> hasFlags flags (GF_DisconnectChangeOwner K) then
        bindM (UnregisterGathering caller gid) (\<lambda>_.
        SendNotificationEvent K
          (mkEvent K caller (NC_GatheringUnregistered K) (NS_GatheringUnregistered_None K) gid)
          (RemoveDuplicates participants))
      else
        bindM (if caller = OwnerPID gathering
               then bindM (catchM (MigrateGatheringOwnership K connection gathering participants)) (\<lambda>r.
                    retM (case r of Inl _ \<Rightarrow> 0 | Inr newOwner \<Rightarrow> newOwner))
               else retM (OwnerPID gathering)) (\<lambda>ownerPID.
        bindM (if caller = HostPID gathering \<and> ownerPID \<noteq> 0 then
                 bindM (catchM (UpdateSessionHost gid ownerPID ownerPID)) (\<lambda>r. case r of
                   Inl _ \<Rightarrow> retM ()
                 | Inr _ \<Rightarrow>
                     bindM (SendNotificationEvent K
                       (mkEvent K caller (NC_HostChanged K) (NS_HostChanged_None K) gid)
                       (RemoveDuplicates participants)) (\<lambda>_.
                     LogChangeHost caller gid (HostPID gathering) ownerPID))
               else retM ()) (\<lambda>_.
        SendNotificationEvent K
          ((mkEvent K caller (NC_Participation K) (NS_Participation_Disconnected K) gid)
             \<lparr>Param2 := ucast caller\<rparr>)
          (if hasFlags flags (verboseMask K) then RemoveDuplicates participants
           else [OwnerPID gathering]))))))"

text \<open>The row ID is scanned into a \<open>uint32\<close>; a row that does not fit is skipped.\<close>

definition DisconnectParticipant :: "nexlib \<Rightarrow> connection \<Rightarrow> unit mm" where
  "DisconnectParticipant K connection =
    bindM (sql_query (\<lambda>s. filter (\<lambda>g. conn_PID connection \<in> set (g_participants g) \<and> g_registered g)
      (t_gatherings s))) (\<lambda>r. case r of
        Inl _ \<Rightarrow> retM ()
      | Inr rows \<Rightarrow> forM rows (\<lambda>row.
          if int (g_id row) \<ge> 2 ^ 32 then retM ()
          else bindM (catchM (disconnect_from K connection row)) (\<lambda>_. retM ())))"

section \<open>No lock, no panic\<close>

lemma lock_free_gathering_ops [lock_rules]:
  "lock_free (FindGatheringByID K gid)"
  "lock_free (RegisterGathering K ownerPID hostPID gathering gatheringType)"
  "lock_free (UnregisterGathering caller gid)"
  "lock_free (UpdateSessionHost gid ownerPID hostPID)"
  "lock_free (RemoveParticipantFromGathering gid p)"
  "lock_free (GetDetailedGatheringByID_base K p gid)"
proof -
  show find: "lock_free (FindGatheringByID K gid)"
    unfolding FindGatheringByID_def by (intro lock_rules)
  show "lock_free (GetDetailedGatheringByID_base K p gid)"
    unfolding GetDetailedGatheringByID_base_def by (intro lock_rules find)
  show "lock_free (RegisterGathering K ownerPID hostPID gathering gatheringType)"
    unfolding RegisterGathering_def nowDateTime_def by (intro lock_rules lock_free_returning) simp
  show "lock_free (UnregisterGathering caller gid)"
    unfolding UnregisterGathering_def by (intro lock_rules lock_free_exec) simp
  show "lock_free (UpdateSessionHost gid ownerPID hostPID)"
    unfolding UpdateSessionHost_def by (intro lock_rules lock_free_exec) simp
  show "lock_free (RemoveParticipantFromGathering gid p)"
    unfolding RemoveParticipantFromGathering_def by (intro lock_rules lock_free_returning) simp
qed

lemma lock_free_join [lock_rules]: "lock_free (JoinGathering K gid connection n message)"
  unfolding JoinGathering_def by (intro lock_rules lock_free_exec) simp

lemma lock_free_join_with [lock_rules]:
  "lock_free (JoinGatheringWithParticipants K gid connection ps message b)"
  unfolding JoinGatheringWithParticipants_def by (intro lock_rules lock_free_exec) simp

lemma lock_free_leave [lock_rules]:
  "lock_free (MigrateGatheringOwnership K connection gathering ps)"
  "lock_free (EndGatheringParticipation K gid connection message)"
  "lock_free (disconnect_from K connection row)"
  "lock_free (DisconnectParticipant K connection)"
proof -
  show m: "lock_free (MigrateGatheringOwnership K connection gathering ps)" for gathering ps
    unfolding MigrateGatheringOwnership_def by (intro lock_rules)
  show "lock_free (EndGatheringParticipation K gid connection message)"
    unfolding EndGatheringParticipation_def by (intro lock_rules m)
  show d: "lock_free (disconnect_from K connection row)" for row
    unfolding disconnect_from_def by (intro lock_rules m)
  show "lock_free (DisconnectParticipant K connection)"
    unfolding DisconnectParticipant_def by (intro lock_rules d)
qed

lemma safe_gathering_ops [safe_rules]:
  "result_in safe (FindGatheringByID K gid)"
  "result_in safe (RegisterGathering K ownerPID hostPID gathering gatheringType)"
  "result_in safe (UnregisterGathering caller gid)"
  "result_in safe (UpdateSessionHost gid ownerPID hostPID)"
  "result_in safe (RemoveParticipantFromGathering gid p)"
  unfolding FindGatheringByID_def RegisterGathering_def UnregisterGathering_def UpdateSessionHost_def
    RemoveParticipantFromGathering_def nowDateTime_def
  by (intro safe_rules)+

lemma safe_GetDetailed_base [safe_rules]: "result_in safe (GetDetailedGatheringByID_base K p gid)"
  unfolding GetDetailedGatheringByID_base_def by (intro safe_rules)

lemma safe_join [safe_rules]:
  "result_in safe (JoinGathering K gid connection n message)"
  "result_in safe (JoinGatheringWithParticipants K gid connection ps message b)"
  unfolding JoinGathering_def JoinGatheringWithParticipants_def by (intro safe_rules)+

lemma safe_migrate [safe_rules]: "result_in safe (MigrateGatheringOwnership K connection gathering ps)"
  unfolding MigrateGatheringOwnership_def by (intro safe_rules)

lemma safe_leave [safe_rules]: "result_in safe (EndGatheringParticipation K gid connection message)"
  unfolding EndGatheringParticipation_def by (intro safe_rules)

lemma safe_disconnect_from [safe_rules]: "result_in safe (disconnect_from K connection row)"
  unfolding disconnect_from_def by (intro safe_rules)

lemma safe_disconnect [safe_rules]: "result_in safe (DisconnectParticipant K connection)"
  unfolding DisconnectParticipant_def by (intro safe_rules)

section \<open>Invariants of the gathering table\<close>

text \<open>
  A predicate on the tables that survives the five ways in which this component writes a
  gathering survives every operation of it. \<open>join_room\<close> and \<open>join_with_room\<close> are the capacity
  tests of the two join functions, in the \<open>uint32\<close> arithmetic of the code.
\<close>

definition join_room :: "gathering_row \<Rightarrow> nat \<Rightarrow> bool" where
  "join_room row n \<longleftrightarrow> g_max_participants row = 0 \<or>
     (word_of_nat (length (g_participants row)) + word_of_nat n :: u32) \<le> ucast (g_max_participants row)"

definition join_with_room :: "gathering_row \<Rightarrow> nat \<Rightarrow> bool" where
  "join_with_room row n \<longleftrightarrow>
     (word_of_nat (length (g_participants row) + 1 + n) :: u32) \<le> ucast (g_max_participants row)"

locale gathering_store =
  fixes I :: "mm_world \<Rightarrow> bool"
  assumes tables_only: "on_tables I"
    and register: "\<And>s r. I s \<Longrightarrow> g_id r = next_gathering_id s \<Longrightarrow> g_participants r = [] \<Longrightarrow>
      I (s\<lparr>t_gatherings := t_gatherings s @ [r], next_gathering_id := Suc (next_gathering_id s)\<rparr>)"
    and unregister: "\<And>s gid. I s \<Longrightarrow> I (update_gathering gid (\<lambda>g. g\<lparr>g_registered := False\<rparr>) s)"
    and set_host: "\<And>s gid a b. I s \<Longrightarrow>
      I (update_gathering gid (\<lambda>g. g\<lparr>g_owner_pid := a, g_host_pid := b\<rparr>) s)"
    and leave: "\<And>s gid p. I s \<Longrightarrow>
      I (update_gathering gid (\<lambda>g. g\<lparr>g_participants := removeAll p (g_participants g)\<rparr>) s)"
    and join: "\<And>s gid row new. I s \<Longrightarrow> row \<in> set (gathering_rows gid s) \<Longrightarrow> length new < 2 ^ 16 \<Longrightarrow>
      join_room row (length new) \<Longrightarrow>
      I (update_gathering gid (\<lambda>g. g\<lparr>g_participants := g_participants row @ new\<rparr>) s)"
    and join_with: "\<And>s gid row new n. I s \<Longrightarrow> row \<in> set (gathering_rows gid s) \<Longrightarrow>
      length new \<le> n + 1 \<Longrightarrow> n < 2 ^ 31 \<Longrightarrow> join_with_room row n \<Longrightarrow>
      I (update_gathering gid (\<lambda>g. g\<lparr>g_participants := g_participants row @ new\<rparr>) s)"
begin

lemmas exec_rule = keeps_tables_exec [OF tables_only] keeps_tables_returning [OF tables_only]

lemma keeps_Find [keeps_rules]: "keeps I (FindGatheringByID K gid)"
  unfolding FindGatheringByID_def by (intro keeps_rules tables_only)

lemma keeps_GetDetailed_base [keeps_rules]: "keeps I (GetDetailedGatheringByID_base K p gid)"
  unfolding GetDetailedGatheringByID_base_def by (intro keeps_rules)

lemma keeps_Register [keeps_rules]: "keeps I (RegisterGathering K ownerPID hostPID gathering ty)"
  unfolding RegisterGathering_def nowDateTime_def
  by (intro keeps_rules tables_only exec_rule) (auto intro!: register simp: new_gathering_row_def)

lemma keeps_Unregister [keeps_rules]: "keeps I (UnregisterGathering caller gid)"
  unfolding UnregisterGathering_def by (intro keeps_rules tables_only exec_rule unregister)

lemma keeps_UpdateSessionHost [keeps_rules]: "keeps I (UpdateSessionHost gid a b)"
  unfolding UpdateSessionHost_def by (intro keeps_rules tables_only exec_rule set_host)

lemma keeps_Remove [keeps_rules]: "keeps I (RemoveParticipantFromGathering gid p)"
  unfolding RemoveParticipantFromGathering_def by (intro keeps_rules tables_only exec_rule leave)

lemma ends_join_update:
  assumes "\<And>s. I s \<Longrightarrow> row \<in> set (gathering_rows gid s) \<Longrightarrow>
      I (update_gathering gid (\<lambda>g. g\<lparr>g_participants := ps\<rparr>) s)"
    and "\<And>r. keeps I (k r)"
  shows "ends (\<lambda>s. I s \<and> row \<in> set (gathering_rows gid s))
    (bindM (sql_exec n (update_gathering gid (\<lambda>g. g\<lparr>g_participants := ps\<rparr>))) k) I"
  by (rule ends_exec [OF tables_only]) (auto intro: assms on_tables_upd [OF tables_only])

lemma ends_throw [keeps_rules]: "ends (\<lambda>s. I s \<and> R s) (throwM e) I"
  by (rule ends_keeps [OF keeps_throw]) simp

lemma keeps_Join [keeps_rules]: "keeps I (JoinGathering K gid connection n message)"
  unfolding JoinGathering_def Let_def
proof (rule ends_query_row_or [OF tables_only], simp, intro ends_if, goal_cases)
  case (3 row)
  let ?v = "if n = 0 then 1 else n"
  from 3(1) have room: "join_room row (unat ?v)"
    by (auto simp: join_room_def not_less)
  have law: "I (update_gathering gid (\<lambda>g. g\<lparr>g_participants :=
      g_participants row @ replicate (unat ?v) (conn_PID connection)\<rparr>) s)"
    if "I s" and "row \<in> set (gathering_rows gid s)" for s
    by (rule join [OF that]) (use room unsigned_less [of ?v] in simp_all)
  show ?case
    by (rule ends_join_update [OF law]) (assumption | intro keeps_rules tables_only)+
qed (rule ends_throw)+

lemma keeps_JoinWith [keeps_rules]:
  assumes "length ps < 2 ^ 31"
  shows "keeps I (JoinGatheringWithParticipants K gid connection ps message b)"
  unfolding JoinGatheringWithParticipants_def Let_def
proof (rule ends_query_row_or [OF tables_only], simp, intro ends_if, goal_cases)
  case (4 row)
  let ?new = "(if b = JoinBehaviorImAlreadyJoined K then [] else [conn_PID connection]) @ ps"
  from 4(1) have room: "join_with_room row (length ps)"
    by (simp add: join_with_room_def not_less)
  have law: "I (update_gathering gid (\<lambda>g. g\<lparr>g_participants := g_participants row @ ?new\<rparr>) s)"
    if "I s" and "row \<in> set (gathering_rows gid s)" for s
    by (rule join_with [OF that _ assms room]) simp
  show ?case
    by (rule ends_join_update [OF law]) (assumption | intro keeps_rules tables_only)+
qed (rule ends_throw)+

lemma keeps_Migrate [keeps_rules]: "keeps I (MigrateGatheringOwnership K connection gathering ps)"
  unfolding MigrateGatheringOwnership_def by (intro keeps_rules tables_only)

lemma keeps_End [keeps_rules]: "keeps I (EndGatheringParticipation K gid connection message)"
  unfolding EndGatheringParticipation_def by (intro keeps_rules tables_only)

lemma keeps_disconnect_from [keeps_rules]: "keeps I (disconnect_from K connection row)"
  unfolding disconnect_from_def by (intro keeps_rules tables_only)

lemma keeps_Disconnect [keeps_rules]: "keeps I (DisconnectParticipant K connection)"
  unfolding DisconnectParticipant_def by (intro keeps_rules tables_only)

end

text \<open>What a successful registration leaves behind: a row with the new ID and the given type.\<close>

lemma Register_gives:
  assumes "keeps I (RegisterGathering K ownerPID hostPID g ty)"
  shows "gives I (RegisterGathering K ownerPID hostPID g ty)
    (\<lambda>(reg, t) s. I s \<and> (\<exists>r \<in> set (gathering_rows (ID reg) s). g_type r = ty) \<and>
       reg = g\<lparr>ID := ID reg, OwnerPID := ownerPID, HostPID := hostPID\<rparr>)"
  unfolding gives_def
proof (intro allI impI)
  fix s a s'
  assume I: "I s" and run: "RegisterGathering K ownerPID hostPID g ty s = (Ok a, s')"
  have "I s'" using keeps_run [OF assms I run] .
  moreover have "(\<exists>r \<in> set (gathering_rows (ID (fst a)) s'). g_type r = ty) \<and>
      fst a = g\<lparr>ID := ID (fst a), OwnerPID := ownerPID, HostPID := hostPID\<rparr>"
    using run
    by (cases "db_faults s")
      (auto simp: RegisterGathering_def nowDateTime_def run_simps sql_returning_def db_call_def bindM_def
        retM_def getM_def throwM_def log_defs track_def sql_exec_def ok_or_def gathering_rows_def
        new_gathering_row_def first_row_def unat_of_nat_u32
        split: list.splits if_splits prod.splits outcome.splits sum.splits)
  ultimately show "(\<lambda>(reg, t) s. I s \<and> (\<exists>r \<in> set (gathering_rows (ID reg) s). g_type r = ty) \<and>
      reg = g\<lparr>ID := ID reg, OwnerPID := ownerPID, HostPID := hostPID\<rparr>) a s'"
    by (cases a) simp
qed

text \<open>
  The concrete invariant: row keys are unique and already handed out, and no gathering with a
  participant limit holds more entries than the limit.
\<close>

definition ids_ok :: "mm_world \<Rightarrow> bool" where
  "ids_ok s \<longleftrightarrow> distinct (map g_id (t_gatherings s)) \<and> (\<forall>g \<in> set (t_gatherings s). g_id g < next_gathering_id s)"

definition within_capacity :: "gathering_row \<Rightarrow> bool" where
  "within_capacity g \<longleftrightarrow> g_max_participants g = 0 \<or> length (g_participants g) \<le> unat (g_max_participants g)"

definition gatherings_ok :: "mm_world \<Rightarrow> bool" where
  "gatherings_ok s \<longleftrightarrow> ids_ok s \<and> (\<forall>g \<in> set (t_gatherings s). within_capacity g)"

lemma gatherings_ok_tables: "on_tables gatherings_ok"
  by (auto simp: on_tables_def tables_def gatherings_ok_def ids_ok_def)

lemma map_id_update:
  "(\<And>g. g_id (f g) = g_id g) \<Longrightarrow> map g_id (t_gatherings (update_gathering gid f s)) = map g_id (t_gatherings s)"
  by (simp add: update_gathering_def)

lemma set_update_gathering:
  "g \<in> set (t_gatherings (update_gathering gid f s)) \<longleftrightarrow>
     (\<exists>h \<in> set (t_gatherings s). g = (if g_id h = unat gid then f h else h))"
  by (auto simp: update_gathering_def)

lemma next_update [simp]: "next_gathering_id (update_gathering gid f s) = next_gathering_id s"
  by (simp add: update_gathering_def)

lemma ids_ok_update:
  assumes "\<And>g. g_id (f g) = g_id g" and "ids_ok s"
  shows "ids_ok (update_gathering gid f s)"
proof -
  have "g_id (f g) < next_gathering_id s" if "g \<in> set (t_gatherings s)" for g
    using assms that by (simp add: ids_ok_def)
  with assms(2) show ?thesis
    unfolding ids_ok_def map_id_update [of f, OF assms(1)] by (auto simp: set_update_gathering)
qed

lemma gatherings_ok_update:
  assumes "\<And>g. g_id (f g) = g_id g" and "gatherings_ok s"
    and "\<And>g. g \<in> set (gathering_rows gid s) \<Longrightarrow> within_capacity (f g)"
  shows "gatherings_ok (update_gathering gid f s)"
  using assms ids_ok_update [of f s gid]
  by (auto simp: gatherings_ok_def set_update_gathering gathering_rows_def)

lemma row_unique:
  assumes "ids_ok s" and "g \<in> set (gathering_rows gid s)" and "h \<in> set (gathering_rows gid s)"
  shows "g = h"
  using assms by (auto simp: ids_ok_def gathering_rows_def distinct_map inj_on_def)

lemma room_bound:
  assumes "within_capacity row" and "n < 2 ^ 16" and "join_room row n" and "g_max_participants row \<noteq> 0"
  shows "length (g_participants row) + n \<le> unat (g_max_participants row)"
proof -
  have "unat (g_max_participants row) < 2 ^ 16" using unsigned_less [of "g_max_participants row"] by simp
  moreover have "length (g_participants row) \<le> unat (g_max_participants row)"
    using assms(1,4) by (simp add: within_capacity_def)
  ultimately have lt: "length (g_participants row) + n < 2 ^ 32" using assms(2) by simp
  have "(word_of_nat (length (g_participants row) + n) :: u32) \<le> ucast (g_max_participants row)"
    using assms(3,4) by (simp add: join_room_def)
  then have "unat (word_of_nat (length (g_participants row) + n) :: u32) \<le> unat (g_max_participants row)"
    by (metis unat_ucast_u16 word_le_nat_alt)
  moreover have "unat (word_of_nat (length (g_participants row) + n) :: u32) = length (g_participants row) + n"
    by (rule unat_of_nat_u32 [OF lt])
  ultimately show ?thesis by simp
qed

lemma with_room_bound:
  assumes "within_capacity row" and "n < 2 ^ 31" and "join_with_room row n" and "g_max_participants row \<noteq> 0"
  shows "length (g_participants row) + 1 + n \<le> unat (g_max_participants row)"
proof -
  have "unat (g_max_participants row) < 2 ^ 16" using unsigned_less [of "g_max_participants row"] by simp
  moreover have "length (g_participants row) \<le> unat (g_max_participants row)"
    using assms(1,4) by (simp add: within_capacity_def)
  ultimately have lt: "length (g_participants row) + 1 + n < 2 ^ 32" using assms(2) by simp
  have "unat (word_of_nat (length (g_participants row) + 1 + n) :: u32) \<le> unat (g_max_participants row)"
    using assms(3) unfolding join_with_room_def by (metis unat_ucast_u16 word_le_nat_alt)
  moreover have "unat (word_of_nat (length (g_participants row) + 1 + n) :: u32) = length (g_participants row) + 1 + n"
    by (rule unat_of_nat_u32 [OF lt])
  ultimately show ?thesis by simp
qed

lemma gatherings_ok_register:
  "gatherings_ok s \<Longrightarrow> g_id r = next_gathering_id s \<Longrightarrow> g_participants r = [] \<Longrightarrow>
   gatherings_ok (s\<lparr>t_gatherings := t_gatherings s @ [r], next_gathering_id := Suc (next_gathering_id s)\<rparr>)"
  by (auto simp: gatherings_ok_def ids_ok_def within_capacity_def)

lemma rows_capacity: "gatherings_ok s \<Longrightarrow> g \<in> set (gathering_rows gid s) \<Longrightarrow> within_capacity g"
  by (auto simp: gatherings_ok_def gathering_rows_def)

lemma gatherings_ok_join:
  assumes "gatherings_ok s" and "row \<in> set (gathering_rows gid s)"
    and "g_max_participants row \<noteq> 0 \<Longrightarrow> length (g_participants row) + length new \<le> unat (g_max_participants row)"
  shows "gatherings_ok (update_gathering gid (\<lambda>g. g\<lparr>g_participants := g_participants row @ new\<rparr>) s)"
proof (rule gatherings_ok_update [OF _ assms(1)])
  fix g assume "g \<in> set (gathering_rows gid s)"
  then have "g = row" using row_unique assms(1,2) unfolding gatherings_ok_def by blast
  then show "within_capacity (g\<lparr>g_participants := g_participants row @ new\<rparr>)"
    using assms(3) by (auto simp: within_capacity_def)
qed simp

lemma removeAll_shorter: "length (removeAll x xs) \<le> length xs"
  by (simp add: removeAll_filter_not_eq)

interpretation gok: gathering_store gatherings_ok
proof (unfold_locales, goal_cases)
  case 1
  show ?case by (rule gatherings_ok_tables)
next
  case (2 s r)
  then show ?case by (rule gatherings_ok_register)
next
  case (3 s gid)
  then show ?case by (auto intro!: gatherings_ok_update dest: rows_capacity simp: within_capacity_def)
next
  case (4 s gid a b)
  then show ?case by (auto intro!: gatherings_ok_update dest: rows_capacity simp: within_capacity_def)
next
  case (5 s gid p)
  show ?case
  proof (rule gatherings_ok_update [OF _ 5])
    fix g assume "g \<in> set (gathering_rows gid s)"
    then have "within_capacity g" by (rule rows_capacity [OF 5])
    then show "within_capacity (g\<lparr>g_participants := removeAll p (g_participants g)\<rparr>)"
      using le_trans [OF removeAll_shorter [of p "g_participants g"]] by (auto simp: within_capacity_def)
  qed simp
next
  case (6 s gid row new)
  then show ?case by (intro gatherings_ok_join room_bound rows_capacity)
next
  case (7 s gid row new n)
  have "length (g_participants row) + 1 + n \<le> unat (g_max_participants row)" if "g_max_participants row \<noteq> 0"
    by (rule with_room_bound [OF rows_capacity [OF 7(1,2)] 7(4,5) that])
  with 7 show ?case by (intro gatherings_ok_join) auto
qed

end
