(* ===== verification/Sql_Lists.thy ===== *)
theory Sql_Lists
  imports Nex_Prelude
begin

text \<open>
  The fragments of SQL that the queries of several components use, as functions on lists of
  rows: array access, \<open>ORDER BY\<close>, \<open>LIMIT\<close> and \<open>OFFSET\<close>.
\<close>

text \<open>
  \<open>xs[i]\<close> on an SQL array counts from one and is \<open>NULL\<close> outside; \<open>array_length\<close> is \<open>NULL\<close> for
  an empty array; \<open>ORDER BY\<close> sorts \<open>NULL\<close> last. \<open>NULL\<close> is \<open>None\<close>, and a comparison with it
  does not hold.
\<close>

definition sql_index :: "'a list \<Rightarrow> nat \<Rightarrow> 'a option" where
  "sql_index xs i = (if 1 \<le> i \<and> i \<le> length xs then Some (xs ! (i - 1)) else None)"

definition sql_array_length :: "'a list \<Rightarrow> int option" where
  "sql_array_length xs = (if xs = [] then None else Some (int (length xs)))"

definition sql_is :: "('a \<Rightarrow> bool) \<Rightarrow> 'a option \<Rightarrow> bool" where
  "sql_is P v = (case v of None \<Rightarrow> False | Some a \<Rightarrow> P a)"

definition order_by :: "('r \<Rightarrow> int option) \<Rightarrow> 'r list \<Rightarrow> 'r list" where
  "order_by k rows = sort_key (\<lambda>r. the (k r)) (filter (\<lambda>r. k r \<noteq> None) rows) @ filter (\<lambda>r. k r = None) rows"

definition limit_offset :: "u32 \<Rightarrow> u32 \<Rightarrow> 'r list \<Rightarrow> 'r list" where
  "limit_offset l off rows = (let n = int (length rows) in
     take (nat (min (uint l) n)) (drop (nat (min (uint off) n)) rows))"

lemma limit_offset_eq: "limit_offset l off rows = take (unat l) (drop (unat off) rows)"
proof -
  have u: "uint w = int (unat w)" for w :: u32 by simp
  have m: "nat (min (uint w) (int n)) = min (unat w) n" for w :: u32 and n
    unfolding u of_nat_min [symmetric] nat_int ..
  have d: "drop (min (unat off) (length rows)) rows = drop (unat off) rows" by (simp add: min_def)
  show ?thesis by (simp only: limit_offset_def Let_def m d) (simp add: min_def)
qed

lemma sql_is_simps [simp]: "sql_is P None \<longleftrightarrow> False" "sql_is P (Some a) \<longleftrightarrow> P a"
  by (simp_all add: sql_is_def)

lemma sql_is_length: "sql_is P (sql_array_length xs) \<longleftrightarrow> xs \<noteq> [] \<and> P (int (length xs))"
  by (simp add: sql_array_length_def)

lemma set_order_by [simp]: "set (order_by k rows) = set rows"
  by (auto simp: order_by_def)

lemma length_order_by [simp]: "length (order_by k rows) = length rows"
  by (induction rows) (auto simp: order_by_def)

lemma order_by_first:
  assumes "order_by k rows = r # rs" and "q \<in> set rows" and "k q = Some v"
  shows "\<exists>u. k r = Some u \<and> u \<le> v"
proof -
  let ?some = "filter (\<lambda>r. k r \<noteq> None) rows"
  have q: "q \<in> set (sort_key (\<lambda>r. the (k r)) ?some)" using assms(2,3) by simp
  then have "sort_key (\<lambda>r. the (k r)) ?some \<noteq> []" by (metis empty_iff empty_set)
  then obtain x xs where x: "sort_key (\<lambda>r. the (k r)) ?some = x # xs" by (meson list.exhaust)
  with assms(1) have r: "r = x" by (simp add: order_by_def)
  have "r \<in> set ?some" using x r by (metis list.set_intros(1) set_sort)
  then have "k r \<noteq> None" by simp
  moreover have "sorted (map (\<lambda>r. the (k r)) (x # xs))" using x sorted_sort_key by metis
  moreover have "q \<in> set (x # xs)" using q unfolding x .
  ultimately have "k r \<noteq> None" and "the (k x) \<le> the (k q)" by auto
  then show ?thesis using r assms(3) by auto
qed

end
