(* ===== verification/Matchmake_Session_Db.thy ===== *)
theory Matchmake_Session_Db
  imports Match_Making_Db Sql_Lists
begin

text \<open>
  The functions of \<open>matchmake-extension/database\<close> that read and write matchmake sessions, apart
  from the search by criteria: creating a session, the auto-matchmake search, the lookup by ID,
  the column updates, leaving all sessions, and the community bookkeeping around a join.
\<close>

definition joined :: "mm_world \<Rightarrow> (gathering_row \<times> session_row) list" where
  "joined s = [(g, ms). g \<leftarrow> t_gatherings s, ms \<leftarrow> t_sessions s, ms_id ms = g_id g]"

lemma set_joined: "(g, ms) \<in> set (joined s) \<longleftrightarrow>
    g \<in> set (t_gatherings s) \<and> ms \<in> set (t_sessions s) \<and> ms_id ms = g_id g"
  by (auto simp: joined_def)

text \<open>
  One result row, scanned into a \<open>MatchmakeSession\<close>. The participation count is
  \<open>array_length\<close>, so a gathering without participants gives \<open>NULL\<close> there. Numbers below the
  width of their Go variable are scanned unchanged. A scanned ID is below \<open>2 ^ 32\<close>: \<open>RegisterGathering\<close>
  fails for a larger one, before the row of the session that a scan joins with is inserted.
\<close>

definition fill_session :: "nexlib \<Rightarrow> gathering \<Rightarrow> u32 \<Rightarrow> u64 \<Rightarrow> session_row \<Rightarrow> matchmake_session" where
  "fill_session K g count started ms = \<lparr> ID = ID g, OwnerPID = OwnerPID g, HostPID = HostPID g,
     MinimumParticipants = MinimumParticipants g, MaximumParticipants = MaximumParticipants g,
     ParticipationPolicy = ParticipationPolicy g, PolicyArgument = PolicyArgument g, Flags = Flags g,
     GState = GState g, Description = Description g,
     GameMode = ms_game_mode ms, Attributes = ms_attribs ms,
     OpenParticipation = ms_open_participation ms, MatchmakeSystemType = ms_matchmake_system_type ms,
     ApplicationBuffer = ms_application_buffer ms, ParticipationCount = count,
     ProgressScore = ms_progress_score ms, SessionKey = ms_session_key ms, OptionZero = ms_option_zero ms,
     MatchmakeParam = MatchmakeParam_ExtractFrom K (ms_matchmake_param ms), StartedTime = started,
     UserPassword = ms_user_password ms, ReferGID = ms_refer_gid ms,
     UserPasswordEnabled = ms_user_password_enabled ms,
     SystemPasswordEnabled = ms_system_password_enabled ms, CodeWord = ms_codeword ms \<rparr>"

definition scan_session :: "nexlib \<Rightarrow> gathering_row \<times> session_row \<Rightarrow> matchmake_session option" where
  "scan_session K row = (case row of (g, ms) \<Rightarrow>
     (case (if g_participants g = [] then ScanNullUInt32 K
            else Some (word_of_nat (length (g_participants g)))) of
        None \<Rightarrow> None
      | Some count \<Rightarrow>
          Some (fill_session K (row_gathering g) count (DateTime_FromTimestamp K (g_started_time g)) ms)))"

section \<open>Creating a session\<close>

text \<open>\<open>rand.Read\<close> fills a buffer from the random source.\<close>

definition randRead :: "nat \<Rightarrow> bytes mm" where
  "randRead n = bindM (getM (\<lambda>s. map (\<lambda>i. w_random s (w_random_pos s + i)) [0..<n])) (\<lambda>bs.
     bindM (modM (\<lambda>s. s\<lparr>w_random_pos := w_random_pos s + n\<rparr>)) (\<lambda>_. retM bs))"

definition session_params :: "matchmake_param \<Rightarrow> matchmake_param" where
  "session_params p = p(''@SR'' \<mapsto> \<lparr>TypeID = 3, VariantType = RvBool True\<rparr>,
     ''@GIR'' \<mapsto> \<lparr>TypeID = 1, VariantType = RvInt64 3\<rparr>)"

definition new_session_row :: "nexlib \<Rightarrow> matchmake_session \<Rightarrow> session_row" where
  "new_session_row K m = \<lparr> ms_id = unat (ID m), ms_game_mode = GameMode m, ms_attribs = Attributes m,
     ms_open_participation = OpenParticipation m, ms_matchmake_system_type = MatchmakeSystemType m,
     ms_application_buffer = ApplicationBuffer m, ms_progress_score = ProgressScore m,
     ms_session_key = SessionKey m, ms_option_zero = OptionZero m,
     ms_matchmake_param = MatchmakeParam_WriteTo K (MatchmakeParam m),
     ms_user_password = UserPassword m, ms_refer_gid = ReferGID m,
     ms_user_password_enabled = UserPasswordEnabled m,
     ms_system_password_enabled = SystemPasswordEnabled m, ms_codeword = CodeWord m,
     ms_system_password = [] \<rparr>"

definition CreateMatchmakeSession :: "nexlib \<Rightarrow> connection \<Rightarrow> matchmake_session \<Rightarrow> matchmake_session mm" where
  "CreateMatchmakeSession K connection matchmakeSession =
    bindM (RegisterGathering K (conn_PID connection) (conn_PID connection) matchmakeSession
      ''MatchmakeSession'') (\<lambda>(registered, startedTime).
    bindM (randRead 32) (\<lambda>key.
    let created = registered\<lparr>MatchmakeParam := session_params (MatchmakeParam registered),
          StartedTime := startedTime, SessionKey := key, SystemPasswordEnabled := False\<rparr> in
    bindM (sql_insert (\<lambda>s. session_rows (ID created) s \<noteq> [])
      (\<lambda>s. s\<lparr>t_sessions := t_sessions s @ [new_session_row K created]\<rparr>)) (\<lambda>r.
    ok_or Core_Unknown r (\<lambda>_. retM created))))"

section \<open>Searching and looking up\<close>

definition session_matches :: "matchmake_session \<Rightarrow> u32 list \<Rightarrow> gathering_row \<times> session_row \<Rightarrow> bool" where
  "session_matches m friendList row = (case row of (g, ms) \<Rightarrow>
     g_registered g \<and> g_type g = ''MatchmakeSession'' \<and> g_host_pid g \<noteq> 0 \<and>
     ms_open_participation ms \<and>
     sql_is (\<lambda>n. n < uint (g_max_participants g)) (sql_array_length (g_participants g)) \<and>
     \<not> ms_user_password_enabled ms \<and> \<not> ms_system_password_enabled ms \<and>
     g_max_participants g = MaximumParticipants m \<and> g_min_participants g = MinimumParticipants m \<and>
     ms_game_mode ms = GameMode m \<and>
     sql_index (ms_attribs ms) 1 = Some (Attributes m ! 0) \<and>
     sql_index (ms_attribs ms) 3 = Some (Attributes m ! 2) \<and>
     sql_index (ms_attribs ms) 4 = Some (Attributes m ! 3) \<and>
     sql_index (ms_attribs ms) 5 = Some (Attributes m ! 4) \<and>
     sql_index (ms_attribs ms) 6 = Some (Attributes m ! 5) \<and>
     ms_matchmake_system_type ms = MatchmakeSystemType m \<and> ms_codeword ms = CodeWord m \<and>
     (if g_participation_policy g = 98 then g_owner_pid g \<in> ucast ` set friendList else True))"

definition attribute_distance :: "u32 \<Rightarrow> gathering_row \<times> session_row \<Rightarrow> int option" where
  "attribute_distance a row = map_option (\<lambda>v. \<bar>uint a - uint v\<bar>) (sql_index (ms_attribs (snd row)) 2)"

definition FindMatchmakeSession ::
  "nexlib \<Rightarrow> manager \<Rightarrow> connection \<Rightarrow> matchmake_session \<Rightarrow> matchmake_session option mm" where
  "FindMatchmakeSession K mgr connection searchSession =
    (let friendList = friends_of mgr (conn_PID connection) in
    if length (Attributes searchSession) < 6 then panicM
    else
      bindM (sql_query_row (\<lambda>s. order_by (attribute_distance (Attributes searchSession ! 1))
        (filter (session_matches searchSession friendList) (joined s)))) (\<lambda>r. case r of
        Inl ErrNoRows \<Rightarrow> retM None
      | Inl ErrDatabase \<Rightarrow> throwM Core_Unknown
      | Inr row \<Rightarrow>
          (case scan_session K row of None \<Rightarrow> throwM Core_Unknown | Some m \<Rightarrow> retM (Some m))))"

definition GetMatchmakeSessionByID :: "nexlib \<Rightarrow> u32 \<Rightarrow> (matchmake_session \<times> string) mm" where
  "GetMatchmakeSessionByID K gid =
    bindM (sql_query_row (\<lambda>s. filter (\<lambda>(g, ms). g_registered g \<and> g_type g = ''MatchmakeSession'' \<and>
      g_id g = unat gid) (joined s))) (\<lambda>r.
    row_or RendezVous_SessionVoid r (\<lambda>row.
    case scan_session K row of
      None \<Rightarrow> throwM Core_Unknown
    | Some m \<Rightarrow> retM (m, ms_system_password (snd row))))"

definition GetMatchmakeSessionByGathering :: "nexlib \<Rightarrow> gathering \<Rightarrow> u32 \<Rightarrow> u64 \<Rightarrow> matchmake_session mm" where
  "GetMatchmakeSessionByGathering K gathering participationCount startedTime =
    bindM (sql_query_row (session_rows (ID gathering))) (\<lambda>r.
    row_or RendezVous_SessionVoid r (\<lambda>ms.
    retM (fill_session K gathering participationCount startedTime ms)))"

definition GetSimplePlayingSession :: "nexlib \<Rightarrow> pid list \<Rightarrow> simple_playing_session list mm" where
  "GetSimplePlayingSession K listPID = collectM (\<lambda>p.
    bindM (sql_query_row (\<lambda>s. filter (\<lambda>(g, ms). g_registered g \<and> g_type g = ''MatchmakeSession'' \<and>
      p \<in> set (g_participants g)) (joined s))) (\<lambda>r. case r of
      Inl _ \<Rightarrow> retM None
    | Inr (g, ms) \<Rightarrow>
        retM (case (case sql_index (ms_attribs ms) 1 of None \<Rightarrow> ScanNullUInt32 K | Some v \<Rightarrow> Some v) of
            None \<Rightarrow> None
          | Some attribute0 \<Rightarrow> Some \<lparr> sps_PrincipalID = p, sps_GatheringID = word_of_nat (g_id g),
              sps_GameMode = ms_game_mode ms, sps_Attribute0 = attribute0 \<rparr>))) listPID"

section \<open>Column updates\<close>

definition session_exec :: "u32 \<Rightarrow> (session_row \<Rightarrow> session_row) \<Rightarrow> unit mm" where
  "session_exec gid f =
    bindM (sql_exec (\<lambda>s. length (session_rows gid s)) (update_session gid f)) (\<lambda>r.
    ok_or Core_Unknown r (\<lambda>rowsAffected.
    if rowsAffected = 0 then throwM RendezVous_SessionVoid else retM ()))"

definition UpdateApplicationBuffer :: "u32 \<Rightarrow> bytes \<Rightarrow> unit mm" where
  "UpdateApplicationBuffer gid applicationBuffer =
     session_exec gid (\<lambda>r. r\<lparr>ms_application_buffer := applicationBuffer\<rparr>)"

text \<open>
  \<open>attribs[attributeIndex + 1] = newValue\<close>. The only caller has checked the index against the
  length; PostgreSQL's extension of the array by assignments behind its end is not modelled.
\<close>

definition UpdateGameAttribute :: "u32 \<Rightarrow> u32 \<Rightarrow> u32 \<Rightarrow> unit mm" where
  "UpdateGameAttribute gid attributeIndex newValue =
     session_exec gid (\<lambda>r. r\<lparr>ms_attribs := (ms_attribs r)[unat (attributeIndex + 1) - 1 := newValue]\<rparr>)"

definition UpdateParticipation :: "u32 \<Rightarrow> bool \<Rightarrow> unit mm" where
  "UpdateParticipation gid participation =
     session_exec gid (\<lambda>r. r\<lparr>ms_open_participation := participation\<rparr>)"

definition UpdateProgressScore :: "u32 \<Rightarrow> u8 \<Rightarrow> unit mm" where
  "UpdateProgressScore gid progressScore =
     session_exec gid (\<lambda>r. r\<lparr>ms_progress_score := progressScore\<rparr>)"

section \<open>Leaving every session\<close>

text \<open>
  \<open>EndMatchmakeSessionsParticipation\<close> ignores the error of each single leave. Gatherings that
  are no longer registered are selected too; leaving them fails without effect. The row ID is
  scanned into a \<open>uint32\<close>.
\<close>

definition EndMatchmakeSessionsParticipation :: "nexlib \<Rightarrow> connection \<Rightarrow> unit mm" where
  "EndMatchmakeSessionsParticipation K connection =
    bindM (sql_query (\<lambda>s. map g_id (filter (\<lambda>g. g_type g = ''MatchmakeSession'' \<and>
      conn_PID connection \<in> set (g_participants g)) (t_gatherings s)))) (\<lambda>r. case r of
      Inl _ \<Rightarrow> retM ()
    | Inr gids \<Rightarrow> forM gids (\<lambda>n.
        if int n \<ge> 2 ^ 32 then retM ()
        else bindM (catchM (EndGatheringParticipation K (word_of_nat n) connection [])) (\<lambda>_. retM ())))"

definition CheckGatheringForParticipation :: "nexlib \<Rightarrow> u32 \<Rightarrow> pid list \<Rightarrow> unit mm" where
  "CheckGatheringForParticipation K gid participantsCheck =
    bindM (FindGatheringByID K gid) (\<lambda>(_, _, participants, _).
    if list_all (\<lambda>p. p \<in> set participants) participantsCheck then retM ()
    else throwM RendezVous_NotParticipatedGathering)"

section \<open>No lock, no panic\<close>

lemma lock_free_session_ops [lock_rules]:
  "lock_free (randRead n)"
  "lock_free (FindMatchmakeSession K mgr connection m)"
  "lock_free (GetMatchmakeSessionByID K gid)"
  "lock_free (GetMatchmakeSessionByGathering K g count t)"
  "lock_free (GetSimplePlayingSession K ps)"
  "lock_free (CheckGatheringForParticipation K gid ps)"
  unfolding randRead_def FindMatchmakeSession_def GetMatchmakeSessionByID_def
    GetMatchmakeSessionByGathering_def GetSimplePlayingSession_def CheckGatheringForParticipation_def
  by (intro lock_rules lock_free_mod, simp?)+

lemma lock_free_create [lock_rules]: "lock_free (CreateMatchmakeSession K connection m)"
  unfolding CreateMatchmakeSession_def by (intro lock_rules lock_free_insert) simp

lemma lock_free_session_exec [lock_rules]: "lock_free (session_exec gid f)"
  unfolding session_exec_def by (intro lock_rules lock_free_exec) simp

lemma lock_free_session_updates [lock_rules]:
  "lock_free (UpdateApplicationBuffer gid b)" "lock_free (UpdateGameAttribute gid i v)"
  "lock_free (UpdateParticipation gid p)" "lock_free (UpdateProgressScore gid n)"
  unfolding UpdateApplicationBuffer_def UpdateGameAttribute_def UpdateParticipation_def UpdateProgressScore_def
  by (intro lock_rules)+

lemma lock_free_end_sessions [lock_rules]: "lock_free (EndMatchmakeSessionsParticipation K connection)"
  unfolding EndMatchmakeSessionsParticipation_def by (intro lock_rules)

section \<open>Invariants of the session table\<close>

text \<open>
  A predicate that survives the writes of gatherings, the insertion of a session with six
  attributes for an existing gathering of the right type, and every change of a session row
  that leaves its key and its number of attributes alone.
\<close>

locale session_store = gathering_store +
  assumes add_session: "\<And>s gid g r. I s \<Longrightarrow> g \<in> set (gathering_rows gid s) \<Longrightarrow>
      g_type g = ''MatchmakeSession'' \<Longrightarrow> session_rows gid s = [] \<Longrightarrow> ms_id r = unat gid \<Longrightarrow>
      length (ms_attribs r) = 6 \<Longrightarrow> I (s\<lparr>t_sessions := t_sessions s @ [r]\<rparr>)"
    and change_session: "\<And>s gid f. I s \<Longrightarrow>
      (\<And>r. ms_id (f r) = ms_id r \<and> length (ms_attribs (f r)) = length (ms_attribs r)) \<Longrightarrow>
      I (update_session gid f s)"
begin

lemma keeps_randRead [keeps_rules]:
  assumes "on_tables J"
  shows "keeps J (randRead n)"
  unfolding randRead_def by (intro keeps_rules keeps_tables_mod [OF assms]) simp

lemma ends_store_session:
  fixes reg :: matchmake_session
  assumes six: "length (Attributes reg) = 6"
  shows "ends (\<lambda>s. I s \<and> (\<exists>g \<in> set (gathering_rows (ID reg) s). g_type g = ''MatchmakeSession''))
    (bindM (randRead 32) (\<lambda>key.
      let created = reg\<lparr>MatchmakeParam := session_params (MatchmakeParam reg),
            StartedTime := t, SessionKey := key, SystemPasswordEnabled := False\<rparr> in
      bindM (sql_insert (\<lambda>s. session_rows (ID created) s \<noteq> [])
        (\<lambda>s. s\<lparr>t_sessions := t_sessions s @ [new_session_row K created]\<rparr>)) (\<lambda>r.
      ok_or Core_Unknown r (\<lambda>_. retM created)))) I" (is "ends ?Q _ I")
  unfolding Let_def
proof (rule ends_bind, rule keeps_randRead)
  show Q: "on_tables ?Q" by (intro on_tables_conj tables_only on_tables_rows)
  show "I s" if "?Q s" for s using that by simp
  fix key
  let ?created = "reg\<lparr>MatchmakeParam := session_params (MatchmakeParam reg),
            StartedTime := t, SessionKey := key, SystemPasswordEnabled := False\<rparr>"
  show "ends ?Q (bindM (sql_insert (\<lambda>s. session_rows (ID ?created) s \<noteq> [])
        (\<lambda>s. s\<lparr>t_sessions := t_sessions s @ [new_session_row K ?created]\<rparr>)) (\<lambda>r.
      ok_or Core_Unknown r (\<lambda>_. retM ?created))) I"
  proof (rule ends_insert [OF tables_only])
    show "I s" if "?Q s" for s using that by simp
    show "?Q (s\<lparr>db_faults := bs\<rparr>)" if "?Q s" for s bs by (rule on_tables_upd(1) [OF Q that])
    show "keeps I (ok_or Core_Unknown r (\<lambda>_. retM ?created))" for r by (intro keeps_rules)
    fix s assume s: "?Q s" "\<not> session_rows (ID ?created) s \<noteq> []"
    then obtain g where "g \<in> set (gathering_rows (ID reg) s)" "g_type g = ''MatchmakeSession''" by blast
    with s six show "I (s\<lparr>t_sessions := t_sessions s @ [new_session_row K ?created]\<rparr>)"
      by (intro add_session [of s g "ID reg"]) (simp_all add: new_session_row_def)
  qed
qed

lemma keeps_Create:
  assumes "length (Attributes m) = 6"
  shows "keeps I (CreateMatchmakeSession K connection m)"
  unfolding CreateMatchmakeSession_def
proof (rule keeps_bind_gives [OF keeps_Register Register_gives [OF keeps_Register]], goal_cases)
  case (1 a)
  obtain reg t where a: "a = (reg, t)" by (cases a)
  have "length (Attributes reg) = 6"
    if "reg = m\<lparr>ID := ID reg, OwnerPID := conn_PID connection, HostPID := conn_PID connection\<rparr>"
    by (subst that) (simp add: assms)
  then show ?case
    unfolding a prod.case by (rule ends_const [OF ends_store_session])
qed

lemma keeps_session_reads [keeps_rules]:
  "keeps I (FindMatchmakeSession K mgr connection m)"
  "keeps I (GetMatchmakeSessionByID K gid)"
  "keeps I (GetMatchmakeSessionByGathering K g count t)"
  "keeps I (GetSimplePlayingSession K ps)"
  "keeps I (CheckGatheringForParticipation K gid ps)"
  unfolding FindMatchmakeSession_def GetMatchmakeSessionByID_def
    GetMatchmakeSessionByGathering_def GetSimplePlayingSession_def CheckGatheringForParticipation_def
  by (intro keeps_rules tables_only)+

lemma keeps_session_exec:
  "(\<And>r. ms_id (f r) = ms_id r \<and> length (ms_attribs (f r)) = length (ms_attribs r)) \<Longrightarrow> keeps I (session_exec gid f)"
  unfolding session_exec_def by (intro keeps_rules exec_rule change_session) auto

lemma keeps_session_updates [keeps_rules]:
  "keeps I (UpdateApplicationBuffer gid b)" "keeps I (UpdateGameAttribute gid i v)"
  "keeps I (UpdateParticipation gid p)" "keeps I (UpdateProgressScore gid n)"
  unfolding UpdateApplicationBuffer_def UpdateGameAttribute_def UpdateParticipation_def UpdateProgressScore_def
  by (rule keeps_session_exec, simp)+

lemma keeps_end_sessions [keeps_rules]: "keeps I (EndMatchmakeSessionsParticipation K connection)"
  unfolding EndMatchmakeSessionsParticipation_def by (intro keeps_rules tables_only)

end

text \<open>
  The concrete invariant of the session table: one row per gathering, six attributes in each,
  and a gathering of type \<open>MatchmakeSession\<close> behind each.
\<close>

definition sessions_ok :: "mm_world \<Rightarrow> bool" where
  "sessions_ok s \<longleftrightarrow> distinct (map ms_id (t_sessions s)) \<and>
     (\<forall>r \<in> set (t_sessions s). length (ms_attribs r) = 6 \<and>
        (\<exists>g \<in> set (t_gatherings s). g_id g = ms_id r \<and> g_type g = ''MatchmakeSession''))"

lemma sessions_ok_tables: "on_tables sessions_ok"
  by (auto simp: on_tables_def tables_def sessions_ok_def)

lemma t_sessions_update [simp]:
  "t_sessions (update_gathering gid f s) = t_sessions s"
  "t_gatherings (update_session gid h s) = t_gatherings s"
  "next_gathering_id (update_session gid h s) = next_gathering_id s"
  by (simp_all add: update_gathering_def update_session_def)

lemma sessions_ok_update_gathering:
  assumes "\<And>g. g_id (f g) = g_id g \<and> g_type (f g) = g_type g" and "sessions_ok s"
  shows "sessions_ok (update_gathering gid f s)"
proof -
  have "\<exists>g' \<in> set (t_gatherings (update_gathering gid f s)). g_id g' = g_id g \<and> g_type g' = g_type g"
    if "g \<in> set (t_gatherings s)" for g
  proof (rule bexI)
    show "(if g_id g = unat gid then f g else g) \<in> set (t_gatherings (update_gathering gid f s))"
      using that unfolding set_update_gathering by blast
  qed (use assms(1) in simp)
  with assms(2) show ?thesis
    unfolding sessions_ok_def t_sessions_update by (metis (no_types, lifting))
qed

lemma sessions_ok_append_gathering:
  "sessions_ok s \<Longrightarrow> sessions_ok (s\<lparr>t_gatherings := t_gatherings s @ [r], next_gathering_id := n\<rparr>)"
  by (fastforce simp: sessions_ok_def)

lemma t_sessions_change:
  "t_sessions (update_session gid f s) = map (\<lambda>r. if ms_id r = unat gid then f r else r) (t_sessions s)"
  by (simp add: update_session_def)

lemma sessions_ok_change:
  assumes f: "\<And>r. ms_id (f r) = ms_id r \<and> length (ms_attribs (f r)) = length (ms_attribs r)" and "sessions_ok s"
  shows "sessions_ok (update_session gid f s)"
proof -
  let ?h = "\<lambda>r. if ms_id r = unat gid then f r else r"
  have ids: "ms_id (?h r) = ms_id r" and len: "length (ms_attribs (?h r)) = length (ms_attribs r)" for r
    using f by simp_all
  have keys: "map ms_id (map ?h (t_sessions s)) = map ms_id (t_sessions s)"
    by (simp only: map_map comp_def ids)
  show ?thesis
    unfolding sessions_ok_def
  proof (intro conjI)
    show "distinct (map ms_id (t_sessions (update_session gid f s)))"
      using assms(2) keys by (simp add: update_session_def sessions_ok_def del: map_map)
    have "length (ms_attribs (?h r)) = 6 \<and> (\<exists>g \<in> set (t_gatherings s). g_id g = ms_id (?h r) \<and> g_type g = ''MatchmakeSession'')"
      if "r \<in> set (t_sessions s)" for r
      unfolding ids len using assms(2) that by (simp add: sessions_ok_def)
    then show "\<forall>r \<in> set (t_sessions (update_session gid f s)). length (ms_attribs r) = 6 \<and>
        (\<exists>g \<in> set (t_gatherings (update_session gid f s)). g_id g = ms_id r \<and> g_type g = ''MatchmakeSession'')"
      unfolding t_sessions_update t_sessions_change set_map by blast
  qed
qed

lemma sessions_ok_add:
  assumes "sessions_ok s" and "g \<in> set (gathering_rows gid s)" and "g_type g = ''MatchmakeSession''"
    and "session_rows gid s = []" and "ms_id r = unat gid" and "length (ms_attribs r) = 6"
  shows "sessions_ok (s\<lparr>t_sessions := t_sessions s @ [r]\<rparr>)"
  using assms by (auto simp: sessions_ok_def session_rows_def gathering_rows_def filter_empty_conv)

lemma gatherings_ok_sessions [simp]:
  "gatherings_ok (s\<lparr>t_sessions := x\<rparr>) = gatherings_ok s"
  "gatherings_ok (update_session gid f s) = gatherings_ok s"
  by (simp_all add: gatherings_ok_def ids_ok_def update_session_def)

interpretation sok: session_store "\<lambda>s. gatherings_ok s \<and> sessions_ok s"
proof (unfold_locales, goal_cases)
  case 1
  show ?case by (intro on_tables_conj gatherings_ok_tables sessions_ok_tables)
next
  case (2 s r)
  then show ?case by (simp add: gok.register sessions_ok_append_gathering)
next
  case (3 s gid)
  then show ?case by (simp add: gok.unregister sessions_ok_update_gathering)
next
  case (4 s gid a b)
  then show ?case by (simp add: gok.set_host sessions_ok_update_gathering)
next
  case (5 s gid p)
  then show ?case by (simp add: gok.leave sessions_ok_update_gathering)
next
  case (6 s gid row new)
  then show ?case by (simp add: gok.join sessions_ok_update_gathering)
next
  case (7 s gid row new n)
  then show ?case using gok.join_with [of s row gid new n] by (simp add: sessions_ok_update_gathering)
next
  case (8 s gid g r)
  then show ?case by (simp add: sessions_ok_add)
next
  case (9 s gid f)
  then show ?case by (simp add: sessions_ok_change)
qed

end
