(* ===== verification/Community_Db.thy ===== *)
theory Community_Db
  imports Matchmake_Session_Db
begin

text \<open>
  The functions of \<open>matchmake-extension/database\<close> on persistent gatherings (communities), on
  participation counts and on stored notifications, the two join functions that do community
  bookkeeping, and the detailed lookup that the extension installs in the manager.
\<close>

section \<open>Persistent gatherings\<close>

definition new_persistent_row :: "nexlib \<Rightarrow> persistent_gathering \<Rightarrow> persistent_row" where
  "new_persistent_row K p = \<lparr> pg_id = unat (ID p), pg_community_type = CommunityType p,
     pg_password = PgPassword p, pg_attribs = PgAttribs p, pg_application_buffer = PgApplicationBuffer p,
     pg_participation_start_date = DateTime_Standard K (ParticipationStartDate p),
     pg_participation_end_date = DateTime_Standard K (ParticipationEndDate p) \<rparr>"

definition persistent_rows :: "u32 \<Rightarrow> mm_world \<Rightarrow> persistent_row list" where
  "persistent_rows gid s = filter (\<lambda>r. pg_id r = unat gid) (t_persistent s)"

definition CreatePersistentGathering ::
  "nexlib \<Rightarrow> connection \<Rightarrow> persistent_gathering \<Rightarrow> persistent_gathering mm" where
  "CreatePersistentGathering K connection persistentGathering =
    bindM (RegisterGathering K (conn_PID connection) 0 persistentGathering ''PersistentGathering'')
      (\<lambda>(registered, _).
    bindM (sql_insert (\<lambda>s. persistent_rows (ID registered) s \<noteq> [])
      (\<lambda>s. s\<lparr>t_persistent := t_persistent s @ [new_persistent_row K registered]\<rparr>)) (\<lambda>r.
    ok_or Core_Unknown r (\<lambda>_. retM registered)))"

definition joined_persistent :: "mm_world \<Rightarrow> (gathering_row \<times> persistent_row) list" where
  "joined_persistent s = [(g, p). g \<leftarrow> t_gatherings s, p \<leftarrow> t_persistent s, g_id g = pg_id p]"

definition GetCreatedPersistentGatherings :: "pid \<Rightarrow> nat mm" where
  "GetCreatedPersistentGatherings ownerPID =
    bindM (sql_query_row (\<lambda>s. [length (filter (\<lambda>(g, p). g_registered g \<and> g_owner_pid g = ownerPID)
      (joined_persistent s))])) (\<lambda>r. ok_or Core_Unknown r retM)"

text \<open>
  The two subqueries: the sessions attached to a community (system type 5 and the community's ID
  in the first attribute), and how often the asking user has participated in it.
\<close>

definition matchmake_session_count :: "nat \<Rightarrow> mm_world \<Rightarrow> nat" where
  "matchmake_session_count gid s = length (filter (\<lambda>(g, ms). g_registered g \<and>
     ms_matchmake_system_type ms = 5 \<and> sql_is (\<lambda>a. unat a = gid) (sql_index (ms_attribs ms) 1)) (joined s))"

definition participation_rows :: "pid \<Rightarrow> nat \<Rightarrow> mm_world \<Rightarrow> participation_row list" where
  "participation_rows p gid s = filter (\<lambda>c. cp_user_pid c = p \<and> unat (cp_gathering_id c) = gid) (t_participations s)"

definition participation_count :: "pid \<Rightarrow> nat \<Rightarrow> mm_world \<Rightarrow> nat" where
  "participation_count p gid s =
     (case participation_rows p gid s of [] \<Rightarrow> 0 | c # _ \<Rightarrow> cp_participation_count c)"

text \<open>One result row; its ID is below \<open>2 ^ 32\<close> as it is for sessions.\<close>

definition scan_persistent ::
  "nexlib \<Rightarrow> pid \<Rightarrow> mm_world \<Rightarrow> gathering_row \<times> persistent_row \<Rightarrow> persistent_gathering" where
  "scan_persistent K sourcePID s row = (case row of (g, p) \<Rightarrow> \<lparr> ID = word_of_nat (g_id g),
     OwnerPID = g_owner_pid g, HostPID = g_host_pid g, MinimumParticipants = g_min_participants g,
     MaximumParticipants = g_max_participants g, ParticipationPolicy = g_participation_policy g,
     PolicyArgument = g_policy_argument g, Flags = g_flags g, GState = g_state g,
     Description = g_description g, CommunityType = pg_community_type p, PgPassword = pg_password p,
     PgAttribs = pg_attribs p, PgApplicationBuffer = pg_application_buffer p,
     ParticipationStartDate = DateTime_FromTimestamp K (pg_participation_start_date p),
     ParticipationEndDate = DateTime_FromTimestamp K (pg_participation_end_date p),
     MatchmakeSessionCount = word_of_nat (matchmake_session_count (g_id g) s),
     PgParticipationCount = word_of_nat (participation_count sourcePID (g_id g) s) \<rparr>)"

definition is_community :: "gathering_row \<Rightarrow> bool" where
  "is_community g \<longleftrightarrow> g_registered g \<and> g_type g = ''PersistentGathering''"

text \<open>\<open>match_making_types.NewPersistentGathering()\<close>: every field zero.\<close>

definition NewPersistentGathering :: persistent_gathering where
  "NewPersistentGathering = \<lparr> ID = 0, OwnerPID = 0, HostPID = 0, MinimumParticipants = 0,
     MaximumParticipants = 0, ParticipationPolicy = 0, PolicyArgument = 0, Flags = 0, GState = 0,
     Description = [], CommunityType = 0, PgPassword = [], PgAttribs = [], PgApplicationBuffer = [],
     ParticipationStartDate = 0, ParticipationEndDate = 0, MatchmakeSessionCount = 0,
     PgParticipationCount = 0 \<rparr>"

text \<open>
  \<open>GetPersistentGatheringByID\<close> answers every error, a missing row included, with a zero value
  and no error.
\<close>

definition GetPersistentGatheringByID :: "nexlib \<Rightarrow> pid \<Rightarrow> u32 \<Rightarrow> persistent_gathering mm" where
  "GetPersistentGatheringByID K sourcePID gid =
    bindM (sql_query_row (\<lambda>s. map (scan_persistent K sourcePID s)
      (filter (\<lambda>(g, p). is_community g \<and> g_id g = unat gid) (joined_persistent s)))) (\<lambda>r. case r of
      Inl _ \<Rightarrow> retM NewPersistentGathering
    | Inr p \<Rightarrow> retM p)"

definition GetPersistentGatheringsByID :: "nexlib \<Rightarrow> pid \<Rightarrow> u32 list \<Rightarrow> persistent_gathering list mm" where
  "GetPersistentGatheringsByID K sourcePID gatheringIDs =
    bindM (sql_query (\<lambda>s. map (scan_persistent K sourcePID s)
      (filter (\<lambda>(g, p). is_community g \<and> g_id g \<in> unat ` set gatheringIDs) (joined_persistent s)))) (\<lambda>r.
    ok_or Core_Unknown r retM)"

definition GetPersistentGatheringsByParticipant ::
  "nexlib \<Rightarrow> pid \<Rightarrow> pid \<Rightarrow> result_range \<Rightarrow> persistent_gathering list mm" where
  "GetPersistentGatheringsByParticipant K sourcePID participant resultRange =
    bindM (sql_query (\<lambda>s. limit_offset (RangeLength resultRange) (RangeOffset resultRange)
      (map (scan_persistent K sourcePID s)
        (filter (\<lambda>(g, p). is_community g \<and> participant \<in> set (g_participants g)) (joined_persistent s))))) (\<lambda>r.
    ok_or Core_Unknown r retM)"

definition official_available :: "nexlib \<Rightarrow> int \<Rightarrow> persistent_row \<Rightarrow> bool" where
  "official_available K now p =
    (let timeNever = DateTime_Standard K 0 in
     (if pg_participation_start_date p \<noteq> timeNever then now \<ge> pg_participation_start_date p else True) \<and>
     (if pg_participation_end_date p \<noteq> timeNever then now \<le> pg_participation_end_date p else True))"

definition GetOfficialCommunities ::
  "nexlib \<Rightarrow> pid \<Rightarrow> bool \<Rightarrow> result_range \<Rightarrow> persistent_gathering list mm" where
  "GetOfficialCommunities K sourcePID isAvailableOnly resultRange =
    bindM (getM w_now) (\<lambda>currentTime.
    bindM (sql_query (\<lambda>s. limit_offset (RangeLength resultRange) (RangeOffset resultRange)
      (map (scan_persistent K sourcePID s)
        (filter (\<lambda>(g, p). is_community g \<and> pg_community_type p = 2 \<and>
           (if isAvailableOnly then official_available K currentTime p else True)) (joined_persistent s))))) (\<lambda>r.
    ok_or Core_Unknown r retM))"

text \<open>
  The subqueries of \<open>GetPersistentGatheringByGathering\<close> mention \<open>g.id\<close>, but its \<open>FROM\<close> clause
  has no table \<open>g\<close>: PostgreSQL refuses the statement whenever it is sent.
\<close>

definition GetPersistentGatheringByGathering ::
  "nexlib \<Rightarrow> gathering \<Rightarrow> pid \<Rightarrow> persistent_gathering mm" where
  "GetPersistentGatheringByGathering K gathering sourcePID =
    bindM (sql_query (\<lambda>_. [])) (\<lambda>_ :: sql_error + unit list. throwM Core_Unknown)"

definition GetSimpleCommunities :: "u32 list \<Rightarrow> simple_community list mm" where
  "GetSimpleCommunities gatheringIDList =
    bindM (sql_query (\<lambda>s. map (\<lambda>(g, p). \<lparr> com_GatheringID = word_of_nat (pg_id p),
        com_MatchmakeSessionCount = word_of_nat (matchmake_session_count (g_id g) s) \<rparr>)
      (filter (\<lambda>(g, p). is_community g \<and> pg_id p \<in> unat ` set gatheringIDList) (joined_persistent s)))) (\<lambda>r.
    ok_or Core_Unknown r retM)"

section \<open>Participation counts and stored notifications\<close>

definition participation_key :: "participation_row \<Rightarrow> pid \<times> u32" where
  "participation_key c = (cp_user_pid c, cp_gathering_id c)"

definition upsert_participation :: "pid \<Rightarrow> u32 \<Rightarrow> participation_row list \<Rightarrow> participation_row list" where
  "upsert_participation p gid = upsert participation_key
     (\<lambda>c. c\<lparr>cp_participation_count := cp_participation_count c + 1\<rparr>)
     \<lparr> cp_user_pid = p, cp_gathering_id = gid, cp_participation_count = 1 \<rparr>"

text \<open>The new count is returned into a \<open>uint32\<close>; \<open>database/sql\<close> refuses larger values.\<close>

definition UpdatePersistentGatheringParticipationCount :: "pid \<Rightarrow> u32 \<Rightarrow> u32 mm" where
  "UpdatePersistentGatheringParticipationCount userPID gid =
    bindM (sql_returning
      (\<lambda>s. map cp_participation_count (filter (\<lambda>c. participation_key c = (userPID, gid))
        (upsert_participation userPID gid (t_participations s))))
      (\<lambda>s. s\<lparr>t_participations := upsert_participation userPID gid (t_participations s)\<rparr>)) (\<lambda>r.
    ok_or Core_Unknown r (\<lambda>n. if int n \<ge> 2 ^ 32 then throwM Core_Unknown else retM (word_of_nat n)))"

definition notification_key :: "notification_row \<Rightarrow> pid \<times> u32" where
  "notification_key n = (n_source_pid n, n_type n)"

definition upsert_notification :: "notification_event \<Rightarrow> notification_row list \<Rightarrow> notification_row list" where
  "upsert_notification d = upsert notification_key
     (\<lambda>n. n\<lparr>n_param_1 := Param1 d, n_param_2 := Param2 d, n_param_str := StrParam d, n_active := True\<rparr>)
     \<lparr> n_source_pid = PIDSource d, n_type = NType d, n_param_1 = Param1 d, n_param_2 = Param2 d,
       n_param_str = StrParam d, n_active = True \<rparr>"

definition UpdateNotificationData :: "notification_event \<Rightarrow> unit mm" where
  "UpdateNotificationData notificationData =
    bindM (sql_exec (\<lambda>_. 1)
      (\<lambda>s. s\<lparr>t_notifications := upsert_notification notificationData (t_notifications s)\<rparr>)) (\<lambda>r.
    ok_or Core_Unknown r (\<lambda>_. retM ()))"

definition InactivateNotificationDatas :: "pid \<Rightarrow> unit mm" where
  "InactivateNotificationDatas sourcePID =
    bindM (sql_exec (\<lambda>s. length (filter (\<lambda>n. n_source_pid n = sourcePID) (t_notifications s)))
      (\<lambda>s. s\<lparr>t_notifications := map (\<lambda>n. if n_source_pid n = sourcePID then n\<lparr>n_active := False\<rparr> else n)
         (t_notifications s)\<rparr>)) (\<lambda>r.
    ok_or Core_Unknown r (\<lambda>_. retM ()))"

definition GetNotificationDatas :: "manager \<Rightarrow> pid \<Rightarrow> u32 list \<Rightarrow> notification_event list mm" where
  "GetNotificationDatas mgr sourcePID notificationTypes =
    (let friendList = friends_of mgr sourcePID in
    if friendList = [] then retM []
    else
      bindM (sql_query (\<lambda>s. map (\<lambda>n. \<lparr> PIDSource = n_source_pid n, NType = n_type n, Param1 = n_param_1 n,
          Param2 = n_param_2 n, StrParam = n_param_str n, Param3 = 0 \<rparr>)
        (filter (\<lambda>n. n_active n \<and> n_source_pid n \<in> ucast ` set friendList \<and>
           n_type n \<in> set notificationTypes) (t_notifications s)))) (\<lambda>r.
      ok_or Core_Unknown r retM))"

interpretation participations: upsert_table participation_key
    "\<lambda>c. c\<lparr>cp_participation_count := cp_participation_count c + 1\<rparr>"
    "\<lparr> cp_user_pid = p, cp_gathering_id = gid, cp_participation_count = 1 \<rparr>" for p gid
  by unfold_locales (simp_all add: participation_key_def)

interpretation notifications: upsert_table notification_key
    "\<lambda>n. n\<lparr>n_param_1 := Param1 d, n_param_2 := Param2 d, n_param_str := StrParam d, n_active := True\<rparr>"
    "\<lparr> n_source_pid = PIDSource d, n_type = NType d, n_param_1 = Param1 d, n_param_2 = Param2 d,
       n_param_str = StrParam d, n_active = True \<rparr>" for d
  by unfold_locales (simp_all add: notification_key_def)

lemma distinct_upserts:
  "distinct (map participation_key cs) \<Longrightarrow> distinct (map participation_key (upsert_participation p gid cs))"
  "distinct (map notification_key ns) \<Longrightarrow> distinct (map notification_key (upsert_notification d ns))"
  unfolding upsert_participation_def upsert_notification_def
  by (erule participations.distinct_upsert notifications.distinct_upsert)+

section \<open>Joining a session, with the community's count\<close>

text \<open>
  \<open>Attributes[0]\<close> panics on a session without attributes. What fails after the join itself is
  only logged.
\<close>

definition participate :: "nexlib \<Rightarrow> matchmake_session \<Rightarrow> u32 \<Rightarrow> pid \<Rightarrow> unit mm" where
  "participate K m persistentGatheringID participant =
    bindM (catchM (
      bindM (GetPersistentGatheringByID K participant persistentGatheringID) (\<lambda>_.
      bindM (UpdatePersistentGatheringParticipationCount participant persistentGatheringID) (\<lambda>n.
      LogParticipateCommunity participant persistentGatheringID (ID m) n)))) (\<lambda>_. retM ())"

definition JoinMatchmakeSession ::
  "nexlib \<Rightarrow> matchmake_session \<Rightarrow> connection \<Rightarrow> u16 \<Rightarrow> string \<Rightarrow> u32 mm" where
  "JoinMatchmakeSession K m connection vacantParticipants joinMessage =
    bindM (JoinGathering K (ID m) connection vacantParticipants joinMessage) (\<lambda>newParticipants.
    if MatchmakeSystemType m = MatchmakeSystemTypePersistentGathering K then
      (case Attributes m of
        [] \<Rightarrow> panicM
      | persistentGatheringID # _ \<Rightarrow>
          bindM (participate K m persistentGatheringID (conn_PID connection)) (\<lambda>_. retM newParticipants))
    else retM newParticipants)"

definition JoinMatchmakeSessionWithParticipants ::
  "nexlib \<Rightarrow> matchmake_session \<Rightarrow> connection \<Rightarrow> pid list \<Rightarrow> string \<Rightarrow> u8 \<Rightarrow> u32 mm" where
  "JoinMatchmakeSessionWithParticipants K m connection additionalParticipants joinMessage joinBehavior =
    bindM (JoinGatheringWithParticipants K (ID m) connection additionalParticipants joinMessage joinBehavior)
      (\<lambda>newParticipants.
    if MatchmakeSystemType m = MatchmakeSystemTypePersistentGathering K then
      (case Attributes m of
        [] \<Rightarrow> panicM
      | persistentGatheringID # _ \<Rightarrow>
          bindM (forM (additionalParticipants @ [conn_PID connection])
            (participate K m persistentGatheringID)) (\<lambda>_. retM newParticipants))
    else retM newParticipants)"

section \<open>The manager's detailed lookup\<close>

definition GetDetailedGatheringByID :: "nexlib \<Rightarrow> pid \<Rightarrow> u32 \<Rightarrow> (gathering_object \<times> string) mm" where
  "GetDetailedGatheringByID K sourcePID gid =
    bindM (FindGatheringByID K gid) (\<lambda>(gathering, gatheringType, participants, startedTime).
    if gatheringType = ''Gathering'' then retM (HeldGathering gathering, gatheringType)
    else if gatheringType = ''MatchmakeSession'' then
      bindM (GetMatchmakeSessionByGathering K gathering (word_of_nat (length participants)) startedTime) (\<lambda>m.
      retM (HeldMatchmakeSession (m\<lparr>SessionKey := [], UserPassword := []\<rparr>), gatheringType))
    else if gatheringType = ''PersistentGathering'' then
      bindM (GetPersistentGatheringByGathering K gathering sourcePID) (\<lambda>p.
      retM (HeldPersistentGathering (p\<lparr>PgPassword := []\<rparr>), gatheringType))
    else throwM Core_Exception)"

section \<open>No lock\<close>

lemma lock_free_community_ops [lock_rules]:
  "lock_free (GetCreatedPersistentGatherings p)"
  "lock_free (GetPersistentGatheringByID K p gid)"
  "lock_free (GetPersistentGatheringsByID K p gids)"
  "lock_free (GetPersistentGatheringsByParticipant K p q rr)"
  "lock_free (GetOfficialCommunities K p b rr)"
  "lock_free (GetPersistentGatheringByGathering K g p)"
  "lock_free (GetSimpleCommunities gids)"
  "lock_free (GetNotificationDatas mgr p ts)"
  unfolding GetCreatedPersistentGatherings_def GetPersistentGatheringByID_def
    GetPersistentGatheringsByID_def GetPersistentGatheringsByParticipant_def GetOfficialCommunities_def
    GetPersistentGatheringByGathering_def GetSimpleCommunities_def GetNotificationDatas_def
  by (intro lock_rules)+

lemma lock_free_community_writes [lock_rules]:
  "lock_free (CreatePersistentGathering K connection g)"
  "lock_free (UpdatePersistentGatheringParticipationCount p gid)"
  "lock_free (UpdateNotificationData d)"
  "lock_free (InactivateNotificationDatas p)"
  unfolding CreatePersistentGathering_def UpdatePersistentGatheringParticipationCount_def
    UpdateNotificationData_def InactivateNotificationDatas_def
  by (intro lock_rules lock_free_insert lock_free_returning lock_free_exec, simp)+

lemma lock_free_participate [lock_rules]: "lock_free (participate K m g p)"
  unfolding participate_def by (intro lock_rules)

lemma lock_free_join_session [lock_rules]:
  "lock_free (JoinMatchmakeSession K m connection n message)"
  "lock_free (JoinMatchmakeSessionWithParticipants K m connection ps message b)"
  unfolding JoinMatchmakeSession_def JoinMatchmakeSessionWithParticipants_def by (intro lock_rules)+

lemma lock_free_detailed [lock_rules]: "lock_free (GetDetailedGatheringByID K p gid)"
  unfolding GetDetailedGatheringByID_def by (intro lock_rules)

section \<open>Invariants of all tables\<close>

locale mm_store = session_store +
  assumes add_community: "\<And>s gid g r. I s \<Longrightarrow> g \<in> set (gathering_rows gid s) \<Longrightarrow>
      g_type g = ''PersistentGathering'' \<Longrightarrow> persistent_rows gid s = [] \<Longrightarrow> pg_id r = unat gid \<Longrightarrow>
      length (pg_attribs r) = 6 \<Longrightarrow> I (s\<lparr>t_persistent := t_persistent s @ [r]\<rparr>)"
    and add_participation: "\<And>s p gid. I s \<Longrightarrow>
      I (s\<lparr>t_participations := upsert_participation p gid (t_participations s)\<rparr>)"
    and add_notification: "\<And>s d. I s \<Longrightarrow>
      I (s\<lparr>t_notifications := upsert_notification d (t_notifications s)\<rparr>)"
    and change_notifications: "\<And>s f. I s \<Longrightarrow> (\<And>n. notification_key (f n) = notification_key n) \<Longrightarrow>
      I (s\<lparr>t_notifications := map f (t_notifications s)\<rparr>)"
begin

lemma keeps_community_reads [keeps_rules]:
  "keeps I (GetCreatedPersistentGatherings p)"
  "keeps I (GetPersistentGatheringByID K p gid)"
  "keeps I (GetPersistentGatheringsByID K p gids)"
  "keeps I (GetPersistentGatheringsByParticipant K p q rr)"
  "keeps I (GetOfficialCommunities K p b rr)"
  "keeps I (GetPersistentGatheringByGathering K g p)"
  "keeps I (GetSimpleCommunities gids)"
  "keeps I (GetNotificationDatas mgr p ts)"
  unfolding GetCreatedPersistentGatherings_def GetPersistentGatheringByID_def
    GetPersistentGatheringsByID_def GetPersistentGatheringsByParticipant_def GetOfficialCommunities_def
    GetPersistentGatheringByGathering_def GetSimpleCommunities_def GetNotificationDatas_def
  by (intro keeps_rules tables_only)+

lemma keeps_count [keeps_rules]: "keeps I (UpdatePersistentGatheringParticipationCount p gid)"
  unfolding UpdatePersistentGatheringParticipationCount_def
  by (intro keeps_rules exec_rule add_participation)

lemma keeps_notification_writes [keeps_rules]:
  "keeps I (UpdateNotificationData d)" "keeps I (InactivateNotificationDatas p)"
  unfolding UpdateNotificationData_def InactivateNotificationDatas_def
  by (intro keeps_rules exec_rule add_notification change_notifications; simp add: notification_key_def)+

lemma keeps_participate [keeps_rules]: "keeps I (participate K m g p)"
  unfolding participate_def by (intro keeps_rules tables_only)

lemma keeps_join_session [keeps_rules]: "keeps I (JoinMatchmakeSession K m connection n message)"
  unfolding JoinMatchmakeSession_def by (intro keeps_rules)

lemma keeps_join_session_with:
  "length ps < 2 ^ 31 \<Longrightarrow> keeps I (JoinMatchmakeSessionWithParticipants K m connection ps message b)"
  unfolding JoinMatchmakeSessionWithParticipants_def by (intro keeps_rules)

lemma keeps_detailed [keeps_rules]: "keeps I (GetDetailedGatheringByID K p gid)"
  unfolding GetDetailedGatheringByID_def by (intro keeps_rules)

lemma ends_store_community:
  fixes reg :: persistent_gathering
  assumes six: "length (PgAttribs reg) = 6"
  shows "ends (\<lambda>s. I s \<and> (\<exists>g \<in> set (gathering_rows (ID reg) s). g_type g = ''PersistentGathering''))
    (bindM (sql_insert (\<lambda>s. persistent_rows (ID reg) s \<noteq> [])
      (\<lambda>s. s\<lparr>t_persistent := t_persistent s @ [new_persistent_row K reg]\<rparr>)) (\<lambda>r.
    ok_or Core_Unknown r (\<lambda>_. retM reg))) I" (is "ends ?Q _ I")
proof (rule ends_insert [OF tables_only])
  have Q: "on_tables ?Q" by (intro on_tables_conj tables_only on_tables_rows)
  show "I s" if "?Q s" for s using that by simp
  show "?Q (s\<lparr>db_faults := bs\<rparr>)" if "?Q s" for s bs by (rule on_tables_upd(1) [OF Q that])
  show "keeps I (ok_or Core_Unknown r (\<lambda>_. retM reg))" for r by (intro keeps_rules)
  fix s assume s: "?Q s" "\<not> persistent_rows (ID reg) s \<noteq> []"
  then obtain g where "g \<in> set (gathering_rows (ID reg) s)" "g_type g = ''PersistentGathering''" by blast
  with s six show "I (s\<lparr>t_persistent := t_persistent s @ [new_persistent_row K reg]\<rparr>)"
    by (intro add_community [of s g "ID reg"]) (simp_all add: new_persistent_row_def)
qed

lemma keeps_CreatePersistent:
  assumes "length (PgAttribs m) = 6"
  shows "keeps I (CreatePersistentGathering K connection m)"
  unfolding CreatePersistentGathering_def
proof (rule keeps_bind_gives [OF keeps_Register Register_gives [OF keeps_Register]], goal_cases)
  case (1 a)
  obtain reg t where a: "a = (reg, t)" by (cases a)
  have "length (PgAttribs reg) = 6" if "reg = m\<lparr>ID := ID reg, OwnerPID := conn_PID connection, HostPID := 0\<rparr>"
    by (subst that) (simp add: assms)
  then show ?case
    unfolding a prod.case by (rule ends_const [OF ends_store_community])
qed

end

definition communities_ok :: "mm_world \<Rightarrow> bool" where
  "communities_ok s \<longleftrightarrow> distinct (map pg_id (t_persistent s)) \<and>
     (\<forall>r \<in> set (t_persistent s). length (pg_attribs r) = 6 \<and>
        (\<exists>g \<in> set (t_gatherings s). g_id g = pg_id r \<and> g_type g = ''PersistentGathering''))"

definition keys_ok :: "mm_world \<Rightarrow> bool" where
  "keys_ok s \<longleftrightarrow> distinct (map participation_key (t_participations s)) \<and>
     distinct (map notification_key (t_notifications s))"

definition world_ok :: "mm_world \<Rightarrow> bool" where
  "world_ok s \<longleftrightarrow> (gatherings_ok s \<and> sessions_ok s) \<and> communities_ok s \<and> keys_ok s"

lemma communities_ok_tables: "on_tables communities_ok"
  by (auto simp: on_tables_def tables_def communities_ok_def)

lemma keys_ok_tables: "on_tables keys_ok"
  by (auto simp: on_tables_def tables_def keys_ok_def)

lemma world_ok_tables: "on_tables world_ok"
  unfolding world_ok_def
  by (intro on_tables_conj gatherings_ok_tables sessions_ok_tables communities_ok_tables keys_ok_tables)

lemma other_tables_update [simp]:
  "t_persistent (update_gathering gid f s) = t_persistent s"
  "t_persistent (update_session gid h s) = t_persistent s"
  "keys_ok (update_gathering gid f s) = keys_ok s"
  "keys_ok (update_session gid h s) = keys_ok s"
  "communities_ok (update_session gid h s) = communities_ok s"
  by (simp_all add: update_gathering_def update_session_def keys_ok_def communities_ok_def)

lemma gathering_kept:
  assumes "\<And>g. g_id (f g) = g_id g \<and> g_type (f g) = g_type g" and "g \<in> set (t_gatherings s)"
  shows "\<exists>g' \<in> set (t_gatherings (update_gathering gid f s)). g_id g' = g_id g \<and> g_type g' = g_type g"
proof (rule bexI)
  show "(if g_id g = unat gid then f g else g) \<in> set (t_gatherings (update_gathering gid f s))"
    using assms(2) unfolding set_update_gathering by blast
qed (use assms(1) in simp)

lemma communities_ok_update_gathering:
  assumes f: "\<And>g. g_id (f g) = g_id g \<and> g_type (f g) = g_type g" and "communities_ok s"
  shows "communities_ok (update_gathering gid f s)"
  using assms(2) gathering_kept [of f, OF f] unfolding communities_ok_def other_tables_update
  by (metis (no_types, lifting))

lemma world_ok_update_gathering:
  assumes "\<And>g. g_id (f g) = g_id g \<and> g_type (f g) = g_type g" and "world_ok s"
    and "gatherings_ok (update_gathering gid f s)"
  shows "world_ok (update_gathering gid f s)"
  using assms by (simp add: world_ok_def sessions_ok_update_gathering communities_ok_update_gathering)

lemma distinct_map_kept: "(\<And>x. k (f x) = k x) \<Longrightarrow> distinct (map k (map f xs)) = distinct (map k xs)"
  by (simp add: comp_def)

interpretation wok: mm_store world_ok
proof (unfold_locales, goal_cases)
  case 1
  show ?case by (rule world_ok_tables)
next
  case (2 s r)
  then show ?case
    using sok.register [of s r] by (fastforce simp: world_ok_def communities_ok_def keys_ok_def)
next
  case (3 s gid)
  then show ?case by (simp add: world_ok_update_gathering gok.unregister world_ok_def [of s])
next
  case (4 s gid a b)
  then show ?case by (simp add: world_ok_update_gathering gok.set_host world_ok_def [of s])
next
  case (5 s gid p)
  then show ?case by (simp add: world_ok_update_gathering gok.leave world_ok_def [of s])
next
  case (6 s gid row new)
  then show ?case by (simp add: world_ok_update_gathering gok.join world_ok_def [of s])
next
  case (7 s gid row new n)
  then show ?case using gok.join_with [of s row gid new n]
    by (simp add: world_ok_update_gathering world_ok_def [of s])
next
  case (8 s gid g r)
  then show ?case using sok.add_session [of s g gid r] by (simp add: world_ok_def communities_ok_def keys_ok_def)
next
  case (9 s gid f)
  then show ?case using sok.change_session [of s f gid] by (simp add: world_ok_def)
next
  case (10 s gid g r)
  then show ?case
    by (auto simp: world_ok_def gatherings_ok_def ids_ok_def sessions_ok_def communities_ok_def keys_ok_def
      persistent_rows_def gathering_rows_def filter_empty_conv)
next
  case (11 s p gid)
  then show ?case
    by (simp add: world_ok_def gatherings_ok_def ids_ok_def sessions_ok_def communities_ok_def keys_ok_def
      distinct_upserts)
next
  case (12 s d)
  then show ?case
    by (simp add: world_ok_def gatherings_ok_def ids_ok_def sessions_ok_def communities_ok_def keys_ok_def
      distinct_upserts)
next
  case (13 s f)
  then show ?case
    by (simp add: world_ok_def gatherings_ok_def ids_ok_def sessions_ok_def communities_ok_def keys_ok_def
      distinct_map_kept del: map_map)
qed

end
