(* ===== verification/Decimal.thy ===== *)
theory Decimal
  imports Nex_Prelude
begin

text \<open>
  Decimal numbers as strings: \<open>strconv.ParseUint\<close> and the printing of an unsigned number, which are
  inverse to each other.
\<close>

definition digit_value :: "char \<Rightarrow> int" where
  "digit_value c = of_char c - 48"

definition is_digit :: "char \<Rightarrow> bool" where
  "is_digit c \<longleftrightarrow> 0 \<le> digit_value c \<and> digit_value c \<le> 9"

text \<open>
  \<open>strconv.ParseUint(s, 10, bits)\<close>: only decimal digits, at least one, and a value of that many
  bits; every error is \<open>None\<close>.
\<close>

definition ParseUint :: "string \<Rightarrow> nat \<Rightarrow> int option" where
  "ParseUint s bits =
    (if s = [] \<or> \<not> list_all is_digit s then None
     else let v = foldl (\<lambda>n c. 10 * n + digit_value c) 0 s in if v < 2 ^ bits then Some v else None)"

text \<open>The decimal digits of a number, as \<open>fmt\<close> prints them with \<open>%d\<close>.\<close>

definition digit_char :: "nat \<Rightarrow> char" where
  "digit_char d = char_of (48 + d)"

fun decimal :: "nat \<Rightarrow> string" where
  "decimal n = (if n < 10 then [digit_char n] else decimal (n div 10) @ [digit_char (n mod 10)])"

declare decimal.simps [simp del]

lemma digit_char_value:
  assumes "d < 10"
  shows "digit_value (digit_char d) = int d" and "digit_char d \<noteq> CHR '','' "
proof -
  have "(of_char (digit_char d) :: nat) = 48 + d" using assms by (simp add: digit_char_def)
  then have "(of_char (digit_char d) :: int) = 48 + int d"
    using of_nat_of_char [of "digit_char d", where 'a = int] by simp
  then show v: "digit_value (digit_char d) = int d" using assms by (simp add: digit_value_def)
  have "digit_value (CHR '','') = - 4" by (simp add: digit_value_def of_char_def horner_sum_eq_sum)
  then show "digit_char d \<noteq> CHR '','' " using v by auto
qed

lemma decimal_digits:
  "decimal n \<noteq> [] \<and> list_all is_digit (decimal n) \<and> CHR '','' \<notin> set (decimal n) \<and>
   foldl (\<lambda>v c. 10 * v + digit_value c) 0 (decimal n) = int n"
proof (induction n rule: decimal.induct)
  case (1 n)
  have d: "digit_value (digit_char (n mod 10)) = int (n mod 10)" "digit_char (n mod 10) \<noteq> CHR '','' "
    by (rule digit_char_value; simp)+
  have "n mod 10 < 10" by simp
  then have dig: "is_digit (digit_char (n mod 10))" using d(1) by (simp add: is_digit_def)
  show ?case
  proof (cases "n < 10")
    case True
    then show ?thesis using d dig by (subst (1 2 3 4) decimal.simps) simp
  next
    case False
    have "10 * int (n div 10) + int (n mod 10) = int n"
      by (metis div_mult_mod_eq mult.commute of_nat_add of_nat_mult of_nat_numeral)
    then show ?thesis
      using 1 False d dig by (subst (1 2 3 4) decimal.simps) simp
  qed
qed

lemma ParseUint_decimal: "ParseUint (decimal n) bits = (if n < 2 ^ bits then Some (int n) else None)"
proof -
  have "int n < 2 ^ bits \<longleftrightarrow> n < 2 ^ bits" by (metis of_nat_less_iff of_nat_numeral of_nat_power)
  then show ?thesis using decimal_digits [of n] by (simp add: ParseUint_def Let_def)
qed

lemma foldl_decimal: "foldl (\<lambda>v c. 10 * v + digit_value c) 0 (decimal n) = int n"
  using decimal_digits [of n] by (elim conjE)

lemma decimal_inject [simp]: "decimal m = decimal n \<longleftrightarrow> m = n"
  by (metis foldl_decimal of_nat_eq_iff)

end
