(* ===== verification/Search_Criteria.thy ===== *)
theory Search_Criteria
  imports Community_Db Decimal
begin

text \<open>
  The search by criteria (\<open>find_matchmake_session_by_search_criteria.go\<close>): the decimal strings
  of a criteria become conditions on the joined tables, the selection method becomes an order,
  and the result range becomes \<open>LIMIT\<close> and \<open>OFFSET\<close>. The Go code builds SQL text; the model
  builds the predicate, the order and the slice that the text denotes.
\<close>

section \<open>Parsing\<close>

text \<open>\<open>strings.Cut(s, sep)\<close> for a separator of one character.\<close>

fun Cut :: "string \<Rightarrow> char \<Rightarrow> string \<times> string \<times> bool" where
  "Cut [] sep = ([], [], False)"
| "Cut (c # cs) sep =
     (if c = sep then ([], cs, True)
      else (case Cut cs sep of (front, rest, found) \<Rightarrow> (c # front, rest, found)))"

text \<open>
  One number condition: none, \<open>= value\<close>, or \<open>BETWEEN min AND max\<close>. The outer option is the
  parse error that makes the criteria invalid.
\<close>

datatype number_filter = AnyNumber | EqualTo int | Between int int

fun filter_holds :: "number_filter \<Rightarrow> int \<Rightarrow> bool" where
  "filter_holds AnyNumber n = True"
| "filter_holds (EqualTo v) n = (n = v)"
| "filter_holds (Between lo hi) n = (lo \<le> n \<and> n \<le> hi)"

definition parse_filter :: "string \<Rightarrow> nat \<Rightarrow> number_filter option" where
  "parse_filter s bits =
    (if s = [] then Some AnyNumber
     else (case Cut s (CHR '','') of (front, rest, found) \<Rightarrow>
       if found then
         (case ParseUint front bits of
            None \<Rightarrow> None
          | Some lo \<Rightarrow> (case ParseUint rest bits of None \<Rightarrow> None | Some hi \<Rightarrow> Some (Between lo hi)))
       else (case ParseUint front bits of None \<Rightarrow> None | Some v \<Rightarrow> Some (EqualTo v))))"

text \<open>
  The loop over \<open>searchCriteria.Attribs\<close>: index 1 is skipped, an invalid string ends the loop
  and invalidates the criteria. The result pairs the SQL index with the condition.
\<close>

fun attrib_filters :: "nat \<Rightarrow> string list \<Rightarrow> (nat \<times> number_filter) list option" where
  "attrib_filters i [] = Some []"
| "attrib_filters i (a # as) =
     (if i = 1 then attrib_filters (i + 1) as
      else (case parse_filter a 32 of
          None \<Rightarrow> None
        | Some f \<Rightarrow> map_option (\<lambda>fs. (i + 1, f) # fs) (attrib_filters (i + 1) as)))"

record number_filters =
  nf_attribs :: "(nat \<times> number_filter) list"
  nf_max_participants :: number_filter
  nf_min_participants :: number_filter
  nf_game_mode :: number_filter
  nf_system_type :: number_filter

definition criteria_filters :: "search_criteria \<Rightarrow> number_filters option" where
  "criteria_filters c =
    (case attrib_filters 0 (Attribs c) of None \<Rightarrow> None | Some fs \<Rightarrow>
     (case parse_filter (MaxParticipants c) 16 of None \<Rightarrow> None | Some mx \<Rightarrow>
      (case parse_filter (MinParticipants c) 16 of None \<Rightarrow> None | Some mn \<Rightarrow>
       (case parse_filter (sc_GameMode c) 32 of None \<Rightarrow> None | Some gm \<Rightarrow>
        (case parse_filter (sc_MatchmakeSystemType c) 32 of None \<Rightarrow> None | Some st \<Rightarrow>
           Some \<lparr> nf_attribs = fs, nf_max_participants = mx, nf_min_participants = mn,
             nf_game_mode = gm, nf_system_type = st \<rparr>)))))"

section \<open>The WHERE clause\<close>

text \<open>
  \<open>ms.attribs[i]\<close> is \<open>NULL\<close> when the session has fewer attributes, so even a condition on it
  fails; \<open>AnyNumber\<close> stands for the absence of a condition.
\<close>

definition attrib_holds :: "u32 list \<Rightarrow> nat \<times> number_filter \<Rightarrow> bool" where
  "attrib_holds attribs f = (case f of (i, AnyNumber) \<Rightarrow> True
     | (i, nf) \<Rightarrow> sql_is (\<lambda>v. filter_holds nf (uint v)) (sql_index attribs i))"

definition vacant_needed :: "search_criteria \<Rightarrow> int" where
  "vacant_needed c = (if VacantParticipants c = 0 then 1 else uint (VacantParticipants c))"

definition criteria_matches ::
  "search_criteria \<Rightarrow> number_filters \<Rightarrow> gathering_row \<times> session_row \<Rightarrow> bool" where
  "criteria_matches c nf row = (case row of (g, ms) \<Rightarrow>
     g_registered g \<and> g_type g = ''MatchmakeSession'' \<and>
     ms_refer_gid ms = sc_ReferGID c \<and> ms_codeword ms = sc_CodeWord c \<and>
     sql_is (\<lambda>n. n = int (length (Attribs c))) (sql_array_length (ms_attribs ms)) \<and>
     (if ExcludeLocked c then ms_open_participation ms else True) \<and>
     (if ExcludeNonHostPID c then g_host_pid g \<noteq> 0 else True) \<and>
     (if ExcludeUserPasswordSet c then \<not> ms_user_password_enabled ms else True) \<and>
     (if ExcludeSystemPasswordSet c then \<not> ms_system_password_enabled ms else True) \<and>
     list_all (attrib_holds (ms_attribs ms)) (nf_attribs nf) \<and>
     filter_holds (nf_max_participants nf) (uint (g_max_participants g)) \<and>
     filter_holds (nf_min_participants nf) (uint (g_min_participants g)) \<and>
     filter_holds (nf_game_mode nf) (uint (ms_game_mode ms)) \<and>
     filter_holds (nf_system_type nf) (uint (ms_matchmake_system_type ms)) \<and>
     (if VacantOnly c
      then sql_is (\<lambda>n. n + vacant_needed c \<le> uint (g_max_participants g))
             (sql_array_length (g_participants g))
      else True))"

section \<open>The ORDER BY clause\<close>

text \<open>
  What the \<open>switch\<close> over the selection method does: skip the criteria, panic on a missing
  \<open>Attribs[1]\<close>, draw a random order, order by a distance, or leave the order to the server.
\<close>

datatype search_order =
    SkipCriteria
  | IndexPanic
  | RandomOrder
  | NearestAttribute int
  | NearestScore u8
  | NearestSum int u8
  | ServerOrder

definition attribute1 :: "string \<Rightarrow> int" where
  "attribute1 s = (case ParseUint s 32 of None \<Rightarrow> 0 | Some v \<Rightarrow> v)"

definition selection_order :: "nexlib \<Rightarrow> search_criteria \<Rightarrow> matchmake_session option \<Rightarrow> search_order" where
  "selection_order K c source =
    (if SelectionMethod c = SelectionMethodRandom K then RandomOrder
     else if SelectionMethod c = SelectionMethodNearestNeighbor K
        \<or> SelectionMethod c = SelectionMethodBroadenRange K then
       (if length (Attribs c) < 2 then IndexPanic else NearestAttribute (attribute1 (Attribs c ! 1)))
     else if SelectionMethod c = SelectionMethodProgressScore K then
       (case source of None \<Rightarrow> SkipCriteria | Some m \<Rightarrow> NearestScore (ProgressScore m))
     else if SelectionMethod c = SelectionMethodBroadenRangeWithProgressScore K then
       (case source of
          None \<Rightarrow> SkipCriteria
        | Some m \<Rightarrow>
            if length (Attribs c) < 2 then IndexPanic
            else if Attribs c ! 1 = [] then ServerOrder
            else NearestSum (attribute1 (Attribs c ! 1)) (ProgressScore m))
     else ServerOrder)"

definition attribs2 :: "gathering_row \<times> session_row \<Rightarrow> int option" where
  "attribs2 row = map_option uint (sql_index (ms_attribs (snd row)) 2)"

definition score_of :: "gathering_row \<times> session_row \<Rightarrow> int" where
  "score_of row = uint (ms_progress_score (snd row))"

fun order_key :: "search_order \<Rightarrow> gathering_row \<times> session_row \<Rightarrow> int option" where
  "order_key (NearestAttribute a) row = map_option (\<lambda>v. \<bar>a - v\<bar>) (attribs2 row)"
| "order_key (NearestScore p) row = Some \<bar>uint p - score_of row\<bar>"
| "order_key (NearestSum a p) row = map_option (\<lambda>v. \<bar>a - v + uint p - score_of row\<bar>) (attribs2 row)"
| "order_key _ row = Some 0"

text \<open>\<open>ORDER BY RANDOM()\<close> draws one key per row.\<close>

definition random_order :: "mm_world \<Rightarrow> 'r list \<Rightarrow> 'r list" where
  "random_order s rows =
     map snd (sort_key fst (map (\<lambda>i. (w_order s (w_order_pos s + i), rows ! i)) [0..<length rows]))"

definition ordered_rows ::
  "search_order \<Rightarrow> mm_world \<Rightarrow> (gathering_row \<times> session_row) list \<Rightarrow> (gathering_row \<times> session_row) list" where
  "ordered_rows ord s rows = (if ord = RandomOrder then random_order s rows else order_by (order_key ord) rows)"

section \<open>The search\<close>

definition search_statement ::
  "search_criteria \<Rightarrow> number_filters \<Rightarrow> search_order \<Rightarrow> u32 \<Rightarrow> u32 \<Rightarrow> mm_world \<Rightarrow>
   (gathering_row \<times> session_row) list \<times> mm_world" where
  "search_statement c nf ord lim off s =
     (let rows = filter (criteria_matches c nf) (joined s) in
      (limit_offset lim off (ordered_rows ord s rows),
       if ord = RandomOrder then s\<lparr>w_order_pos := w_order_pos s + length rows\<rparr> else s))"

text \<open>
  The range of one statement: the criteria's own when it has a length, else the common range
  with the length reduced, in \<open>uint32\<close> arithmetic, by the number of results so far.
\<close>

definition criteria_range :: "search_criteria \<Rightarrow> result_range \<Rightarrow> nat \<Rightarrow> u32 \<times> u32" where
  "criteria_range c resultRange found =
    (if RangeLength (ResultRange c) \<noteq> 0 then (RangeLength (ResultRange c), RangeOffset (ResultRange c))
     else (RangeLength resultRange - word_of_nat found, RangeOffset resultRange))"

definition scan_rows :: "nexlib \<Rightarrow> (gathering_row \<times> session_row) list \<Rightarrow> matchmake_session list" where
  "scan_rows K rows = List.map_filter (scan_session K) rows"

definition search_one ::
  "nexlib \<Rightarrow> result_range \<Rightarrow> matchmake_session option \<Rightarrow> matchmake_session list \<Rightarrow> search_criteria \<Rightarrow>
   matchmake_session list mm" where
  "search_one K resultRange source found c =
    (case criteria_filters c of
       None \<Rightarrow> retM found
     | Some nf \<Rightarrow>
         (case selection_order K c source of
            SkipCriteria \<Rightarrow> retM found
          | IndexPanic \<Rightarrow> panicM
          | ord \<Rightarrow>
              (case criteria_range c resultRange (length found) of (lim, off) \<Rightarrow>
               bindM (db_call (search_statement c nf ord lim off)) (\<lambda>r. case r of
                 Inl _ \<Rightarrow> retM found
               | Inr rows \<Rightarrow> retM (found @ scan_rows K rows)))))"

definition FindMatchmakeSessionBySearchCriteria ::
  "nexlib \<Rightarrow> connection \<Rightarrow> search_criteria list \<Rightarrow> result_range \<Rightarrow> matchmake_session option \<Rightarrow>
   matchmake_session list mm" where
  "FindMatchmakeSessionBySearchCriteria K connection searchCriterias resultRange source =
    (let resultRange' = (if RangeOffset resultRange = - 1 then resultRange\<lparr>RangeOffset := 0\<rparr> else resultRange) in
     foldM (search_one K resultRange' source) [] searchCriterias)"

lemma search_statement_mutex [simp]: "w_mutex (snd (search_statement c nf ord l off s)) = w_mutex s"
  by (simp add: search_statement_def Let_def)

lemma lock_free_search_one [lock_rules]: "lock_free (search_one K rr source found c)"
proof -
  have db: "lock_free (bindM (db_call (search_statement c nf ord l off)) (\<lambda>r. case r of
      Inl _ \<Rightarrow> retM found | Inr rows \<Rightarrow> retM (found @ scan_rows K rows)))" for nf ord l off
    by (intro lock_rules lock_free_db_call search_statement_mutex)
  show ?thesis
    unfolding search_one_def
    by (cases "criteria_filters c"; cases "selection_order K c source"; cases "criteria_range c rr (length found)")
      (auto intro: lock_rules db)
qed

lemma lock_free_search [lock_rules]: "lock_free (FindMatchmakeSessionBySearchCriteria K connection cs rr source)"
  unfolding FindMatchmakeSessionBySearchCriteria_def by (intro lock_rules)

end
