(* ===== verification/Match_Making.thy ===== *)
theory Match_Making
  imports Match_Making_Db
begin

text \<open>
  The handlers of the matchmaking protocol (\<open>match-making/\<close>) and of its extension
  (\<open>match-making-ext/\<close>). A handler gets the decoding error of its parameters as a flag, the
  sender's connection, the call ID and the decoded parameters. The callbacks
  \<open>OnAfter...\<close> are unset in this server.
\<close>

section \<open>MatchMaking\<close>

definition unregisterGathering :: "nexlib \<Rightarrow> bool \<Rightarrow> connection \<Rightarrow> u32 \<Rightarrow> u32 \<Rightarrow> mm_response mm" where
  "unregisterGathering K err connection callID idGathering =
    (if err then throwM Core_InvalidArgument
     else
       bindM mutexLock (\<lambda>_.
       or_unlock (FindGatheringByID K idGathering) (\<lambda>(gathering, _, participants, _).
       if OwnerPID gathering \<noteq> conn_PID connection then unlock_throw RendezVous_PermissionDenied
       else
         or_unlock (UnregisterGathering (conn_PID connection) idGathering) (\<lambda>_.
         or_unlock (SendNotificationEvent K
           (mkEvent K (conn_PID connection) (NC_GatheringUnregistered K) (NS_GatheringUnregistered_None K)
              idGathering) (RemoveDuplicates participants)) (\<lambda>_.
         bindM mutexUnlock (\<lambda>_.
         retM (rmcSuccess MatchMaking_Protocol MethodUnregisterGathering callID [WBool True])))))))"

text \<open>
  \<open>findBySingleID\<close> calls \<open>manager.GetDetailedGatheringByID\<close>; the function installed there is
  the argument \<open>detailed\<close>.
\<close>

definition findBySingleID ::
  "(pid \<Rightarrow> u32 \<Rightarrow> (gathering_object \<times> string) mm) \<Rightarrow> bool \<Rightarrow> connection \<Rightarrow> u32 \<Rightarrow> u32 \<Rightarrow> mm_response mm" where
  "findBySingleID detailed err connection callID gid =
    (if err then throwM Core_InvalidArgument
     else
       bindM mutexRLock (\<lambda>_.
       or_unlock (detailed (conn_PID connection) gid) (\<lambda>(gathering, _).
       bindM mutexRUnlock (\<lambda>_.
       retM (rmcSuccess MatchMaking_Protocol MethodFindBySingleID callID
         [WBool True, WGatheringHolder gathering])))))"

definition getSessionURLs :: "nexlib \<Rightarrow> bool \<Rightarrow> connection \<Rightarrow> u32 \<Rightarrow> u32 \<Rightarrow> mm_response mm" where
  "getSessionURLs K err connection callID gid =
    (if err then throwM Core_InvalidArgument
     else
       bindM mutexRLock (\<lambda>_.
       or_unlock (FindGatheringByID K gid) (\<lambda>(gathering, _, participants, _).
       if conn_PID connection \<notin> set participants then unlock_throw RendezVous_PermissionDenied
       else
         bindM (getM (\<lambda>s. w_connections s (HostPID gathering))) (\<lambda>host.
         bindM mutexRUnlock (\<lambda>_.
         retM (rmcSuccess MatchMaking_Protocol MethodGetSessionURLs callID
           [WStationURLs (case host of None \<Rightarrow> [] | Some h \<Rightarrow> conn_StationURLs h)]))))))"

definition updateSessionURL :: "nexlib \<Rightarrow> bool \<Rightarrow> connection \<Rightarrow> u32 \<Rightarrow> u32 \<Rightarrow> string \<Rightarrow> mm_response mm" where
  "updateSessionURL K err connection callID idGathering strURL =
    (if err then throwM Core_InvalidArgument
     else
       bindM mutexLock (\<lambda>_.
       or_unlock (FindGatheringByID K idGathering) (\<lambda>(gathering, _, participants, _).
       if conn_PID connection \<notin> set participants then unlock_throw RendezVous_PermissionDenied
       else
         or_unlock (UpdateSessionHost idGathering (OwnerPID gathering) (conn_PID connection)) (\<lambda>_.
         or_unlock (LogChangeHost (conn_PID connection) idGathering (HostPID gathering) (conn_PID connection)) (\<lambda>_.
         bindM mutexUnlock (\<lambda>_.
         retM (rmcSuccess MatchMaking_Protocol MethodGetSessionURLs callID [WBool True])))))))"

text \<open>
  The part that \<open>updateSessionHost\<close> and \<open>updateSessionHostV1\<close> have in common when the caller
  takes over host and ownership.
\<close>

definition takeOwnership :: "nexlib \<Rightarrow> connection \<Rightarrow> u32 \<Rightarrow> gathering \<Rightarrow> pid list \<Rightarrow> mm_response \<Rightarrow> mm_response mm" where
  "takeOwnership K connection gid gathering participants response =
     or_unlock (UpdateSessionHost gid (conn_PID connection) (conn_PID connection)) (\<lambda>_.
     or_unlock (LogChangeHost (conn_PID connection) gid (HostPID gathering) (conn_PID connection)) (\<lambda>_.
     or_unlock (LogChangeOwner (conn_PID connection) gid (OwnerPID gathering) (conn_PID connection)) (\<lambda>_.
     or_unlock (SendNotificationEvent K
       ((mkEvent K (conn_PID connection) (NC_OwnershipChanged K) (NS_OwnershipChanged_None K) gid)
          \<lparr>Param2 := ucast (conn_PID connection)\<rparr>) (RemoveDuplicates participants)) (\<lambda>_.
     bindM mutexUnlock (\<lambda>_. retM response)))))"

definition takeHost :: "connection \<Rightarrow> u32 \<Rightarrow> gathering \<Rightarrow> mm_response \<Rightarrow> mm_response mm" where
  "takeHost connection gid gathering response =
     or_unlock (UpdateSessionHost gid (OwnerPID gathering) (conn_PID connection)) (\<lambda>_.
     or_unlock (LogChangeHost (conn_PID connection) gid (HostPID gathering) (conn_PID connection)) (\<lambda>_.
     bindM mutexUnlock (\<lambda>_. retM response)))"

definition updateSessionHost :: "nexlib \<Rightarrow> bool \<Rightarrow> connection \<Rightarrow> u32 \<Rightarrow> u32 \<Rightarrow> bool \<Rightarrow> mm_response mm" where
  "updateSessionHost K err connection callID gid isMigrateOwner =
    (if err then throwM Core_InvalidArgument
     else
       bindM mutexLock (\<lambda>_.
       or_unlock (FindGatheringByID K gid) (\<lambda>(gathering, _, participants, _).
       if conn_PID connection \<notin> set participants then unlock_throw RendezVous_PermissionDenied
       else
         let response = rmcSuccess MatchMaking_Protocol MethodUpdateSessionHost callID [] in
         if \<not> isMigrateOwner then takeHost connection gid gathering response
         else if \<not> hasFlags (Flags gathering) (GF_ParticipantsChangeOwner K)
         then unlock_throw RendezVous_InvalidOperation
         else takeOwnership K connection gid gathering participants response)))"

definition updateSessionHostV1 :: "nexlib \<Rightarrow> bool \<Rightarrow> connection \<Rightarrow> u32 \<Rightarrow> u32 \<Rightarrow> mm_response mm" where
  "updateSessionHostV1 K err connection callID gid =
    (if err then throwM Core_InvalidArgument
     else
       bindM mutexLock (\<lambda>_.
       or_unlock (FindGatheringByID K gid) (\<lambda>(gathering, _, participants, _).
       if conn_PID connection \<notin> set participants then unlock_throw RendezVous_PermissionDenied
       else
         let response = rmcSuccess MatchMaking_Protocol MethodUpdateSessionHostV1 callID [] in
         if \<not> hasFlags (Flags gathering) (GF_ParticipantsChangeOwner K)
         then takeHost connection gid gathering response
         else takeOwnership K connection gid gathering participants response)))"

text \<open>The \<open>OnConnectionEnded\<close> callback that \<open>NewCommonProtocol\<close> installs.\<close>

definition matchMaking_connectionEnded :: "nexlib \<Rightarrow> connection \<Rightarrow> unit mm" where
  "matchMaking_connectionEnded K connection =
     bindM mutexLock (\<lambda>_. bindM (DisconnectParticipant K connection) (\<lambda>_. mutexUnlock))"

section \<open>MatchMakingExt\<close>

definition endParticipation :: "nexlib \<Rightarrow> bool \<Rightarrow> connection \<Rightarrow> u32 \<Rightarrow> u32 \<Rightarrow> string \<Rightarrow> mm_response mm" where
  "endParticipation K err connection callID idGathering strMessage =
    (if err then throwM Core_InvalidArgument
     else if length strMessage > 256 then throwM Core_InvalidArgument
     else
       bindM mutexLock (\<lambda>_.
       or_unlock (EndGatheringParticipation K idGathering connection strMessage) (\<lambda>_.
       bindM mutexUnlock (\<lambda>_.
       retM (rmcSuccess MatchMakingExt_Protocol MethodEndParticipation callID [WBool True])))))"

section \<open>SetManager\<close>

text \<open>
  The tables are created, one statement after another, unless they exist; the rows stay as they are.
  An error is logged and ends the function. The theory \<open>Schema\<close> has the statements themselves.
\<close>

fun create_tables :: "nat \<Rightarrow> unit mm \<Rightarrow> unit mm" where
  "create_tables 0 k = k"
| "create_tables (Suc n) k = bindM (sql_exec (\<lambda>_. 0) (\<lambda>s. s)) (\<lambda>r. case r of Inl _ \<Rightarrow> retM () | Inr _ \<Rightarrow> create_tables n k)"

definition SetManager_base :: "unit mm" where
  "SetManager_base = create_tables 10 (retM ())"

lemma run_create_tables: "db_faults s = [] \<Longrightarrow> create_tables n k s = k s"
  by (induction n) (simp_all add: bindM_def run_exec)

lemma keeps_create_tables: "on_tables I \<Longrightarrow> keeps I k \<Longrightarrow> keeps I (create_tables n k)"
  by (induction n) (auto intro!: keeps_rules keeps_tables_exec)

lemma lock_free_create_tables: "lock_free k \<Longrightarrow> lock_free (create_tables n k)"
  by (induction n) (auto intro!: lock_rules lock_free_exec)

section \<open>The mutex is released on every path\<close>

lemma releases_success [lock_rules]: "releases (bindM mutexUnlock (\<lambda>_. retM r))"
  by (intro releases_unlock lock_rules)

lemma releases_take [lock_rules]:
  "releases (takeOwnership K connection gid gathering participants response)"
  "releases (takeHost connection gid gathering response)"
  unfolding takeOwnership_def takeHost_def by (intro lock_rules)+

lemma lock_ok_unregisterGathering [lock_rules]: "lock_ok (unregisterGathering K err connection callID gid)"
  unfolding unregisterGathering_def by (intro lock_rules lock_ok_lock)

lemma lock_ok_findBySingleID:
  "(\<And>p g. lock_free (detailed p g)) \<Longrightarrow> lock_ok (findBySingleID detailed err connection callID gid)"
  unfolding findBySingleID_def by (intro lock_rules lock_ok_rlock)

lemma lock_ok_getSessionURLs [lock_rules]: "lock_ok (getSessionURLs K err connection callID gid)"
  unfolding getSessionURLs_def by (intro lock_rules lock_ok_rlock)

lemma lock_ok_updateSessionURL [lock_rules]: "lock_ok (updateSessionURL K err connection callID gid url)"
  unfolding updateSessionURL_def by (intro lock_rules lock_ok_lock)

lemma lock_ok_updateSessionHost [lock_rules]: "lock_ok (updateSessionHost K err connection callID gid b)"
  unfolding updateSessionHost_def by (intro lock_rules lock_ok_lock)

lemma lock_ok_updateSessionHostV1 [lock_rules]: "lock_ok (updateSessionHostV1 K err connection callID gid)"
  unfolding updateSessionHostV1_def by (intro lock_rules lock_ok_lock)

lemma lock_ok_endParticipation [lock_rules]: "lock_ok (endParticipation K err connection callID gid message)"
  unfolding endParticipation_def by (intro lock_rules lock_ok_lock)

lemma always_ok_Disconnect: "always_ok (DisconnectParticipant K connection)"
  unfolding DisconnectParticipant_def
proof (rule always_ok_bind)
  show "always_ok (sql_query q)" for q :: "mm_world \<Rightarrow> gathering_row list"
    by (auto simp: always_ok_def sql_query_def db_call_def split: list.splits)
qed (auto intro!: always_ok_ret always_ok_for always_ok_bind always_ok_catch safe_rules split: sum.splits)

lemma locked_section:
  assumes "always_ok m" and "w_mutex s = Unlocked"
  shows "\<exists>s'. bindM mutexLock (\<lambda>_. bindM m (\<lambda>_. mutexUnlock)) s = (Ok (), s') \<and> w_mutex s' = Unlocked"
proof -
  obtain a t where "m (s\<lparr>w_mutex := Locked\<rparr>) = (Ok a, t)" using assms(1) unfolding always_ok_def by blast
  then show ?thesis using assms(2) by (simp add: bindM_def run_simps)
qed

section \<open>The handlers keep the invariants of the gathering table\<close>

context gathering_store
begin

lemma keeps_take [keeps_rules]:
  "keeps I (takeOwnership K connection gid gathering participants response)"
  "keeps I (takeHost connection gid gathering response)"
  unfolding takeOwnership_def takeHost_def by (intro keeps_rules tables_only)+

lemma keeps_unregisterGathering [keeps_rules]: "keeps I (unregisterGathering K err connection callID gid)"
  unfolding unregisterGathering_def by (intro keeps_rules tables_only)

lemma keeps_findBySingleID:
  "(\<And>p g. keeps I (detailed p g)) \<Longrightarrow> keeps I (findBySingleID detailed err connection callID gid)"
  unfolding findBySingleID_def by (intro keeps_rules tables_only)

lemma keeps_getSessionURLs [keeps_rules]: "keeps I (getSessionURLs K err connection callID gid)"
  unfolding getSessionURLs_def by (intro keeps_rules tables_only)

lemma keeps_updateSessionURL [keeps_rules]: "keeps I (updateSessionURL K err connection callID gid url)"
  unfolding updateSessionURL_def by (intro keeps_rules tables_only)

lemma keeps_updateSessionHost [keeps_rules]:
  "keeps I (updateSessionHost K err connection callID gid b)"
  "keeps I (updateSessionHostV1 K err connection callID gid)"
  unfolding updateSessionHost_def updateSessionHostV1_def by (intro keeps_rules tables_only)+

lemma keeps_endParticipation [keeps_rules]: "keeps I (endParticipation K err connection callID gid message)"
  unfolding endParticipation_def by (intro keeps_rules tables_only)

lemma keeps_connectionEnded [keeps_rules]: "keeps I (matchMaking_connectionEnded K connection)"
  unfolding matchMaking_connectionEnded_def by (intro keeps_rules tables_only)

end

end
