(* ===== verification/Gathering_Runs.thy ===== *)
theory Gathering_Runs
  imports Match_Making
begin

text \<open>
  What the operations on gatherings do when no statement fails: each operation as an equation
  between its run and a state built from a few named changes (a row update, a log entry, a list
  of notifications). The properties of joining, leaving and losing the connection rest on these
  equations.
\<close>

named_theorems ok_runs "runs of operations without database faults"

section \<open>Named changes of the state\<close>

definition logged :: "tracking_event \<Rightarrow> mm_world \<Rightarrow> mm_world" where
  "logged e s = s\<lparr>tracking_log := tracking_log s @ [(w_now s, e)]\<rparr>"

definition notified :: "nexlib \<Rightarrow> notification_event \<Rightarrow> pid list \<Rightarrow> mm_world \<Rightarrow> mm_world" where
  "notified K e targets s = (let s' = s\<lparr>w_call_id := CounterNext K (w_call_id s)\<rparr>
     in s'\<lparr>w_sent := w_sent s' @ deliver s' e targets\<rparr>)"

definition notified_all :: "nexlib \<Rightarrow> (notification_event \<times> pid list) list \<Rightarrow> mm_world \<Rightarrow> mm_world" where
  "notified_all K = fold (\<lambda>(e, targets). notified K e targets)"

lemma notified_all_simps [simp]:
  "notified_all K [] s = s"
  "notified_all K ((e, ts) # ns) s = notified_all K ns (notified K e ts s)"
  "notified_all K (ns @ ms) s = notified_all K ms (notified_all K ns s)"
  by (simp_all add: notified_all_def)

definition set_participants :: "u32 \<Rightarrow> pid list \<Rightarrow> mm_world \<Rightarrow> mm_world" where
  "set_participants gid ps = update_gathering gid (\<lambda>g. g\<lparr>g_participants := ps\<rparr>)"

definition drop_participant :: "u32 \<Rightarrow> pid \<Rightarrow> mm_world \<Rightarrow> mm_world" where
  "drop_participant gid p = update_gathering gid (\<lambda>g. g\<lparr>g_participants := removeAll p (g_participants g)\<rparr>)"

definition unregistered :: "u32 \<Rightarrow> mm_world \<Rightarrow> mm_world" where
  "unregistered gid = update_gathering gid (\<lambda>g. g\<lparr>g_registered := False\<rparr>)"

definition rehosted :: "u32 \<Rightarrow> pid \<Rightarrow> pid \<Rightarrow> mm_world \<Rightarrow> mm_world" where
  "rehosted gid ownerPID hostPID =
     update_gathering gid (\<lambda>g. g\<lparr>g_owner_pid := ownerPID, g_host_pid := hostPID\<rparr>)"

lemma change_faults [simp]:
  "db_faults (logged e s) = db_faults s"
  "db_faults (notified K ev ts s) = db_faults s"
  "db_faults (notified_all K ns s) = db_faults s"
  "db_faults (set_participants gid ps s) = db_faults s"
  "db_faults (drop_participant gid p s) = db_faults s"
  "db_faults (unregistered gid s) = db_faults s"
  "db_faults (rehosted gid a b s) = db_faults s"
proof -
  have n: "db_faults (notified K ev ts s) = db_faults s" for ev ts s
    by (simp add: notified_def Let_def)
  then show "db_faults (notified K ev ts s) = db_faults s" .
  show "db_faults (notified_all K ns s) = db_faults s"
    by (induction ns arbitrary: s) (auto simp: n)
qed (simp_all add: logged_def set_participants_def drop_participant_def unregistered_def rehosted_def
    update_gathering_def)

lemma tables_notified_all [simp]: "tables (notified_all K ns s) = tables s"
  by (induction ns arbitrary: s) (auto simp: notified_def Let_def)

lemma change_tables [simp]:
  "tables (logged e s) = tables s" "tables (notified K ev ts s) = tables s"
  by (simp_all add: logged_def notified_def Let_def)

lemma rows_tables: "tables s = tables t \<Longrightarrow> gathering_rows gid s = gathering_rows gid t"
  by (simp add: tables_def gathering_rows_def)

lemma rows_unchanged [simp]:
  "gathering_rows gid (logged e s) = gathering_rows gid s"
  "gathering_rows gid (notified K ev ts s) = gathering_rows gid s"
  "gathering_rows gid (notified_all K ns s) = gathering_rows gid s"
  by (rule rows_tables, simp)+

lemma rows_update:
  assumes "\<And>g. g_id (f g) = g_id g"
  shows "gathering_rows gid (update_gathering gid' f s) =
    (if gid' = gid then map f (gathering_rows gid s) else gathering_rows gid s)"
proof -
  have "filter (\<lambda>g. g_id g = unat gid) (map (\<lambda>g. if g_id g = unat gid' then f g else g) gs) =
      (if gid' = gid then map f (filter (\<lambda>g. g_id g = unat gid) gs) else filter (\<lambda>g. g_id g = unat gid) gs)" for gs
    using assms by (induction gs) (auto dest: unsigned_word_eqI)
  then show ?thesis by (simp add: gathering_rows_def update_gathering_def)
qed

lemma rows_change [simp]:
  "gathering_rows gid (set_participants gid' ps s) =
     (if gid' = gid then map (\<lambda>g. g\<lparr>g_participants := ps\<rparr>) (gathering_rows gid s) else gathering_rows gid s)"
  "gathering_rows gid (drop_participant gid' p s) =
     (if gid' = gid then map (\<lambda>g. g\<lparr>g_participants := removeAll p (g_participants g)\<rparr>) (gathering_rows gid s)
      else gathering_rows gid s)"
  "gathering_rows gid (unregistered gid' s) =
     (if gid' = gid then map (\<lambda>g. g\<lparr>g_registered := False\<rparr>) (gathering_rows gid s) else gathering_rows gid s)"
  "gathering_rows gid (rehosted gid' a b s) =
     (if gid' = gid then map (\<lambda>g. g\<lparr>g_owner_pid := a, g_host_pid := b\<rparr>) (gathering_rows gid s)
      else gathering_rows gid s)"
  unfolding set_participants_def drop_participant_def unregistered_def rehosted_def
  by (rule rows_update, simp)+

lemma update_no_rows: "gathering_rows gid s = [] \<Longrightarrow> update_gathering gid f s = s"
proof -
  assume "gathering_rows gid s = []"
  then have "map (\<lambda>g. if g_id g = unat gid then f g else g) (t_gatherings s) = t_gatherings s"
    by (auto simp: gathering_rows_def filter_empty_conv intro: map_idI)
  then show ?thesis by (simp add: update_gathering_def)
qed

lemma faults_update [simp]: "db_faults (update_gathering gid f s) = db_faults s"
  by (simp add: update_gathering_def)

lemma count_rows: "count_gathering gid s = 0 \<longleftrightarrow> gathering_rows gid s = []"
  by (simp add: count_gathering_def)

section \<open>Runs of the database functions\<close>

lemma run_notify [ok_runs]: "SendNotificationEvent K e ts s = (Ok (), notified K e ts s)"
  by (simp add: run_SendNotificationEvent notified_def Let_def)

lemma run_notify_all: "forM xs (\<lambda>x. SendNotificationEvent K (e x) (ts x)) s =
    (Ok (), notified_all K (map (\<lambda>x. (e x, ts x)) xs) s)"
  by (induction xs arbitrary: s) (simp_all add: run_ret run_bind_Ok [OF run_notify])

lemma run_log [ok_runs]: "db_faults s = [] \<Longrightarrow> track e s = (Ok (), logged e s)"
  by (simp add: run_track logged_def)

lemma run_Find [ok_runs]:
  "db_faults s = [] \<Longrightarrow> FindGatheringByID K gid s =
     (case filter g_registered (gathering_rows gid s) of
        [] \<Rightarrow> (Err RendezVous_SessionVoid, s)
      | row # _ \<Rightarrow> (Ok ((row_gathering row)\<lparr>ID := gid\<rparr>, g_type row, g_participants row,
          DateTime_FromTimestamp K (g_started_time row)), s))"
  by (simp add: FindGatheringByID_def bindM_def run_query_row run_ret run_throw split: list.split)

lemma run_Unregister [ok_runs]:
  "db_faults s = [] \<Longrightarrow> UnregisterGathering p gid s =
     (if gathering_rows gid s = [] then (Err RendezVous_SessionVoid, s)
      else (Ok (), logged (TrackUnregisterGathering p gid) (unregistered gid s)))"
  by (simp add: UnregisterGathering_def bindM_def run_exec count_rows run_throw update_no_rows
    LogUnregisterGathering_def run_log unregistered_def)

lemma run_UpdateSessionHost [ok_runs]:
  "db_faults s = [] \<Longrightarrow> UpdateSessionHost gid a b s =
     (if gathering_rows gid s = [] then (Err RendezVous_SessionVoid, s) else (Ok (), rehosted gid a b s))"
  by (simp add: UpdateSessionHost_def bindM_def run_exec count_rows run_throw run_ret update_no_rows rehosted_def)

lemma run_Remove [ok_runs]:
  "db_faults s = [] \<Longrightarrow> RemoveParticipantFromGathering gid p s =
     (case gathering_rows gid s of
        [] \<Rightarrow> (Err RendezVous_SessionVoid, s)
      | row # _ \<Rightarrow> (Ok (removeAll p (g_participants row)), drop_participant gid p s))"
  by (simp add: RemoveParticipantFromGathering_def bindM_def run_returning run_throw run_ret update_no_rows
    drop_participant_def split: list.split)

section \<open>Joining\<close>

definition join_notices ::
  "nexlib \<Rightarrow> u32 \<Rightarrow> gathering_row \<Rightarrow> pid \<Rightarrow> nat \<Rightarrow> string \<Rightarrow> (notification_event \<times> pid list) list" where
  "join_notices K gid row caller places message =
    (let event = (\<lambda>p. newParticipantEvent K caller gid p message (word_of_nat places));
         verbose = hasFlags (g_flags row) (verboseMask K) in
     if \<not> verbose \<and> caller = g_owner_pid row then []
     else (event caller, if verbose then RemoveDuplicates (g_participants row @ replicate places caller)
                         else [g_owner_pid row]) #
          (if hasFlags (g_flags row) (GF_VerboseParticipantsEx K)
           then map (\<lambda>p. (event p, [caller])) (RemoveDuplicates (g_participants row)) else []))"

text \<open>Within capacity, the \<open>uint32\<close> sum of the capacity test does not wrap.\<close>

lemma too_many:
  assumes "within_capacity row"
  shows "g_max_participants row \<noteq> 0 \<and>
      word_of_nat (length (g_participants row)) + ucast (v :: u16) > (ucast (g_max_participants row) :: u32)
    \<longleftrightarrow> g_max_participants row \<noteq> 0 \<and> length (g_participants row) + unat v > unat (g_max_participants row)"
proof (cases "g_max_participants row = 0")
  case False
  have "unat (g_max_participants row) < 2 ^ 16" "unat v < 2 ^ 16"
    using unsigned_less [of "g_max_participants row"] unsigned_less [of v] by simp_all
  moreover have "length (g_participants row) \<le> unat (g_max_participants row)"
    using assms False by (simp add: within_capacity_def)
  ultimately have "unat (word_of_nat (length (g_participants row) + unat v) :: u32) = length (g_participants row) + unat v"
    by (intro unat_of_nat_u32) simp
  then show ?thesis
    using False by (simp add: word_less_nat_alt)
qed simp

lemma run_Join:
  assumes ok: "db_faults s = []" and cap: "\<And>row. row \<in> set (gathering_rows gid s) \<Longrightarrow> within_capacity row"
  shows "JoinGathering K gid c n message s =
    (case gathering_rows gid s of
       [] \<Rightarrow> (Err RendezVous_SessionVoid, s)
     | row # _ \<Rightarrow>
         (let places = max 1 (unat n); caller = conn_PID c; ps = g_participants row @ replicate places caller in
          if g_max_participants row \<noteq> 0 \<and> length ps > unat (g_max_participants row)
          then (Err RendezVous_SessionFull, s)
          else if caller \<in> set (g_participants row)
          then (Err RendezVous_AlreadyParticipatedGathering, s)
          else (Ok (word_of_nat (length ps)),
                notified_all K (join_notices K gid row caller places message)
                  (logged (TrackJoinGathering caller gid (replicate places caller) ps)
                    (set_participants gid ps s)))))"
proof (cases "gathering_rows gid s")
  case Nil
  then show ?thesis by (simp add: JoinGathering_def Let_def bindM_def run_query_row ok run_throw)
next
  case (Cons row rows)
  define v where "v = (if n = 0 then 1 else n)"
  have v: "max 1 (unat n) = unat v"
    by (cases "n = 0") (auto simp: v_def max_def unat_eq_0 Suc_le_eq unat_gt_0)
  have full: "(ucast (g_max_participants row) :: u32) \<noteq> 0 \<and>
      word_of_nat (length (g_participants row)) + ucast v > (ucast (g_max_participants row) :: u32)
    \<longleftrightarrow> g_max_participants row \<noteq> 0 \<and>
      length (g_participants row) + unat v > unat (g_max_participants row)"
    using too_many [OF cap, of row v] Cons by simp
  have "db_faults (update_gathering gid f s) = []" for f using ok by simp
  then show ?thesis
    unfolding JoinGathering_def Let_def v_def [symmetric] v
    by (simp add: Cons full bindM_def run_query_row ok run_throw run_exec LogJoinGathering_def run_log
      run_notify run_notify_all run_ret set_participants_def [symmetric] join_notices_def Let_def
      del: One_nat_def ucast_u16_eq_0)
qed

lemma run_for_notices:
  assumes "\<And>x s. f x s = (Ok (), notified_all K (ns x) s)"
  shows "forM xs f s = (Ok (), notified_all K (concat (map ns xs)) s)"
  by (induction xs arbitrary: s) (simp_all add: run_ret bindM_def assms)

definition switch_notices :: "nexlib \<Rightarrow> u32 \<Rightarrow> pid \<Rightarrow> pid list \<Rightarrow> (notification_event \<times> pid list) list" where
  "switch_notices K gid caller new =
     map (\<lambda>p. ((mkEvent K caller (NC_SwitchGathering K) (NS_SwitchGathering_None K) gid)\<lparr>Param2 := ucast p\<rparr>, [p]))
       (filter (\<lambda>p. p \<noteq> caller) (RemoveDuplicates new))"

definition arrival_notices ::
  "nexlib \<Rightarrow> u32 \<Rightarrow> gathering_row \<Rightarrow> pid \<Rightarrow> pid list \<Rightarrow> string \<Rightarrow> pid \<Rightarrow> (notification_event \<times> pid list) list" where
  "arrival_notices K gid row caller new message p =
    (let total = g_participants row @ new;
         event = (\<lambda>q. newParticipantEvent K caller gid q message (word_of_nat (length total)));
         verbose = hasFlags (g_flags row) (verboseMask K) in
     (if verbose \<or> caller \<noteq> g_owner_pid row
      then [(event p, if verbose then RemoveDuplicates total else [g_owner_pid row])] else []) @
     (if hasFlags (g_flags row) (GF_VerboseParticipantsEx K)
      then map (\<lambda>q. (event q, [p])) (RemoveDuplicates (g_participants row)) else []))"

lemma run_switch:
  "forM xs (\<lambda>p. if caller = p then retM () else SendNotificationEvent K (e p) [p]) s =
     (Ok (), notified_all K (map (\<lambda>p. (e p, [p])) (filter (\<lambda>p. p \<noteq> caller) xs)) s)"
proof (induction xs arbitrary: s)
  case (Cons x xs)
  show ?case by (cases "x = caller") (simp_all add: run_ret bindM_def run_notify Cons.IH)
qed (simp add: run_ret)

lemma run_JoinWith:
  assumes ok: "db_faults s = []"
    and small: "\<And>row. row \<in> set (gathering_rows gid s) \<Longrightarrow> length (g_participants row) + 1 + length add < 2 ^ 32"
  shows "JoinGatheringWithParticipants K gid c add message b s =
    (case gathering_rows gid s of
       [] \<Rightarrow> (Err RendezVous_SessionVoid, s)
     | row # _ \<Rightarrow>
         (let caller = conn_PID c; old = g_participants row; already = (b = JoinBehaviorImAlreadyJoined K);
              new = (if already then [] else [caller]) @ add in
          if length old + 1 + length add > unat (g_max_participants row) then (Err RendezVous_SessionFull, s)
          else if already \<and> caller \<notin> set old then (Err RendezVous_NotParticipatedGathering, s)
          else if \<not> already \<and> caller \<in> set old then (Err RendezVous_AlreadyParticipatedGathering, s)
          else (Ok (word_of_nat (length (old @ new))),
                notified_all K (switch_notices K gid caller new @
                    concat (map (arrival_notices K gid row caller new message) new))
                  (logged (TrackJoinGathering caller gid new (old @ new))
                    (set_participants gid (old @ new) s)))))"
proof (cases "gathering_rows gid s")
  case Nil
  then show ?thesis by (simp add: JoinGatheringWithParticipants_def Let_def bindM_def run_query_row ok run_throw)
next
  case (Cons row rows)
  define caller where "caller = conn_PID c"
  define n where "n = length (g_participants row) + 1 + length add"
  have "n < 2 ^ 32" using small [of row] Cons by (simp add: n_def)
  then have full: "word_of_nat n > (ucast (g_max_participants row) :: u32) \<longleftrightarrow> n > unat (g_max_participants row)"
    by (simp add: word_less_nat_alt unat_of_nat_u32)
  define new where "new = (if b = JoinBehaviorImAlreadyJoined K then [] else [caller]) @ add"
  have arrive: "forM new (\<lambda>p. bindM (if hasFlags (g_flags row) (verboseMask K) \<or> caller \<noteq> g_owner_pid row
        then SendNotificationEvent K
          (newParticipantEvent K caller gid p message (word_of_nat (length (g_participants row @ new))))
          (if hasFlags (g_flags row) (verboseMask K) then RemoveDuplicates (g_participants row @ new)
           else [g_owner_pid row])
        else retM ()) (\<lambda>_. if hasFlags (g_flags row) (GF_VerboseParticipantsEx K)
          then forM (RemoveDuplicates (g_participants row)) (\<lambda>q. SendNotificationEvent K
            (newParticipantEvent K caller gid q message (word_of_nat (length (g_participants row @ new)))) [p])
          else retM ())) t
      = (Ok (), notified_all K (concat (map (arrival_notices K gid row caller new message) new)) t)" for t
    by (rule run_for_notices)
      (simp add: bindM_def run_notify run_notify_all run_ret arrival_notices_def Let_def)
  have q: "bindM (sql_query_row (gathering_rows gid)) k s = k (Inr row) s" for k :: "_ \<Rightarrow> u32 mm"
    by (simp add: bindM_def run_query_row ok Cons)
  have "db_faults (update_gathering gid f s) = []" for f using ok by simp
  then show ?thesis
    unfolding JoinGatheringWithParticipants_def Let_def caller_def [symmetric] q row_or_simps Cons list.case
    unfolding n_def [symmetric] full new_def [symmetric]
    by (simp add: bindM_def [of "sql_exec _ _"]
      bindM_def [of "track _"] bindM_def [of "forM _ _"] run_throw run_exec ok
      LogJoinGathering_def run_log run_switch arrive run_ret set_participants_def [symmetric] switch_notices_def
      del: length_append of_nat_add)
qed

section \<open>Leaving\<close>

text \<open>
  The state after the leaver has been taken out, for a gathering that goes on: what happens to
  owner and host, and who hears of it. \<open>seen\<close> is the participant list used for the notices.
\<close>

definition new_owner :: "gathering_row \<Rightarrow> pid \<Rightarrow> pid list \<Rightarrow> pid" where
  "new_owner row leaver rest =
     (if leaver = g_owner_pid row then find_newOwner leaver (RemoveDuplicates rest) else g_owner_pid row)"

definition owner_changed :: "nexlib \<Rightarrow> u32 \<Rightarrow> gathering_row \<Rightarrow> pid \<Rightarrow> pid list \<Rightarrow> mm_world \<Rightarrow> mm_world" where
  "owner_changed K gid row leaver rest s =
    (let owner' = new_owner row leaver rest in
     if leaver \<noteq> g_owner_pid row then s
     else if owner' = 0 then
       notified K (mkEvent K leaver (NC_GatheringUnregistered K) (NS_GatheringUnregistered_None K) gid)
         (RemoveDuplicates rest) (logged (TrackUnregisterGathering leaver gid) (unregistered gid s))
     else
       notified K ((mkEvent K leaver (NC_OwnershipChanged K) (NS_OwnershipChanged_None K) gid)
           \<lparr>Param2 := ucast owner'\<rparr>) (RemoveDuplicates rest)
         (logged (TrackChangeOwner leaver gid leaver owner') (rehosted gid owner' (g_host_pid row) s)))"

definition host_changed :: "nexlib \<Rightarrow> u32 \<Rightarrow> gathering_row \<Rightarrow> pid \<Rightarrow> pid \<Rightarrow> pid list \<Rightarrow> mm_world \<Rightarrow> mm_world" where
  "host_changed K gid row leaver owner' seen s =
    (if leaver = g_host_pid row \<and> owner' \<noteq> 0 then
       logged (TrackChangeHost leaver gid (g_host_pid row) owner')
         (notified K (mkEvent K leaver (NC_HostChanged K) (NS_HostChanged_None K) gid)
           (RemoveDuplicates seen) (rehosted gid owner' owner' s))
     else s)"

lemma change_more_faults [simp]:
  "db_faults (owner_changed K gid row leaver rest s) = db_faults s"
  "db_faults (host_changed K gid row leaver owner' seen s) = db_faults s"
  by (simp_all add: owner_changed_def host_changed_def Let_def)

lemma rows_owner_changed:
  "gathering_rows gid (owner_changed K gid row leaver rest s) =
    (if leaver \<noteq> g_owner_pid row then gathering_rows gid s
     else if new_owner row leaver rest = 0 then map (\<lambda>g. g\<lparr>g_registered := False\<rparr>) (gathering_rows gid s)
     else map (\<lambda>g. g\<lparr>g_owner_pid := new_owner row leaver rest, g_host_pid := g_host_pid row\<rparr>) (gathering_rows gid s))"
  by (simp add: owner_changed_def Let_def)

lemma run_Migrate:
  assumes "db_faults s = []" and "gathering_rows gid s \<noteq> []" and "leaver = g_owner_pid row"
    and "ID g = gid" "OwnerPID g = g_owner_pid row" "HostPID g = g_host_pid row" "leaver = conn_PID c"
  shows "MigrateGatheringOwnership K c g rest s =
    (Ok (new_owner row leaver rest), owner_changed K gid row leaver rest s)"
  using assms
  by (simp add: MigrateGatheringOwnership_def Let_def new_owner_def owner_changed_def bindM_def run_Unregister
    run_UpdateSessionHost LogChangeOwner_def run_log run_notify run_ret)

text \<open>
  What follows the removal, for a participant who leaves and for one who is disconnected: the
  final event goes to everyone in \<open>seen\<close> of a verbose gathering, else to the owner found before.
\<close>

definition departed ::
  "nexlib \<Rightarrow> u32 \<Rightarrow> gathering_row \<Rightarrow> pid \<Rightarrow> pid list \<Rightarrow> notification_event \<Rightarrow> mm_world \<Rightarrow> mm_world" where
  "departed K gid row leaver seen event s =
    (let rest = removeAll leaver (g_participants row); flags = g_flags row;
         gone = logged (TrackUnregisterGathering leaver gid) (unregistered gid s) in
     if hasFlags flags (keepsEmptyMask K) then s
     else if rest = [] then gone
     else if leaver = g_owner_pid row \<and> \<not> hasFlags flags (GF_DisconnectChangeOwner K) then
       notified K (mkEvent K leaver (NC_GatheringUnregistered K) (NS_GatheringUnregistered_None K) gid)
         (RemoveDuplicates rest) gone
     else
       notified K event (if hasFlags flags (verboseMask K) then RemoveDuplicates seen else [g_owner_pid row])
         (host_changed K gid row leaver (new_owner row leaver rest) seen
           (owner_changed K gid row leaver rest s)))"

definition ended_event :: "nexlib \<Rightarrow> pid \<Rightarrow> u32 \<Rightarrow> string \<Rightarrow> notification_event" where
  "ended_event K leaver gid message =
     (mkEvent K leaver (NC_Participation K) (NS_Participation_Ended K) gid)
       \<lparr>Param2 := ucast leaver, StrParam := message\<rparr>"

definition disconnected_event :: "nexlib \<Rightarrow> pid \<Rightarrow> u32 \<Rightarrow> notification_event" where
  "disconnected_event K leaver gid =
     (mkEvent K leaver (NC_Participation K) (NS_Participation_Disconnected K) gid)\<lparr>Param2 := ucast leaver\<rparr>"

lemma row_gathering_simps [simp]:
  "OwnerPID (row_gathering row) = g_owner_pid row" "HostPID (row_gathering row) = g_host_pid row"
  "Flags (row_gathering row) = g_flags row"
  by (simp_all add: row_gathering_def)

lemma rows_owner_changed_nonempty:
  "gathering_rows gid s \<noteq> [] \<Longrightarrow> gathering_rows gid (owner_changed K gid row leaver rest s) \<noteq> []"
  by (simp add: rows_owner_changed)

lemma run_End:
  assumes ok: "db_faults s = []" and one: "gathering_rows gid s = [row]"
  shows "EndGatheringParticipation K gid c message s =
    (if \<not> g_registered row then (Err RendezVous_SessionVoid, s)
     else if conn_PID c \<notin> set (g_participants row) then (Err RendezVous_NotParticipatedGathering, s)
     else (Ok (), departed K gid row (conn_PID c) (g_participants row) (ended_event K (conn_PID c) gid message)
       (logged (TrackLeaveGathering (conn_PID c) gid (removeAll (conn_PID c) (g_participants row)))
         (drop_participant gid (conn_PID c) s))))"
proof -
  define caller where "caller = conn_PID c"
  define g where "g = (row_gathering row)\<lparr>ID := gid\<rparr>"
  have g: "ID g = gid" "OwnerPID g = g_owner_pid row" "HostPID g = g_host_pid row" "Flags g = g_flags row"
    by (simp_all add: g_def row_gathering_def)
  define rest where "rest = removeAll caller (g_participants row)"
  define s1 where "s1 = logged (TrackLeaveGathering caller gid rest) (drop_participant gid caller s)"
  have ok1: "db_faults s1 = []" and rows1: "gathering_rows gid s1 \<noteq> []"
    by (simp_all add: s1_def ok one)
  define s2 where "s2 = (if caller = g_owner_pid row then owner_changed K gid row caller rest s1 else s1)"
  have ok2: "db_faults s2 = []" and rows2: "gathering_rows gid s2 \<noteq> []"
    using rows_owner_changed_nonempty [OF rows1] by (simp_all add: s2_def ok1 rows1)
  have s2: "owner_changed K gid row caller rest s1 = s2"
    by (cases "caller = g_owner_pid row") (simp_all add: s2_def, simp add: owner_changed_def)
  have migrate: "(if caller = g_owner_pid row
       then MigrateGatheringOwnership K c g rest
       else retM (g_owner_pid row)) s1 = (Ok (new_owner row caller rest), s2)"
  proof (cases "caller = g_owner_pid row")
    case True
    then show ?thesis
      using run_Migrate [OF ok1 rows1 True, of g c K rest] g by (simp add: s2_def caller_def)
  qed (simp add: run_ret s2_def new_owner_def)
  have host: "(if caller = g_host_pid row \<and> p \<noteq> 0 then
        bindM (UpdateSessionHost gid p p) (\<lambda>_.
        bindM (SendNotificationEvent K (mkEvent K caller (NC_HostChanged K) (NS_HostChanged_None K) gid)
          (RemoveDuplicates (g_participants row))) (\<lambda>_.
        LogChangeHost caller gid (g_host_pid row) p)) else retM ()) s2
     = (Ok (), host_changed K gid row caller p (g_participants row) s2)" for p
    using ok2 rows2 by (simp add: bindM_def run_UpdateSessionHost run_notify LogChangeHost_def run_log
      run_ret host_changed_def)
  define event where "event = ended_event K caller gid message"
  have event: "(mkEvent K caller (NC_Participation K) (NS_Participation_Ended K) gid)
      \<lparr>Param2 := ucast caller, StrParam := message\<rparr> = event"
    by (simp add: event_def ended_event_def)
  have rhs: "departed K gid row caller (g_participants row) event s1 =
    (if hasFlags (g_flags row) (keepsEmptyMask K) then s1
     else if rest = [] then logged (TrackUnregisterGathering caller gid) (unregistered gid s1)
     else if caller = g_owner_pid row \<and> \<not> hasFlags (g_flags row) (GF_DisconnectChangeOwner K) then
       notified K (mkEvent K caller (NC_GatheringUnregistered K) (NS_GatheringUnregistered_None K) gid)
         (RemoveDuplicates rest) (logged (TrackUnregisterGathering caller gid) (unregistered gid s1))
     else notified K event
       (if hasFlags (g_flags row) (verboseMask K) then RemoveDuplicates (g_participants row) else [g_owner_pid row])
       (host_changed K gid row caller (new_owner row caller rest) (g_participants row) s2))"
    unfolding departed_def Let_def rest_def [symmetric] s2 ..
  have tail: "(if hasFlags (Flags g) (keepsEmptyMask K) then retM ()
      else if rest = [] then UnregisterGathering caller gid
      else if caller = OwnerPID g \<and> \<not> hasFlags (Flags g) (GF_DisconnectChangeOwner K) then
        bindM (UnregisterGathering caller gid) (\<lambda>_. SendNotificationEvent K
          (mkEvent K caller (NC_GatheringUnregistered K) (NS_GatheringUnregistered_None K) gid)
          (RemoveDuplicates rest))
      else bindM (if caller = OwnerPID g then MigrateGatheringOwnership K c g rest else retM (OwnerPID g))
        (\<lambda>p. bindM (if caller = HostPID g \<and> p \<noteq> 0 then
          bindM (UpdateSessionHost gid p p) (\<lambda>_.
          bindM (SendNotificationEvent K (mkEvent K caller (NC_HostChanged K) (NS_HostChanged_None K) gid)
            (RemoveDuplicates (g_participants row))) (\<lambda>_.
          LogChangeHost caller gid (HostPID g) p)) else retM ())
        (\<lambda>_. SendNotificationEvent K event
          (if hasFlags (Flags g) (verboseMask K) then RemoveDuplicates (g_participants row) else [OwnerPID g])))) s1
    = (Ok (), departed K gid row caller (g_participants row) event s1)"
    unfolding rhs g
    by (cases "hasFlags (g_flags row) (keepsEmptyMask K)"; cases "rest = []";
        cases "caller = g_owner_pid row \<and> \<not> hasFlags (g_flags row) (GF_DisconnectChangeOwner K)")
      (simp_all only: if_True if_False run_ret migrate host run_notify
        run_Unregister [OF ok1] rows1 bindM_def [of "UnregisterGathering _ _"]
        bindM_def [of "if _ then MigrateGatheringOwnership _ _ _ _ else _"]
        bindM_def [of "if _ then bindM (UpdateSessionHost _ _ _) _ else _"] prod.case outcome.case not_False_eq_True simp_thms)
  have find: "FindGatheringByID K gid s = (if g_registered row
      then (Ok (g, g_type row, g_participants row, DateTime_FromTimestamp K (g_started_time row)), s)
      else (Err RendezVous_SessionVoid, s))"
    by (simp add: run_Find ok one g_def)
  show ?thesis
  proof (cases "g_registered row \<and> caller \<in> set (g_participants row)")
    case True
    then show ?thesis
      unfolding EndGatheringParticipation_def Let_def caller_def [symmetric] rest_def [symmetric] s1_def [symmetric]
        event_def [symmetric] event tail [symmetric]
      by (simp add: bindM_def [of "FindGatheringByID _ _"] find one ok
        bindM_def [of "RemoveParticipantFromGathering _ _"] run_Remove
        LogLeaveGathering_def bindM_def [of "track _"] run_log rest_def [symmetric] s1_def [symmetric]
        cong: if_weak_cong split del: if_split)
  next
    case False
    then show ?thesis
      by (auto simp: EndGatheringParticipation_def bindM_def [of "FindGatheringByID _ _"] find caller_def [symmetric]
        run_throw)
  qed
qed

section \<open>Losing the connection\<close>

definition stays_connected :: "nexlib \<Rightarrow> gathering_row \<Rightarrow> bool" where
  "stays_connected K row \<longleftrightarrow> hasFlags (g_flags row) (GF_PersistentGathering K) \<or>
     (g_type row = ''PersistentGathering'' \<and> \<not> hasFlags (g_flags row) (GF_PersistentGatheringLeaveParticipation K))"

definition disconnected :: "nexlib \<Rightarrow> pid \<Rightarrow> gathering_row \<Rightarrow> mm_world \<Rightarrow> mm_world" where
  "disconnected K p row s =
    (let gid = word_of_nat (g_id row); rest = removeAll p (g_participants row) in
     if stays_connected K row then s
     else departed K gid row p rest (disconnected_event K p gid)
       (logged (TrackDisconnectGathering p gid rest) (drop_participant gid p s)))"

lemma run_disconnect_from:
  assumes ok: "db_faults s = []" and one: "gathering_rows (word_of_nat (g_id row)) s = [row]"
  shows "disconnect_from K c row s = (Ok (), disconnected K (conn_PID c) row s)"
proof -
  define gid where "gid = (word_of_nat (g_id row) :: u32)"
  define caller where "caller = conn_PID c"
  define rest where "rest = removeAll caller (g_participants row)"
  have removeAll_rest: "removeAll caller rest = rest" by (simp add: rest_def)
  define s1 where "s1 = logged (TrackDisconnectGathering caller gid rest) (drop_participant gid caller s)"
  define g where "g = row_gathering row"
  have ID: "ID (row_gathering row) = gid" by (simp add: row_gathering_def gid_def)
  have g: "OwnerPID g = g_owner_pid row" "HostPID g = g_host_pid row" "Flags g = g_flags row" "ID g = gid"
    by (simp_all add: g_def ID)
  have ok1: "db_faults s1 = []" and rows1: "gathering_rows gid s1 \<noteq> []"
    using one by (simp_all add: s1_def ok gid_def)
  define s2 where "s2 = (if caller = g_owner_pid row then owner_changed K gid row caller rest s1 else s1)"
  have ok2: "db_faults s2 = []" and rows2: "gathering_rows gid s2 \<noteq> []"
    using rows_owner_changed_nonempty [OF rows1] by (simp_all add: s2_def ok1 rows1)
  have s2: "owner_changed K gid row caller rest s1 = s2"
    by (cases "caller = g_owner_pid row") (simp_all add: s2_def, simp add: owner_changed_def)
  have migrate: "(if caller = g_owner_pid row
       then bindM (catchM (MigrateGatheringOwnership K c g rest)) (\<lambda>r.
              retM (case r of Inl _ \<Rightarrow> 0 | Inr newOwner \<Rightarrow> newOwner))
       else retM (g_owner_pid row)) s1 = (Ok (new_owner row caller rest), s2)"
  proof (cases "caller = g_owner_pid row")
    case True
    then show ?thesis
      using run_Migrate [OF ok1 rows1 True, of g c K rest] g
      by (simp add: run_ret s2_def caller_def bindM_def catchM_def)
  qed (simp add: run_ret s2_def new_owner_def)
  have host: "(if caller = g_host_pid row \<and> p \<noteq> 0 then
        bindM (catchM (UpdateSessionHost gid p p)) (\<lambda>r. case r of Inl _ \<Rightarrow> retM () | Inr _ \<Rightarrow>
        bindM (SendNotificationEvent K (mkEvent K caller (NC_HostChanged K) (NS_HostChanged_None K) gid)
          (RemoveDuplicates rest)) (\<lambda>_.
        LogChangeHost caller gid (g_host_pid row) p)) else retM ()) s2
     = (Ok (), host_changed K gid row caller p rest s2)" for p
    using ok2 rows2 by (simp add: bindM_def catchM_def run_UpdateSessionHost run_notify LogChangeHost_def run_log
      run_ret host_changed_def)
  define event where "event = disconnected_event K caller gid"
  have event: "(mkEvent K caller (NC_Participation K) (NS_Participation_Disconnected K) gid)
      \<lparr>Param2 := ucast caller\<rparr> = event"
    by (simp add: event_def disconnected_event_def)
  have rhs: "departed K gid row caller rest event s1 =
    (if hasFlags (g_flags row) (keepsEmptyMask K) then s1
     else if rest = [] then logged (TrackUnregisterGathering caller gid) (unregistered gid s1)
     else if caller = g_owner_pid row \<and> \<not> hasFlags (g_flags row) (GF_DisconnectChangeOwner K) then
       notified K (mkEvent K caller (NC_GatheringUnregistered K) (NS_GatheringUnregistered_None K) gid)
         (RemoveDuplicates rest) (logged (TrackUnregisterGathering caller gid) (unregistered gid s1))
     else notified K event
       (if hasFlags (g_flags row) (verboseMask K) then RemoveDuplicates rest else [g_owner_pid row])
       (host_changed K gid row caller (new_owner row caller rest) rest s2))"
    unfolding departed_def Let_def rest_def [symmetric] s2 removeAll_rest ..
  have tail: "(if hasFlags (Flags g) (keepsEmptyMask K) then retM ()
      else if rest = [] then UnregisterGathering caller gid
      else if caller = OwnerPID g \<and> \<not> hasFlags (Flags g) (GF_DisconnectChangeOwner K) then
        bindM (UnregisterGathering caller gid) (\<lambda>_. SendNotificationEvent K
          (mkEvent K caller (NC_GatheringUnregistered K) (NS_GatheringUnregistered_None K) gid)
          (RemoveDuplicates rest))
      else bindM (if caller = OwnerPID g
          then bindM (catchM (MigrateGatheringOwnership K c g rest)) (\<lambda>r.
            retM (case r of Inl _ \<Rightarrow> 0 | Inr newOwner \<Rightarrow> newOwner))
          else retM (OwnerPID g))
        (\<lambda>p. bindM (if caller = HostPID g \<and> p \<noteq> 0 then
          bindM (catchM (UpdateSessionHost gid p p)) (\<lambda>r. case r of Inl _ \<Rightarrow> retM () | Inr _ \<Rightarrow>
          bindM (SendNotificationEvent K (mkEvent K caller (NC_HostChanged K) (NS_HostChanged_None K) gid)
            (RemoveDuplicates rest)) (\<lambda>_.
          LogChangeHost caller gid (HostPID g) p)) else retM ())
        (\<lambda>_. SendNotificationEvent K event
          (if hasFlags (Flags g) (verboseMask K) then RemoveDuplicates rest else [OwnerPID g])))) s1
    = (Ok (), departed K gid row caller rest event s1)"
    unfolding rhs g
    by (cases "hasFlags (g_flags row) (keepsEmptyMask K)"; cases "rest = []";
        cases "caller = g_owner_pid row \<and> \<not> hasFlags (g_flags row) (GF_DisconnectChangeOwner K)")
      (simp_all only: if_True if_False run_ret migrate host run_notify
        run_Unregister [OF ok1] rows1 bindM_def [of "UnregisterGathering _ _"]
        bindM_def [of "if _ then bindM (catchM (MigrateGatheringOwnership _ _ _ _)) _ else _"]
        bindM_def [of "if _ then bindM (catchM (UpdateSessionHost _ _ _)) _ else _"]
        prod.case outcome.case not_False_eq_True simp_thms)
  show ?thesis
  proof (cases "stays_connected K row")
    case True
    then show ?thesis
      by (simp add: disconnect_from_def disconnected_def stays_connected_def Let_def run_ret)
  next
    case False
    then have go: "(hasFlags (Flags g) (GF_PersistentGathering K) \<or> g_type row = ''PersistentGathering'' \<and>
        \<not> hasFlags (Flags g) (GF_PersistentGatheringLeaveParticipation K)) = False"
      by (simp add: stays_connected_def g_def)
    have remove: "RemoveParticipantFromGathering gid caller s = (Ok rest, drop_participant gid caller s)"
      using one by (simp add: run_Remove ok rest_def gid_def)
    have log: "track (TrackDisconnectGathering caller gid rest) (drop_participant gid caller s) = (Ok (), s1)"
      by (simp add: run_log ok s1_def)
    have world: "disconnected K caller row s = departed K gid row caller rest event s1"
      using False unfolding disconnected_def Let_def rest_def [symmetric] gid_def [symmetric] s1_def [symmetric]
        event_def [symmetric] by simp
    show ?thesis
      unfolding disconnect_from_def Let_def caller_def [symmetric] g_def [symmetric] world tail [symmetric]
      by (simp only: go if_False g(4) LogDisconnectGathering_def event
        bindM_def [of "RemoveParticipantFromGathering _ _"] bindM_def [of "track _"] remove log
        prod.case outcome.case)
  qed
qed

end
