(* ===== verification/Gathering_Spec.thy ===== *)
theory Gathering_Spec
  imports Gathering_Runs Matchmake_Session_Db
begin

text \<open>
  What joining and leaving mean for one gathering, as functions on its row, and the refinement
  of the database functions to them: a statement sequence with its log entries and notices
  changes the tables exactly as the row function does.
\<close>

section \<open>The row functions\<close>

definition leave_row :: "nexlib \<Rightarrow> pid \<Rightarrow> gathering_row \<Rightarrow> gathering_row" where
  "leave_row K p row =
    (let rest = removeAll p (g_participants row); left = row\<lparr>g_participants := rest\<rparr>; flags = g_flags row in
     if hasFlags flags (keepsEmptyMask K) then left
     else if rest = [] then left\<lparr>g_registered := False\<rparr>
     else if p = g_owner_pid row \<and> \<not> hasFlags flags (GF_DisconnectChangeOwner K) then left\<lparr>g_registered := False\<rparr>
     else
       (let owner = (if p = g_owner_pid row then hd rest else g_owner_pid row) in
        if p = g_owner_pid row \<and> owner = 0 then left\<lparr>g_registered := False\<rparr>
        else if p = g_host_pid row \<and> owner \<noteq> 0 then left\<lparr>g_owner_pid := owner, g_host_pid := owner\<rparr>
        else left\<lparr>g_owner_pid := owner\<rparr>))"

definition join_row :: "pid \<Rightarrow> nat \<Rightarrow> gathering_row \<Rightarrow> result_code + gathering_row" where
  "join_row p places row =
    (if g_max_participants row \<noteq> 0 \<and> length (g_participants row) + places > unat (g_max_participants row)
     then Inl RendezVous_SessionFull
     else if p \<in> set (g_participants row) then Inl RendezVous_AlreadyParticipatedGathering
     else Inr (row\<lparr>g_participants := g_participants row @ replicate places p\<rparr>))"

definition join_with_row :: "bool \<Rightarrow> pid \<Rightarrow> pid list \<Rightarrow> gathering_row \<Rightarrow> result_code + gathering_row" where
  "join_with_row already p others row =
    (if length (g_participants row) + 1 + length others > unat (g_max_participants row)
     then Inl RendezVous_SessionFull
     else if already \<and> p \<notin> set (g_participants row) then Inl RendezVous_NotParticipatedGathering
     else if \<not> already \<and> p \<in> set (g_participants row) then Inl RendezVous_AlreadyParticipatedGathering
     else Inr (row\<lparr>g_participants := g_participants row @ (if already then others else p # others)\<rparr>))"

lemma leave_row_id [simp]: "g_id (leave_row K p row) = g_id row" "g_type (leave_row K p row) = g_type row"
  "g_flags (leave_row K p row) = g_flags row" "g_max_participants (leave_row K p row) = g_max_participants row"
  by (simp_all add: leave_row_def Let_def)

lemma leave_row_participants [simp]: "g_participants (leave_row K p row) = removeAll p (g_participants row)"
  by (simp add: leave_row_def Let_def)

lemma leave_row_registered: "g_registered (leave_row K p row) \<Longrightarrow> g_registered row"
  by (simp add: leave_row_def Let_def split: if_splits)

section \<open>Updates of one row\<close>

lemma update_update:
  assumes "\<And>g. g_id (f g) = g_id g"
  shows "update_gathering gid h (update_gathering gid f s) = update_gathering gid (\<lambda>g. h (f g)) s"
  using assms by (simp add: update_gathering_def)

lemma update_rows_cong:
  assumes "\<And>g. g \<in> set (gathering_rows gid s) \<Longrightarrow> f g = h g"
  shows "update_gathering gid f s = update_gathering gid h s"
  using assms by (simp add: update_gathering_def gathering_rows_def cong: map_cong if_cong)

lemma tables_update_cong:
  "tables s = tables t \<Longrightarrow> tables (update_gathering gid f s) = tables (update_gathering gid f t)"
  by (simp add: tables_def update_gathering_def)

lemma tables_changes [simp]:
  "tables (update_gathering gid f (logged e s)) = tables (update_gathering gid f s)"
  "tables (update_gathering gid f (notified K ev ts s)) = tables (update_gathering gid f s)"
  "tables (update_gathering gid f (notified_all K ns s)) = tables (update_gathering gid f s)"
  by (rule tables_update_cong, simp)+

lemma hd_new_owner:
  assumes "p \<notin> set rest" and "rest \<noteq> []"
  shows "find_newOwner p (RemoveDuplicates rest) = hd rest"
  using assms by (cases rest) (auto simp: RemoveDuplicates_Cons)

lemma tables_departed:
  assumes one: "gathering_rows gid s = [row]" and that: "s' = logged e (drop_participant gid p s)"
  shows "tables (departed K gid row p ps event s') = tables (update_gathering gid (leave_row K p) s)"
proof -
  define rest where "rest = removeAll p (g_participants row)"
  define owner where "owner = new_owner row p rest"
  have owner: "rest \<noteq> [] \<Longrightarrow> owner = (if p = g_owner_pid row then hd rest else g_owner_pid row)"
    using hd_new_owner [of p rest] by (auto simp: owner_def new_owner_def rest_def)
  have stays: "p \<noteq> g_owner_pid row \<Longrightarrow> owner = g_owner_pid row"
    by (simp add: owner_def new_owner_def)
  have row: "leave_row K p row =
      (let left = row\<lparr>g_participants := rest\<rparr> in
       if hasFlags (g_flags row) (keepsEmptyMask K) then left
       else if rest = [] then left\<lparr>g_registered := False\<rparr>
       else if p = g_owner_pid row \<and> \<not> hasFlags (g_flags row) (GF_DisconnectChangeOwner K)
       then left\<lparr>g_registered := False\<rparr>
       else if p = g_owner_pid row \<and> owner = 0 then left\<lparr>g_registered := False\<rparr>
       else if p = g_host_pid row \<and> owner \<noteq> 0 then left\<lparr>g_owner_pid := owner, g_host_pid := owner\<rparr>
       else left\<lparr>g_owner_pid := owner\<rparr>)"
    using owner by (simp add: leave_row_def Let_def rest_def [symmetric])
  have drop: "drop_participant gid p s = update_gathering gid (\<lambda>g. g\<lparr>g_participants := rest\<rparr>) s"
    unfolding drop_participant_def by (rule update_rows_cong) (simp add: one rest_def)
  have leave: "update_gathering gid (leave_row K p) s = update_gathering gid (\<lambda>_. leave_row K p row) s"
    by (rule update_rows_cong) (simp add: one)
  show ?thesis
    unfolding that departed_def owner_changed_def host_changed_def Let_def rest_def [symmetric]
      owner_def [symmetric] drop unregistered_def rehosted_def leave row
    by (cases "p = g_owner_pid row"; cases "p = g_host_pid row"; cases "owner = 0"; use stays in \<open>simp add: update_update\<close>;
       intro conjI impI arg_cong [of _ _ tables] update_rows_cong; simp add: one)
qed

section \<open>Leaving refines the row function\<close>

definition leave_result :: "u32 \<Rightarrow> pid \<Rightarrow> mm_world \<Rightarrow> unit outcome" where
  "leave_result gid p s = (case gathering_rows gid s of
       [] \<Rightarrow> Err RendezVous_SessionVoid
     | row # _ \<Rightarrow>
         if \<not> g_registered row then Err RendezVous_SessionVoid
         else if p \<notin> set (g_participants row) then Err RendezVous_NotParticipatedGathering
         else Ok ())"

lemma single_row:
  assumes "gatherings_ok s"
  shows "gathering_rows gid s = [] \<or> (\<exists>row. gathering_rows gid s = [row])"
proof -
  have "distinct (gathering_rows gid s)"
    using assms by (auto simp: gathering_rows_def gatherings_ok_def ids_ok_def distinct_map)
  moreover have "card (set (gathering_rows gid s)) \<le> 1"
    using row_unique assms unfolding gatherings_ok_def by (intro card_le_Suc0_iff_eq [THEN iffD2, folded One_nat_def]) auto
  ultimately have "length (gathering_rows gid s) \<le> 1" by (simp add: distinct_card)
  then show ?thesis by (cases "gathering_rows gid s") auto
qed

lemma faults_departed [simp]: "db_faults (departed K gid row p ps event s) = db_faults s"
  by (simp add: departed_def Let_def)

lemma End_refines:
  assumes ok: "db_faults s = []" and g: "gatherings_ok s"
  shows "\<exists>t. EndGatheringParticipation K gid c message s = (leave_result gid (conn_PID c) s, t) \<and>
    db_faults t = [] \<and> (if leave_result gid (conn_PID c) s = Ok ()
      then tables t = tables (update_gathering gid (leave_row K (conn_PID c)) s) else t = s)"
  using single_row [OF g, of gid]
proof (elim disjE exE)
  assume "gathering_rows gid s = []"
  then show ?thesis
    by (simp add: EndGatheringParticipation_def Let_def leave_result_def run_Find ok bindM_def)
next
  fix row assume one: "gathering_rows gid s = [row]"
  show ?thesis
    by (simp add: run_End [OF ok one] leave_result_def one ok tables_departed [OF one refl])
qed

lemma disconnect_from_refines:
  assumes ok: "db_faults s = []" and one: "gathering_rows (word_of_nat (g_id row)) s = [row]"
  shows "\<exists>t. disconnect_from K c row s = (Ok (), t) \<and> db_faults t = [] \<and>
    tables t = tables (if stays_connected K row then s
      else update_gathering (word_of_nat (g_id row)) (leave_row K (conn_PID c)) s)"
  by (simp add: run_disconnect_from [OF ok one] disconnected_def Let_def ok
    tables_departed [OF one refl])

section \<open>Leaving many gatherings\<close>

definition update_where ::
  "(gathering_row \<Rightarrow> bool) \<Rightarrow> (gathering_row \<Rightarrow> gathering_row) \<Rightarrow> mm_world \<Rightarrow> mm_world" where
  "update_where P f s = s\<lparr>t_gatherings := map (\<lambda>g. if P g then f g else g) (t_gatherings s)\<rparr>"

lemma tables_where_cong: "tables s = tables t \<Longrightarrow> tables (update_where P f s) = tables (update_where P f t)"
  by (simp add: tables_def update_where_def)

lemma update_where_cong:
  "(\<And>g. g \<in> set (t_gatherings s) \<Longrightarrow> P g = Q g) \<Longrightarrow> update_where P f s = update_where Q f s"
  by (simp add: update_where_def)

lemma update_where_none: "(\<And>g. g \<in> set (t_gatherings s) \<Longrightarrow> \<not> P g) \<Longrightarrow> update_where P f s = s"
  by (simp add: update_where_def map_idI)

lemma update_where_twice:
  assumes "\<And>g. g_id (f g) = g_id g" and "\<And>g. \<not> P (f g)"
  shows "update_where (\<lambda>g. g_id g \<in> B \<and> P g) f (update_where (\<lambda>g. g_id g = n \<and> P g) f s) =
    update_where (\<lambda>g. g_id g \<in> insert n B \<and> P g) f s"
proof -
  have "(\<lambda>g. if g_id g \<in> B \<and> P g then f g else g) \<circ> (\<lambda>g. if g_id g = n \<and> P g then f g else g) =
      (\<lambda>g. if g_id g \<in> insert n B \<and> P g then f g else g)"
    using assms by (auto simp: fun_eq_iff)
  then show ?thesis unfolding update_where_def by simp
qed

text \<open>
  A loop whose step handles the row with the item's key: together the steps handle all rows
  whose key is among the items. \<open>R\<close> is what a step needs to find for its item.
\<close>

lemma loop_updates:
  assumes step: "\<And>x s. x \<in> set xs \<Longrightarrow> I s \<Longrightarrow> R x s \<Longrightarrow>
      \<exists>t. f x s = (Ok (), t) \<and> I t \<and> tables t = tables (update_where (\<lambda>g. g_id g = k x \<and> P g) h s)"
    and other: "\<And>x y s t. x \<in> set xs \<Longrightarrow> y \<in> set xs \<Longrightarrow> k x \<noteq> k y \<Longrightarrow> R y s \<Longrightarrow>
      tables t = tables (update_where (\<lambda>g. g_id g = k x \<and> P g) h s) \<Longrightarrow> R y t"
    and h: "\<And>g. g_id (h g) = g_id g" "\<And>g. \<not> P (h g)"
    and "distinct (map k xs)" and "I s" and "\<And>x. x \<in> set xs \<Longrightarrow> R x s"
  shows "\<exists>t. forM xs f s = (Ok (), t) \<and> I t \<and>
    tables t = tables (update_where (\<lambda>g. g_id g \<in> k ` set xs \<and> P g) h s)"
  using assms
proof (induction xs arbitrary: s)
  case Nil
  then show ?case by (simp add: run_ret update_where_none)
next
  case (Cons x xs)
  obtain t where t: "f x s = (Ok (), t)" "I t" "tables t = tables (update_where (\<lambda>g. g_id g = k x \<and> P g) h s)"
    using Cons.prems(1) [of x s] Cons.prems(6,7) by auto
  have R: "R y t" if "y \<in> set xs" for y
    using Cons.prems(2) [of x y s t] Cons.prems(5,7) that t(3) by fastforce
  have "\<exists>u. forM xs f t = (Ok (), u) \<and> I u \<and>
      tables u = tables (update_where (\<lambda>g. g_id g \<in> k ` set xs \<and> P g) h t)"
  proof (rule Cons.IH)
    show "distinct (map k xs)" using Cons.prems(5) by simp
    show "R z v" if "y \<in> set xs" "z \<in> set xs" "k y \<noteq> k z" "R z u"
        "tables v = tables (update_where (\<lambda>g. g_id g = k y \<and> P g) h u)" for y z u v
      by (rule Cons.prems(2) [OF _ _ that(3-5)]) (use that in simp_all)
  qed (use Cons.prems(1,3,4) t(2) R in auto)
  then obtain u where u: "forM xs f t = (Ok (), u)" "I u"
      "tables u = tables (update_where (\<lambda>g. g_id g \<in> k ` set xs \<and> P g) h t)" by blast
  have "tables u = tables (update_where (\<lambda>g. g_id g \<in> k ` set (x # xs) \<and> P g) h s)"
    unfolding u(3) tables_where_cong [OF t(3)] update_where_twice [where f = h and P = P, OF h] by simp
  then show ?case using t u by (simp add: run_bind_Ok)
qed

definition leaves :: "pid \<Rightarrow> gathering_row \<Rightarrow> bool" where
  "leaves p g \<longleftrightarrow> g_registered g \<and> p \<in> set (g_participants g) \<and> int (g_id g) < 2 ^ 32"

lemma not_leaves_again [simp]: "\<not> leaves p (leave_row K p g)"
  by (simp add: leaves_def)

lemma update_as_where:
  "update_gathering gid f s = update_where (\<lambda>g. g_id g = unat gid) f s"
  by (simp add: update_gathering_def update_where_def)

lemma set_rows: "g \<in> set (gathering_rows gid s) \<longleftrightarrow> g \<in> set (t_gatherings s) \<and> g_id g = unat gid"
  by (auto simp: gathering_rows_def)

lemma leave_if_leaves:
  assumes g: "gatherings_ok s"
  shows "(if leave_result gid p s = Ok () then update_gathering gid (leave_row K p) s else s) =
    update_where (\<lambda>g. g_id g = unat gid \<and> leaves p g) (leave_row K p) s"
  using single_row [OF g, of gid]
proof (elim disjE exE)
  assume none: "gathering_rows gid s = []"
  then have "\<not> (g_id g = unat gid \<and> leaves p g)" if "g \<in> set (t_gatherings s)" for g
    using that by (auto simp: gathering_rows_def filter_empty_conv)
  then show ?thesis using none by (simp add: leave_result_def update_where_none)
next
  fix row assume one: "gathering_rows gid s = [row]"
  then have row: "g = row" if "g \<in> set (t_gatherings s)" "g_id g = unat gid" for g
    using that set_rows [of g gid s] by simp
  have small: "int (unat gid) < 2 ^ 32" using unsigned_less [of gid] by simp
  show ?thesis
  proof (cases "leave_result gid p s = Ok ()")
    case True
    then have "leaves p row"
      using one small set_rows [of row gid s] by (auto simp: leave_result_def leaves_def split: if_splits)
    then have "update_where (\<lambda>g. g_id g = unat gid \<and> leaves p g) (leave_row K p) s =
        update_where (\<lambda>g. g_id g = unat gid) (leave_row K p) s"
      using row by (intro update_where_cong) blast
    then show ?thesis using True by (simp add: update_as_where)
  next
    case False
    then have "\<not> leaves p row" using one by (auto simp: leave_result_def leaves_def split: if_splits)
    then have "\<not> (g_id g = unat gid \<and> leaves p g)" if "g \<in> set (t_gatherings s)" for g
      using row [OF that] by auto
    then show ?thesis using False by (simp add: update_where_none)
  qed
qed

abbreviation fine :: "mm_world \<Rightarrow> bool" where
  "fine s \<equiv> db_faults s = [] \<and> gatherings_ok s"

lemma keeps_fine_End:
  "fine s \<Longrightarrow> gatherings_ok (snd (EndGatheringParticipation K gid c message s))"
  using keepsD [OF gok.keeps_End [of K gid c message], of s] by simp

lemma run_EndSessions:
  assumes fine: "fine s"
  shows "\<exists>t. EndMatchmakeSessionsParticipation K c s = (Ok (), t) \<and> fine t \<and>
    tables t = tables (update_where (\<lambda>g. g_type g = ''MatchmakeSession'' \<and> leaves (conn_PID c) g)
      (leave_row K (conn_PID c)) s)"
proof -
  let ?p = "conn_PID c"
  let ?mine = "filter (\<lambda>g. g_type g = ''MatchmakeSession'' \<and> ?p \<in> set (g_participants g)) (t_gatherings s)"
  let ?body = "\<lambda>n. if int n \<ge> 2 ^ 32 then retM ()
    else bindM (catchM (EndGatheringParticipation K (word_of_nat n) c [])) (\<lambda>_. retM ())"
  have step: "\<exists>u. ?body n t = (Ok (), u) \<and> fine u \<and>
      tables u = tables (update_where (\<lambda>g. g_id g = n \<and> leaves ?p g) (leave_row K ?p) t)" if t: "fine t" for n t
  proof (cases "int n \<ge> 2 ^ 32")
    case True
    then have "\<not> (g_id g = n \<and> leaves ?p g)" for g by (auto simp: leaves_def)
    then show ?thesis using True t by (simp add: run_ret update_where_none)
  next
    case False
    define gid where "gid = (word_of_nat n :: u32)"
    have gid: "unat gid = n" unfolding gid_def by (rule unat_of_nat_u32) (use False in simp)
    obtain u where u: "EndGatheringParticipation K gid c [] t = (leave_result gid ?p t, u)" "db_faults u = []"
        "tables u = tables (if leave_result gid ?p t = Ok () then update_gathering gid (leave_row K ?p) t else t)"
      using End_refines [of t K gid c "[]"] t by (cases "leave_result gid ?p t = Ok ()") auto
    have "gatherings_ok u" using keeps_fine_End [OF t, of K gid c "[]"] u(1) by simp
    moreover have "?body n t = (Ok (), u)"
      using False u(1) unfolding gid_def [symmetric]
      by (cases "gathering_rows gid t") (auto simp: bindM_def catchM_def run_ret leave_result_def split: if_splits)
    ultimately show ?thesis
      using u(2,3) t leave_if_leaves [of t gid ?p K] gid by auto
  qed
  have "\<exists>t. forM (map g_id ?mine) ?body s = (Ok (), t) \<and> fine t \<and>
    tables t = tables (update_where (\<lambda>g. g_id g \<in> (\<lambda>n. n) ` set (map g_id ?mine) \<and> leaves ?p g) (leave_row K ?p) s)"
  proof (rule loop_updates [where R = "\<lambda>_ _. True"], goal_cases)
    case (1 n t)
    show ?case by (rule step [OF 1(2)])
  next
    case 5
    show ?case using fine by (simp add: gatherings_ok_def ids_ok_def distinct_map_filter)
  qed (use fine in simp_all)
  moreover have "update_where (\<lambda>g. g_id g \<in> (\<lambda>n. n) ` set (map g_id ?mine) \<and> leaves ?p g) (leave_row K ?p) s =
      update_where (\<lambda>g. g_type g = ''MatchmakeSession'' \<and> leaves ?p g) (leave_row K ?p) s"
  proof (rule update_where_cong)
    fix g assume g: "g \<in> set (t_gatherings s)"
    have "h = g" if "h \<in> set (t_gatherings s)" "g_id h = g_id g" for h
      using fine g that by (auto simp: gatherings_ok_def ids_ok_def distinct_map inj_on_def)
    then show "(g_id g \<in> (\<lambda>n. n) ` set (map g_id ?mine) \<and> leaves ?p g) =
        (g_type g = ''MatchmakeSession'' \<and> leaves ?p g)"
      using g by (auto simp: leaves_def)
  qed
  ultimately show ?thesis
    using fine by (simp add: EndMatchmakeSessionsParticipation_def bindM_def run_query)
qed

lemma gathering_rows_id:
  assumes "gatherings_ok s" and "row \<in> set (t_gatherings s)" and "int (g_id row) < 2 ^ 32"
  shows "gathering_rows (word_of_nat (g_id row)) s = [row]"
proof -
  have "row \<in> set (gathering_rows (word_of_nat (g_id row)) s)"
    using assms(2,3) by (simp add: set_rows unat_of_nat_u32)
  then show ?thesis
    using single_row [OF assms(1), of "word_of_nat (g_id row)"] by auto
qed

text \<open>Losing the connection takes the player out of every gathering that does not outlive it.\<close>

definition dropped :: "nexlib \<Rightarrow> pid \<Rightarrow> gathering_row \<Rightarrow> bool" where
  "dropped K p g \<longleftrightarrow> leaves p g \<and> \<not> stays_connected K g"

lemma run_Disconnect:
  assumes fine: "fine s"
  shows "\<exists>t. DisconnectParticipant K c s = (Ok (), t) \<and> fine t \<and>
    tables t = tables (update_where (dropped K (conn_PID c)) (leave_row K (conn_PID c)) s)"
proof -
  let ?p = "conn_PID c"
  let ?mine = "filter (\<lambda>g. ?p \<in> set (g_participants g) \<and> g_registered g) (t_gatherings s)"
  let ?body = "\<lambda>row. if int (g_id row) \<ge> 2 ^ 32 then retM ()
    else bindM (catchM (disconnect_from K c row)) (\<lambda>_. retM ())"
  have step: "\<exists>u. ?body row t = (Ok (), u) \<and> fine u \<and>
      tables u = tables (update_where (\<lambda>g. g_id g = g_id row \<and> dropped K ?p g) (leave_row K ?p) t)"
    if t: "fine t" and row: "row \<in> set (t_gatherings t)" and mine: "row \<in> set ?mine" for row t
  proof (cases "int (g_id row) \<ge> 2 ^ 32")
    case True
    then have "\<not> (g_id g = g_id row \<and> dropped K ?p g)" for g by (auto simp: dropped_def leaves_def)
    then show ?thesis using True t by (simp add: run_ret update_where_none)
  next
    case False
    then have one: "gathering_rows (word_of_nat (g_id row)) t = [row]"
      using gathering_rows_id t row by simp
    obtain u where u: "disconnect_from K c row t = (Ok (), u)" "db_faults u = []"
        "tables u = tables (if stays_connected K row then t
           else update_gathering (word_of_nat (g_id row)) (leave_row K ?p) t)"
      using disconnect_from_refines [of t row K c] one t by blast
    have "gatherings_ok u" using keepsD [OF gok.keeps_disconnect_from [of K c row], of t] t u(1) by simp
    moreover have "?body row t = (Ok (), u)" using False u(1) by (simp add: bindM_def catchM_def run_ret)
    moreover have "(if stays_connected K row then t
          else update_gathering (word_of_nat (g_id row)) (leave_row K ?p) t) =
        update_where (\<lambda>g. g_id g = g_id row \<and> dropped K ?p g) (leave_row K ?p) t"
    proof -
      have same: "g = row" if "g \<in> set (t_gatherings t)" "g_id g = g_id row" for g
        using that one set_rows [of g "word_of_nat (g_id row)" t] False by (simp add: unat_of_nat_u32)
      have "leaves ?p row" using mine False by (auto simp: leaves_def)
      then have "update_where (\<lambda>g. g_id g = g_id row \<and> dropped K ?p g) (leave_row K ?p) t =
          update_where (\<lambda>g. g_id g = g_id row \<and> \<not> stays_connected K row) (leave_row K ?p) t"
        using same by (intro update_where_cong) (auto simp: dropped_def)
      also have "\<dots> = (if stays_connected K row then t
          else update_where (\<lambda>g. g_id g = g_id row) (leave_row K ?p) t)"
        by (simp add: update_where_none)
      finally show ?thesis using False by (simp add: update_as_where unat_of_nat_u32)
    qed
    ultimately show ?thesis using u(2,3) by auto
  qed
  have "\<exists>t. forM ?mine ?body s = (Ok (), t) \<and> fine t \<and>
    tables t = tables (update_where (\<lambda>g. g_id g \<in> g_id ` set ?mine \<and> dropped K ?p g) (leave_row K ?p) s)"
  proof (rule loop_updates [where R = "\<lambda>row t. row \<in> set (t_gatherings t)"], goal_cases)
    case (1 row t)
    then show ?case using step by blast
  next
    case (2 x y t u)
    then have "t_gatherings u = map (\<lambda>g. if g_id g = g_id x \<and> dropped K ?p g then leave_row K ?p g else g) (t_gatherings t)"
      by (simp add: tables_def update_where_def)
    then show ?case using 2 by force
  next
    case 5
    show ?case using fine by (simp add: gatherings_ok_def ids_ok_def distinct_map_filter)
  qed (use fine in \<open>simp_all add: dropped_def\<close>)
  moreover have "update_where (\<lambda>g. g_id g \<in> g_id ` set ?mine \<and> dropped K ?p g) (leave_row K ?p) s =
      update_where (dropped K ?p) (leave_row K ?p) s"
    by (rule update_where_cong) (auto simp: dropped_def leaves_def)
  ultimately show ?thesis
    using fine by (simp add: DisconnectParticipant_def bindM_def run_query)
qed

end
