(* ===== verification/Samples.thy ===== *)
theory Samples
  imports Search_Criteria Gathering_Spec
begin

text \<open>
  A small concrete server state on which the hypotheses of the properties are discharged: two
  connected players and one matchmake session of at most four, which both have joined.
\<close>

definition player1 :: connection where
  "player1 = \<lparr> conn_PID = 1001, conn_ID = 1, conn_StationURLs = [''udp:/address=1''] \<rparr>"

definition player2 :: connection where
  "player2 = \<lparr> conn_PID = 1002, conn_ID = 2, conn_StationURLs = [''udp:/address=2''] \<rparr>"

definition player3 :: connection where
  "player3 = \<lparr> conn_PID = 1003, conn_ID = 3, conn_StationURLs = [] \<rparr>"

definition sample_row :: gathering_row where
  "sample_row = \<lparr> g_id = 1, g_owner_pid = 1001, g_host_pid = 1001, g_min_participants = 1,
     g_max_participants = 4, g_participation_policy = 0, g_policy_argument = 0, g_flags = 0x10,
     g_state = 0, g_description = [], g_registered = True, g_type = ''MatchmakeSession'',
     g_started_time = 0, g_participants = [1001, 1002] \<rparr>"

definition sample_session :: matchmake_session where
  "sample_session = \<lparr> ID = 1, OwnerPID = 1001, HostPID = 1001, MinimumParticipants = 1,
     MaximumParticipants = 4, ParticipationPolicy = 0, PolicyArgument = 0, Flags = 0x10, GState = 0,
     Description = [], GameMode = 2, Attributes = [1, 2, 3, 4, 5, 6], OpenParticipation = True,
     MatchmakeSystemType = 1, ApplicationBuffer = [7], ParticipationCount = 2, ProgressScore = 50,
     SessionKey = [9, 9], OptionZero = 0, MatchmakeParam = Map.empty, StartedTime = 0,
     UserPassword = ''pw'', ReferGID = 0, UserPasswordEnabled = False, SystemPasswordEnabled = False,
     CodeWord = [] \<rparr>"

definition sample_session_row :: session_row where
  "sample_session_row = \<lparr> ms_id = 1, ms_game_mode = 2, ms_attribs = [1, 2, 3, 4, 5, 6],
     ms_open_participation = True, ms_matchmake_system_type = 1, ms_application_buffer = [7],
     ms_progress_score = 50, ms_session_key = [9, 9], ms_option_zero = 0, ms_matchmake_param = [],
     ms_user_password = ''pw'', ms_refer_gid = 0, ms_user_password_enabled = False,
     ms_system_password_enabled = False, ms_codeword = [], ms_system_password = [] \<rparr>"

definition sample_world :: mm_world where
  "sample_world = empty_world\<lparr> t_gatherings := [sample_row], next_gathering_id := 2,
     t_sessions := [sample_session_row],
     w_connections := [1001 \<mapsto> player1, 1002 \<mapsto> player2] \<rparr>"

lemma sample_pids [simp]: "conn_PID player1 = 1001" "conn_PID player2 = 1002" "conn_PID player3 = 1003"
  by (simp_all add: player1_def player2_def player3_def)

lemma sample_row_simps [simp]:
  "g_id sample_row = 1" "g_owner_pid sample_row = 1001" "g_host_pid sample_row = 1001"
  "g_min_participants sample_row = 1"
  "g_max_participants sample_row = 4" "g_flags sample_row = 0x10" "g_registered sample_row"
  "g_type sample_row = ''MatchmakeSession''" "g_participants sample_row = [1001, 1002]"
  by (simp_all add: sample_row_def)

lemma sample_world_simps [simp]:
  "db_faults sample_world = []" "t_gatherings sample_world = [sample_row]" "w_mutex sample_world = Unlocked"
  "next_gathering_id sample_world = 2" "t_sessions sample_world = [sample_session_row]"
  "w_sent sample_world = []" "w_connections sample_world = [1001 \<mapsto> player1, 1002 \<mapsto> player2]"
  "t_persistent sample_world = []" "t_participations sample_world = []" "t_notifications sample_world = []"
  "gathering_rows 1 sample_world = [sample_row]" "session_rows 1 sample_world = [sample_session_row]"
  by (simp_all add: sample_world_def empty_world_def gathering_rows_def session_rows_def sample_session_row_def)

lemma sample_ok [simp]: "gatherings_ok sample_world" "world_ok sample_world"
proof -
  show "gatherings_ok sample_world"
    by (simp add: gatherings_ok_def ids_ok_def within_capacity_def)
  then show "world_ok sample_world"
    by (simp add: world_ok_def sessions_ok_def communities_ok_def keys_ok_def sample_session_row_def)
qed

end
