(* ===== verification/Gathering_Props.thy ===== *)
theory Gathering_Props
  imports Samples
begin

text \<open>
  The properties of the functions on gatherings: joining, joining with others, leaving, losing
  the connection, and who is told.
\<close>

lemma tables_rows: "tables t = tables s \<Longrightarrow> gathering_rows gid t = gathering_rows gid s"
  by (rule rows_tables)

lemma rows_replaced:
  assumes "tables t = tables (update_gathering gid f s)" and "gathering_rows gid s = [row]"
    and "\<And>g. g_id (f g) = g_id g"
  shows "gathering_rows gid t = [f row]"
  using rows_update [of f gid gid s] assms tables_rows [OF assms(1), of gid] by simp

section \<open>Joining\<close>

text \<open>
  C2: \<open>JoinGathering\<close> refines \<open>join_row\<close>: on a missing gathering, a full one, or one the caller
  is already in, it reports the error and changes nothing; otherwise it puts the caller into the
  requested number of places (at least one) of this gathering, leaves every other row alone and
  returns the new number of places taken.
\<close>

theorem JoinGathering_refines:
  assumes "db_faults s = []" and "gatherings_ok s"
  shows "case gathering_rows gid s of
      [] \<Rightarrow> JoinGathering K gid c n message s = (Err RendezVous_SessionVoid, s)
    | row # _ \<Rightarrow>
        (case join_row (conn_PID c) (max 1 (unat n)) row of
           Inl e \<Rightarrow> JoinGathering K gid c n message s = (Err e, s)
         | Inr row' \<Rightarrow> \<exists>t. JoinGathering K gid c n message s = (Ok (word_of_nat (length (g_participants row'))), t) \<and>
             tables t = tables (update_gathering gid (\<lambda>_. row') s))"
proof (cases "gathering_rows gid s")
  case Nil
  then show ?thesis
    by (simp add: run_Join [OF assms(1) rows_capacity [OF assms(2)]])
next
  case (Cons row rows)
  have one: "gathering_rows gid s = [row]" using single_row [OF assms(2), of gid] Cons by auto
  have "update_gathering gid (\<lambda>_. row\<lparr>g_participants := ps\<rparr>) s = set_participants gid ps s" for ps
    unfolding set_participants_def by (rule update_rows_cong) (simp add: one)
  then show ?thesis
    by (auto simp: run_Join [OF assms(1) rows_capacity [OF assms(2)]] one join_row_def Let_def)
qed

lemma JoinGathering_refines_witness:
  "\<exists>t. JoinGathering sample_lib 1 player3 1 ''hi'' sample_world = (Ok 3, t) \<and>
     tables t = tables (update_gathering 1 (\<lambda>_. sample_row\<lparr>g_participants := [1001, 1002, 1003]\<rparr>) sample_world)"
  using JoinGathering_refines [of sample_world sample_lib 1 player3 1 "''hi''"] by (simp add: join_row_def)

text \<open>
  C3: \<open>JoinGatheringWithParticipants\<close> refines \<open>join_with_row\<close>: the caller (unless the request
  says the caller is in already) and all the additional participants are appended together, or
  none of them is and an error is reported. Its capacity test counts the caller in either case.
\<close>

theorem JoinGatheringWithParticipants_refines:
  assumes "db_faults s = []" and "gatherings_ok s"
    and "\<And>row. row \<in> set (gathering_rows gid s) \<Longrightarrow> length (g_participants row) + 1 + length others < 2 ^ 32"
  shows "case gathering_rows gid s of
      [] \<Rightarrow> JoinGatheringWithParticipants K gid c others message b s = (Err RendezVous_SessionVoid, s)
    | row # _ \<Rightarrow>
        (case join_with_row (b = JoinBehaviorImAlreadyJoined K) (conn_PID c) others row of
           Inl e \<Rightarrow> JoinGatheringWithParticipants K gid c others message b s = (Err e, s)
         | Inr row' \<Rightarrow> \<exists>t. JoinGatheringWithParticipants K gid c others message b s =
               (Ok (word_of_nat (length (g_participants row'))), t) \<and>
             tables t = tables (update_gathering gid (\<lambda>_. row') s))"
proof (cases "gathering_rows gid s")
  case Nil
  then show ?thesis using run_JoinWith [of s gid others K c message b] assms(1) by simp
next
  case (Cons row rows)
  have one: "gathering_rows gid s = [row]" using single_row [OF assms(2), of gid] Cons by auto
  have "update_gathering gid (\<lambda>_. row\<lparr>g_participants := ps\<rparr>) s = set_participants gid ps s" for ps
    unfolding set_participants_def by (rule update_rows_cong) (simp add: one)
  then show ?thesis
    using run_JoinWith [of s gid others K c message b, OF assms(1,3)] by (auto simp: one join_with_row_def Let_def)
qed

lemma JoinGatheringWithParticipants_refines_witness:
  "\<exists>t. JoinGatheringWithParticipants sample_lib 1 player3 [1004] [] 0 sample_world = (Ok 4, t) \<and>
     tables t = tables (update_gathering 1 (\<lambda>_. sample_row\<lparr>g_participants := [1001, 1002, 1003, 1004]\<rparr>) sample_world)"
  using JoinGatheringWithParticipants_refines [of sample_world 1 "[1004]" sample_lib player3 "[]" 0]
  by (simp add: join_with_row_def)

text \<open>
  A player who is already in a gathering and brings in others is refused when they would fill
  the gathering exactly: the capacity test counts the caller a second time. The same participants
  would fit by the limit that \<open>JoinGathering\<close> enforces.
\<close>

lemma already_joined_counted_twice:
  assumes "db_faults s = []" and "gathering_rows gid s = [row]" and "b = JoinBehaviorImAlreadyJoined K"
    and "conn_PID c \<in> set (g_participants row)"
    and "length (g_participants row) + length others = unat (g_max_participants row)"
  shows "JoinGatheringWithParticipants K gid c others message b s = (Err RendezVous_SessionFull, s) \<and>
    within_capacity (row\<lparr>g_participants := g_participants row @ others\<rparr>)"
proof -
  have "unat (g_max_participants row) < 2 ^ 16" using unsigned_less [of "g_max_participants row"] by simp
  then have "length (g_participants row) + 1 + length others < 2 ^ 32" using assms(5) by simp
  then show ?thesis
    using assms run_JoinWith [of s gid others K c message b] by (simp add: within_capacity_def Let_def)
qed

lemma already_joined_counted_twice_witness:
  "JoinGatheringWithParticipants sample_lib 1 player1 [1003, 1004] [] 1 sample_world =
     (Err RendezVous_SessionFull, sample_world)"
  using already_joined_counted_twice [where s = sample_world and gid = 1 and row = sample_row and b = 1
    and K = sample_lib and c = player1 and others = "[1003, 1004]" and message = "[]"]
  by simp

text \<open>
  A participant limit of zero means "no limit" to \<open>JoinGathering\<close> and "always full" to
  \<open>JoinGatheringWithParticipants\<close>.
\<close>

lemma unlimited_gathering_is_full_for_groups:
  assumes "db_faults s = []" and "gathering_rows gid s = [row]" and "g_max_participants row = 0"
    and "conn_PID c \<notin> set (g_participants row)"
    and "length (g_participants row) + 1 + length others < 2 ^ 32"
  shows "fst (JoinGathering K gid c 1 message s) = Ok (word_of_nat (length (g_participants row) + 1)) \<and>
    fst (JoinGatheringWithParticipants K gid c others message b s) = Err RendezVous_SessionFull"
  using assms run_JoinWith [of s gid others K c message b] run_Join [of s gid K c 1 message]
  by (simp add: within_capacity_def Let_def)

definition unlimited_world :: mm_world where
  "unlimited_world = sample_world\<lparr>t_gatherings := [sample_row\<lparr>g_max_participants := 0\<rparr>]\<rparr>"

lemma unlimited_gathering_is_full_for_groups_witness:
  "fst (JoinGathering sample_lib 1 player3 1 [] unlimited_world) = Ok 3 \<and>
   fst (JoinGatheringWithParticipants sample_lib 1 player3 [] [] 0 unlimited_world) = Err RendezVous_SessionFull"
  using unlimited_gathering_is_full_for_groups
    [of unlimited_world 1 "sample_row\<lparr>g_max_participants := 0\<rparr>" player3 "[]" sample_lib "[]" 0]
  by (simp add: unlimited_world_def gathering_rows_def)

lemma run_Join_Ok:
  assumes "db_faults s = []" and "gatherings_ok s" and "gathering_rows gid s = [row]"
    and "JoinGathering K gid c n message s = (Ok r, t)"
  shows "conn_PID c \<notin> set (g_participants row) \<and>
    t = (let places = replicate (max 1 (unat n)) (conn_PID c); ps = g_participants row @ places in
      notified_all K (join_notices K gid row (conn_PID c) (max 1 (unat n)) message)
        (logged (TrackJoinGathering (conn_PID c) gid places ps) (set_participants gid ps s)))"
proof -
  have cap: "within_capacity g" if "g \<in> set (gathering_rows gid s)" for g
    by (rule rows_capacity [OF assms(2) that])
  show ?thesis
    using run_Join [of s gid K c n message, OF assms(1) cap] assms(3,4) by (auto simp: Let_def split: if_splits)
qed

text \<open>What a list of notices sends, in order: each event to the connected ones of its targets.\<close>

definition sent_events :: "mm_world \<Rightarrow> (pid \<times> notification_event) list" where
  "sent_events s = map (\<lambda>(p, callID, e). (p, e)) (w_sent s)"

lemma sent_notified_all:
  "sent_events (notified_all K ns s) = sent_events s @
     filter (\<lambda>(p, e). w_connections s p \<noteq> None) (concat (map (\<lambda>(e, ts). map (\<lambda>p. (p, e)) ts) ns))"
proof (induction ns arbitrary: s)
  case (Cons n ns)
  obtain e ts where n: "n = (e, ts)" by (cases n)
  have "sent_events (notified K e ts s) = sent_events s @ filter (\<lambda>(p, e). w_connections s p \<noteq> None) (map (\<lambda>p. (p, e)) ts)"
    by (simp add: sent_events_def notified_def Let_def deliver_def comp_def filter_map)
  moreover have "w_connections (notified K e ts s) = w_connections s"
    by (simp add: notified_def Let_def)
  ultimately show ?case by (simp add: n Cons.IH)
qed simp

lemma RemoveDuplicates_newcomer:
  "p \<notin> set xs \<Longrightarrow> RemoveDuplicates (xs @ replicate (Suc k) p) = RemoveDuplicates xs @ [p]"
  unfolding RemoveDuplicates_eq
proof (induction xs)
  case Nil
  then show ?case by (induction k) simp_all
qed simp

text \<open>
  C14: Who hears of a successful join, and what. In a verbose gathering every participant, the
  newcomer included, gets exactly one notice that the newcomer participates; with the extended flag
  the newcomer also gets one for each distinct earlier participant, which names that participant.
  Otherwise the owner gets the one about the newcomer, unless the owner is the newcomer. Every
  notice comes from the newcomer and carries the gathering's ID, the low half of the PID of the
  participant it is about, the newcomer's message and the number of places taken by this join
  (not the size of the gathering). Targets without a connection are skipped, and nothing else is sent.
\<close>

theorem join_notifies:
  assumes "db_faults s = []" and "gatherings_ok s" and "gathering_rows gid s = [row]"
    and "JoinGathering K gid c n message s = (Ok r, t)"
  defines "notice about \<equiv> \<lparr> PIDSource = conn_PID c,
      NType = BuildNotificationType K (NC_Participation K) (NS_Participation_NewParticipant K),
      Param1 = gid, Param2 = ucast about, StrParam = message, Param3 = word_of_nat (max 1 (unat n)) \<rparr>"
  shows "map (\<lambda>(p, callID, e). (p, e)) (w_sent t) = map (\<lambda>(p, callID, e). (p, e)) (w_sent s) @
    filter (\<lambda>(p, e). w_connections s p \<noteq> None)
     (if hasFlags (g_flags row) (GF_VerboseParticipants K OR GF_VerboseParticipantsEx K)
      then map (\<lambda>p. (p, notice (conn_PID c))) (RemoveDuplicates (g_participants row) @ [conn_PID c]) @
        (if hasFlags (g_flags row) (GF_VerboseParticipantsEx K)
         then map (\<lambda>about. (conn_PID c, notice about)) (RemoveDuplicates (g_participants row)) else [])
      else if conn_PID c = g_owner_pid row then [] else [(g_owner_pid row, notice (conn_PID c))])"
proof -
  let ?places = "replicate (max 1 (unat n)) (conn_PID c)"
  have new: "conn_PID c \<notin> set (g_participants row)"
      and t: "t = notified_all K (join_notices K gid row (conn_PID c) (max 1 (unat n)) message)
        (logged (TrackJoinGathering (conn_PID c) gid ?places (g_participants row @ ?places))
          (set_participants gid (g_participants row @ ?places) s))"
    using run_Join_Ok [OF assms(1-4)] unfolding Let_def by blast+
  have ex: "hasFlags f (GF_VerboseParticipantsEx K) \<Longrightarrow> hasFlags f (verboseMask K)" for f
    by (auto simp: hasFlags_def verboseMask_def bit.conj_disj_distrib or_eq_0_iff)
  have "Suc (max 1 (unat n) - 1) = max 1 (unat n)" by simp
  then have places: "RemoveDuplicates (g_participants row @ ?places) = RemoveDuplicates (g_participants row) @ [conn_PID c]"
    using RemoveDuplicates_newcomer [OF new, of "max 1 (unat n) - 1"] by simp
  have w: "sent_events (logged e u) = sent_events u" "w_connections (logged e u) = w_connections u"
      "sent_events (set_participants gid ps u) = sent_events u"
      "w_connections (set_participants gid ps u) = w_connections u" for e u ps
    by (simp_all add: sent_events_def logged_def set_participants_def update_gathering_def)
  have event: "newParticipantEvent K (conn_PID c) gid about message (word_of_nat (max 1 (unat n))) = notice about" for about
    by (simp add: newParticipantEvent_def mkEvent_def notice_def)
  have notices: "concat (map (\<lambda>(e, ts). map (\<lambda>p. (p, e)) ts) (join_notices K gid row (conn_PID c) (max 1 (unat n)) message)) =
     (if hasFlags (g_flags row) (verboseMask K)
      then map (\<lambda>p. (p, notice (conn_PID c))) (RemoveDuplicates (g_participants row) @ [conn_PID c]) @
        (if hasFlags (g_flags row) (GF_VerboseParticipantsEx K)
         then map (\<lambda>about. (conn_PID c, notice about)) (RemoveDuplicates (g_participants row)) else [])
      else if conn_PID c = g_owner_pid row then [] else [(g_owner_pid row, notice (conn_PID c))])"
    unfolding join_notices_def Let_def places event
    using ex [of "g_flags row"] by (auto simp: comp_def)
  show ?thesis
    unfolding sent_events_def [symmetric] verboseMask_def [symmetric] t sent_notified_all w notices ..
qed

lemma join_notifies_witness:
  "\<exists>t. JoinGathering sample_lib 1 player3 1 ''hi'' sample_world = (Ok 3, t) \<and>
    map (\<lambda>(p, callID, e). (p, Param1 e, Param2 e, StrParam e, Param3 e)) (w_sent t) = [(1001, 1, 1003, ''hi'', 1)]"
proof -
  obtain t where t: "JoinGathering sample_lib 1 player3 1 ''hi'' sample_world = (Ok 3, t)"
    using run_Join [of sample_world 1 sample_lib player3 1 "''hi''"] by (simp add: within_capacity_def Let_def)
  have "hasFlags 0x10 (verboseMask sample_lib) = False" by (simp add: hasFlags_def verboseMask_def)
  then have sent: "map (\<lambda>(p, callID, e). (p, e)) (w_sent t) = [(1001, \<lparr> PIDSource = 1003,
      NType = BuildNotificationType sample_lib (NC_Participation sample_lib) (NS_Participation_NewParticipant sample_lib),
      Param1 = 1, Param2 = 1003, StrParam = ''hi'', Param3 = 1 \<rparr>)]"
    using join_notifies [OF _ _ _ t, of sample_row] by (simp add: verboseMask_def)
  have "map (\<lambda>(p, callID, e). (p, Param1 e, Param2 e, StrParam e, Param3 e)) (w_sent t) =
      map (\<lambda>(p, e). (p, Param1 e, Param2 e, StrParam e, Param3 e)) (map (\<lambda>(p, callID, e). (p, e)) (w_sent t))"
    by (simp add: comp_def case_prod_beta)
  then show ?thesis using t unfolding sent by simp
qed

section \<open>Leaving\<close>

text \<open>
  C4: \<open>EndGatheringParticipation\<close> refines \<open>leave_row\<close>: leaving a missing or unregistered
  gathering, or one the caller is not in, fails and changes nothing at all; otherwise the tables
  change exactly as \<open>leave_row\<close> says (the caller goes, the gathering closes when it is empty or
  its owner may not hand it over, else owner and host pass to the first one left) and no other
  row is touched.
\<close>

theorem EndGatheringParticipation_refines:
  assumes "db_faults s = []" and "gatherings_ok s"
  shows "\<exists>t. EndGatheringParticipation K gid c message s = (leave_result gid (conn_PID c) s, t) \<and>
    (if leave_result gid (conn_PID c) s = Ok ()
     then tables t = tables (update_gathering gid (leave_row K (conn_PID c)) s) else t = s)"
  using End_refines [OF assms, of K gid c message] by blast

lemma EndGatheringParticipation_refines_witness:
  "\<exists>t. EndGatheringParticipation sample_lib 1 player1 [] sample_world = (Ok (), t) \<and>
     tables t = tables (update_gathering 1 (\<lambda>g. g\<lparr>g_participants := [1002], g_owner_pid := 1002, g_host_pid := 1002\<rparr>)
       sample_world)"
proof -
  have "leave_row sample_lib 1001 sample_row =
      sample_row\<lparr>g_participants := [1002], g_owner_pid := 1002, g_host_pid := 1002\<rparr>"
    by (simp add: leave_row_def Let_def hasFlags_def keepsEmptyMask_def)
  then have "update_gathering 1 (leave_row sample_lib 1001) sample_world =
      update_gathering 1 (\<lambda>g. g\<lparr>g_participants := [1002], g_owner_pid := 1002, g_host_pid := 1002\<rparr>) sample_world"
    by (intro update_rows_cong) simp
  moreover have "leave_result 1 1001 sample_world = Ok ()" by (simp add: leave_result_def)
  ultimately show ?thesis
    using EndGatheringParticipation_refines [of sample_world sample_lib 1 player1 "[]"] by simp
qed

text \<open>
  C5: After a successful leave of a gathering that does not outlive its participants, the caller
  is out of it and everyone else is still in it, in the same order; it stays registered exactly
  when someone is left and the caller was not an owner without the right to hand over; and then
  its owner, and its host if the host was a participant before, are still participants.
\<close>

theorem leaving_hands_over:
  assumes "db_faults s = []" and "gatherings_ok s" and "gathering_rows gid s = [row]"
    and "EndGatheringParticipation K gid c message s = (Ok (), t)"
    and "\<not> hasFlags (g_flags row) (keepsEmptyMask K)"
    and "g_owner_pid row \<in> set (g_participants row)" and "0 \<notin> set (g_participants row)"
  shows "\<exists>row'. gathering_rows gid t = [row'] \<and>
    g_participants row' = removeAll (conn_PID c) (g_participants row) \<and>
    (g_registered row' \<longleftrightarrow> g_participants row' \<noteq> [] \<and>
       (conn_PID c = g_owner_pid row \<longrightarrow> hasFlags (g_flags row) (GF_DisconnectChangeOwner K))) \<and>
    (g_registered row' \<longrightarrow> g_owner_pid row' \<in> set (g_participants row') \<and>
       (g_host_pid row \<in> set (g_participants row) \<longrightarrow> g_host_pid row' \<in> set (g_participants row')))"
proof -
  let ?p = "conn_PID c"
  let ?rest = "removeAll ?p (g_participants row)"
  have ok: "leave_result gid ?p s = Ok ()"
    using End_refines [OF assms(1,2), of K gid c message] assms(4) by auto
  then have "tables t = tables (update_gathering gid (leave_row K ?p) s)"
    using End_refines [OF assms(1,2), of K gid c message] assms(4) by auto
  then have rows: "gathering_rows gid t = [leave_row K ?p row]"
    by (rule rows_replaced [OF _ assms(3)]) simp
  have reg: "g_registered row" using ok assms(3) by (simp add: leave_result_def split: if_splits)
  have hd: "hd ?rest \<in> set ?rest \<and> hd ?rest \<noteq> 0" if "?rest \<noteq> []"
    using hd_in_set [OF that] assms(7) by auto
  have "(g_registered (leave_row K ?p row) \<longleftrightarrow> ?rest \<noteq> [] \<and>
       (?p = g_owner_pid row \<longrightarrow> hasFlags (g_flags row) (GF_DisconnectChangeOwner K))) \<and>
    (g_registered (leave_row K ?p row) \<longrightarrow> g_owner_pid (leave_row K ?p row) \<in> set ?rest \<and>
       (g_host_pid row \<in> set (g_participants row) \<longrightarrow> g_host_pid (leave_row K ?p row) \<in> set ?rest))"
  proof (cases "?rest = []")
    case True
    then show ?thesis using assms(5) by (simp add: leave_row_def Let_def)
  next
    case False
    then show ?thesis
      using assms(5-7) hd [OF False] reg by (auto simp: leave_row_def Let_def)
  qed
  then show ?thesis using rows by simp
qed

lemma leaving_hands_over_witness:
  "\<exists>t row'. EndGatheringParticipation sample_lib 1 player1 [] sample_world = (Ok (), t) \<and>
     gathering_rows 1 t = [row'] \<and> g_registered row' \<and> g_owner_pid row' = 1002 \<and> g_host_pid row' = 1002"
proof -
  have keeps: "\<not> hasFlags 0x10 (keepsEmptyMask sample_lib)" "hasFlags 0x10 0x10"
    by (simp_all add: hasFlags_def keepsEmptyMask_def)
  obtain t where t: "EndGatheringParticipation sample_lib 1 player1 [] sample_world = (Ok (), t)"
    using End_refines [of sample_world sample_lib 1 player1 "[]"] by (auto simp: leave_result_def)
  then show ?thesis
    using leaving_hands_over [OF _ _ _ t, of sample_row] keeps by auto
qed

text \<open>
  When the owner of a quiet (not verbose) gathering leaves and ownership passes on, the final
  "participation ended" notice still goes to the former owner alone, the very player who left,
  and not to the new owner.
\<close>

lemma ended_notice_goes_to_former_owner:
  assumes "db_faults s = []" and "gatherings_ok s" and "gathering_rows gid s = [row]"
    and "g_registered row" and "conn_PID c = g_owner_pid row" and "g_owner_pid row \<in> set (g_participants row)"
    and "removeAll (g_owner_pid row) (g_participants row) \<noteq> []" and "0 \<notin> set (g_participants row)"
    and "\<not> hasFlags (g_flags row) (verboseMask K)" and "\<not> hasFlags (g_flags row) (keepsEmptyMask K)"
    and "hasFlags (g_flags row) (GF_DisconnectChangeOwner K)"
  shows "\<exists>u row'. EndGatheringParticipation K gid c message s =
      (Ok (), notified K (ended_event K (conn_PID c) gid message) [conn_PID c] u) \<and>
    gathering_rows gid u = [row'] \<and> g_owner_pid row' \<noteq> conn_PID c"
proof -
  let ?p = "g_owner_pid row"
  let ?rest = "removeAll ?p (g_participants row)"
  let ?s1 = "logged (TrackLeaveGathering ?p gid ?rest) (drop_participant gid ?p s)"
  let ?u = "host_changed K gid row ?p (new_owner row ?p ?rest) (g_participants row) (owner_changed K gid row ?p ?rest ?s1)"
  have run: "EndGatheringParticipation K gid c message s =
      (Ok (), notified K (ended_event K ?p gid message) [?p] ?u)"
    using run_End [OF assms(1,3), of K c message] assms by (simp add: departed_def Let_def)
  have "tables ?u = tables (update_gathering gid (leave_row K ?p) s)"
    using tables_departed [OF assms(3) refl, of K ?p "g_participants row" "ended_event K ?p gid message"
        "TrackLeaveGathering ?p gid ?rest"] assms(7-11)
    by (simp add: departed_def Let_def)
  then have rows: "gathering_rows gid ?u = [leave_row K ?p row]"
    by (rule rows_replaced [OF _ assms(3)]) simp
  have "hd ?rest \<in> set ?rest" using hd_in_set [OF assms(7)] .
  then have "g_owner_pid (leave_row K ?p row) \<noteq> ?p"
    using assms(7-11) by (auto simp: leave_row_def Let_def)
  then show ?thesis using run rows assms(5) by auto
qed

lemma ended_notice_goes_to_former_owner_witness:
  "\<exists>u row'. EndGatheringParticipation sample_lib 1 player1 ''bye'' sample_world =
      (Ok (), notified sample_lib (ended_event sample_lib 1001 1 ''bye'') [1001] u) \<and>
    gathering_rows 1 u = [row'] \<and> g_owner_pid row' \<noteq> 1001"
  using ended_notice_goes_to_former_owner [of sample_world 1 sample_row player1 sample_lib "''bye''"]
  by (simp add: hasFlags_def keepsEmptyMask_def verboseMask_def)

text \<open>
  C6: Losing the connection takes the player out of every registered gathering that does not
  outlive it, each changed as by a leave; gatherings the player is not in, unregistered ones and
  those that keep their participants are untouched. No error stops the loop.
\<close>

theorem DisconnectParticipant_leaves_all:
  assumes "db_faults s = []" and "gatherings_ok s"
  shows "\<exists>t. DisconnectParticipant K c s = (Ok (), t) \<and>
    tables t = tables (s\<lparr>t_gatherings := map (\<lambda>g.
      if g_registered g \<and> conn_PID c \<in> set (g_participants g) \<and> int (g_id g) < 2 ^ 32 \<and> \<not> stays_connected K g
      then leave_row K (conn_PID c) g else g) (t_gatherings s)\<rparr>)"
  using run_Disconnect [of s K c] assms
  by (auto simp: update_where_def dropped_def leaves_def conj_assoc cong: map_cong)

lemma DisconnectParticipant_leaves_all_witness:
  "\<exists>t. DisconnectParticipant sample_lib player2 sample_world = (Ok (), t) \<and>
    t_gatherings t = [sample_row\<lparr>g_participants := [1001]\<rparr>]"
  using DisconnectParticipant_leaves_all [of sample_world sample_lib player2]
  by (auto simp: tables_def stays_connected_def hasFlags_def leave_row_def Let_def keepsEmptyMask_def)

text \<open>
  \<open>EndMatchmakeSessionsParticipation\<close> takes the player out of every registered matchmake
  session, and touches no gathering of another type.
\<close>

lemma EndMatchmakeSessions_leaves_all:
  assumes "db_faults s = []" and "gatherings_ok s"
  shows "\<exists>t. EndMatchmakeSessionsParticipation K c s = (Ok (), t) \<and>
    tables t = tables (s\<lparr>t_gatherings := map (\<lambda>g.
      if g_type g = ''MatchmakeSession'' \<and> g_registered g \<and> conn_PID c \<in> set (g_participants g) \<and> int (g_id g) < 2 ^ 32
      then leave_row K (conn_PID c) g else g) (t_gatherings s)\<rparr>)"
  using run_EndSessions [of s K c] assms
  by (auto simp: update_where_def leaves_def cong: map_cong)

lemma EndMatchmakeSessions_leaves_all_witness:
  "\<exists>t. EndMatchmakeSessionsParticipation sample_lib player2 sample_world = (Ok (), t) \<and>
    t_gatherings t = [sample_row\<lparr>g_participants := [1001]\<rparr>]"
  using EndMatchmakeSessions_leaves_all [of sample_world sample_lib player2]
  by (auto simp: tables_def hasFlags_def leave_row_def Let_def keepsEmptyMask_def)

end
