(* ===== verification/Matchmake_Extension.thy ===== *)
theory Matchmake_Extension
  imports Search_Criteria Match_Making
begin

text \<open>
  The handlers of the matchmake-extension protocol (\<open>matchmake-extension/\<close>): creating, finding
  and joining matchmake sessions, the owner's updates, communities, stored notifications, and
  what \<open>SetManager\<close> does to the tables at a restart. \<open>K\<close> is the library, \<open>P\<close> the protocol's
  configuration, \<open>mgr\<close> the manager.
\<close>

section \<open>Shared steps\<close>

definition ext_success :: "rmc_method \<Rightarrow> u32 \<Rightarrow> mm_body list \<Rightarrow> mm_response mm" where
  "ext_success method callID body =
     bindM mutexUnlock (\<lambda>_. retM (rmcSuccess MatchmakeExtension_Protocol method callID body))"

text \<open>\<open>GatheringObjectID()\<close> of a held object, and the type assertion that follows it.\<close>

definition GatheringObjectID :: "gathering_object \<Rightarrow> string" where
  "GatheringObjectID o' = (case o' of HeldGathering _ \<Rightarrow> ''Gathering''
     | HeldMatchmakeSession _ \<Rightarrow> ''MatchmakeSession''
     | HeldPersistentGathering _ \<Rightarrow> ''PersistentGathering'' | OtherHeld n \<Rightarrow> n)"

definition with_session :: "gathering_object \<Rightarrow> (matchmake_session \<Rightarrow> 'a mm) \<Rightarrow> 'a mm" where
  "with_session anyGathering k =
    (if GatheringObjectID anyGathering = ''MatchmakeSession'' then
       (case anyGathering of HeldMatchmakeSession m \<Rightarrow> k m | _ \<Rightarrow> panicM)
     else unlock_throw Core_InvalidArgument)"

text \<open>\<open>if nexError != nil { Unlock; return nil, nexError }\<close> after the permission check.\<close>

definition or_denied :: "result_code option \<Rightarrow> 'a mm \<Rightarrow> 'a mm" where
  "or_denied e k = (case e of Some e \<Rightarrow> unlock_throw e | None \<Rightarrow> k)"

definition checkCanJoin :: "mm_protocol \<Rightarrow> manager \<Rightarrow> pid \<Rightarrow> matchmake_session \<Rightarrow> result_code option" where
  "checkCanJoin P mgr p m =
    (case CanJoinCallback P of Some f \<Rightarrow> f p m | None \<Rightarrow> CanJoinMatchmakeSession mgr p m)"

section \<open>Creating and auto-matchmaking\<close>

definition createMatchmakeSession ::
  "nexlib \<Rightarrow> bool \<Rightarrow> connection \<Rightarrow> u32 \<Rightarrow> gathering_object \<Rightarrow> string \<Rightarrow> u16 \<Rightarrow> mm_response mm" where
  "createMatchmakeSession K err connection callID anyGathering message participationCount =
    (if err then throwM Core_InvalidArgument
     else if length message > 256 then throwM Core_InvalidArgument
     else
       bindM mutexLock (\<lambda>_.
       or_unlock (EndMatchmakeSessionsParticipation K connection) (\<lambda>_.
       with_session anyGathering (\<lambda>m.
       if \<not> CheckValidMatchmakeSession m then unlock_throw Core_InvalidArgument
       else
         or_unlock (CreateMatchmakeSession K connection m) (\<lambda>created.
         or_unlock (JoinMatchmakeSession K created connection participationCount message) (\<lambda>_.
         ext_success MethodCreateMatchmakeSession callID
           (WUInt32 (ID created) # (if MatchMaking_AtLeast_3_0_0 K then [WBuffer (SessionKey created)] else []))))))))"

definition createMatchmakeSessionWithParam ::
  "nexlib \<Rightarrow> bool \<Rightarrow> connection \<Rightarrow> u32 \<Rightarrow> create_session_param \<Rightarrow> mm_response mm" where
  "createMatchmakeSessionWithParam K err connection callID param =
    (if err then throwM Core_InvalidArgument
     else if \<not> CheckValidMatchmakeSession (csp_SourceMatchmakeSession param) then throwM Core_InvalidArgument
     else if length (csp_JoinMessage param) > 256 then throwM Core_InvalidArgument
     else
       bindM mutexLock (\<lambda>_.
       or_unlock (if csp_GIDForParticipationCheck param \<noteq> 0
                  then CheckGatheringForParticipation K (csp_GIDForParticipationCheck param)
                         (csp_AdditionalParticipants param @ [conn_PID connection])
                  else retM ()) (\<lambda>_.
       or_unlock (EndMatchmakeSessionsParticipation K connection) (\<lambda>_.
       or_unlock (CreateMatchmakeSession K connection (csp_SourceMatchmakeSession param)) (\<lambda>joined.
       or_unlock (JoinMatchmakeSessionWithParticipants K joined connection (csp_AdditionalParticipants param)
         (csp_JoinMessage param) (JoinBehaviorJoinMyself K)) (\<lambda>participants.
       ext_success MethodCreateMatchmakeSessionWithParam callID
         [WMatchmakeSession (joined\<lparr>ParticipationCount := participants\<rparr>)]))))))"

definition autoMatchmakePostpone ::
  "nexlib \<Rightarrow> mm_protocol \<Rightarrow> manager \<Rightarrow> bool \<Rightarrow> connection \<Rightarrow> u32 \<Rightarrow> gathering_object \<Rightarrow> string \<Rightarrow> mm_response mm" where
  "autoMatchmakePostpone K P mgr err connection callID anyGathering message =
    (case CleanupSearchMatchmakeSession P of
       None \<Rightarrow> throwM Core_NotImplemented
     | Some cleanup \<Rightarrow>
         if err then throwM Core_InvalidArgument
         else if length message > 256 then throwM Core_InvalidArgument
         else
           bindM mutexLock (\<lambda>_.
           or_unlock (EndMatchmakeSessionsParticipation K connection) (\<lambda>_.
           with_session anyGathering (\<lambda>m.
           if \<not> CheckValidMatchmakeSession m then unlock_throw Core_InvalidArgument
           else
             or_unlock (FindMatchmakeSession K mgr connection (cleanup m)) (\<lambda>result.
             or_unlock (case result of
                 Some found \<Rightarrow> retM found
               | None \<Rightarrow> CreateMatchmakeSession K connection (cleanup m)) (\<lambda>session.
             or_unlock (JoinMatchmakeSession K session connection 1 message) (\<lambda>participants.
             ext_success MethodAutoMatchmakePostpone callID
               [WGatheringHolder (HeldMatchmakeSession (session\<lparr>ParticipationCount := participants\<rparr>))])))))))"

text \<open>
  The part that the two searching auto-matchmake handlers share: take the first result, or
  create the session that was asked for; a result with a password is refused.
\<close>

definition found_or_created ::
  "nexlib \<Rightarrow> connection \<Rightarrow> matchmake_session \<Rightarrow> matchmake_session list \<Rightarrow> (matchmake_session \<Rightarrow> 'a mm) \<Rightarrow> 'a mm" where
  "found_or_created K connection source results k =
    (case results of
       [] \<Rightarrow> or_unlock (CreateMatchmakeSession K connection source) k
     | m # _ \<Rightarrow>
         if UserPasswordEnabled m \<or> SystemPasswordEnabled m then unlock_throw RendezVous_PermissionDenied
         else k m)"

definition one_result :: result_range where
  "one_result = \<lparr> RangeOffset = 0, RangeLength = 1 \<rparr>"

definition autoMatchmakeWithParamPostpone ::
  "nexlib \<Rightarrow> mm_protocol \<Rightarrow> bool \<Rightarrow> connection \<Rightarrow> u32 \<Rightarrow> auto_matchmake_param \<Rightarrow> mm_response mm" where
  "autoMatchmakeWithParamPostpone K P err connection callID param =
    (case CleanupMatchmakeSessionSearchCriterias P of
       None \<Rightarrow> throwM Core_NotImplemented
     | Some cleanup \<Rightarrow>
         if err then throwM Core_InvalidArgument
         else if \<not> CheckValidMatchmakeSession (amp_SourceMatchmakeSession param) then throwM Core_InvalidArgument
         else if length (amp_JoinMessage param) > 256 then throwM Core_InvalidArgument
         else
           bindM mutexLock (\<lambda>_.
           or_unlock (if amp_GIDForParticipationCheck param \<noteq> 0
                      then CheckGatheringForParticipation K (amp_GIDForParticipationCheck param)
                             (amp_AdditionalParticipants param @ [conn_PID connection])
                      else retM ()) (\<lambda>_.
           or_unlock (EndMatchmakeSessionsParticipation K connection) (\<lambda>_.
           or_unlock (FindMatchmakeSessionBySearchCriteria K connection (cleanup (amp_LstSearchCriteria param))
             one_result (Some (amp_SourceMatchmakeSession param))) (\<lambda>results.
           found_or_created K connection (amp_SourceMatchmakeSession param) results (\<lambda>session.
           or_unlock (JoinMatchmakeSessionWithParticipants K session connection
             (amp_AdditionalParticipants param) (amp_JoinMessage param) (JoinBehaviorJoinMyself K)) (\<lambda>participants.
           ext_success MethodAutoMatchmakeWithParamPostpone callID
             [WMatchmakeSession (session\<lparr>ParticipationCount := participants\<rparr>)])))))))"

definition wiiSportsClubGameModeRegionMask :: u32 where
  "wiiSportsClubGameModeRegionMask = 0xC00"

definition canonicalWiiSportsClubGameMode :: "u32 \<Rightarrow> u32" where
  "canonicalWiiSportsClubGameMode gameMode = gameMode AND NOT wiiSportsClubGameModeRegionMask"

definition autoMatchmakeWithSearchCriteriaPostpone ::
  "nexlib \<Rightarrow> mm_protocol \<Rightarrow> bool \<Rightarrow> connection \<Rightarrow> u32 \<Rightarrow> search_criteria list \<Rightarrow> gathering_object \<Rightarrow> string \<Rightarrow>
   mm_response mm" where
  "autoMatchmakeWithSearchCriteriaPostpone K P err connection callID lstSearchCriteria anyGathering strMessage =
    (case CleanupMatchmakeSessionSearchCriterias P of
       None \<Rightarrow> throwM Core_NotImplemented
     | Some cleanup \<Rightarrow>
         if err then throwM Core_InvalidArgument
         else if length strMessage > 256 then throwM Core_InvalidArgument
         else if length lstSearchCriteria > 2 then throwM Core_InvalidArgument
         else
           bindM mutexLock (\<lambda>_.
           or_unlock (EndMatchmakeSessionsParticipation K connection) (\<lambda>_.
           with_session anyGathering (\<lambda>requested.
           let source = requested\<lparr>GameMode := canonicalWiiSportsClubGameMode (GameMode requested)\<rparr> in
           if \<not> CheckValidMatchmakeSession source then unlock_throw Core_InvalidArgument
           else
             let criterias = cleanup lstSearchCriteria in
             or_unlock (FindMatchmakeSessionBySearchCriteria K connection criterias one_result (Some source)) (\<lambda>results.
             found_or_created K connection source results (\<lambda>session.
             let vacantParticipants = (case criterias of [] \<Rightarrow> 1 | c # _ \<Rightarrow> VacantParticipants c) in
             or_unlock (JoinMatchmakeSession K session connection vacantParticipants strMessage) (\<lambda>participants.
             ext_success MethodAutoMatchmakeWithSearchCriteriaPostpone callID
               [WGatheringHolder (HeldMatchmakeSession (session\<lparr>ParticipationCount := participants,
                  GameMode := GameMode requested, MatchmakeParam := Map.empty\<rparr>))])))))))"

section \<open>Joining a known session\<close>

text \<open>\<open>joinMatchmakeSession\<close> and \<open>joinMatchmakeSessionEx\<close> differ in the number of places asked for.\<close>

definition join_by_id ::
  "nexlib \<Rightarrow> mm_protocol \<Rightarrow> manager \<Rightarrow> bool \<Rightarrow> connection \<Rightarrow> u32 \<Rightarrow> u32 \<Rightarrow> string \<Rightarrow> u16 \<Rightarrow> rmc_method \<Rightarrow> mm_response mm" where
  "join_by_id K P mgr err connection callID gid strMessage places method =
    (if err then throwM Core_InvalidArgument
     else if length strMessage > 256 then throwM Core_InvalidArgument
     else
       bindM mutexLock (\<lambda>_.
       or_unlock (GetMatchmakeSessionByID K gid) (\<lambda>(joined, _).
       if UserPasswordEnabled joined \<or> SystemPasswordEnabled joined then unlock_throw RendezVous_PermissionDenied
       else
         or_denied (checkCanJoin P mgr (conn_PID connection) joined) (
         or_unlock (JoinMatchmakeSession K joined connection places strMessage) (\<lambda>_.
         ext_success method callID (if MatchMaking_AtLeast_3_0_0 K then [WBuffer (SessionKey joined)] else []))))))"

definition joinMatchmakeSession ::
  "nexlib \<Rightarrow> mm_protocol \<Rightarrow> manager \<Rightarrow> bool \<Rightarrow> connection \<Rightarrow> u32 \<Rightarrow> u32 \<Rightarrow> string \<Rightarrow> mm_response mm" where
  "joinMatchmakeSession K P mgr err connection callID gid strMessage =
     join_by_id K P mgr err connection callID gid strMessage 1 MethodJoinMatchmakeSession"

definition joinMatchmakeSessionEx ::
  "nexlib \<Rightarrow> mm_protocol \<Rightarrow> manager \<Rightarrow> bool \<Rightarrow> connection \<Rightarrow> u32 \<Rightarrow> u32 \<Rightarrow> string \<Rightarrow> bool \<Rightarrow> u16 \<Rightarrow> mm_response mm" where
  "joinMatchmakeSessionEx K P mgr err connection callID gid strMessage dontCareMyBlockList participationCount =
     join_by_id K P mgr err connection callID gid strMessage participationCount MethodJoinMatchmakeSessionEx"

definition joinMatchmakeSessionWithParam ::
  "nexlib \<Rightarrow> mm_protocol \<Rightarrow> manager \<Rightarrow> bool \<Rightarrow> connection \<Rightarrow> u32 \<Rightarrow> join_session_param \<Rightarrow> mm_response mm" where
  "joinMatchmakeSessionWithParam K P mgr err connection callID param =
    (if err then throwM Core_InvalidArgument
     else if length (jsp_JoinMessage param) > 256 then throwM Core_InvalidArgument
     else
       bindM mutexLock (\<lambda>_.
       or_unlock (if jsp_GIDForParticipationCheck param \<noteq> 0
                  then CheckGatheringForParticipation K (jsp_GIDForParticipationCheck param)
                         (jsp_AdditionalParticipants param @ [conn_PID connection])
                  else retM ()) (\<lambda>_.
       or_unlock (GetMatchmakeSessionByID K (jsp_GID param)) (\<lambda>(joined, systemPassword).
       if UserPasswordEnabled joined \<and> jsp_StrUserPassword param \<noteq> UserPassword joined
       then unlock_throw RendezVous_InvalidPassword
       else if SystemPasswordEnabled joined \<and> jsp_StrSystemPassword param \<noteq> systemPassword
       then unlock_throw RendezVous_InvalidPassword
       else
         or_denied (checkCanJoin P mgr (conn_PID connection) joined) (
         or_unlock (JoinMatchmakeSessionWithParticipants K joined connection (jsp_AdditionalParticipants param)
           (jsp_JoinMessage param) (jsp_JoinMatchmakeSessionBehavior param)) (\<lambda>_.
         ext_success MethodJoinMatchmakeSessionWithParam callID [WMatchmakeSession joined]))))))"

section \<open>The owner's updates\<close>

text \<open>Lock, look the session up, refuse everyone but its owner, update, unlock.\<close>

definition owner_update ::
  "nexlib \<Rightarrow> connection \<Rightarrow> u32 \<Rightarrow> (matchmake_session \<Rightarrow> result_code option) \<Rightarrow> unit mm \<Rightarrow> rmc_method \<Rightarrow> u32 \<Rightarrow>
   mm_response mm" where
  "owner_update K connection gid refuse update method callID =
     bindM mutexLock (\<lambda>_.
     or_unlock (GetMatchmakeSessionByID K gid) (\<lambda>(session, _).
     if OwnerPID session \<noteq> conn_PID connection then unlock_throw RendezVous_PermissionDenied
     else or_denied (refuse session) (or_unlock update (\<lambda>_. ext_success method callID []))))"

definition openParticipation :: "nexlib \<Rightarrow> bool \<Rightarrow> connection \<Rightarrow> u32 \<Rightarrow> u32 \<Rightarrow> mm_response mm" where
  "openParticipation K err connection callID gid =
    (if err then throwM Core_InvalidArgument
     else owner_update K connection gid (\<lambda>_. None) (UpdateParticipation gid True) MethodOpenParticipation callID)"

definition closeParticipation :: "nexlib \<Rightarrow> bool \<Rightarrow> connection \<Rightarrow> u32 \<Rightarrow> u32 \<Rightarrow> mm_response mm" where
  "closeParticipation K err connection callID gid =
    (if err then throwM Core_InvalidArgument
     else owner_update K connection gid (\<lambda>_. None) (UpdateParticipation gid False) MethodCloseParticipation callID)"

definition modifyCurrentGameAttribute ::
  "nexlib \<Rightarrow> bool \<Rightarrow> connection \<Rightarrow> u32 \<Rightarrow> u32 \<Rightarrow> u32 \<Rightarrow> u32 \<Rightarrow> mm_response mm" where
  "modifyCurrentGameAttribute K err connection callID gid attribIndex newValue =
    (if err then throwM Core_InvalidArgument
     else owner_update K connection gid
       (\<lambda>session. if unat attribIndex \<ge> length (Attributes session) then Some Core_InvalidIndex else None)
       (UpdateGameAttribute gid attribIndex newValue) MethodModifyCurrentGameAttribute callID)"

definition updateApplicationBuffer :: "nexlib \<Rightarrow> bool \<Rightarrow> connection \<Rightarrow> u32 \<Rightarrow> u32 \<Rightarrow> bytes \<Rightarrow> mm_response mm" where
  "updateApplicationBuffer K err connection callID gid applicationBuffer =
    (if err then throwM Core_InvalidArgument
     else owner_update K connection gid (\<lambda>_. None) (UpdateApplicationBuffer gid applicationBuffer)
       MethodUpdateApplicationBuffer callID)"

definition updateProgressScore :: "nexlib \<Rightarrow> bool \<Rightarrow> connection \<Rightarrow> u32 \<Rightarrow> u32 \<Rightarrow> u8 \<Rightarrow> mm_response mm" where
  "updateProgressScore K err connection callID gid progressScore =
    (if err then throwM Core_InvalidArgument
     else if progressScore > 100 then throwM Core_InvalidArgument
     else owner_update K connection gid (\<lambda>_. None) (UpdateProgressScore gid progressScore)
       MethodUpdateProgressScore callID)"

section \<open>Browsing\<close>

definition browseMatchmakeSession ::
  "nexlib \<Rightarrow> mm_protocol \<Rightarrow> bool \<Rightarrow> connection \<Rightarrow> u32 \<Rightarrow> search_criteria \<Rightarrow> result_range \<Rightarrow> mm_response mm" where
  "browseMatchmakeSession K P err connection callID searchCriteria resultRange =
    (if err then throwM Core_InvalidArgument
     else
       bindM mutexRLock (\<lambda>_.
       let criterias = (case CleanupMatchmakeSessionSearchCriterias P of None \<Rightarrow> [searchCriteria]
                        | Some cleanup \<Rightarrow> cleanup [searchCriteria]) in
       or_unlock (FindMatchmakeSessionBySearchCriteria K connection criterias resultRange None) (\<lambda>sessions.
       ext_success MethodBrowseMatchmakeSession callID
         [WGatheringHolders (map (\<lambda>m. HeldMatchmakeSession (m\<lparr>SessionKey := [], UserPassword := []\<rparr>)) sessions)])))"

text \<open>\<open>slices.DeleteFunc\<close> removes the caller, who is appended again when asked for.\<close>

definition getSimplePlayingSession ::
  "nexlib \<Rightarrow> bool \<Rightarrow> connection \<Rightarrow> u32 \<Rightarrow> pid list \<Rightarrow> bool \<Rightarrow> mm_response mm" where
  "getSimplePlayingSession K err connection callID listPID includeLoginUser =
    (if err then throwM Core_InvalidArgument
     else
       let pids = filter (\<lambda>p. p \<noteq> conn_PID connection) listPID @
                  (if includeLoginUser then [conn_PID connection] else []) in
       bindM mutexRLock (\<lambda>_.
       or_unlock (GetSimplePlayingSession K pids) (\<lambda>sessions.
       ext_success MethodGetSimplePlayingSession callID [WSimplePlayingSessions sessions])))"

section \<open>Communities\<close>

definition createCommunity ::
  "nexlib \<Rightarrow> mm_protocol \<Rightarrow> bool \<Rightarrow> connection \<Rightarrow> u32 \<Rightarrow> persistent_gathering \<Rightarrow> string \<Rightarrow> mm_response mm" where
  "createCommunity K P err connection callID community strMessage =
    (if err then throwM Core_InvalidArgument
     else
       bindM (nowDateTime K) (\<lambda>currentTime.
       if \<not> CheckValidPersistentGathering K currentTime community then throwM Core_InvalidArgument
       else
         bindM mutexLock (\<lambda>_.
         or_unlock (GetCreatedPersistentGatherings (conn_PID connection)) (\<lambda>created.
         if int created \<ge> PersistentGatheringCreationMax P
         then unlock_throw RendezVous_PersistentGatheringCreationMax
         else
           or_unlock (CreatePersistentGathering K connection community) (\<lambda>registered.
           or_unlock (JoinGathering K (ID registered) connection 1 strMessage) (\<lambda>_.
           ext_success MethodCreateCommunity callID [WUInt32 (ID registered)]))))))"

definition communities_response :: "rmc_method \<Rightarrow> u32 \<Rightarrow> persistent_gathering list mm \<Rightarrow> mm_response mm" where
  "communities_response method callID query =
     bindM mutexRLock (\<lambda>_.
     or_unlock query (\<lambda>communities.
     ext_success method callID [WPersistentGatherings (map (\<lambda>p. p\<lparr>PgPassword := []\<rparr>) communities)]))"

definition findCommunityByGatheringID :: "nexlib \<Rightarrow> bool \<Rightarrow> connection \<Rightarrow> u32 \<Rightarrow> u32 list \<Rightarrow> mm_response mm" where
  "findCommunityByGatheringID K err connection callID lstGID =
    (if err then throwM Core_InvalidArgument
     else communities_response MethodFindCommunityByGatheringID callID
       (GetPersistentGatheringsByID K (conn_PID connection) lstGID))"

definition findCommunityByParticipant ::
  "nexlib \<Rightarrow> bool \<Rightarrow> connection \<Rightarrow> u32 \<Rightarrow> pid \<Rightarrow> result_range \<Rightarrow> mm_response mm" where
  "findCommunityByParticipant K err connection callID p resultRange =
    (if err then throwM Core_InvalidArgument
     else communities_response MethodFindCommunityByParticipant callID
       (GetPersistentGatheringsByParticipant K (conn_PID connection) p resultRange))"

definition findOfficialCommunity ::
  "nexlib \<Rightarrow> bool \<Rightarrow> connection \<Rightarrow> u32 \<Rightarrow> bool \<Rightarrow> result_range \<Rightarrow> mm_response mm" where
  "findOfficialCommunity K err connection callID isAvailableOnly resultRange =
    (if err then throwM Core_InvalidArgument
     else communities_response MethodFindOfficialCommunity callID
       (GetOfficialCommunities K (conn_PID connection) isAvailableOnly resultRange))"

definition getSimpleCommunity :: "bool \<Rightarrow> connection \<Rightarrow> u32 \<Rightarrow> u32 list \<Rightarrow> mm_response mm" where
  "getSimpleCommunity err connection callID gatheringIDList =
    (if err then throwM Core_InvalidArgument
     else
       bindM mutexRLock (\<lambda>_.
       or_unlock (GetSimpleCommunities gatheringIDList) (\<lambda>communities.
       ext_success MethodGetSimpleCommunity callID [WSimpleCommunities communities])))"

section \<open>Notifications\<close>

text \<open>
  \<open>utf8.RuneCountInString\<close>: a well-formed sequence of one to four bytes is one rune, and every
  byte that starts no such sequence counts as one.
\<close>

definition byte_in :: "nat \<Rightarrow> nat \<Rightarrow> char \<Rightarrow> bool" where
  "byte_in lo hi c \<longleftrightarrow> lo \<le> (of_char c :: nat) \<and> (of_char c :: nat) \<le> hi"

definition rune_size :: "char \<Rightarrow> string \<Rightarrow> nat" where
  "rune_size c cs =
    (if byte_in 0xC2 0xDF c then
       (case cs of c1 # _ \<Rightarrow> if byte_in 0x80 0xBF c1 then 2 else 1 | _ \<Rightarrow> 1)
     else if byte_in 0xE0 0xEF c then
       (case cs of c1 # c2 # _ \<Rightarrow>
          if byte_in (if byte_in 0xE0 0xE0 c then 0xA0 else 0x80) (if byte_in 0xED 0xED c then 0x9F else 0xBF) c1
             \<and> byte_in 0x80 0xBF c2 then 3 else 1
        | _ \<Rightarrow> 1)
     else if byte_in 0xF0 0xF4 c then
       (case cs of c1 # c2 # c3 # _ \<Rightarrow>
          if byte_in (if byte_in 0xF0 0xF0 c then 0x90 else 0x80) (if byte_in 0xF4 0xF4 c then 0x8F else 0xBF) c1
             \<and> byte_in 0x80 0xBF c2 \<and> byte_in 0x80 0xBF c3 then 4 else 1
        | _ \<Rightarrow> 1)
     else 1)"

function RuneCountInString :: "string \<Rightarrow> nat" where
  "RuneCountInString [] = 0"
| "RuneCountInString (c # cs) = 1 + RuneCountInString (drop (rune_size c cs - 1) cs)"
  by pat_completeness auto
termination by (relation "measure length") auto

definition updateNotificationData ::
  "nexlib \<Rightarrow> manager \<Rightarrow> bool \<Rightarrow> connection \<Rightarrow> u32 \<Rightarrow> u32 \<Rightarrow> u32 \<Rightarrow> u32 \<Rightarrow> string \<Rightarrow> mm_response mm" where
  "updateNotificationData K mgr err connection callID uiType uiParam1 uiParam2 strParam =
    (if err then throwM Core_InvalidArgument
     else if uiType < 101 \<or> uiType > 108 then throwM Core_InvalidArgument
     else if RuneCountInString strParam > 256 then throwM Core_InvalidArgument
     else
       let notificationData = \<lparr> PIDSource = conn_PID connection, NType = BuildNotificationType K uiType 0,
             Param1 = uiParam1, Param2 = uiParam2, StrParam = strParam, Param3 = 0 \<rparr> in
       bindM mutexLock (\<lambda>_.
       or_unlock (UpdateNotificationData notificationData) (\<lambda>_.
       or_unlock (LogNotificationData notificationData) (\<lambda>_.
       bindM mutexUnlock (\<lambda>_.
       let friendList = friends_of mgr (conn_PID connection) in
       bindM (if friendList \<noteq> [] then
                bindM (getM (\<lambda>s. filter (\<lambda>p. w_connections s p \<noteq> None) (map ucast friendList))) (\<lambda>targets.
                SendNotificationEvent K notificationData targets)
              else retM ()) (\<lambda>_.
       retM (rmcSuccess MatchmakeExtension_Protocol MethodUpdateNotificationData callID [])))))))"

definition getFriendNotificationData :: "nexlib \<Rightarrow> manager \<Rightarrow> bool \<Rightarrow> connection \<Rightarrow> u32 \<Rightarrow> int \<Rightarrow> mm_response mm" where
  "getFriendNotificationData K mgr err connection callID uiType =
    (if err then throwM Core_InvalidArgument
     else if uiType < 101 \<or> uiType > 108 then throwM Core_InvalidArgument
     else
       bindM mutexRLock (\<lambda>_.
       or_unlock (GetNotificationDatas mgr (conn_PID connection) [BuildNotificationType K (word_of_int uiType) 0])
         (\<lambda>dataList.
       ext_success MethodGetFriendNotificationData callID [WNotificationEvents dataList])))"

definition getlstFriendNotificationData ::
  "nexlib \<Rightarrow> manager \<Rightarrow> bool \<Rightarrow> connection \<Rightarrow> u32 \<Rightarrow> u32 list \<Rightarrow> mm_response mm" where
  "getlstFriendNotificationData K mgr err connection callID lstTypes =
    (if err then throwM Core_InvalidArgument
     else if list_ex (\<lambda>t. t < 101 \<or> t > 108) lstTypes then throwM Core_InvalidArgument
     else
       bindM mutexRLock (\<lambda>_.
       or_unlock (GetNotificationDatas mgr (conn_PID connection) (map (\<lambda>t. BuildNotificationType K t 0) lstTypes))
         (\<lambda>dataList.
       ext_success MethodGetlstFriendNotificationData callID [WNotificationEvents dataList])))"

section \<open>Connection loss and restart\<close>

definition matchmakeExtension_connectionEnded :: "connection \<Rightarrow> unit mm" where
  "matchmakeExtension_connectionEnded connection =
     bindM mutexLock (\<lambda>_. bindM (catchM (InactivateNotificationDatas (conn_PID connection))) (\<lambda>_. mutexUnlock))"

text \<open>
  After the tables exist: no matchmake session and no notification survives a restart of the
  server. An error is logged and ends the function.
\<close>

definition SetManager :: "unit mm" where
  "SetManager = create_tables 6
     (bindM (sql_exec (\<lambda>s. length (filter (\<lambda>g. g_type g = ''MatchmakeSession'') (t_gatherings s)))
       (\<lambda>s. s\<lparr>t_gatherings := map (\<lambda>g. if g_type g = ''MatchmakeSession'' then g\<lparr>g_registered := False\<rparr> else g)
          (t_gatherings s)\<rparr>)) (\<lambda>r. case r of
       Inl _ \<Rightarrow> retM ()
     | Inr _ \<Rightarrow>
         bindM (sql_exec (\<lambda>s. length (t_notifications s))
           (\<lambda>s. s\<lparr>t_notifications := map (\<lambda>n. n\<lparr>n_active := False\<rparr>) (t_notifications s)\<rparr>)) (\<lambda>_. retM ())))"

section \<open>The mutex is released on every path\<close>

lemma releases_ext_success [lock_rules]: "releases (ext_success method callID body)"
  unfolding ext_success_def by (rule releases_success)

lemma releases_with_session [lock_rules]:
  assumes "\<And>m. releases (k m)"
  shows "releases (with_session g k)"
proof -
  have "releases (panicM :: 'a mm)" by (simp add: releases_def run_panic)
  then show ?thesis
    unfolding with_session_def by (cases g) (auto intro: lock_rules assms)
qed

lemma releases_or_denied [lock_rules]: "releases k \<Longrightarrow> releases (or_denied e k)"
  unfolding or_denied_def by (intro lock_rules)

lemma releases_found_or_created [lock_rules]:
  "(\<And>m. releases (k m)) \<Longrightarrow> releases (found_or_created K connection source results k)"
  unfolding found_or_created_def by (intro lock_rules)

lemma lock_ok_owner_update [lock_rules]:
  "lock_free update \<Longrightarrow> lock_ok (owner_update K connection gid refuse update method callID)"
  unfolding owner_update_def by (intro lock_rules lock_ok_lock)

lemma lock_ok_communities [lock_rules]: "lock_free q \<Longrightarrow> lock_ok (communities_response method callID q)"
  unfolding communities_response_def by (intro lock_rules lock_ok_rlock)

lemma lock_ok_create [lock_rules]:
  "lock_ok (createMatchmakeSession K err connection callID g message n)"
  "lock_ok (createMatchmakeSessionWithParam K err connection callID cparam)"
  unfolding createMatchmakeSession_def createMatchmakeSessionWithParam_def
  by (intro lock_rules lock_ok_lock)+

lemma lock_ok_auto [lock_rules]:
  "lock_ok (autoMatchmakePostpone K P mgr err connection callID g message)"
  "lock_ok (autoMatchmakeWithParamPostpone K P err connection callID aparam)"
  "lock_ok (autoMatchmakeWithSearchCriteriaPostpone K P err connection callID cs g message)"
  unfolding autoMatchmakePostpone_def autoMatchmakeWithParamPostpone_def
    autoMatchmakeWithSearchCriteriaPostpone_def
  by (intro lock_rules lock_ok_lock)+

lemma lock_ok_join [lock_rules]:
  "lock_ok (joinMatchmakeSession K P mgr err connection callID gid message)"
  "lock_ok (joinMatchmakeSessionEx K P mgr err connection callID gid message b n)"
  "lock_ok (joinMatchmakeSessionWithParam K P mgr err connection callID jparam)"
  unfolding joinMatchmakeSession_def joinMatchmakeSessionEx_def joinMatchmakeSessionWithParam_def join_by_id_def
  by (intro lock_rules lock_ok_lock)+

lemma lock_ok_updates [lock_rules]:
  "lock_ok (openParticipation K err connection callID gid)"
  "lock_ok (closeParticipation K err connection callID gid)"
  "lock_ok (modifyCurrentGameAttribute K err connection callID gid i v)"
  "lock_ok (updateApplicationBuffer K err connection callID gid bytes)"
  "lock_ok (updateProgressScore K err connection callID gid score)"
  unfolding openParticipation_def closeParticipation_def modifyCurrentGameAttribute_def
    updateApplicationBuffer_def updateProgressScore_def
  by (intro lock_rules)+

lemma lock_ok_browse [lock_rules]:
  "lock_ok (browseMatchmakeSession K P err connection callID c rr)"
  "lock_ok (getSimplePlayingSession K err connection callID ps b)"
  unfolding browseMatchmakeSession_def getSimplePlayingSession_def
  by (intro lock_rules lock_ok_rlock)+

lemma lock_ok_bind_free:
  assumes "lock_free m" and "\<And>a. lock_ok (f a)"
  shows "lock_ok (bindM m f)"
  unfolding lock_ok_def
proof (intro allI impI)
  fix s :: mm_world
  assume free: "w_mutex s = Unlocked"
  have m: "w_mutex (snd (m s)) = w_mutex s \<and> fst (m s) \<noteq> Blocked"
    using assms(1) by (simp add: lock_free_def)
  have f: "w_mutex t = Unlocked \<Longrightarrow> fst (f a t) \<noteq> Blocked \<and>
      (fst (f a t) \<noteq> Panic \<longrightarrow> w_mutex (snd (f a t)) = Unlocked)" for a t
    using assms(2) by (simp add: lock_ok_def)
  from m f free
  show "fst (bindM m f s) \<noteq> Blocked \<and> (fst (bindM m f s) \<noteq> Panic \<longrightarrow> w_mutex (snd (bindM m f s)) = Unlocked)"
    by (cases "m s") (auto simp: bindM_def split: outcome.splits)
qed

lemma lock_ok_communities_handlers [lock_rules]:
  "lock_ok (createCommunity K P err connection callID community message)"
  "lock_ok (findCommunityByGatheringID K err connection callID gids)"
  "lock_ok (findCommunityByParticipant K err connection callID p rr)"
  "lock_ok (findOfficialCommunity K err connection callID b rr)"
  "lock_ok (getSimpleCommunity err connection callID gids)"
  unfolding createCommunity_def findCommunityByGatheringID_def findCommunityByParticipant_def
    findOfficialCommunity_def getSimpleCommunity_def nowDateTime_def
  by (intro lock_rules lock_ok_lock lock_ok_rlock lock_ok_bind_free)+

lemma lock_ok_notifications [lock_rules]:
  "lock_ok (updateNotificationData K mgr err connection callID t p1 p2 str)"
  "lock_ok (getFriendNotificationData K mgr err connection callID ty)"
  "lock_ok (getlstFriendNotificationData K mgr err connection callID tys)"
  unfolding updateNotificationData_def getFriendNotificationData_def getlstFriendNotificationData_def
  by (intro lock_rules lock_ok_lock lock_ok_rlock releases_unlock)+

section \<open>The handlers keep the invariants of all tables\<close>

lemma CheckValid_attributes: "CheckValidMatchmakeSession m \<Longrightarrow> length (Attributes m) = 6"
  by (simp add: CheckValidMatchmakeSession_def split: if_splits)

lemma CheckValid_attribs: "CheckValidPersistentGathering K t p \<Longrightarrow> length (PgAttribs p) = 6"
  by (simp add: CheckValidPersistentGathering_def split: if_splits)

text \<open>A search cleanup may rewrite a session, but not the number of its attributes.\<close>

definition cleanup_ok :: "mm_protocol \<Rightarrow> bool" where
  "cleanup_ok P \<longleftrightarrow> (case CleanupSearchMatchmakeSession P of None \<Rightarrow> True
     | Some cleanup \<Rightarrow> \<forall>m. length (Attributes (cleanup m)) = length (Attributes m))"

lemma server_cleanup_ok: "cleanup_ok server_protocol"
  by (simp add: cleanup_ok_def server_protocol_def)

context mm_store
begin

lemma keeps_ext_success [keeps_rules]: "keeps I (ext_success method callID body)"
  unfolding ext_success_def by (intro keeps_rules tables_only)

lemma keeps_with_session [keeps_rules]: "(\<And>m. keeps I (k m)) \<Longrightarrow> keeps I (with_session g k)"
  unfolding with_session_def by (cases g) (auto intro: keeps_rules tables_only)

lemma keeps_or_denied [keeps_rules]: "keeps I k \<Longrightarrow> keeps I (or_denied e k)"
  unfolding or_denied_def by (intro keeps_rules tables_only)

lemma keeps_found_or_created:
  "length (Attributes m) = 6 \<Longrightarrow> (\<And>m. keeps I (k m)) \<Longrightarrow> keeps I (found_or_created K connection m results k)"
  unfolding found_or_created_def by (intro keeps_rules tables_only keeps_Create)

lemma keeps_search_one [keeps_rules]: "keeps I (search_one K rr source found c)"
proof -
  have "tables (snd (search_statement c nf ord l off s)) = tables s" for nf ord l off s
    by (simp add: search_statement_def Let_def)
  then have "keeps I (db_call (search_statement c nf ord l off))" for nf ord l off
    by (intro keeps_db_call on_tables_upd [OF tables_only]) (auto intro: on_tablesD [OF tables_only])
  then have db: "keeps I (bindM (db_call (search_statement c nf ord l off)) (\<lambda>r. case r of
      Inl _ \<Rightarrow> retM found | Inr rows \<Rightarrow> retM (found @ scan_rows K rows)))" for nf ord l off
    by (intro keeps_rules)
  show ?thesis
    unfolding search_one_def
    by (cases "criteria_filters c"; cases "selection_order K c source"; cases "criteria_range c rr (length found)")
      (auto intro: keeps_rules db)
qed

lemma keeps_search [keeps_rules]: "keeps I (FindMatchmakeSessionBySearchCriteria K connection cs rr source)"
  unfolding FindMatchmakeSessionBySearchCriteria_def by (intro keeps_rules)

lemma keeps_createMatchmakeSession [keeps_rules]:
  "keeps I (createMatchmakeSession K err connection callID g message n)"
  unfolding createMatchmakeSession_def
  by (intro keeps_rules tables_only keeps_Create) (simp add: CheckValid_attributes)

lemma keeps_createWithParam:
  assumes "length (csp_AdditionalParticipants param) < 2 ^ 31"
  shows "keeps I (createMatchmakeSessionWithParam K err connection callID param)"
  unfolding createMatchmakeSessionWithParam_def
  by (intro keeps_rules tables_only keeps_Create keeps_join_session_with assms) (simp add: CheckValid_attributes)

lemma keeps_autoMatchmakePostpone:
  assumes "cleanup_ok P"
  shows "keeps I (autoMatchmakePostpone K P mgr err connection callID g message)"
proof (cases "CleanupSearchMatchmakeSession P")
  case None
  then show ?thesis by (simp add: autoMatchmakePostpone_def keeps_throw)
next
  case (Some cleanup)
  then have "length (Attributes (cleanup m)) = 6" if "CheckValidMatchmakeSession m" for m
    using assms CheckValid_attributes [OF that] by (simp add: cleanup_ok_def)
  then show ?thesis
    unfolding autoMatchmakePostpone_def Some option.case
    by (intro keeps_rules tables_only keeps_Create) simp
qed

lemma keeps_autoWithParam:
  assumes "length (amp_AdditionalParticipants param) < 2 ^ 31"
  shows "keeps I (autoMatchmakeWithParamPostpone K P err connection callID param)"
  unfolding autoMatchmakeWithParamPostpone_def
  by (intro keeps_rules tables_only keeps_found_or_created keeps_join_session_with assms)
    (simp add: CheckValid_attributes)

lemma keeps_autoWithSearchCriteria [keeps_rules]:
  "keeps I (autoMatchmakeWithSearchCriteriaPostpone K P err connection callID cs g message)"
proof -
  have *: "keeps I (let source = requested\<lparr>GameMode := gm\<rparr> in
      if \<not> CheckValidMatchmakeSession source then n else k source)"
    if "keeps I n" and "\<And>m. length (Attributes m) = 6 \<Longrightarrow> keeps I (k m)" for requested :: matchmake_session and gm n and k :: "matchmake_session \<Rightarrow> 'c mm"
    unfolding Let_def using that CheckValid_attributes by (intro keeps_if) auto
  show ?thesis
    unfolding autoMatchmakeWithSearchCriteriaPostpone_def
    by (intro keeps_option keeps_if keeps_throw keeps_bind keeps_mutex keeps_or_unlock keeps_with_session * tables_only
      keeps_end_sessions keeps_let keeps_search keeps_found_or_created keeps_join_session keeps_ext_success)
qed

lemma keeps_joins [keeps_rules]:
  "keeps I (joinMatchmakeSession K P mgr err connection callID gid message)"
  "keeps I (joinMatchmakeSessionEx K P mgr err connection callID gid message b n)"
  unfolding joinMatchmakeSession_def joinMatchmakeSessionEx_def join_by_id_def
  by (intro keeps_rules tables_only)+

lemma keeps_joinWithParam:
  assumes "length (jsp_AdditionalParticipants param) < 2 ^ 31"
  shows "keeps I (joinMatchmakeSessionWithParam K P mgr err connection callID param)"
  unfolding joinMatchmakeSessionWithParam_def
  by (intro keeps_rules tables_only keeps_join_session_with assms)

lemma keeps_owner_update [keeps_rules]:
  "keeps I update \<Longrightarrow> keeps I (owner_update K connection gid refuse update method callID)"
  unfolding owner_update_def by (intro keeps_rules tables_only)

lemma keeps_owner_updates [keeps_rules]:
  "keeps I (openParticipation K err connection callID gid)"
  "keeps I (closeParticipation K err connection callID gid)"
  "keeps I (modifyCurrentGameAttribute K err connection callID gid i v)"
  "keeps I (updateApplicationBuffer K err connection callID gid bytes)"
  "keeps I (updateProgressScore K err connection callID gid score)"
  unfolding openParticipation_def closeParticipation_def modifyCurrentGameAttribute_def
    updateApplicationBuffer_def updateProgressScore_def
  by (intro keeps_rules)+

lemma keeps_browse [keeps_rules]:
  "keeps I (browseMatchmakeSession K P err connection callID c rr)"
  "keeps I (getSimplePlayingSession K err connection callID ps b)"
  unfolding browseMatchmakeSession_def getSimplePlayingSession_def
  by (intro keeps_rules tables_only)+

lemma keeps_createCommunity [keeps_rules]: "keeps I (createCommunity K P err connection callID community message)"
  unfolding createCommunity_def nowDateTime_def
  by (intro keeps_rules tables_only keeps_CreatePersistent) (simp add: CheckValid_attribs)

lemma keeps_communities [keeps_rules]:
  "keeps I (findCommunityByGatheringID K err connection callID gids)"
  "keeps I (findCommunityByParticipant K err connection callID p rr)"
  "keeps I (findOfficialCommunity K err connection callID b rr)"
  "keeps I (getSimpleCommunity err connection callID gids)"
  unfolding findCommunityByGatheringID_def findCommunityByParticipant_def
    findOfficialCommunity_def getSimpleCommunity_def communities_response_def
  by (intro keeps_rules tables_only)+

lemma keeps_notifications [keeps_rules]:
  "keeps I (updateNotificationData K mgr err connection callID t p1 p2 str)"
  "keeps I (getFriendNotificationData K mgr err connection callID ty)"
  "keeps I (getlstFriendNotificationData K mgr err connection callID tys)"
  unfolding updateNotificationData_def getFriendNotificationData_def getlstFriendNotificationData_def
  by (intro keeps_rules tables_only)+

lemma keeps_ext_connectionEnded [keeps_rules]: "keeps I (matchmakeExtension_connectionEnded connection)"
  unfolding matchmakeExtension_connectionEnded_def by (intro keeps_rules tables_only)

end

end
