(* ===== verification/Session_Runs.thy ===== *)
theory Session_Runs
  imports Gathering_Spec Matchmake_Extension
begin

text \<open>
  Runs of the functions on matchmake sessions when no statement fails, and the effect of the
  handlers' common frame (lock, look up, check, act, unlock).
\<close>

section \<open>Creating and looking up\<close>

definition created_session :: "nexlib \<Rightarrow> pid \<Rightarrow> matchmake_session \<Rightarrow> mm_world \<Rightarrow> matchmake_session" where
  "created_session K p m s = m\<lparr>ID := word_of_nat (next_gathering_id s), OwnerPID := p, HostPID := p,
     MatchmakeParam := session_params (MatchmakeParam m), StartedTime := DateTime_FromTimestamp K (w_now s),
     SessionKey := map (\<lambda>i. w_random s (w_random_pos s + i)) [0..<32], SystemPasswordEnabled := False\<rparr>"

definition created_row :: "nexlib \<Rightarrow> pid \<Rightarrow> matchmake_session \<Rightarrow> mm_world \<Rightarrow> gathering_row" where
  "created_row K p m s = new_gathering_row (next_gathering_id s) p p m ''MatchmakeSession''
     (DateTime_Standard K (DateTime_FromTimestamp K (w_now s)))"

lemma fresh_rows:
  assumes "world_ok s" and "next_gathering_id s < 2 ^ 32"
  shows "gathering_rows (word_of_nat (next_gathering_id s)) s = []"
    and "session_rows (word_of_nat (next_gathering_id s)) s = []"
proof -
  have n: "unat (word_of_nat (next_gathering_id s) :: u32) = next_gathering_id s"
    by (rule unat_of_nat_u32 [OF assms(2)])
  have "g_id g < next_gathering_id s" if "g \<in> set (t_gatherings s)" for g
    using assms(1) that by (simp add: world_ok_def gatherings_ok_def ids_ok_def)
  then show "gathering_rows (word_of_nat (next_gathering_id s)) s = []"
    by (simp add: gathering_rows_def filter_empty_conv n) (metis less_irrefl)
  have "ms_id r < next_gathering_id s" if "r \<in> set (t_sessions s)" for r
  proof -
    obtain g where g: "g \<in> set (t_gatherings s)" "g_id g = ms_id r"
    proof -
      have "\<forall>r \<in> set (t_sessions s). \<exists>g \<in> set (t_gatherings s). g_id g = ms_id r"
        using assms(1) by (auto simp: world_ok_def sessions_ok_def)
      then show ?thesis using that \<open>r \<in> set (t_sessions s)\<close> by blast
    qed
    have "g_id g < next_gathering_id s"
      using assms(1) g(1) by (simp add: world_ok_def gatherings_ok_def ids_ok_def)
    then show ?thesis using g(2) by simp
  qed
  then show "session_rows (word_of_nat (next_gathering_id s)) s = []"
    by (simp add: session_rows_def filter_empty_conv n) (metis less_irrefl)
qed

definition session_created :: "nexlib \<Rightarrow> pid \<Rightarrow> matchmake_session \<Rightarrow> mm_world \<Rightarrow> mm_world" where
  "session_created K p m s = s\<lparr>t_gatherings := t_gatherings s @ [created_row K p m s],
     next_gathering_id := Suc (next_gathering_id s),
     tracking_log := tracking_log s @ [(w_now s, TrackRegisterGathering p (word_of_nat (next_gathering_id s)))],
     w_random_pos := w_random_pos s + 32,
     t_sessions := t_sessions s @ [new_session_row K (created_session K p m s)]\<rparr>"

lemma run_Create:
  assumes "db_faults s = []" and "world_ok s" and "next_gathering_id s < 2 ^ 32"
  shows "CreateMatchmakeSession K c m s =
    (Ok (created_session K (conn_PID c) m s), session_created K (conn_PID c) m s)"
proof -
  have "int (next_gathering_id s) < 2 ^ 32" using assms(3) by simp
  then have register: "RegisterGathering K p p m ''MatchmakeSession'' s =
      (Ok (m\<lparr>ID := word_of_nat (next_gathering_id s), OwnerPID := p, HostPID := p\<rparr>, DateTime_FromTimestamp K (w_now s)),
       s\<lparr>t_gatherings := t_gatherings s @ [created_row K p m s], next_gathering_id := Suc (next_gathering_id s),
         tracking_log := tracking_log s @ [(w_now s, TrackRegisterGathering p (word_of_nat (next_gathering_id s)))]\<rparr>)" for p
    by (simp add: RegisterGathering_def nowDateTime_def run_simps bindM_def run_returning assms(1)
      LogRegisterGathering_def created_row_def)
  have free: "filter (\<lambda>r. ms_id r = unat (word_of_nat (next_gathering_id s) :: u32)) (t_sessions s) = []"
    using fresh_rows(2) [OF assms(2,3)] by (simp add: session_rows_def)
  show ?thesis
    by (simp add: CreateMatchmakeSession_def bindM_def [of "RegisterGathering _ _ _ _ _"] register
      randRead_def run_simps bindM_def sql_insert_def db_call_def assms(1) free session_rows_def Let_def
      created_session_def session_created_def)
qed

lemma filter_joined:
  "filter (\<lambda>(g, ms). g_id g = unat gid \<and> P g ms) (joined s) =
     filter (\<lambda>(g, ms). P g ms) (List.product (gathering_rows gid s) (session_rows gid s))"
proof -
  have row: "filter (\<lambda>(g, ms). g_id g = unat gid \<and> P g ms) (map (Pair g) (filter (\<lambda>ms. ms_id ms = g_id g) mss)) =
      (if g_id g = unat gid then filter (\<lambda>(g, ms). P g ms) (map (Pair g) (filter (\<lambda>r. ms_id r = unat gid) mss)) else [])"
    for g mss
    by (auto simp: filter_map comp_def)
  have inner: "concat (map (\<lambda>ms. if P ms then [(g, ms)] else []) mss) = map (Pair g) (filter P mss)"
    for g :: gathering_row and P and mss :: "session_row list"
    by (induction mss) auto
  have "joined s = concat (map (\<lambda>g. map (Pair g) (filter (\<lambda>ms. ms_id ms = g_id g) (t_sessions s))) (t_gatherings s))"
    by (simp add: joined_def inner)
  moreover have "filter (\<lambda>(g, ms). g_id g = unat gid \<and> P g ms) (concat (map (\<lambda>g. map (Pair g)
        (filter (\<lambda>ms. ms_id ms = g_id g) (t_sessions s))) gs)) =
      filter (\<lambda>(g, ms). P g ms) (List.product (filter (\<lambda>g. g_id g = unat gid) gs) (filter (\<lambda>r. ms_id r = unat gid) (t_sessions s)))"
    for gs
    by (induction gs) (simp_all add: row)
  ultimately show ?thesis by (simp add: gathering_rows_def session_rows_def)
qed

text \<open>The row pair of an open session, and what the handlers read from it.\<close>

definition live_session :: "u32 \<Rightarrow> gathering_row \<Rightarrow> session_row \<Rightarrow> mm_world \<Rightarrow> bool" where
  "live_session gid g ms s \<longleftrightarrow> gathering_rows gid s = [g] \<and> session_rows gid s = [ms] \<and>
     g_registered g \<and> g_type g = ''MatchmakeSession'' \<and> g_participants g \<noteq> []"

definition read_session :: "nexlib \<Rightarrow> gathering_row \<Rightarrow> session_row \<Rightarrow> matchmake_session" where
  "read_session K g ms = fill_session K (row_gathering g) (word_of_nat (length (g_participants g)))
     (DateTime_FromTimestamp K (g_started_time g)) ms"

lemma read_session_simps [simp]:
  "OwnerPID (read_session K g ms) = g_owner_pid g" "Attributes (read_session K g ms) = ms_attribs ms"
  "UserPasswordEnabled (read_session K g ms) = ms_user_password_enabled ms"
  "SystemPasswordEnabled (read_session K g ms) = ms_system_password_enabled ms"
  "UserPassword (read_session K g ms) = ms_user_password ms"
  "OpenParticipation (read_session K g ms) = ms_open_participation ms"
  "ID (read_session K g ms) = word_of_nat (g_id g)"
  "MatchmakeSystemType (read_session K g ms) = ms_matchmake_system_type ms"
  by (simp_all add: read_session_def fill_session_def row_gathering_def)

lemma run_GetByID:
  assumes "db_faults s = []" and "live_session gid g ms s"
  shows "GetMatchmakeSessionByID K gid s = (Ok (read_session K g ms, ms_system_password ms), s)"
proof -
  have "filter (\<lambda>(g, ms). g_registered g \<and> g_type g = ''MatchmakeSession'' \<and> g_id g = unat gid) (joined s) = [(g, ms)]"
    using filter_joined [of gid "\<lambda>g ms. g_registered g \<and> g_type g = ''MatchmakeSession''" s] assms(2)
    by (simp add: live_session_def conj_ac)
  then show ?thesis
    using assms by (simp add: GetMatchmakeSessionByID_def bindM_def run_query_row live_session_def scan_session_def
      read_session_def run_ret)
qed

section \<open>The frame of the handlers\<close>

lemma unlocked_again: "w_mutex s = Unlocked \<Longrightarrow> s\<lparr>w_mutex := Unlocked\<rparr> = s"
  by (cases s) simp

lemma run_lock_bind:
  "w_mutex s = Unlocked \<Longrightarrow> bindM mutexLock k s = k () (s\<lparr>w_mutex := Locked\<rparr>)"
  "w_mutex s = Unlocked \<Longrightarrow> bindM mutexRLock k s = k () (s\<lparr>w_mutex := RLocked\<rparr>)"
  by (simp_all add: bindM_def run_lock run_rlock)

lemma run_getSessionURLs:
  assumes "db_faults s = []" and "w_mutex s = Unlocked" and "filter g_registered (gathering_rows gid s) = [g]"
    and "conn_PID c \<in> set (g_participants g)"
  shows "getSessionURLs K False c callID gid s = (Ok (rmcSuccess MatchMaking_Protocol MethodGetSessionURLs callID
    [WStationURLs (case w_connections s (g_host_pid g) of None \<Rightarrow> [] | Some host \<Rightarrow> conn_StationURLs host)]), s)"
proof -
  have "FindGatheringByID K gid (s\<lparr>w_mutex := RLocked\<rparr>) =
      (Ok ((row_gathering g)\<lparr>ID := gid\<rparr>, g_type g, g_participants g, DateTime_FromTimestamp K (g_started_time g)),
       s\<lparr>w_mutex := RLocked\<rparr>)"
    using assms(1,3) by (simp add: FindGatheringByID_def gathering_rows_def run_bind_Ok [OF run_query_row] row_or_def first_row_def retM_def)
  then show ?thesis
    using assms(2,4) by (simp add: getSessionURLs_def run_lock_bind run_or_unlock_Ok [where m = "FindGatheringByID K gid"]
      row_gathering_def run_bind_Ok [OF run_unlock] unlocked_again run_simps)
qed

lemma live_session_mutex [simp]: "live_session gid g ms (s\<lparr>w_mutex := x\<rparr>) = live_session gid g ms s"
  by (simp add: live_session_def gathering_rows_def session_rows_def)

lemma run_ext_success: "ext_success method callID body s =
    (Ok (rmcSuccess MatchmakeExtension_Protocol method callID body), s\<lparr>w_mutex := Unlocked\<rparr>)"
  by (simp add: ext_success_def bindM_def run_simps)

lemma update_session_cong:
  assumes "\<And>r. r \<in> set (session_rows gid s) \<Longrightarrow> f r = h r"
  shows "update_session gid f s = update_session gid h s"
  using assms by (simp add: update_session_def session_rows_def cong: map_cong if_cong)

lemma session_rows_update:
  assumes "\<And>r. ms_id (f r) = ms_id r"
  shows "session_rows gid (update_session gid f s) = map f (session_rows gid s)"
proof -
  have "filter (\<lambda>r. ms_id r = n) (map (\<lambda>r. if ms_id r = n then f r else r) rs) = map f (filter (\<lambda>r. ms_id r = n) rs)"
    for n rs using assms by (induction rs) auto
  then show ?thesis unfolding session_rows_def update_session_def by simp
qed

lemma run_session_exec:
  assumes "db_faults s = []" and "session_rows gid s = [ms]"
  shows "session_exec gid f s = (Ok (), update_session gid f s)"
  using assms by (simp add: session_exec_def bindM_def run_exec run_ret)

lemma run_owner_update:
  assumes "db_faults s = []" and "w_mutex s = Unlocked" and "live_session gid g ms s"
  shows "owner_update K c gid refuse update method callID s =
    (if g_owner_pid g \<noteq> conn_PID c then (Err RendezVous_PermissionDenied, s)
     else case refuse (read_session K g ms) of
       Some e \<Rightarrow> (Err e, s)
     | None \<Rightarrow> or_unlock update (\<lambda>_. ext_success method callID []) (s\<lparr>w_mutex := Locked\<rparr>))"
proof -
  have get: "GetMatchmakeSessionByID K gid (s\<lparr>w_mutex := Locked\<rparr>) =
      (Ok (read_session K g ms, ms_system_password ms), s\<lparr>w_mutex := Locked\<rparr>)"
    by (rule run_GetByID) (use assms in simp_all)
  show ?thesis
    by (simp add: owner_update_def run_lock_bind assms(2) run_or_unlock_Ok get
      run_unlock_throw unlocked_again [OF assms(2)] or_denied_def split: option.split)
qed

lemma run_owner_exec:
  assumes "db_faults s = []" and "w_mutex s = Unlocked" and "live_session gid g ms s"
  shows "or_unlock (session_exec gid f) (\<lambda>_. ext_success method callID []) (s\<lparr>w_mutex := Locked\<rparr>) =
    (Ok (rmcSuccess MatchmakeExtension_Protocol method callID []), update_session gid f s)"
proof -
  have rows: "session_rows gid (s\<lparr>w_mutex := Locked\<rparr>) = [ms]"
    using assms(3) by (simp add: live_session_def session_rows_def)
  have "session_exec gid f (s\<lparr>w_mutex := Locked\<rparr>) = (Ok (), update_session gid f (s\<lparr>w_mutex := Locked\<rparr>))"
    by (rule run_session_exec [OF _ rows]) (simp add: assms(1))
  then show ?thesis
    by (simp add: run_or_unlock_Ok run_ext_success update_session_def unlocked_again assms(2))
qed

lemma run_join_by_id:
  assumes "db_faults s = []" and "w_mutex s = Unlocked" and "live_session gid g ms s" and "length message \<le> 256"
  shows "join_by_id K P mgr False c callID gid message places method s =
    (if ms_user_password_enabled ms \<or> ms_system_password_enabled ms then (Err RendezVous_PermissionDenied, s)
     else case checkCanJoin P mgr (conn_PID c) (read_session K g ms) of
       Some e \<Rightarrow> (Err e, s)
     | None \<Rightarrow> or_unlock (JoinMatchmakeSession K (read_session K g ms) c places message) (\<lambda>_. ext_success method callID
         (if MatchMaking_AtLeast_3_0_0 K then [WBuffer (SessionKey (read_session K g ms))] else []))
         (s\<lparr>w_mutex := Locked\<rparr>))"
proof -
  have get: "GetMatchmakeSessionByID K gid (s\<lparr>w_mutex := Locked\<rparr>) =
      (Ok (read_session K g ms, ms_system_password ms), s\<lparr>w_mutex := Locked\<rparr>)"
    by (rule run_GetByID) (use assms in simp_all)
  show ?thesis
    using assms(4)
    by (simp add: join_by_id_def run_lock_bind assms(2) run_or_unlock_Ok get
      run_unlock_throw unlocked_again [OF assms(2)] or_denied_def split: option.split)
qed

section \<open>Joining a session just created\<close>

lemma run_Join_empty:
  assumes "db_faults s = []" and "gathering_rows gid s = [row]" and "g_participants row = []"
  shows "JoinGathering K gid c n message s =
    (let places = max 1 (unat n); ps = replicate places (conn_PID c) in
     if g_max_participants row \<noteq> 0 \<and> places > unat (g_max_participants row)
     then (Err RendezVous_SessionFull, s)
     else (Ok (word_of_nat places), notified_all K (join_notices K gid row (conn_PID c) places message)
       (logged (TrackJoinGathering (conn_PID c) gid ps ps) (set_participants gid ps s))))"
  using run_Join [of s gid K c n message] assms by (simp add: within_capacity_def Let_def)

lemma session_rows_tables: "tables s = tables t \<Longrightarrow> session_rows gid s = session_rows gid t"
  by (simp add: tables_def session_rows_def)

lemma session_rows_unchanged [simp]:
  "session_rows gid (logged e s) = session_rows gid s"
  "session_rows gid (notified_all K ns s) = session_rows gid s"
  "session_rows gid (set_participants gid' ps s) = session_rows gid s"
  by (rule session_rows_tables, simp)+ (simp add: session_rows_def set_participants_def update_gathering_def)

lemma created_rows:
  assumes "world_ok s" and "next_gathering_id s < 2 ^ 32"
  shows "gathering_rows (word_of_nat (next_gathering_id s)) (session_created K p m s) = [created_row K p m s]"
    and "session_rows (word_of_nat (next_gathering_id s)) (session_created K p m s) =
      [new_session_row K (created_session K p m s)]"
proof -
  have n: "unat (word_of_nat (next_gathering_id s) :: u32) = next_gathering_id s"
    by (rule unat_of_nat_u32 [OF assms(2)])
  show "gathering_rows (word_of_nat (next_gathering_id s)) (session_created K p m s) = [created_row K p m s]"
    using fresh_rows(1) [OF assms]
    by (simp add: gathering_rows_def session_created_def created_row_def new_gathering_row_def n)
  show "session_rows (word_of_nat (next_gathering_id s)) (session_created K p m s) =
      [new_session_row K (created_session K p m s)]"
    using fresh_rows(2) [OF assms]
    by (simp add: session_rows_def session_created_def new_session_row_def created_session_def n)
qed

lemma created_row_simps [simp]:
  "g_participants (created_row K p m s) = []" "g_max_participants (created_row K p m s) = MaximumParticipants m"
  "g_registered (created_row K p m s)" "g_type (created_row K p m s) = ''MatchmakeSession''"
  "g_id (created_row K p m s) = next_gathering_id s" "g_owner_pid (created_row K p m s) = p"
  "g_host_pid (created_row K p m s) = p"
  by (simp_all add: created_row_def new_gathering_row_def)

lemma created_session_simps [simp]:
  "ID (created_session K p m s) = word_of_nat (next_gathering_id s)"
  "MatchmakeSystemType (created_session K p m s) = MatchmakeSystemType m"
  "GameMode (created_session K p m s) = GameMode m" "OwnerPID (created_session K p m s) = p"
  by (simp_all add: created_session_def)

lemma session_created_faults [simp]: "db_faults (session_created K p m s) = db_faults s"
  by (simp add: session_created_def)

section \<open>What a reply can contain\<close>

text \<open>\<open>yields m Q\<close>: whatever value \<open>m\<close> returns, from any state, satisfies \<open>Q\<close>.\<close>

named_theorems yields_rules "introduction rules for yields"

definition yields :: "('s, 'a) nex \<Rightarrow> ('a \<Rightarrow> bool) \<Rightarrow> bool" where
  "yields m Q \<longleftrightarrow> (\<forall>s a t. m s = (Ok a, t) \<longrightarrow> Q a)"

lemma yieldsD: "yields m Q \<Longrightarrow> m s = (Ok a, t) \<Longrightarrow> Q a"
  unfolding yields_def by blast

lemma yields_ret [yields_rules]: "Q a \<Longrightarrow> yields (retM a) Q"
  by (simp add: yields_def run_simps)

lemma yields_throw [yields_rules]: "yields (throwM e) Q" and yields_panic [yields_rules]: "yields panicM Q"
  by (simp_all add: yields_def run_simps)

lemma yields_unlock_throw [yields_rules]: "yields (unlock_throw e) Q"
  by (simp add: yields_def run_simps)

lemma yields_after:
  assumes "yields m R" and "\<And>a. R a \<Longrightarrow> yields (f a) Q"
  shows "yields (bindM m f) Q"
  using assms unfolding yields_def bindM_def by (fastforce split: prod.splits outcome.splits)

lemma yields_bind [yields_rules]: "(\<And>a. yields (f a) Q) \<Longrightarrow> yields (bindM m f) Q"
  by (rule yields_after [where R = "\<lambda>_. True"]) (auto simp: yields_def)

lemma yields_or_unlock_after:
  assumes "yields m R" and "\<And>a. R a \<Longrightarrow> yields (k a) Q"
  shows "yields (or_unlock m k) Q"
  unfolding or_unlock_def
proof (rule yields_after)
  show "yields (catchM m) (\<lambda>r. case r of Inl _ \<Rightarrow> True | Inr a \<Rightarrow> R a)"
    using assms(1) unfolding yields_def catchM_def by (fastforce split: prod.splits outcome.splits sum.splits)
qed (auto intro: assms(2) yields_rules split: sum.splits)

lemma yields_or_unlock [yields_rules]: "(\<And>a. yields (k a) Q) \<Longrightarrow> yields (or_unlock m k) Q"
  by (rule yields_or_unlock_after [where R = "\<lambda>_. True"]) (auto simp: yields_def)

lemma yields_if [yields_rules]: "(b \<Longrightarrow> yields m Q) \<Longrightarrow> (\<not> b \<Longrightarrow> yields n Q) \<Longrightarrow> yields (if b then m else n) Q"
  by simp

lemma yields_case [yields_rules]: "(\<And>a b. yields (f a b) Q) \<Longrightarrow> yields (case p of (a, b) \<Rightarrow> f a b) Q"
  by (cases p) simp

lemma yields_let [yields_rules]: "(\<And>x. yields (f x) Q) \<Longrightarrow> yields (let x = v in f x) Q"
  by (simp add: Let_def)

lemma yields_ext_success [yields_rules]:
  "Q (rmcSuccess MatchmakeExtension_Protocol method callID body) \<Longrightarrow> yields (ext_success method callID body) Q"
  unfolding ext_success_def by (intro yields_rules)

lemma yields_with_session [yields_rules]: "(\<And>m. yields (k m) Q) \<Longrightarrow> yields (with_session g k) Q"
  unfolding with_session_def by (cases g) (auto intro: yields_rules)

lemma yields_found_or_created [yields_rules]:
  "(\<And>m. yields (k m) Q) \<Longrightarrow> yields (found_or_created K c source results k) Q"
  unfolding found_or_created_def by (cases results) (auto intro: yields_rules)

lemma yields_row_or [yields_rules]: "(\<And>a. yields (k a) Q) \<Longrightarrow> yields (row_or e r k) Q"
  by (auto simp: row_or_def intro: yields_rules split: sum.splits sql_error.splits)

definition secret_free :: "gathering_object \<Rightarrow> bool" where
  "secret_free g = (case g of HeldMatchmakeSession m \<Rightarrow> SessionKey m = [] \<and> UserPassword m = []
     | HeldPersistentGathering p \<Rightarrow> PgPassword p = [] | _ \<Rightarrow> True)"

definition no_secrets :: "mm_body \<Rightarrow> bool" where
  "no_secrets b = (case b of WGatheringHolder g \<Rightarrow> secret_free g | WGatheringHolders gs \<Rightarrow> list_all secret_free gs
     | WPersistentGatherings ps \<Rightarrow> list_all (\<lambda>p. PgPassword p = []) ps
     | WBuffer _ \<Rightarrow> False | WMatchmakeSession _ \<Rightarrow> False | _ \<Rightarrow> True)"

lemma no_secrets_simps [simp]:
  "no_secrets (WBool b)" "no_secrets (WUInt32 n)" "no_secrets (WStationURLs us)"
  "no_secrets (WSimpleCommunities cs)" "no_secrets (WSimplePlayingSessions ps)" "no_secrets (WNotificationEvents es)"
  "no_secrets (WGatheringHolder g) = secret_free g"
  "no_secrets (WGatheringHolders (map (\<lambda>m. HeldMatchmakeSession (m\<lparr>SessionKey := [], UserPassword := []\<rparr>)) ms))"
  "no_secrets (WPersistentGatherings (map (\<lambda>p. p\<lparr>PgPassword := []\<rparr>) pgs))"
  by (simp_all add: no_secrets_def secret_free_def list_all_iff)

lemma Body_success [simp]: "Body (rmcSuccess protocol method callID body) = body"
  by (simp add: rmcSuccess_def)

lemma yields_detailed: "yields (GetDetailedGatheringByID K p gid) (\<lambda>(g, _). secret_free g)"
  unfolding GetDetailedGatheringByID_def by (intro yields_rules) (auto simp: secret_free_def)

end
