(* ===== verification/Mm_Server.thy ===== *)
theory Mm_Server
  imports Matchmake_Extension
begin

text \<open>
  The matchmaking part of the server as a whole: the dispatch of requests to the handlers that
  the \<open>NewCommonProtocol\<close> functions install, and the step relation of the running server, whose
  steps are requests, lost connections, restarts, and changes of the surroundings (clock,
  connections, the fate of the next statements).
\<close>

section \<open>Requests and their handlers\<close>

datatype mm_request =
    ReqUnregisterGathering u32
  | ReqFindBySingleID u32
  | ReqUpdateSessionURL u32 string
  | ReqUpdateSessionHostV1 u32
  | ReqGetSessionURLs u32
  | ReqUpdateSessionHost u32 bool
  | ReqEndParticipation u32 string
  | ReqOpenParticipation u32
  | ReqCloseParticipation u32
  | ReqCreateMatchmakeSession gathering_object string u16
  | ReqGetSimplePlayingSession "pid list" bool
  | ReqAutoMatchmakePostpone gathering_object string
  | ReqAutoMatchmakeWithParamPostpone auto_matchmake_param
  | ReqAutoMatchmakeWithSearchCriteriaPostpone "search_criteria list" gathering_object string
  | ReqCreateCommunity persistent_gathering string
  | ReqFindCommunityByGatheringID "u32 list"
  | ReqFindOfficialCommunity bool result_range
  | ReqFindCommunityByParticipant pid result_range
  | ReqUpdateProgressScore u32 u8
  | ReqCreateMatchmakeSessionWithParam create_session_param
  | ReqUpdateApplicationBuffer u32 bytes
  | ReqJoinMatchmakeSession u32 string
  | ReqJoinMatchmakeSessionWithParam join_session_param
  | ReqModifyCurrentGameAttribute u32 u32 u32
  | ReqBrowseMatchmakeSession search_criteria result_range
  | ReqJoinMatchmakeSessionEx u32 string bool u16
  | ReqGetSimpleCommunity "u32 list"
  | ReqUpdateNotificationData u32 u32 u32 string
  | ReqGetFriendNotificationData int
  | ReqGetlstFriendNotificationData "u32 list"

fun handle_matchmaking :: "nexlib \<Rightarrow> bool \<Rightarrow> connection \<Rightarrow> u32 \<Rightarrow> mm_request \<Rightarrow> mm_response mm option" where
  "handle_matchmaking K err c callID (ReqUnregisterGathering gid) = Some (unregisterGathering K err c callID gid)"
| "handle_matchmaking K err c callID (ReqFindBySingleID gid) =
     Some (findBySingleID (GetDetailedGatheringByID K) err c callID gid)"
| "handle_matchmaking K err c callID (ReqUpdateSessionURL gid url) = Some (updateSessionURL K err c callID gid url)"
| "handle_matchmaking K err c callID (ReqUpdateSessionHostV1 gid) = Some (updateSessionHostV1 K err c callID gid)"
| "handle_matchmaking K err c callID (ReqGetSessionURLs gid) = Some (getSessionURLs K err c callID gid)"
| "handle_matchmaking K err c callID (ReqUpdateSessionHost gid b) = Some (updateSessionHost K err c callID gid b)"
| "handle_matchmaking K err c callID (ReqEndParticipation gid msg) = Some (endParticipation K err c callID gid msg)"
| "handle_matchmaking K err c callID _ = None"

fun handle_extension ::
  "nexlib \<Rightarrow> mm_protocol \<Rightarrow> manager \<Rightarrow> bool \<Rightarrow> connection \<Rightarrow> u32 \<Rightarrow> mm_request \<Rightarrow> mm_response mm option" where
  "handle_extension K P mgr err c callID (ReqOpenParticipation gid) = Some (openParticipation K err c callID gid)"
| "handle_extension K P mgr err c callID (ReqCloseParticipation gid) = Some (closeParticipation K err c callID gid)"
| "handle_extension K P mgr err c callID (ReqCreateMatchmakeSession g msg n) =
     Some (createMatchmakeSession K err c callID g msg n)"
| "handle_extension K P mgr err c callID (ReqGetSimplePlayingSession ps b) =
     Some (getSimplePlayingSession K err c callID ps b)"
| "handle_extension K P mgr err c callID (ReqAutoMatchmakePostpone g msg) =
     Some (autoMatchmakePostpone K P mgr err c callID g msg)"
| "handle_extension K P mgr err c callID (ReqAutoMatchmakeWithParamPostpone param) =
     Some (autoMatchmakeWithParamPostpone K P err c callID param)"
| "handle_extension K P mgr err c callID (ReqAutoMatchmakeWithSearchCriteriaPostpone cs g msg) =
     Some (autoMatchmakeWithSearchCriteriaPostpone K P err c callID cs g msg)"
| "handle_extension K P mgr err c callID (ReqCreateCommunity g msg) = Some (createCommunity K P err c callID g msg)"
| "handle_extension K P mgr err c callID (ReqFindCommunityByGatheringID gids) =
     Some (findCommunityByGatheringID K err c callID gids)"
| "handle_extension K P mgr err c callID (ReqFindOfficialCommunity b rr) =
     Some (findOfficialCommunity K err c callID b rr)"
| "handle_extension K P mgr err c callID (ReqFindCommunityByParticipant p rr) =
     Some (findCommunityByParticipant K err c callID p rr)"
| "handle_extension K P mgr err c callID (ReqUpdateProgressScore gid n) =
     Some (updateProgressScore K err c callID gid n)"
| "handle_extension K P mgr err c callID (ReqCreateMatchmakeSessionWithParam param) =
     Some (createMatchmakeSessionWithParam K err c callID param)"
| "handle_extension K P mgr err c callID (ReqUpdateApplicationBuffer gid b) =
     Some (updateApplicationBuffer K err c callID gid b)"
| "handle_extension K P mgr err c callID (ReqJoinMatchmakeSession gid msg) =
     Some (joinMatchmakeSession K P mgr err c callID gid msg)"
| "handle_extension K P mgr err c callID (ReqJoinMatchmakeSessionWithParam param) =
     Some (joinMatchmakeSessionWithParam K P mgr err c callID param)"
| "handle_extension K P mgr err c callID (ReqModifyCurrentGameAttribute gid i v) =
     Some (modifyCurrentGameAttribute K err c callID gid i v)"
| "handle_extension K P mgr err c callID (ReqBrowseMatchmakeSession sc rr) =
     Some (browseMatchmakeSession K P err c callID sc rr)"
| "handle_extension K P mgr err c callID (ReqJoinMatchmakeSessionEx gid msg b n) =
     Some (joinMatchmakeSessionEx K P mgr err c callID gid msg b n)"
| "handle_extension K P mgr err c callID (ReqGetSimpleCommunity gids) =
     Some (getSimpleCommunity err c callID gids)"
| "handle_extension K P mgr err c callID (ReqUpdateNotificationData t p1 p2 str) =
     Some (updateNotificationData K mgr err c callID t p1 p2 str)"
| "handle_extension K P mgr err c callID (ReqGetFriendNotificationData t) =
     Some (getFriendNotificationData K mgr err c callID t)"
| "handle_extension K P mgr err c callID (ReqGetlstFriendNotificationData ts) =
     Some (getlstFriendNotificationData K mgr err c callID ts)"
| "handle_extension K P mgr err c callID _ = None"

text \<open>Every request belongs to one of the two groups.\<close>

definition handle :: "nexlib \<Rightarrow> mm_protocol \<Rightarrow> manager \<Rightarrow> bool \<Rightarrow> connection \<Rightarrow> u32 \<Rightarrow> mm_request \<Rightarrow> mm_response mm" where
  "handle K P mgr err c callID req =
    (case handle_matchmaking K err c callID req of
       Some m \<Rightarrow> m
     | None \<Rightarrow> (case handle_extension K P mgr err c callID req of
         Some m \<Rightarrow> m
       | None \<Rightarrow> throwM Core_NotImplemented))"

text \<open>Both callbacks run when a connection ends, in the order of registration.\<close>

definition connectionEnded :: "nexlib \<Rightarrow> connection \<Rightarrow> unit mm" where
  "connectionEnded K c = bindM (matchMaking_connectionEnded K c) (\<lambda>_. matchmakeExtension_connectionEnded c)"

text \<open>
  The number of additional participants in a request fits a 31-bit count; a packet is far
  smaller.
\<close>

definition additional_participants :: "mm_request \<Rightarrow> pid list" where
  "additional_participants req = (case req of
     ReqAutoMatchmakeWithParamPostpone param \<Rightarrow> amp_AdditionalParticipants param
   | ReqCreateMatchmakeSessionWithParam param \<Rightarrow> csp_AdditionalParticipants param
   | ReqJoinMatchmakeSessionWithParam param \<Rightarrow> jsp_AdditionalParticipants param
   | _ \<Rightarrow> [])"

definition request_ok :: "mm_request \<Rightarrow> bool" where
  "request_ok req \<longleftrightarrow> length (additional_participants req) < 2 ^ 31"

section \<open>The running server\<close>

definition initial :: "mm_world \<Rightarrow> bool" where
  "initial s \<longleftrightarrow> t_gatherings s = [] \<and> t_sessions s = [] \<and> t_persistent s = [] \<and>
     t_participations s = [] \<and> t_notifications s = [] \<and> w_mutex s = Unlocked"

definition restart :: "unit mm" where
  "restart = bindM (modM (\<lambda>s. s\<lparr>w_mutex := Unlocked, w_connections := Map.empty, w_call_id := 0\<rparr>)) (\<lambda>_.
     bindM SetManager_base (\<lambda>_. SetManager))"

inductive mm_step :: "nexlib \<Rightarrow> mm_protocol \<Rightarrow> manager \<Rightarrow> mm_world \<Rightarrow> mm_world \<Rightarrow> bool"
  for K :: nexlib and P :: mm_protocol and mgr :: manager where
  step_request: "request_ok req \<Longrightarrow> handle K P mgr err c callID req s = (r, s') \<Longrightarrow> r \<noteq> Panic \<Longrightarrow> mm_step K P mgr s s'"
| step_ended: "connectionEnded K c s = (r, s') \<Longrightarrow> mm_step K P mgr s s'"
| step_restart: "restart s = (r, s') \<Longrightarrow> mm_step K P mgr s s'"
| step_crash: "request_ok req \<Longrightarrow> handle K P mgr err c callID req s = (Panic, s') \<Longrightarrow>
    restart s' = (r, s'') \<Longrightarrow> mm_step K P mgr s s''"
| step_surroundings: "mm_step K P mgr s (s\<lparr>db_faults := faults, w_now := t, w_connections := cs\<rparr>)"

inductive_cases mm_stepE: "mm_step K P mgr s s'"

inductive reachable :: "nexlib \<Rightarrow> mm_protocol \<Rightarrow> manager \<Rightarrow> mm_world \<Rightarrow> bool"
  for K :: nexlib and P :: mm_protocol and mgr :: manager where
  reach_initial: "initial s \<Longrightarrow> reachable K P mgr s"
| reach_step: "reachable K P mgr s \<Longrightarrow> mm_step K P mgr s s' \<Longrightarrow> reachable K P mgr s'"

section \<open>Every step keeps the invariants\<close>

context mm_store
begin

lemma keeps_handle:
  assumes "cleanup_ok P" and "request_ok req"
  shows "keeps I (handle K P mgr err c callID req)"
  using assms(2) unfolding request_ok_def additional_participants_def handle_def
  by (cases req) (auto intro: keeps_rules keeps_findBySingleID keeps_autoMatchmakePostpone [OF assms(1)]
    keeps_autoWithParam keeps_createWithParam keeps_joinWithParam)

lemma keeps_ended: "keeps I (connectionEnded K c)"
  unfolding connectionEnded_def by (intro keeps_rules)

end

lemma gatherings_ok_map:
  assumes "\<And>g. g_id (f g) = g_id g" and "\<And>g. within_capacity g \<Longrightarrow> within_capacity (f g)"
    and "gatherings_ok s"
  shows "gatherings_ok (s\<lparr>t_gatherings := map f (t_gatherings s)\<rparr>)"
proof -
  have "map g_id (map f (t_gatherings s)) = map g_id (t_gatherings s)" using assms(1) by simp
  then have "distinct (map g_id (map f (t_gatherings s)))"
    using assms(3) by (simp add: gatherings_ok_def ids_ok_def del: map_map)
  then show ?thesis
    using assms by (auto simp: gatherings_ok_def ids_ok_def simp del: map_map)
qed

lemma world_ok_map_gatherings:
  assumes f: "\<And>g. g_id (f g) = g_id g \<and> g_type (f g) = g_type g"
    and c: "\<And>g. within_capacity g \<Longrightarrow> within_capacity (f g)" and w: "world_ok s"
  shows "world_ok (s\<lparr>t_gatherings := map f (t_gatherings s)\<rparr>)"
proof -
  have "gatherings_ok (s\<lparr>t_gatherings := map f (t_gatherings s)\<rparr>)"
    using w f c by (intro gatherings_ok_map) (simp_all add: world_ok_def)
  moreover have "\<exists>g' \<in> f ` set (t_gatherings s). g_id g' = g_id g \<and> g_type g' = g_type g"
    if "g \<in> set (t_gatherings s)" for g
    using that f by blast
  ultimately show ?thesis
    using w unfolding world_ok_def sessions_ok_def communities_ok_def keys_ok_def
    by simp (metis (no_types, lifting))
qed

lemma keeps_SetManager_base: "keeps world_ok SetManager_base"
  unfolding SetManager_base_def by (intro keeps_create_tables [OF world_ok_tables] keeps_rules)

lemma keeps_SetManager: "keeps world_ok SetManager"
  unfolding SetManager_def
proof (intro keeps_create_tables [OF world_ok_tables] keeps_rules keeps_tables_exec [OF world_ok_tables])
  fix s assume "world_ok s"
  then show "world_ok (s\<lparr>t_gatherings := map (\<lambda>g. if g_type g = ''MatchmakeSession'' then g\<lparr>g_registered := False\<rparr> else g)
      (t_gatherings s)\<rparr>)"
    by (intro world_ok_map_gatherings) (auto simp: within_capacity_def)
next
  fix s assume "world_ok s"
  then show "world_ok (s\<lparr>t_notifications := map (\<lambda>n. n\<lparr>n_active := False\<rparr>) (t_notifications s)\<rparr>)"
    by (rule wok.change_notifications) (simp add: notification_key_def)
qed

lemma keeps_restart: "keeps world_ok restart"
  unfolding restart_def
proof (rule keeps_bind [OF keeps_tables_mod [OF world_ok_tables] keeps_bind [OF keeps_SetManager_base keeps_SetManager]])
  show "tables (s\<lparr>w_mutex := Unlocked, w_connections := Map.empty, w_call_id := 0\<rparr>) = tables s" for s
    by (simp add: tables_def)
qed

lemma world_ok_step:
  assumes "cleanup_ok P" and "mm_step K P mgr s s'" and "world_ok s"
  shows "world_ok s'"
  using assms(2)
proof (cases rule: mm_step.cases)
  case step_request
  then show ?thesis using keeps_run [OF wok.keeps_handle [OF assms(1)] assms(3)] by blast
next
  case step_ended
  then show ?thesis using keeps_run [OF wok.keeps_ended assms(3)] by blast
next
  case step_restart
  then show ?thesis using keeps_run [OF keeps_restart assms(3)] by blast
next
  case (step_crash req err c callID t r)
  then have "world_ok t" using keeps_run [OF wok.keeps_handle [OF assms(1)] assms(3)] by blast
  then show ?thesis using keeps_run [OF keeps_restart] step_crash by blast
next
  case (step_surroundings faults t cs)
  have "tables s' = tables s" using step_surroundings by (simp add: tables_def)
  then show ?thesis using on_tablesD [OF world_ok_tables] assms(3) by blast
qed

lemma world_ok_reachable:
  assumes "cleanup_ok P" and "reachable K P mgr s"
  shows "world_ok s"
  using assms(2)
proof (induction rule: reachable.induct)
  case (reach_initial s)
  then show ?case
    by (simp add: initial_def world_ok_def gatherings_ok_def ids_ok_def sessions_ok_def communities_ok_def keys_ok_def)
next
  case (reach_step s s')
  then show ?case using world_ok_step [OF assms(1)] by blast
qed

section \<open>No step waits for the mutex\<close>

lemma lock_ok_handle: "lock_ok (handle K P mgr err c callID req)"
  unfolding handle_def by (cases req) (auto intro: lock_rules lock_ok_findBySingleID)

lemma connectionEnded_returns:
  assumes "w_mutex s = Unlocked"
  shows "\<exists>s'. connectionEnded K c s = (Ok (), s') \<and> w_mutex s' = Unlocked"
proof -
  obtain t where t: "matchMaking_connectionEnded K c s = (Ok (), t)" "w_mutex t = Unlocked"
    using locked_section [OF always_ok_Disconnect assms] unfolding matchMaking_connectionEnded_def by blast
  have "result_in safe (InactivateNotificationDatas p)" for p
    unfolding InactivateNotificationDatas_def by (intro safe_rules)
  then obtain u where "matchmakeExtension_connectionEnded c t = (Ok (), u)" "w_mutex u = Unlocked"
    using locked_section [OF always_ok_catch t(2)] unfolding matchmakeExtension_connectionEnded_def by blast
  then show ?thesis using t by (simp add: connectionEnded_def bindM_def)
qed

lemma SetManager_mutex: "lock_free (bindM SetManager_base (\<lambda>_. SetManager))"
  unfolding SetManager_base_def SetManager_def by (intro lock_rules lock_free_create_tables lock_free_exec) simp_all

lemma restart_mutex: "w_mutex (snd (restart s)) = Unlocked"
  using SetManager_mutex by (simp add: restart_def run_simps lock_free_def)

lemma mutex_step:
  assumes "mm_step K P mgr s s'" and "w_mutex s = Unlocked"
  shows "w_mutex s' = Unlocked"
  using assms(1)
proof (cases rule: mm_step.cases)
  case (step_request req err c callID r)
  then show ?thesis using lock_ok_handle [of K P mgr err c callID req] assms(2)
    unfolding lock_ok_def by (metis fst_conv snd_conv)
next
  case (step_ended c r)
  then show ?thesis using connectionEnded_returns [OF assms(2), of K c] by auto
next
  case step_restart
  then show ?thesis using restart_mutex by (metis snd_conv)
next
  case step_crash
  then show ?thesis using restart_mutex by (metis snd_conv)
next
  case step_surroundings
  then show ?thesis using assms(2) by simp
qed

lemma mutex_reachable: "reachable K P mgr s \<Longrightarrow> w_mutex s = Unlocked"
  by (induction rule: reachable.induct) (auto simp: initial_def dest: mutex_step)

end
