(* ===== verification/Session_Props.thy ===== *)
theory Session_Props
  imports Session_Runs Samples Mm_Server
begin

text \<open>
  The properties of the matchmaking handlers: who may do what to a session, what the updates
  change, what creating a session leaves behind, and what the replies contain.
\<close>

lemma sample_live: "live_session 1 sample_row sample_session_row sample_world"
  by (simp add: live_session_def)

lemma sample_session_row_simps [simp]:
  "ms_id sample_session_row = 1"
  "ms_attribs sample_session_row = [1, 2, 3, 4, 5, 6]" "ms_open_participation sample_session_row"
  "\<not> ms_user_password_enabled sample_session_row" "\<not> ms_system_password_enabled sample_session_row"
  by (simp_all add: sample_session_row_def)

section \<open>Permissions\<close>

text \<open>
  C11: Only the owner of a session may open or close it, change its attributes, its application
  buffer or its progress score: everyone else gets \<open>PermissionDenied\<close>, and the server's state
  (tables, log, notices, mutex) is what it was.
\<close>

theorem only_the_owner_updates:
  assumes "db_faults s = []" and "w_mutex s = Unlocked" and "live_session gid g ms s"
    and "conn_PID c \<noteq> g_owner_pid g" and "score \<le> 100"
  shows "list_all (\<lambda>handler. handler s = (Err RendezVous_PermissionDenied, s))
    [openParticipation K False c callID gid, closeParticipation K False c callID gid,
     modifyCurrentGameAttribute K False c callID gid i v, updateApplicationBuffer K False c callID gid b,
     updateProgressScore K False c callID gid score]"
proof -
  have "\<not> score > 100" using assms(5) by (simp only: not_less)
  then show ?thesis
    using assms(1-4)
    by (simp add: openParticipation_def closeParticipation_def modifyCurrentGameAttribute_def
      updateApplicationBuffer_def updateProgressScore_def run_owner_update)
qed

lemma only_the_owner_updates_witness:
  "closeParticipation sample_lib False player2 7 1 sample_world = (Err RendezVous_PermissionDenied, sample_world)"
  using only_the_owner_updates [of sample_world 1 sample_row sample_session_row player2 0 sample_lib 7 0 0 "[]"] sample_live
  by simp

text \<open>
  The owner's \<open>modifyCurrentGameAttribute\<close> with an index inside the session's attributes
  replaces exactly that attribute; with an index behind them it is refused and nothing changes.
\<close>

lemma modify_attribute:
  assumes "db_faults s = []" and "w_mutex s = Unlocked" and "live_session gid g ms s"
    and "conn_PID c = g_owner_pid g" and "length (ms_attribs ms) = 6"
  shows "modifyCurrentGameAttribute K False c callID gid i v s =
    (if unat i < 6
     then (Ok (rmcSuccess MatchmakeExtension_Protocol MethodModifyCurrentGameAttribute callID []),
           update_session gid (\<lambda>_. ms\<lparr>ms_attribs := (ms_attribs ms)[unat i := v]\<rparr>) s)
     else (Err Core_InvalidIndex, s))"
proof (cases "unat i < 6")
  case True
  then have "unat (i + 1) = unat i + 1"
    by (subst unat_plus_if') simp
  moreover have "update_session gid (\<lambda>r. r\<lparr>ms_attribs := (ms_attribs r)[unat i := v]\<rparr>) s =
      update_session gid (\<lambda>_. ms\<lparr>ms_attribs := (ms_attribs ms)[unat i := v]\<rparr>) s"
    by (rule update_session_cong) (use assms(3) in \<open>simp add: live_session_def\<close>)
  ultimately show ?thesis
    using assms True by (simp add: modifyCurrentGameAttribute_def run_owner_update UpdateGameAttribute_def run_owner_exec)
next
  case False
  then show ?thesis
    using assms by (simp add: modifyCurrentGameAttribute_def run_owner_update)
qed

lemma modify_attribute_witness:
  "modifyCurrentGameAttribute sample_lib False player1 7 1 2 99 sample_world =
    (Ok (rmcSuccess MatchmakeExtension_Protocol MethodModifyCurrentGameAttribute 7 []),
     update_session 1 (\<lambda>_. sample_session_row\<lparr>ms_attribs := [1, 2, 99, 4, 5, 6]\<rparr>) sample_world)"
  using modify_attribute [OF _ _ sample_live, of player1 sample_lib 7 2 99] by simp

text \<open>
  Once the owner has closed a session, every attempt to join it by its ID is refused with
  \<open>PermissionDenied\<close> and changes nothing, as long as no own permission check is installed.
\<close>

lemma closed_session_refuses:
  assumes "db_faults s = []" and "w_mutex s = Unlocked" and "live_session gid g ms s"
    and "conn_PID c = g_owner_pid g" and "CanJoinCallback P = None" and "length message \<le> 256"
  shows "\<exists>t. closeParticipation K False c callID gid s =
      (Ok (rmcSuccess MatchmakeExtension_Protocol MethodCloseParticipation callID []), t) \<and>
    joinMatchmakeSession K P mgr False c' callID' gid message t = (Err RendezVous_PermissionDenied, t) \<and>
    joinMatchmakeSessionEx K P mgr False c' callID' gid message b places t = (Err RendezVous_PermissionDenied, t)"
proof -
  let ?f = "\<lambda>r. r\<lparr>ms_open_participation := False\<rparr>"
  let ?t = "update_session gid ?f s"
  have "closeParticipation K False c callID gid s =
      (Ok (rmcSuccess MatchmakeExtension_Protocol MethodCloseParticipation callID []), ?t)"
    using assms(1-4) by (simp add: closeParticipation_def run_owner_update UpdateParticipation_def run_owner_exec)
  moreover have "session_rows gid ?t = [?f ms]"
    using assms(3) by (simp add: live_session_def session_rows_update)
  then have "live_session gid g (?f ms) ?t"
    using assms(3) by (simp add: live_session_def gathering_rows_def update_session_def)
  moreover have "db_faults ?t = []" "w_mutex ?t = Unlocked" using assms(1,2) by (simp_all add: update_session_def)
  ultimately show ?thesis
    using assms(5,6)
    by (simp add: joinMatchmakeSession_def joinMatchmakeSessionEx_def run_join_by_id checkCanJoin_def
      CanJoinMatchmakeSession_def)
qed

lemma closed_session_refuses_witness:
  "\<exists>t. closeParticipation sample_lib False player1 7 1 sample_world =
      (Ok (rmcSuccess MatchmakeExtension_Protocol MethodCloseParticipation 7 []), t) \<and>
    joinMatchmakeSession sample_lib server_protocol server_manager False player3 8 1 [] t =
      (Err RendezVous_PermissionDenied, t)"
  using closed_session_refuses [OF _ _ sample_live, of player1 server_protocol "[]" sample_lib 7 server_manager player3 8 True 1]
  by (auto simp: server_protocol_def)

text \<open>
  \<open>joinMatchmakeSessionWithParam\<close> with a wrong user password is refused with
  \<open>InvalidPassword\<close>, so is a wrong system password, and in both cases nothing changes.
\<close>

lemma wrong_password_refused:
  assumes "db_faults s = []" and "w_mutex s = Unlocked" and "live_session (jsp_GID param) g ms s"
    and "length (jsp_JoinMessage param) \<le> 256" and "jsp_GIDForParticipationCheck param = 0"
    and "ms_user_password_enabled ms \<and> jsp_StrUserPassword param \<noteq> ms_user_password ms
      \<or> ms_system_password_enabled ms \<and> jsp_StrSystemPassword param \<noteq> ms_system_password ms"
  shows "joinMatchmakeSessionWithParam K P mgr False c callID param s = (Err RendezVous_InvalidPassword, s)"
proof -
  have get: "GetMatchmakeSessionByID K (jsp_GID param) (s\<lparr>w_mutex := Locked\<rparr>) =
      (Ok (read_session K g ms, ms_system_password ms), s\<lparr>w_mutex := Locked\<rparr>)"
    by (rule run_GetByID) (use assms in simp_all)
  show ?thesis
    using assms(4-6)
    by (auto simp: joinMatchmakeSessionWithParam_def run_lock_bind assms(2) run_or_unlock_Ok run_ret get
      run_unlock_throw unlocked_again [OF assms(2)])
qed

definition sample_join :: join_session_param where
  "sample_join = \<lparr> jsp_GID = 1, jsp_AdditionalParticipants = [], jsp_GIDForParticipationCheck = 0,
     jsp_JoinMatchmakeSessionBehavior = 0, jsp_StrUserPassword = ''guess'', jsp_StrSystemPassword = [],
     jsp_JoinMessage = [] \<rparr>"

definition locked_world :: mm_world where
  "locked_world = sample_world\<lparr>t_sessions := [sample_session_row\<lparr>ms_user_password_enabled := True\<rparr>]\<rparr>"

lemma wrong_password_refused_witness:
  "joinMatchmakeSessionWithParam sample_lib server_protocol server_manager False player3 7 sample_join locked_world =
     (Err RendezVous_InvalidPassword, locked_world)"
proof -
  have "live_session 1 sample_row (sample_session_row\<lparr>ms_user_password_enabled := True\<rparr>) locked_world"
    by (simp add: live_session_def locked_world_def gathering_rows_def session_rows_def)
  then show ?thesis
    using wrong_password_refused [of locked_world sample_join sample_row
      "sample_session_row\<lparr>ms_user_password_enabled := True\<rparr>"]
    by (simp add: sample_join_def locked_world_def sample_session_row_def)
qed

section \<open>Replies\<close>

definition public_query :: "mm_request \<Rightarrow> bool" where
  "public_query req = (case req of ReqFindBySingleID _ \<Rightarrow> True | ReqBrowseMatchmakeSession _ _ \<Rightarrow> True
     | ReqFindCommunityByGatheringID _ \<Rightarrow> True | ReqFindCommunityByParticipant _ _ \<Rightarrow> True
     | ReqFindOfficialCommunity _ _ \<Rightarrow> True | ReqGetSimpleCommunity _ \<Rightarrow> True
     | ReqGetSimplePlayingSession _ _ \<Rightarrow> True | ReqGetSessionURLs _ \<Rightarrow> True
     | ReqGetFriendNotificationData _ \<Rightarrow> True | ReqGetlstFriendNotificationData _ \<Rightarrow> True | _ \<Rightarrow> False)"

text \<open>
  C12: The reply to a lookup or search that any player may send never carries a session key, a
  user password or a community password, whatever the tables hold and whichever statements fail.
\<close>

theorem queries_reveal_no_secrets:
  assumes "public_query req" and "handle K P mgr err c callID req s = (Ok r, t)"
  shows "list_all no_secrets (Body r)"
proof -
  let ?Q = "\<lambda>r. list_all no_secrets (Body r)"
  have find: "yields (findBySingleID (GetDetailedGatheringByID K) err c callID gid) ?Q" for gid
    unfolding findBySingleID_def
    by (rule yields_if yields_throw yields_bind)+
      (rule yields_or_unlock_after [OF yields_detailed], clarsimp, intro yields_rules,
       simp)
  have communities: "yields (communities_response m callID q) ?Q" for m q
    unfolding communities_response_def
    by (intro yields_rules) simp
  have "yields (handle K P mgr err c callID req) ?Q"
    using assms(1) unfolding public_query_def handle_def
    by (cases req)
      (auto simp: find communities findCommunityByGatheringID_def findCommunityByParticipant_def
        findOfficialCommunity_def browseMatchmakeSession_def getSimpleCommunity_def getSimplePlayingSession_def
        getSessionURLs_def getFriendNotificationData_def getlstFriendNotificationData_def
        intro!: yields_rules)
  then show ?thesis using assms(2) by (rule yieldsD)
qed

lemma queries_reveal_no_secrets_witness:
  "\<exists>r t. handle sample_lib server_protocol server_manager False player3 7 (ReqFindBySingleID 1) sample_world = (Ok r, t) \<and>
     Body r \<noteq> [] \<and> list_all no_secrets (Body r)"
proof -
  have "\<exists>r t. handle sample_lib server_protocol server_manager False player3 7 (ReqFindBySingleID 1) sample_world = (Ok r, t) \<and>
      Body r \<noteq> []"
    by (simp add: handle_def findBySingleID_def run_rlock GetDetailedGatheringByID_def bindM_def run_Find run_ret
      GetMatchmakeSessionByGathering_def run_query_row or_unlock_def catchM_def run_unlock rmcSuccess_def
      gathering_rows_def session_rows_def row_gathering_def)
  then show ?thesis
    using queries_reveal_no_secrets [of "ReqFindBySingleID 1"] by (fastforce simp: public_query_def)
qed

text \<open>
  These queries do not write: the tables after one are the tables before it, whichever
  statements fail and however the query ends.
\<close>

lemma queries_do_not_write:
  assumes "public_query req"
  shows "tables (snd (handle K P mgr err c callID req s)) = tables s"
proof -
  let ?I = "\<lambda>t. tables t = tables s"
  have I: "on_tables ?I" by (simp add: on_tables_def)
  have order: "tables (s\<lparr>w_order_pos := x\<rparr>) = tables s" for s :: mm_world and x by simp
  have statement: "keeps ?I (db_call (search_statement cr nf ord l off))" for cr nf ord l off
    by (auto simp: keeps_def db_call_def search_statement_def Let_def split: list.splits prod.splits)
  have one: "keeps ?I (search_one K rr source found cr)" for rr source found cr
    unfolding search_one_def
    by (cases "criteria_filters cr"; cases "selection_order K cr source"; cases "criteria_range cr rr (length found)")
      (auto intro!: keeps_rules statement I split: sum.splits)
  have search: "keeps ?I (FindMatchmakeSessionBySearchCriteria K c cs rr source)" for cs rr source
    unfolding FindMatchmakeSessionBySearchCriteria_def by (intro keeps_rules one)
  have find: "keeps ?I (FindGatheringByID K gid)" for gid
    unfolding FindGatheringByID_def by (intro keeps_rules I)
  have detailed: "keeps ?I (GetDetailedGatheringByID K p gid)" for p gid
    unfolding GetDetailedGatheringByID_def GetMatchmakeSessionByGathering_def GetPersistentGatheringByGathering_def
    by (intro keeps_rules find I)
  have "keeps ?I (handle K P mgr err c callID req)"
    using assms unfolding public_query_def handle_def
    by (cases req)
      (auto simp: findBySingleID_def findCommunityByGatheringID_def findCommunityByParticipant_def
        findOfficialCommunity_def communities_response_def ext_success_def
        browseMatchmakeSession_def getSimpleCommunity_def getSimplePlayingSession_def getSessionURLs_def
        getFriendNotificationData_def getlstFriendNotificationData_def
        GetPersistentGatheringsByID_def GetPersistentGatheringsByParticipant_def GetOfficialCommunities_def
        GetSimpleCommunities_def GetSimplePlayingSession_def GetNotificationDatas_def
        intro!: keeps_rules I find detailed search)
  then show ?thesis by (rule keepsD) simp
qed

lemma queries_do_not_write_witness:
  "tables (snd (handle sample_lib server_protocol server_manager False player3 7 (ReqFindBySingleID 1) sample_world)) =
     tables sample_world"
  by (rule queries_do_not_write) (simp add: public_query_def)

text \<open>
  \<open>updateSessionURL\<close> makes the caller, a participant, the host and leaves the owner, but it
  does not keep the URL it is given, and its reply is labelled as one to \<open>GetSessionURLs\<close>.
\<close>

lemma updateSessionURL_takes_the_host:
  assumes "db_faults s = []" and "w_mutex s = Unlocked" and "gathering_rows gid s = [g]"
    and "g_registered g" and "conn_PID c \<in> set (g_participants g)"
  shows "updateSessionURL K False c callID gid url s =
    (Ok (rmcSuccess MatchMaking_Protocol MethodGetSessionURLs callID [WBool True]),
     logged (TrackChangeHost (conn_PID c) gid (g_host_pid g) (conn_PID c))
       (rehosted gid (g_owner_pid g) (conn_PID c) s))"
proof -
  let ?l = "s\<lparr>w_mutex := Locked\<rparr>"
  have rows: "gathering_rows gid ?l = [g]" using assms(3) by (simp add: gathering_rows_def)
  have find: "FindGatheringByID K gid ?l = (Ok ((row_gathering g)\<lparr>ID := gid\<rparr>, g_type g, g_participants g,
      DateTime_FromTimestamp K (g_started_time g)), ?l)"
    using assms(1,4) rows by (simp add: run_Find)
  have host: "UpdateSessionHost gid a b ?l = (Ok (), rehosted gid a b ?l)" for a b
    using assms(1) rows by (simp add: run_UpdateSessionHost)
  have log: "track e (rehosted gid a b ?l) = (Ok (), logged e (rehosted gid a b ?l))" for e a b
    by (rule run_log) (simp add: assms(1))
  have unlock: "(logged e (rehosted gid a b ?l))\<lparr>w_mutex := Unlocked\<rparr> = logged e (rehosted gid a b s)" for e a b
  proof -
    have "w_mutex (logged e (rehosted gid a b s)) = Unlocked"
      using assms(2) by (simp add: logged_def rehosted_def update_gathering_def)
    moreover have "(logged e (rehosted gid a b ?l))\<lparr>w_mutex := Unlocked\<rparr> = (logged e (rehosted gid a b s))\<lparr>w_mutex := Unlocked\<rparr>"
      by (simp add: logged_def rehosted_def update_gathering_def)
    ultimately show ?thesis by (simp add: unlocked_again)
  qed
  show ?thesis
    using assms(5)
    by (simp add: updateSessionURL_def run_lock_bind assms(2) run_or_unlock_Ok find host LogChangeHost_def log
      bindM_def [of mutexUnlock] run_unlock run_ret unlock row_gathering_def)
qed

lemma updateSessionURL_takes_the_host_witness:
  "RmcMethodID (case fst (updateSessionURL sample_lib False player2 7 1 ''prudp:/address=2'' sample_world) of Ok r \<Rightarrow> r)
     = MethodGetSessionURLs"
  using updateSessionURL_takes_the_host [of sample_world 1 sample_row player2 sample_lib 7 "''prudp:/address=2''"]
  by (simp add: rmcSuccess_def)

text \<open>
  The detailed lookup of a registered community never succeeds: the statement behind it names
  a table alias that it does not define, so \<open>FindBySingleID\<close> on a community always answers
  \<open>Core.Unknown\<close>.
\<close>

lemma community_lookup_always_fails:
  assumes "db_faults s = []" and "w_mutex s = Unlocked" and "gathering_rows gid s = [g]"
    and "g_registered g" and "g_type g = ''PersistentGathering''"
  shows "findBySingleID (GetDetailedGatheringByID K) False c callID gid s = (Err Core_Unknown, s)"
proof -
  let ?l = "s\<lparr>w_mutex := RLocked\<rparr>"
  have "gathering_rows gid ?l = [g]" using assms(3) by (simp add: gathering_rows_def)
  then have "GetDetailedGatheringByID K p gid ?l = (Err Core_Unknown, ?l)" for p
    using assms(1,4,5)
    by (simp add: GetDetailedGatheringByID_def bindM_def run_Find GetPersistentGatheringByGathering_def run_query run_throw)
  then show ?thesis
    by (simp add: findBySingleID_def run_lock_bind assms(2) run_or_unlock_Err unlocked_again)
qed

definition community_row :: gathering_row where
  "community_row = sample_row\<lparr>g_type := ''PersistentGathering'', g_host_pid := 0\<rparr>"

lemma community_lookup_always_fails_witness:
  "findBySingleID (GetDetailedGatheringByID sample_lib) False player1 7 1 (sample_world\<lparr>t_gatherings := [community_row]\<rparr>) =
     (Err Core_Unknown, sample_world\<lparr>t_gatherings := [community_row]\<rparr>)"
  by (rule community_lookup_always_fails [where g = community_row])
    (simp_all add: gathering_rows_def community_row_def)

section \<open>Creating a session\<close>

text \<open>
  C10: A session that was created and joined is found again: the lookup by its ID returns the
  created session with every field as it was stored, its participation count being the number of
  places taken, and an empty system password. The two codecs of the library are assumed to be
  inverse on the values stored here.
\<close>

theorem created_session_is_found:
  assumes "db_faults s = []" and "world_ok s" and "next_gathering_id s < 2 ^ 32"
    and "MaximumParticipants m = 0 \<or> max 1 (unat n) \<le> unat (MaximumParticipants m)"
    and "MatchmakeParam_ExtractFrom K (MatchmakeParam_WriteTo K (session_params (MatchmakeParam m))) =
      session_params (MatchmakeParam m)"
    and "DateTime_FromTimestamp K (DateTime_Standard K (DateTime_FromTimestamp K (w_now s))) =
      DateTime_FromTimestamp K (w_now s)"
  shows "\<exists>created t u. CreateMatchmakeSession K c m s = (Ok created, t) \<and>
    JoinGathering K (ID created) c n message t = (Ok (word_of_nat (max 1 (unat n))), u) \<and>
    GetMatchmakeSessionByID K (ID created) u =
      (Ok (created\<lparr>ParticipationCount := word_of_nat (max 1 (unat n))\<rparr>, []), u)"
proof -
  let ?p = "conn_PID c" and ?n = "max 1 (unat n)"
  let ?gid = "word_of_nat (next_gathering_id s) :: u32"
  let ?t = "session_created K ?p m s"
  let ?ps = "replicate ?n ?p"
  let ?u = "notified_all K (join_notices K ?gid (created_row K ?p m s) ?p ?n message)
    (logged (TrackJoinGathering ?p ?gid ?ps ?ps) (set_participants ?gid ?ps ?t))"
  note rows = created_rows [OF assms(2,3), of K ?p m]
  have join: "JoinGathering K ?gid c n message ?t = (Ok (word_of_nat ?n), ?u)"
    using run_Join_empty [of ?t ?gid "created_row K ?p m s" K c n message] rows(1) assms(1,4)
    by (auto simp: Let_def)
  have live: "live_session ?gid (created_row K ?p m s\<lparr>g_participants := ?ps\<rparr>)
      (new_session_row K (created_session K ?p m s)) ?u"
    by (simp add: live_session_def rows)
  have "read_session K (created_row K ?p m s\<lparr>g_participants := ?ps\<rparr>) (new_session_row K (created_session K ?p m s)) =
      (created_session K ?p m s)\<lparr>ParticipationCount := word_of_nat ?n\<rparr>"
    using assms(5,6)
    by (cases m) (simp add: read_session_def fill_session_def row_gathering_def created_row_def new_gathering_row_def
      new_session_row_def created_session_def)
  then have "GetMatchmakeSessionByID K ?gid ?u =
      (Ok ((created_session K ?p m s)\<lparr>ParticipationCount := word_of_nat ?n\<rparr>, []), ?u)"
    using run_GetByID [OF _ live, of K] assms(1) by (simp add: new_session_row_def)
  then show ?thesis
    using run_Create [OF assms(1-3), of K c m] join by auto
qed

definition codec_lib :: nexlib where
  "codec_lib = sample_lib\<lparr>MatchmakeParam_ExtractFrom := (\<lambda>_. session_params Map.empty)\<rparr>"

lemma created_session_is_found_witness:
  "\<exists>created t u. CreateMatchmakeSession codec_lib player3 sample_session sample_world = (Ok created, t) \<and>
    JoinGathering codec_lib (ID created) player3 2 [] t = (Ok 2, u) \<and>
    GetMatchmakeSessionByID codec_lib (ID created) u = (Ok (created\<lparr>ParticipationCount := 2\<rparr>, []), u)"
  using created_session_is_found [of sample_world sample_session 2 codec_lib player3 "[]"]
  by (simp add: codec_lib_def sample_lib_def sample_session_def)

text \<open>
  The common start of a creation: the caller leaves its sessions, which gives the state \<open>v\<close>, and a
  new row without participants is stored; then the caller joins it.
\<close>

lemma run_createMatchmakeSession:
  assumes "db_faults s = []" and "w_mutex s = Unlocked" and "world_ok s" and "next_gathering_id s < 2 ^ 32"
    and "CheckValidMatchmakeSession m" and "length message \<le> 256"
  obtains v where "fine v" and "world_ok v" and "next_gathering_id v = next_gathering_id s"
    and "t_gatherings v = map (\<lambda>g. if g_type g = ''MatchmakeSession'' \<and> leaves (conn_PID c) g then leave_row K (conn_PID c) g else g)
      (t_gatherings s)"
    and "createMatchmakeSession K False c callID (HeldMatchmakeSession m) message n s =
      or_unlock (JoinMatchmakeSession K (created_session K (conn_PID c) m v) c n message)
        (\<lambda>_. ext_success MethodCreateMatchmakeSession callID (WUInt32 (word_of_nat (next_gathering_id s)) #
          (if MatchMaking_AtLeast_3_0_0 K then [WBuffer (SessionKey (created_session K (conn_PID c) m v))] else [])))
        (session_created K (conn_PID c) m v)"
proof -
  let ?p = "conn_PID c" and ?l = "s\<lparr>w_mutex := Locked\<rparr>"
  have l: "fine ?l" "world_ok ?l"
    using assms(1,3) on_tables_upd(3) [OF world_ok_tables] on_tables_upd(3) [OF gatherings_ok_tables]
    by (auto simp: world_ok_def)
  obtain v where v: "EndMatchmakeSessionsParticipation K c ?l = (Ok (), v)" "fine v"
      "tables v = tables (update_where (\<lambda>g. g_type g = ''MatchmakeSession'' \<and> leaves ?p g) (leave_row K ?p) ?l)"
    using run_EndSessions [OF l(1)] by blast
  have w: "world_ok v" using keepsD [OF wok.keeps_end_sessions l(2), of K c] v(1) by simp
  have nxt: "next_gathering_id v = next_gathering_id s"
    and old: "t_gatherings v = map (\<lambda>g. if g_type g = ''MatchmakeSession'' \<and> leaves ?p g then leave_row K ?p g else g)
      (t_gatherings s)"
    using v(3) by (simp_all add: tables_def update_where_def)
  have "createMatchmakeSession K False c callID (HeldMatchmakeSession m) message n s =
      or_unlock (JoinMatchmakeSession K (created_session K ?p m v) c n message)
        (\<lambda>_. ext_success MethodCreateMatchmakeSession callID (WUInt32 (word_of_nat (next_gathering_id s)) #
          (if MatchMaking_AtLeast_3_0_0 K then [WBuffer (SessionKey (created_session K ?p m v))] else [])))
        (session_created K ?p m v)"
    using assms(4-6) run_Create [of v K c m] v(2) w nxt
    by (simp add: createMatchmakeSession_def run_lock_bind assms(2) run_or_unlock_Ok v(1) with_session_def GatheringObjectID_def)
  then show thesis using that v(2) w nxt old by blast
qed

definition session_joined :: "nexlib \<Rightarrow> pid \<Rightarrow> matchmake_session \<Rightarrow> u16 \<Rightarrow> string \<Rightarrow> mm_world \<Rightarrow> mm_world" where
  "session_joined K p m n message v = (let gid = word_of_nat (next_gathering_id v); places = max 1 (unat n);
     ps = replicate places p in
     notified_all K (join_notices K gid (created_row K p m v) p places message)
       (logged (TrackJoinGathering p gid ps ps) (set_participants gid ps (session_created K p m v))))"

lemma participate_counts_only:
  assumes "db_faults s = []"
  shows "\<exists>t. participate K m gid p s = (Ok (), t) \<and> t_gatherings t = t_gatherings s \<and> t_sessions t = t_sessions s"
proof -
  have get: "\<exists>g. GetPersistentGatheringByID K p gid s = (Ok g, s)"
    using assms by (auto simp: GetPersistentGatheringByID_def bindM_def run_query_row run_ret split: sum.split)
  obtain r t where count: "UpdatePersistentGatheringParticipationCount p gid s = (r, t)" by fastforce
  then have t: "db_faults t = [] \<and> t_gatherings t = t_gatherings s \<and> t_sessions t = t_sessions s \<and> (\<exists>x. r = Ok x \<or> (\<exists>e. r = Err e))"
    using assms
    by (auto simp: UpdatePersistentGatheringParticipationCount_def bindM_def run_returning ok_or_def run_ret run_throw
      split: sum.splits if_splits)
  have "track e t = (Ok (), logged e t)" for e by (rule run_log) (simp add: t)
  then show ?thesis
    using get count t by (auto simp: participate_def catchM_def bindM_def LogParticipateCommunity_def run_ret logged_def)
qed

text \<open>Joining the new session; in one of a community the join is counted for the community as well.\<close>

lemma run_join_created:
  assumes "fine v" and "world_ok v" and "next_gathering_id v < 2 ^ 32" and "length (Attributes m) = 6"
  shows "if MaximumParticipants m \<noteq> 0 \<and> (max 1 (unat n)) > unat (MaximumParticipants m)
    then JoinMatchmakeSession K (created_session K (conn_PID c) m v) c n message (session_created K (conn_PID c) m v) =
      (Err RendezVous_SessionFull, session_created K (conn_PID c) m v)
    else \<exists>u. JoinMatchmakeSession K (created_session K (conn_PID c) m v) c n message (session_created K (conn_PID c) m v) =
      (Ok (word_of_nat (max 1 (unat n))), u) \<and>
      t_gatherings u = t_gatherings (session_joined K (conn_PID c) m n message v) \<and>
      t_sessions u = t_sessions (session_joined K (conn_PID c) m n message v) \<and>
      (MatchmakeSystemType m \<noteq> MatchmakeSystemTypePersistentGathering K \<longrightarrow>
        u = session_joined K (conn_PID c) m n message v)"
proof -
  let ?t = "session_created K (conn_PID c) m v" and ?joined = "session_joined K (conn_PID c) m n message v"
  let ?full = "MaximumParticipants m \<noteq> 0 \<and> (max 1 (unat n)) > unat (MaximumParticipants m)"
  have join: "JoinGathering K (word_of_nat (next_gathering_id v)) c n message ?t =
      (if ?full then (Err RendezVous_SessionFull, ?t) else (Ok (word_of_nat (max 1 (unat n))), ?joined))"
    using run_Join_empty [of ?t "word_of_nat (next_gathering_id v)" "created_row K (conn_PID c) m v" K c n message]
      created_rows(1) [OF assms(2,3), of K "conn_PID c" m] assms(1)
    by (simp only: session_created_faults created_row_simps session_joined_def Let_def)
  obtain a as' where "Attributes m = a # as'" using assms(4) by (cases "Attributes m") simp_all
  then have attributes: "Attributes (created_session K (conn_PID c) m v) = a # as'" by (simp add: created_session_def)
  have faults: "db_faults ?joined = []" using assms(1) by (simp add: session_joined_def Let_def)
  show ?thesis
  proof (cases ?full)
    case True
    then show ?thesis by (simp add: JoinMatchmakeSession_def bindM_def join)
  next
    case False
    obtain w where "participate K (created_session K (conn_PID c) m v) a (conn_PID c) ?joined = (Ok (), w)"
      and "t_gatherings w = t_gatherings ?joined" "t_sessions w = t_sessions ?joined"
      using participate_counts_only [OF faults] by blast
    then show ?thesis
      using False attributes
      by (simp only: JoinMatchmakeSession_def bindM_def join created_session_simps if_False) (simp add: bindM_def run_ret)
  qed
qed

text \<open>
  C9: A valid \<open>createMatchmakeSession\<close> that asks for no more places than the session admits succeeds
  when no statement fails, and leaves its caller in exactly one registered matchmake session, the new
  one, which the caller owns and hosts and in which the caller holds the requested places; the reply
  names it and carries the key that was stored; the mutex is free. This holds for the sessions of
  communities as for all others.
\<close>

theorem createMatchmakeSession_one_session:
  assumes "db_faults s = []" and "w_mutex s = Unlocked" and "world_ok s" and "next_gathering_id s < 2 ^ 32"
    and "CheckValidMatchmakeSession m" and "length message \<le> 256"
    and "MaximumParticipants m = 0 \<or> max 1 (unat n) \<le> unat (MaximumParticipants m)"
  shows "\<exists>t row ms. createMatchmakeSession K False c callID (HeldMatchmakeSession m) message n s =
      (Ok (rmcSuccess MatchmakeExtension_Protocol MethodCreateMatchmakeSession callID
         (WUInt32 (word_of_nat (next_gathering_id s)) #
          (if MatchMaking_AtLeast_3_0_0 K then [WBuffer (ms_session_key ms)] else []))), t) \<and>
    w_mutex t = Unlocked \<and>
    filter (\<lambda>g. g_type g = ''MatchmakeSession'' \<and> leaves (conn_PID c) g) (t_gatherings t) = [row] \<and>
    g_id row = next_gathering_id s \<and> g_owner_pid row = conn_PID c \<and> g_host_pid row = conn_PID c \<and>
    g_participants row = replicate (max 1 (unat n)) (conn_PID c) \<and>
    session_rows (word_of_nat (next_gathering_id s)) t = [ms]"
proof -
  let ?p = "conn_PID c" and ?n = "max 1 (unat n)"
  let ?gid = "word_of_nat (next_gathering_id s) :: u32"
  obtain v where v: "fine v" and w: "world_ok v" and nxt: "next_gathering_id v = next_gathering_id s"
    and old: "t_gatherings v = map (\<lambda>g. if g_type g = ''MatchmakeSession'' \<and> leaves ?p g then leave_row K ?p g else g)
      (t_gatherings s)"
    and starts: "createMatchmakeSession K False c callID (HeldMatchmakeSession m) message n s =
      or_unlock (JoinMatchmakeSession K (created_session K ?p m v) c n message)
        (\<lambda>_. ext_success MethodCreateMatchmakeSession callID (WUInt32 ?gid #
          (if MatchMaking_AtLeast_3_0_0 K then [WBuffer (SessionKey (created_session K ?p m v))] else [])))
        (session_created K ?p m v)"
    by (rule run_createMatchmakeSession [OF assms(1-6)])
  note rows = created_rows [OF w, unfolded nxt, OF assms(4), of K ?p m]
  let ?t = "session_created K ?p m v"
  let ?ps = "replicate ?n ?p"
  let ?joined = "session_joined K ?p m n message v"
  have six: "length (Attributes m) = 6" using assms(5) by (simp add: CheckValidMatchmakeSession_def split: if_splits)
  obtain u where join: "JoinMatchmakeSession K (created_session K ?p m v) c n message ?t = (Ok (word_of_nat ?n), u)"
    and u: "t_gatherings u = t_gatherings ?joined" "t_sessions u = t_sessions ?joined"
    using run_join_created [OF v w _ six, of n K c message] assms(4,7) by (auto simp: nxt split: if_splits)
  have run: "createMatchmakeSession K False c callID (HeldMatchmakeSession m) message n s =
      (Ok (rmcSuccess MatchmakeExtension_Protocol MethodCreateMatchmakeSession callID
         (WUInt32 ?gid # (if MatchMaking_AtLeast_3_0_0 K
            then [WBuffer (ms_session_key (new_session_row K (created_session K ?p m v)))] else []))),
       u\<lparr>w_mutex := Unlocked\<rparr>)"
    unfolding starts by (simp add: run_or_unlock_Ok join run_ext_success new_session_row_def)
  have gs: "t_gatherings u = map (\<lambda>g. if g_id g = next_gathering_id s then g\<lparr>g_participants := ?ps\<rparr> else g)
      (t_gatherings v @ [created_row K ?p m v])"
  proof -
    have "t_gatherings ?joined = t_gatherings (set_participants ?gid ?ps ?t)"
      using tables_notified_all change_tables(1) unfolding tables_def session_joined_def Let_def nxt by (metis prod.inject)
    then show ?thesis
      unfolding u by (simp add: set_participants_def update_gathering_def session_created_def unat_of_nat_u32 [OF assms(4)] nxt)
  qed
  have small: "g_id g < next_gathering_id s" if "g \<in> set (t_gatherings v)" for g
    using w that nxt by (simp add: world_ok_def gatherings_ok_def ids_ok_def)
  have none: "\<not> (g_type g = ''MatchmakeSession'' \<and> leaves ?p g)" if "g \<in> set (t_gatherings v)" for g
    using that unfolding old by auto
  have "filter (\<lambda>g. g_type g = ''MatchmakeSession'' \<and> leaves ?p g) (t_gatherings u) =
      [(created_row K ?p m v)\<lparr>g_participants := ?ps\<rparr>]"
  proof -
    have "map (\<lambda>g. if g_id g = next_gathering_id s then g\<lparr>g_participants := ?ps\<rparr> else g) (t_gatherings v) = t_gatherings v"
      by (rule map_idI) (use small in \<open>metis less_irrefl\<close>)
    moreover have "filter (\<lambda>g. g_type g = ''MatchmakeSession'' \<and> leaves ?p g) (t_gatherings v) = []"
      using none by (simp add: filter_empty_conv)
    ultimately show ?thesis
      unfolding gs using assms(4) by (simp add: nxt leaves_def)
  qed
  moreover have "session_rows ?gid (u\<lparr>w_mutex := Unlocked\<rparr>) = [new_session_row K (created_session K ?p m v)]"
    
  proof -
    have "session_rows ?gid (u\<lparr>w_mutex := Unlocked\<rparr>) = session_rows ?gid ?joined"
      unfolding session_rows_def using u(2) by simp
    then show ?thesis using rows(2) by (simp add: session_joined_def Let_def)
  qed
  ultimately show ?thesis
    by (intro exI [of _ "u\<lparr>w_mutex := Unlocked\<rparr>"] exI [of _ "(created_row K ?p m v)\<lparr>g_participants := ?ps\<rparr>"]
      exI [of _ "new_session_row K (created_session K ?p m v)"] conjI)
      (use run in \<open>simp_all add: nxt\<close>)
qed

lemma createMatchmakeSession_one_session_witness:
  "\<exists>r t row. createMatchmakeSession sample_lib False player1 7 (HeldMatchmakeSession sample_session) ''hi'' 0 sample_world =
      (Ok r, t) \<and> hd (Body r) = WUInt32 2 \<and>
    filter (\<lambda>g. g_type g = ''MatchmakeSession'' \<and> leaves 1001 g) (t_gatherings t) = [row] \<and> g_participants row = [1001]"
proof -
  have "CheckValidMatchmakeSession sample_session"
    by (simp add: CheckValidMatchmakeSession_def CheckValidGathering_def sample_session_def)
  then show ?thesis
    using createMatchmakeSession_one_session [of sample_world sample_session "''hi''" 0 sample_lib player1 7]
    by (fastforce simp: sample_session_def)
qed

text \<open>
  When more places are asked for than the session admits, \<open>createMatchmakeSession\<close> answers
  \<open>SessionFull\<close>, but the session it has registered by then stays behind: registered, owned by
  the caller, without any participant.
\<close>

lemma failed_create_leaves_empty_session:
  assumes "db_faults s = []" and "w_mutex s = Unlocked" and "world_ok s" and "next_gathering_id s < 2 ^ 32"
    and "CheckValidMatchmakeSession m" and "length message \<le> 256"
    and "MaximumParticipants m \<noteq> 0" and "max 1 (unat n) > unat (MaximumParticipants m)"
  shows "\<exists>t row. createMatchmakeSession K False c callID (HeldMatchmakeSession m) message n s =
      (Err RendezVous_SessionFull, t) \<and> w_mutex t = Unlocked \<and>
    gathering_rows (word_of_nat (next_gathering_id s)) t = [row] \<and> g_registered row \<and>
    g_owner_pid row = conn_PID c \<and> g_participants row = []"
proof -
  obtain v where v: "fine v" and w: "world_ok v" and nxt: "next_gathering_id v = next_gathering_id s"
    and starts: "createMatchmakeSession K False c callID (HeldMatchmakeSession m) message n s =
      or_unlock (JoinMatchmakeSession K (created_session K (conn_PID c) m v) c n message)
        (\<lambda>_. ext_success MethodCreateMatchmakeSession callID (WUInt32 (word_of_nat (next_gathering_id s)) #
          (if MatchMaking_AtLeast_3_0_0 K then [WBuffer (SessionKey (created_session K (conn_PID c) m v))] else [])))
        (session_created K (conn_PID c) m v)"
    by (rule run_createMatchmakeSession [OF assms(1-6)])
  let ?t = "session_created K (conn_PID c) m v"
  have six: "length (Attributes m) = 6" using assms(5) by (simp add: CheckValidMatchmakeSession_def split: if_splits)
  have join: "JoinMatchmakeSession K (created_session K (conn_PID c) m v) c n message ?t = (Err RendezVous_SessionFull, ?t)"
    using run_join_created [OF v w _ six, of n K c message] assms(4,7,8) by (simp only: nxt) simp
  have "createMatchmakeSession K False c callID (HeldMatchmakeSession m) message n s =
      (Err RendezVous_SessionFull, ?t\<lparr>w_mutex := Unlocked\<rparr>)"
    unfolding starts by (simp add: run_or_unlock_Err join)
  then show ?thesis
    using created_rows [OF w, unfolded nxt, OF assms(4), of K "conn_PID c" m] by (auto simp: nxt gathering_rows_def)
qed

lemma failed_create_leaves_empty_session_witness:
  "\<exists>t row. createMatchmakeSession sample_lib False player1 7 (HeldMatchmakeSession sample_session) [] 9 sample_world =
      (Err RendezVous_SessionFull, t) \<and> gathering_rows 2 t = [row] \<and> g_registered row \<and> g_participants row = []"
proof -
  have "CheckValidMatchmakeSession sample_session"
    by (simp add: CheckValidMatchmakeSession_def CheckValidGathering_def sample_session_def)
  then show ?thesis
    using failed_create_leaves_empty_session [of sample_world sample_session "[]" 9 sample_lib player1 7]
    by (force simp: sample_session_def)
qed

section \<open>Regional game modes\<close>

lemma region_bits: "bit wiiSportsClubGameModeRegionMask k \<longleftrightarrow> k = 10 \<or> k = 11"
proof -
  have eq: "wiiSportsClubGameModeRegionMask = push_bit 10 1 OR push_bit 11 1"
    by (simp add: wiiSportsClubGameModeRegionMask_def)
  show ?thesis by (simp only: eq bit_or_iff bit_push_bit_iff) (auto simp: bit_1_iff)
qed

text \<open>
  Two game modes have the same canonical value exactly when they agree in every bit but the
  two region bits 10 and 11; a canonical value has both clear.
\<close>

lemma canonical_game_mode:
  "(canonicalWiiSportsClubGameMode a = canonicalWiiSportsClubGameMode b \<longleftrightarrow>
     {k. bit a k} - {10, 11} = {k. bit b k} - {10, 11}) \<and>
   \<not> bit (canonicalWiiSportsClubGameMode a) 10 \<and> \<not> bit (canonicalWiiSportsClubGameMode a) 11"
proof -
  have c: "bit (canonicalWiiSportsClubGameMode a) k \<longleftrightarrow> bit a k \<and> k \<noteq> 10 \<and> k \<noteq> 11" for a k
    by (auto simp: canonicalWiiSportsClubGameMode_def bit_and_iff bit_not_iff region_bits dest: bit_imp_possible_bit)
  have "x = y \<longleftrightarrow> (\<forall>k. bit x k = bit y k)" for x y :: u32
    by (auto intro: bit_eqI)
  moreover have "{k. bit a k} - {10, 11} = {k. bit b k} - {10, 11} \<longleftrightarrow> (\<forall>k. k \<noteq> 10 \<and> k \<noteq> 11 \<longrightarrow> bit a k = bit b k)"
    by blast
  ultimately show ?thesis by (auto simp: c)
qed

text \<open>
  Whatever session the auto-matchmaking with search criteria finds or creates, its reply shows
  the game mode exactly as the console asked for it, and no matchmake parameters.
\<close>

lemma reply_keeps_requested_mode:
  assumes "autoMatchmakeWithSearchCriteriaPostpone K P err c callID cs (HeldMatchmakeSession m) message s = (Ok r, t)"
  shows "\<exists>found. Body r = [WGatheringHolder (HeldMatchmakeSession found)] \<and>
    GameMode found = GameMode m \<and> MatchmakeParam found = Map.empty"
proof -
  let ?Q = "\<lambda>r. \<exists>found. Body r = [WGatheringHolder (HeldMatchmakeSession found)] \<and>
    GameMode found = GameMode m \<and> MatchmakeParam found = Map.empty"
  have "yields (autoMatchmakeWithSearchCriteriaPostpone K P err c callID cs (HeldMatchmakeSession m) message) ?Q"
    unfolding autoMatchmakeWithSearchCriteriaPostpone_def Let_def
    by (cases "CleanupMatchmakeSessionSearchCriterias P")
      (auto simp: with_session_def GatheringObjectID_def intro!: yields_rules)
  then show ?thesis using assms by (rule yieldsD)
qed

section \<open>Restart and bookkeeping\<close>

text \<open>
  After a restart no matchmake session is registered and no stored notification is active, the
  mutex is free and nobody is connected; every other gathering is as before.
\<close>

lemma restart_clears:
  assumes "db_faults s = []"
  shows "\<exists>t. restart s = (Ok (), t) \<and> w_mutex t = Unlocked \<and> w_connections t = Map.empty \<and>
    (\<forall>g \<in> set (t_gatherings t). g_type g = ''MatchmakeSession'' \<longrightarrow> \<not> g_registered g) \<and>
    filter (\<lambda>g. g_type g \<noteq> ''MatchmakeSession'') (t_gatherings t) =
      filter (\<lambda>g. g_type g \<noteq> ''MatchmakeSession'') (t_gatherings s) \<and>
    (\<forall>n \<in> set (t_notifications t). \<not> n_active n)"
proof -
  have "filter (\<lambda>g. g_type g \<noteq> ''MatchmakeSession'')
      (map (\<lambda>g. if g_type g = ''MatchmakeSession'' then g\<lparr>g_registered := False\<rparr> else g) gs) =
    filter (\<lambda>g. g_type g \<noteq> ''MatchmakeSession'') gs" for gs :: "gathering_row list"
    by (induction gs) auto
  then show ?thesis
    using assms by (simp add: restart_def SetManager_base_def SetManager_def run_create_tables run_simps run_exec bindM_def) auto
qed

lemma restart_clears_witness:
  "\<exists>t. restart sample_world = (Ok (), t) \<and> (\<forall>g \<in> set (t_gatherings t). g_type g = ''MatchmakeSession'' \<longrightarrow> \<not> g_registered g)"
  using restart_clears [of sample_world] by auto

text \<open>
  Taking part in a community raises the user's count for it by one and no other count, and it
  does so even for a community that does not exist, as no error of the lookup is reported.
\<close>

lemma participation_counted:
  assumes "db_faults s = []" and "keys_ok s" and "participation_count p (unat gid) s + 1 < 2 ^ 32"
  shows "\<exists>t. participate K m gid p s = (Ok (), t) \<and>
    participation_count p (unat gid) t = participation_count p (unat gid) s + 1 \<and>
    (\<forall>q gid'. (q, gid') \<noteq> (p, gid) \<longrightarrow> participation_count q (unat gid') t = participation_count q (unat gid') s)"
proof -
  let ?new = "\<lparr> cp_user_pid = p, cp_gathering_id = gid, cp_participation_count = 1 \<rparr>"
  let ?t = "s\<lparr>t_participations := upsert_participation p gid (t_participations s)\<rparr>"
  have rows: "participation_rows q (unat g) u = filter (\<lambda>c. participation_key c = (q, g)) (t_participations u)" for q g u
    unfolding participation_rows_def participation_key_def by (rule filter_cong) (auto dest: unsigned_word_eqI)
  have key: "participation_key ?new = (p, gid)" by (simp add: participation_key_def)
  have count: "participation_count p (unat gid) ?t = participation_count p (unat gid) s + 1"
    using participations.key_rows_upsert [of p gid "t_participations s"]
    unfolding participation_count_def rows key upsert_participation_def [symmetric]
    by (simp split: list.splits)
  have other: "participation_count q (unat g) ?t = participation_count q (unat g) s" if "(q, g) \<noteq> (p, gid)" for q g
    using participations.other_rows_upsert [of "(q, g)" p gid "t_participations s"] that
    unfolding participation_count_def rows key upsert_participation_def [symmetric] by simp
  have "\<exists>r rs. filter (\<lambda>c. participation_key c = (p, gid)) (upsert_participation p gid (t_participations s)) = r # rs \<and>
      cp_participation_count r = participation_count p (unat gid) s + 1"
    using count unfolding participation_count_def rows by (auto split: list.splits)
  then obtain r rs where r: "filter (\<lambda>c. participation_key c = (p, gid)) (upsert_participation p gid (t_participations s)) = r # rs"
      "cp_participation_count r = participation_count p (unat gid) s + 1" by blast
  have update: "UpdatePersistentGatheringParticipationCount p gid s = (Ok (word_of_nat (cp_participation_count r)), ?t)"
    using assms(1,3) r by (simp add: UpdatePersistentGatheringParticipationCount_def bindM_def run_returning run_ret)
  have get: "\<exists>g. GetPersistentGatheringByID K p gid s = (Ok g, s)"
    using assms(1) by (auto simp: GetPersistentGatheringByID_def bindM_def run_query_row run_ret split: sum.split)
  have "track e ?t = (Ok (), logged e ?t)" for e by (rule run_log) (simp add: assms(1))
  then have "\<exists>e. participate K m gid p s = (Ok (), logged e ?t)"
    using get update by (auto simp: participate_def catchM_def bindM_def LogParticipateCommunity_def run_ret)
  moreover have "participation_count q g (logged e ?t) = participation_count q g ?t" for q g e
    by (simp add: participation_count_def participation_rows_def logged_def)
  ultimately show ?thesis using count other by auto
qed

lemma participation_counted_witness:
  "\<exists>t. participate sample_lib sample_session 77 1001 sample_world = (Ok (), t) \<and> participation_count 1001 77 t = 1"
  using participation_counted [of sample_world 1001 77 sample_lib sample_session]
  by (auto simp: keys_ok_def participation_count_def participation_rows_def)

text \<open>
  A notification that a player stores is what a friend reads back: exactly one event of that
  player and type, with the stored parameters.
\<close>

lemma stored_notification_read_back:
  assumes "db_faults s = []" and "keys_ok s" and "PIDSource d \<in> ucast ` set (friends_of mgr q)"
    and "NType d \<in> set types"
  shows "\<exists>t es. UpdateNotificationData d s = (Ok (), t) \<and> GetNotificationDatas mgr q types t = (Ok es, t) \<and>
    filter (\<lambda>e. PIDSource e = PIDSource d \<and> NType e = NType d) es = [d\<lparr>Param3 := 0\<rparr>]"
proof -
  let ?new = "\<lparr> n_source_pid = PIDSource d, n_type = NType d, n_param_1 = Param1 d, n_param_2 = Param2 d,
    n_param_str = StrParam d, n_active = True \<rparr>"
  let ?t = "s\<lparr>t_notifications := upsert_notification d (t_notifications s)\<rparr>"
  let ?ev = "\<lambda>n. \<lparr> PIDSource = n_source_pid n, NType = n_type n, Param1 = n_param_1 n,
    Param2 = n_param_2 n, StrParam = n_param_str n, Param3 = 0 \<rparr>"
  let ?sel = "\<lambda>n. n_active n \<and> n_source_pid n \<in> ucast ` set (friends_of mgr q) \<and> n_type n \<in> set types"
  let ?key = "\<lambda>n. notification_key n = (PIDSource d, NType d)"
  have d: "distinct (map notification_key (t_notifications s))" using assms(2) by (simp add: keys_ok_def)
  have k: "notification_key ?new = (PIDSource d, NType d)" by (simp add: notification_key_def)
  obtain r where r: "filter ?key (upsert_notification d (t_notifications s)) = [r]"
    using notifications.one_row_upsert [OF d, of d] by (auto simp: k upsert_notification_def)
  have "r \<in> set (filter ?key (upsert_notification d (t_notifications s)))" unfolding r by simp
  then have kr: "?key r" by simp
  have ev: "?ev r = d\<lparr>Param3 := 0\<rparr> \<and> n_active r"
  proof (cases "filter ?key (t_notifications s)")
    case Nil
    then have "r = ?new"
      using notifications.key_rows_upsert [of d "t_notifications s"] r
      unfolding k upsert_notification_def [symmetric] by simp
    then show ?thesis by simp
  next
    case (Cons n ns)
    then have "r = n\<lparr>n_param_1 := Param1 d, n_param_2 := Param2 d, n_param_str := StrParam d, n_active := True\<rparr>"
      using notifications.key_rows_upsert [of d "t_notifications s"] r
      unfolding k upsert_notification_def [symmetric] by simp
    then show ?thesis using kr by (simp add: notification_key_def)
  qed
  have friends: "friends_of mgr q \<noteq> []" using assms(3) by auto
  have commute: "filter (\<lambda>e. PIDSource e = PIDSource d \<and> NType e = NType d) (map ?ev (filter ?sel ns)) =
      map ?ev (filter ?sel (filter ?key ns))" for ns
    by (induction ns) (auto simp: notification_key_def)
  have "?sel r" using ev kr assms(3,4) by (simp add: notification_key_def)
  then have "filter ?sel [r] = [r]" by simp
  then have "filter (\<lambda>e. PIDSource e = PIDSource d \<and> NType e = NType d)
      (map ?ev (filter ?sel (upsert_notification d (t_notifications s)))) = [d\<lparr>Param3 := 0\<rparr>]"
    unfolding commute r using ev by simp
  then show ?thesis
    using assms(1) friends
    by (simp add: UpdateNotificationData_def GetNotificationDatas_def Let_def bindM_def run_exec run_query run_ret)
qed

definition friend_manager :: manager where
  "friend_manager = \<lparr> GetUserFriendPIDs = Some (\<lambda>_. [1001]) \<rparr>"

definition sample_notification :: notification_event where
  "sample_notification = \<lparr> PIDSource = 1001, NType = 101000, Param1 = 5, Param2 = 6, StrParam = ''x'', Param3 = 9 \<rparr>"

lemma stored_notification_read_back_witness:
  "\<exists>t es. UpdateNotificationData sample_notification sample_world = (Ok (), t) \<and>
    GetNotificationDatas friend_manager 1002 [101000] t = (Ok es, t) \<and>
    filter (\<lambda>e. PIDSource e = 1001 \<and> NType e = 101000) es = [sample_notification\<lparr>Param3 := 0\<rparr>]"
  using stored_notification_read_back [of sample_world sample_notification friend_manager 1002 "[101000]"]
  by (simp add: keys_ok_def sample_notification_def friends_of_def friend_manager_def)

lemma reply_keeps_requested_mode_witness:
  "\<exists>r t found. autoMatchmakeWithSearchCriteriaPostpone sample_lib server_protocol False player3 7 []
      (HeldMatchmakeSession (sample_session\<lparr>GameMode := 0x03022400\<rparr>)) [] sample_world = (Ok r, t) \<and>
    Body r = [WGatheringHolder (HeldMatchmakeSession found)] \<and> GameMode found = 0x03022400"
proof -
  let ?l = "sample_world\<lparr>w_mutex := Locked\<rparr>"
  let ?m = "sample_session\<lparr>GameMode := canonicalWiiSportsClubGameMode 0x03022400\<rparr>"
  have l: "fine ?l" "world_ok ?l"
    using on_tables_upd(3) [OF world_ok_tables] on_tables_upd(3) [OF gatherings_ok_tables] by auto
  obtain v where v: "EndMatchmakeSessionsParticipation sample_lib player3 ?l = (Ok (), v)" "fine v"
      "tables v = tables (update_where (\<lambda>g. g_type g = ''MatchmakeSession'' \<and> leaves 1003 g) (leave_row sample_lib 1003) ?l)"
    using run_EndSessions [OF l(1), of sample_lib player3] by auto
  have w: "world_ok v" using keepsD [OF wok.keeps_end_sessions l(2), of sample_lib player3] v(1) by simp
  have nxt: "next_gathering_id v = 2" using v(3) by (simp add: tables_def update_where_def)
  have search: "FindMatchmakeSessionBySearchCriteria sample_lib player3 [] one_result (Some ?m) v = (Ok [], v)"
    by (simp add: FindMatchmakeSessionBySearchCriteria_def run_ret Let_def)
  have create: "CreateMatchmakeSession sample_lib player3 ?m v = (Ok (created_session sample_lib 1003 ?m v), session_created sample_lib 1003 ?m v)"
    using run_Create [of v sample_lib player3 ?m] v(2) w nxt by simp
  have "gathering_rows 2 (session_created sample_lib 1003 ?m v) = [created_row sample_lib 1003 ?m v]"
    using created_rows(1) [OF w, of sample_lib 1003 ?m] nxt by simp
  then obtain u where join: "JoinMatchmakeSession sample_lib (created_session sample_lib 1003 ?m v) player3 1 []
      (session_created sample_lib 1003 ?m v) = (Ok 1, u)"
    using run_Join_empty [of "session_created sample_lib 1003 ?m v" 2 "created_row sample_lib 1003 ?m v" sample_lib player3 1 "[]"]
      v(2) nxt
    by (auto simp: Let_def JoinMatchmakeSession_def bindM_def run_ret sample_session_def sample_lib_def)
  have "CheckValidMatchmakeSession ?m"
    by (simp add: CheckValidMatchmakeSession_def CheckValidGathering_def sample_session_def)
  then have "\<exists>r t. autoMatchmakeWithSearchCriteriaPostpone sample_lib server_protocol False player3 7 []
      (HeldMatchmakeSession (sample_session\<lparr>GameMode := 0x03022400\<rparr>)) [] sample_world = (Ok r, t)"
    by (simp add: autoMatchmakeWithSearchCriteriaPostpone_def server_protocol_def run_lock_bind run_or_unlock_Ok v(1)
      with_session_def GatheringObjectID_def Let_def search found_or_created_def create join run_ext_success)
  then show ?thesis
    using reply_keeps_requested_mode by fastforce
qed

end
