(* ===== verification/Search_Props.thy ===== *)
theory Search_Props
  imports Session_Runs Samples Mm_Server
begin

text \<open>
  What the two searches for a session promise: a session found can be joined and is the nearest
  one, a search by criteria returns only rows that satisfy a criteria, its results stay within
  the requested range, and the decimal strings of a criteria are read back. Two defects of the
  search are stated as well. Two helpers, \<open>RemoveDuplicates\<close> and \<open>utf8.RuneCountInString\<close>,
  have their specifications here.
\<close>

section \<open>The automatic search\<close>

lemma distance_defined:
  assumes "world_ok s" and "row \<in> set (joined s)"
  shows "attribute_distance a row = Some \<bar>uint a - uint (ms_attribs (snd row) ! 1)\<bar>"
proof -
  have "\<forall>r \<in> set (t_sessions s). length (ms_attribs r) = 6"
    using assms(1) by (simp add: world_ok_def sessions_ok_def)
  moreover have "snd row \<in> set (t_sessions s)"
    using assms(2) set_joined [of "fst row" "snd row" s] by simp
  ultimately show ?thesis by (simp add: attribute_distance_def sql_index_def)
qed

lemma session_matches_scan:
  assumes "session_matches m friends (g, ms)"
  shows "scan_session K (g, ms) = Some (read_session K g ms)"
  using assms by (auto simp: session_matches_def sql_is_length scan_session_def read_session_def)

text \<open>The row that the query returns first.\<close>

lemma run_FindMatchmakeSession:
  assumes "db_faults s = []" and "length (Attributes m) = 6" and "world_ok s"
    and "friends = friends_of mgr (conn_PID c)"
  shows "FindMatchmakeSession K mgr c m s = (Ok None, s) \<and>
      (\<forall>row \<in> set (joined s). \<not> session_matches m friends row) \<or>
    (\<exists>g ms. FindMatchmakeSession K mgr c m s = (Ok (Some (read_session K g ms)), s) \<and>
      (g, ms) \<in> set (joined s) \<and> session_matches m friends (g, ms) \<and>
      (\<forall>g' ms'. (g', ms') \<in> set (joined s) \<and> session_matches m friends (g', ms') \<longrightarrow>
        \<bar>uint (Attributes m ! 1) - uint (ms_attribs ms ! 1)\<bar> \<le> \<bar>uint (Attributes m ! 1) - uint (ms_attribs ms' ! 1)\<bar>))"
proof -
  let ?rows = "filter (session_matches m friends) (joined s)"
  let ?sorted = "order_by (attribute_distance (Attributes m ! 1)) ?rows"
  have rows: "set ?sorted = set ?rows" by (rule set_order_by)
  have run: "FindMatchmakeSession K mgr c m s = (case ?sorted of [] \<Rightarrow> (Ok None, s)
      | row # _ \<Rightarrow> (case scan_session K row of None \<Rightarrow> (Err Core_Unknown, s) | Some m' \<Rightarrow> (Ok (Some m'), s)))"
    using assms(1,2) unfolding assms(4)
    by (auto simp: FindMatchmakeSession_def Let_def bindM_def run_query_row run_ret run_throw split: list.splits option.splits)
  show ?thesis
  proof (cases ?sorted)
    case Nil
    then have "set ?rows = {}" using rows by simp
    then show ?thesis using run Nil by (auto simp: filter_empty_conv)
  next
    case (Cons row rest)
    obtain g ms where row: "row = (g, ms)" by (cases row)
    have "row \<in> set ?rows" unfolding rows [symmetric] Cons by simp
    then have r: "(g, ms) \<in> set (joined s)" "session_matches m friends (g, ms)" unfolding row by auto
    have "\<bar>uint (Attributes m ! 1) - uint (ms_attribs ms ! 1)\<bar> \<le> \<bar>uint (Attributes m ! 1) - uint (ms_attribs ms' ! 1)\<bar>"
      if o: "(g', ms') \<in> set (joined s)" "session_matches m friends (g', ms')" for g' ms'
      using order_by_first [OF Cons, of "(g', ms')"] o distance_defined [OF assms(3) o(1), of "Attributes m ! 1"]
        distance_defined [OF assms(3) r(1), of "Attributes m ! 1"] by (simp add: row)
    then show ?thesis
      using run r Cons session_matches_scan [OF r(2), of K] by (auto simp: row)
  qed
qed

text \<open>
  When a player can enter a session that fits the search, in the terms of the tables: the gathering
  is registered, of its type and has a host; the session is open and without passwords; someone is
  in it and a place is free; its capacity, mode, system type, code word and five of the six
  attributes are those of the search; and a session for friends only belongs to a friend.
\<close>

definition enterable :: "matchmake_session \<Rightarrow> u32 list \<Rightarrow> gathering_row \<Rightarrow> session_row \<Rightarrow> bool" where
  "enterable m friends g ms \<longleftrightarrow>
     g_registered g \<and> g_type g = ''MatchmakeSession'' \<and> g_host_pid g \<noteq> 0 \<and>
     ms_open_participation ms \<and> \<not> ms_user_password_enabled ms \<and> \<not> ms_system_password_enabled ms \<and>
     0 < length (g_participants g) \<and> length (g_participants g) < unat (g_max_participants g) \<and>
     g_max_participants g = MaximumParticipants m \<and> g_min_participants g = MinimumParticipants m \<and>
     ms_game_mode ms = GameMode m \<and> ms_matchmake_system_type ms = MatchmakeSystemType m \<and>
     ms_codeword ms = CodeWord m \<and> (\<forall>i < 6. i \<noteq> 1 \<longrightarrow> ms_attribs ms ! i = Attributes m ! i) \<and>
     (g_participation_policy g = 98 \<longrightarrow> g_owner_pid g \<in> ucast ` set friends)"

lemma matches_enterable:
  assumes "world_ok s" and "(g, ms) \<in> set (joined s)"
  shows "session_matches m friends (g, ms) \<longleftrightarrow> enterable m friends g ms"
proof -
  have six: "length (ms_attribs ms) = 6"
    using assms set_joined [of g ms s] by (auto simp: world_ok_def sessions_ok_def)
  have free: "int (length (g_participants g)) < uint (g_max_participants g) \<longleftrightarrow>
      length (g_participants g) < unat (g_max_participants g)"
    using of_nat_less_iff [of "length (g_participants g)" "unat (g_max_participants g)", where 'a = int] by simp
  have five: "(\<forall>i < 6. i \<noteq> 1 \<longrightarrow> P i) \<longleftrightarrow> P 0 \<and> P 2 \<and> P 3 \<and> P 4 \<and> P 5" for P :: "nat \<Rightarrow> bool"
  proof
    assume r: "P 0 \<and> P 2 \<and> P 3 \<and> P 4 \<and> P 5"
    have "i = 0 \<or> i = 2 \<or> i = 3 \<or> i = 4 \<or> i = 5" if "i < 6" "i \<noteq> 1" for i :: nat using that by arith
    then show "\<forall>i < 6. i \<noteq> 1 \<longrightarrow> P i" using r by blast
  qed simp
  show ?thesis
    unfolding session_matches_def enterable_def five prod.case sql_is_length sql_index_def six free by auto
qed

text \<open>
  C7: The automatic search answers with a session that the player can enter, or with none when the
  tables have none. The answer is a row of the tables, as it is stored there, that fits the search
  (\<open>enterable\<close>), and no other row that fits is nearer in the remaining attribute. The search never
  fails and changes nothing.
\<close>

theorem FindMatchmakeSession_nearest:
  assumes "db_faults s = []" and "length (Attributes m) = 6" and "world_ok s"
    and "FindMatchmakeSession K mgr c m s = (r, t)"
  shows "t = s \<and> (case r of
      Ok None \<Rightarrow> \<forall>g \<in> set (t_gatherings s). \<forall>ms \<in> set (t_sessions s). ms_id ms = g_id g \<longrightarrow>
        \<not> enterable m (friends_of mgr (conn_PID c)) g ms
    | Ok (Some found) \<Rightarrow> \<exists>g \<in> set (t_gatherings s). \<exists>ms \<in> set (t_sessions s). ms_id ms = g_id g \<and>
        enterable m (friends_of mgr (conn_PID c)) g ms \<and>
        ID found = word_of_nat (g_id g) \<and> OwnerPID found = g_owner_pid g \<and> HostPID found = g_host_pid g \<and>
        ParticipationPolicy found = g_participation_policy g \<and>
        MinimumParticipants found = MinimumParticipants m \<and> MaximumParticipants found = MaximumParticipants m \<and>
        unat (ParticipationCount found) = length (g_participants g) \<and>
        OpenParticipation found \<and> \<not> UserPasswordEnabled found \<and> \<not> SystemPasswordEnabled found \<and>
        GameMode found = GameMode m \<and> MatchmakeSystemType found = MatchmakeSystemType m \<and>
        CodeWord found = CodeWord m \<and> Attributes found = ms_attribs ms \<and> SessionKey found = ms_session_key ms \<and>
        (\<forall>g' \<in> set (t_gatherings s). \<forall>ms' \<in> set (t_sessions s). ms_id ms' = g_id g' \<and>
           enterable m (friends_of mgr (conn_PID c)) g' ms' \<longrightarrow>
           \<bar>uint (Attributes m ! 1) - uint (Attributes found ! 1)\<bar> \<le> \<bar>uint (Attributes m ! 1) - uint (ms_attribs ms' ! 1)\<bar>)
    | _ \<Rightarrow> False)"
  using run_FindMatchmakeSession [OF assms(1-3) refl, of K mgr c]
proof (elim disjE exE conjE)
  assume run: "FindMatchmakeSession K mgr c m s = (Ok None, s)"
    and none: "\<forall>row \<in> set (joined s). \<not> session_matches m (friends_of mgr (conn_PID c)) row"
  have "\<not> enterable m (friends_of mgr (conn_PID c)) g ms"
    if "g \<in> set (t_gatherings s)" "ms \<in> set (t_sessions s)" "ms_id ms = g_id g" for g ms
    using none that set_joined [of g ms s] matches_enterable [OF assms(3), of g ms] by blast
  then show ?thesis using run assms(4) by simp
next
  fix g ms
  let ?fs = "friends_of mgr (conn_PID c)"
  assume run: "FindMatchmakeSession K mgr c m s = (Ok (Some (read_session K g ms)), s)"
    and row: "(g, ms) \<in> set (joined s)" and m: "session_matches m ?fs (g, ms)"
    and near: "\<forall>g' ms'. (g', ms') \<in> set (joined s) \<and> session_matches m ?fs (g', ms') \<longrightarrow>
      \<bar>uint (Attributes m ! 1) - uint (ms_attribs ms ! 1)\<bar> \<le> \<bar>uint (Attributes m ! 1) - uint (ms_attribs ms' ! 1)\<bar>"
  have e: "enterable m ?fs g ms" using m matches_enterable [OF assms(3) row] by blast
  have "unat (g_max_participants g) < 2 ^ 16" using unsigned_less [of "g_max_participants g"] by simp
  have count: "unat (word_of_nat (length (g_participants g)) :: u32) = length (g_participants g)"
  proof (rule unat_of_nat_u32)
    have "length (g_participants g) < unat (g_max_participants g)" using e unfolding enterable_def by blast
    then show "length (g_participants g) < 2 ^ 32" using \<open>unat (g_max_participants g) < 2 ^ 16\<close> by simp
  qed
  have in_tables: "g \<in> set (t_gatherings s)" "ms \<in> set (t_sessions s)" "ms_id ms = g_id g"
    using row set_joined [of g ms s] by blast+
  have nearest: "\<bar>uint (Attributes m ! 1) - uint (ms_attribs ms ! 1)\<bar> \<le> \<bar>uint (Attributes m ! 1) - uint (ms_attribs ms' ! 1)\<bar>"
    if "g' \<in> set (t_gatherings s)" "ms' \<in> set (t_sessions s)" "ms_id ms' = g_id g' \<and> enterable m ?fs g' ms'" for g' ms'
    using near that set_joined [of g' ms' s] matches_enterable [OF assms(3), of g' ms'] by blast
  have r: "r = Ok (Some (read_session K g ms))" "t = s" using run assms(4) by simp_all
  show ?thesis
    unfolding r outcome.case option.case
  proof (intro conjI refl bexI [OF _ in_tables(1)] bexI [OF _ in_tables(2)] ballI impI in_tables(3) e)
    fix g' ms'
    assume "g' \<in> set (t_gatherings s)" "ms' \<in> set (t_sessions s)" "ms_id ms' = g_id g' \<and> enterable m ?fs g' ms'"
    from nearest [OF this]
    show "\<bar>uint (Attributes m ! 1) - uint (Attributes (read_session K g ms) ! 1)\<bar> \<le>
        \<bar>uint (Attributes m ! 1) - uint (ms_attribs ms' ! 1)\<bar>"
      by (simp add: read_session_def fill_session_def)
  qed (use e count in \<open>simp_all add: enterable_def read_session_def fill_session_def row_gathering_def\<close>)
qed

lemma FindMatchmakeSession_nearest_witness:
  "\<exists>found. FindMatchmakeSession sample_lib server_manager player3 sample_session sample_world = (Ok (Some found), sample_world) \<and>
    ID found = 1 \<and> GameMode found = 2 \<and> unat (ParticipationCount found) = 2"
proof -
  let ?run = "FindMatchmakeSession sample_lib server_manager player3 sample_session sample_world"
  have e: "enterable sample_session (friends_of server_manager (conn_PID player3)) sample_row sample_session_row"
  proof -
    have "(sample_row, sample_session_row) \<in> set (joined sample_world)" by (simp add: set_joined sample_session_row_def)
    moreover have "session_matches sample_session (friends_of server_manager (conn_PID player3)) (sample_row, sample_session_row)"
      by (simp add: session_matches_def sample_session_def sample_session_row_def sql_index_def sql_is_length sample_row_def)
    ultimately show ?thesis using matches_enterable [of sample_world] by simp
  qed
  obtain r t where run: "?run = (r, t)" by fastforce
  note nearest = FindMatchmakeSession_nearest [OF _ _ _ run, THEN conjunct2]
  have six: "length (Attributes sample_session) = 6" by (simp add: sample_session_def)
  have key: "ms_id sample_session_row = g_id sample_row" by (simp add: sample_session_row_def)
  obtain found where r: "r = Ok (Some found)"
    using nearest six e key by (auto split: outcome.splits option.splits)
  have "ID found = word_of_nat (g_id sample_row)" "GameMode found = GameMode sample_session"
    "unat (ParticipationCount found) = length (g_participants sample_row)"
    using nearest six by (simp_all add: r)
  moreover have "t = sample_world" using FindMatchmakeSession_nearest [OF _ six _ run] by simp
  ultimately show ?thesis using run by (simp add: r sample_session_def)
qed

section \<open>The search by criteria\<close>

text \<open>
  What one step of the loop returns: \<open>step_rows\<close> are the rows of its statement, cut from the
  rows that satisfy the criteria.
\<close>

lemma set_random_order: "set (random_order s rows) = set rows"
proof -
  have "set (random_order s rows) = (\<lambda>i. rows ! i) ` {0..<length rows}"
    by (simp add: random_order_def image_image)
  also have "\<dots> = set rows" by (metis list.set_map map_nth set_upt)
  finally show ?thesis .
qed

lemma set_ordered_rows [simp]: "set (ordered_rows ord s rows) = set rows"
  by (simp add: ordered_rows_def set_random_order)

lemma search_statement_rows:
  assumes "search_statement c nf ord l off s = (rows, t)"
  shows "set rows \<subseteq> set (filter (criteria_matches c nf) (joined s)) \<and> length rows \<le> unat l \<and> tables t = tables s"
proof -
  let ?all = "ordered_rows ord s (filter (criteria_matches c nf) (joined s))"
  have rows: "rows = take (unat l) (drop (unat off) ?all)" and t: "tables t = tables s"
    using assms by (auto simp: search_statement_def Let_def limit_offset_eq tables_def)
  have "set rows \<subseteq> set ?all" unfolding rows by (meson order_trans set_drop_subset set_take_subset)
  then show ?thesis using t by (simp add: rows)
qed

lemma joined_tables: "tables t = tables s \<Longrightarrow> joined t = joined s"
  by (simp add: tables_def joined_def)

lemma run_db_call_cases:
  assumes "db_call q s = (r, t)"
  obtains e where "r = Ok (Inl e)" "tables t = tables s"
  | a u where "r = Ok (Inr a)" "q u = (a, t)" "tables u = tables s"
proof (cases "db_faults s")
  case Nil
  obtain a u where q: "q s = (a, u)" by fastforce
  show ?thesis by (rule that(2) [of a s]) (use assms Nil q in \<open>simp_all add: db_call_def\<close>)
next
  case (Cons b bs)
  obtain a u where q: "q (s\<lparr>db_faults := bs\<rparr>) = (a, u)" by fastforce
  show ?thesis
  proof (cases b)
    case True
    show ?thesis by (rule that(1)) (use assms Cons True in \<open>auto simp: db_call_def tables_def\<close>)
  next
    case False
    show ?thesis
      by (rule that(2) [of a "s\<lparr>db_faults := bs\<rparr>"]) (use assms Cons False q in \<open>simp_all add: db_call_def tables_def\<close>)
  qed
qed

text \<open>The rows that one pass adds come from the joined tables and satisfy the criteria.\<close>

definition from_criteria :: "nexlib \<Rightarrow> mm_world \<Rightarrow> search_criteria \<Rightarrow> matchmake_session \<Rightarrow> bool" where
  "from_criteria K s c m \<longleftrightarrow> (\<exists>nf row. criteria_filters c = Some nf \<and> row \<in> set (joined s) \<and>
     criteria_matches c nf row \<and> scan_session K row = Some m)"

lemma search_one_step:
  assumes "search_one K rr source found c s = (Ok found', t)"
  shows "\<exists>new. found' = found @ new \<and> tables t = tables s \<and> (\<forall>m \<in> set new. from_criteria K s c m) \<and>
    length new \<le> unat (fst (criteria_range c rr (length found)))"
proof -
  obtain lim off where lim: "criteria_range c rr (length found) = (lim, off)" by fastforce
  define call where "call nf ord = (bindM (db_call (search_statement c nf ord lim off)) (\<lambda>r. case r of
      Inl _ \<Rightarrow> retM found | Inr rows \<Rightarrow> retM (found @ scan_rows K rows)))" for nf ord
  have "found' = found \<and> t = s \<or> (\<exists>nf ord. criteria_filters c = Some nf \<and> call nf ord s = (Ok found', t))"
    using assms unfolding search_one_def lim
    by (auto simp: call_def run_simps split: option.splits search_order.splits)
  then show ?thesis
  proof (elim disjE exE conjE)
    fix nf ord
    assume nf: "criteria_filters c = Some nf" and call: "call nf ord s = (Ok found', t)"
    have "found' = found \<and> tables t = tables s \<or> (\<exists>rows u. tables u = tables s \<and>
        search_statement c nf ord lim off u = (rows, t) \<and> found' = found @ scan_rows K rows)"
    proof -
      obtain r v where dc: "db_call (search_statement c nf ord lim off) s = (r, v)" by fastforce
      show ?thesis
        by (rule run_db_call_cases [OF dc]) (use call dc in \<open>auto simp: call_def bindM_def run_ret\<close>)
    qed
    then show ?thesis
    proof (elim disjE exE conjE)
      fix rows u
      assume u: "tables u = tables s" and st: "search_statement c nf ord lim off u = (rows, t)"
        and found': "found' = found @ scan_rows K rows"
      have "length (scan_rows K rows) \<le> length rows"
        by (simp add: scan_rows_def map_filter_def)
      moreover have "from_criteria K s c m" if m: "m \<in> set (scan_rows K rows)" for m
      proof -
        obtain row where "row \<in> set rows" "scan_session K row = Some m"
          using m by (force simp: scan_rows_def map_filter_def)
        moreover from this have "row \<in> set (joined s)" "criteria_matches c nf row"
          using search_statement_rows [OF st] joined_tables [OF u] by auto
        ultimately show ?thesis using nf unfolding from_criteria_def by blast
      qed
      ultimately show ?thesis
        using search_statement_rows [OF st] u lim by (intro exI [of _ "scan_rows K rows"]) (auto simp: found')
    qed auto
  qed auto
qed

lemma from_criteria_tables: "tables t = tables s \<Longrightarrow> from_criteria K t c m = from_criteria K s c m"
  using joined_tables [of t s] by (simp add: from_criteria_def)

lemma search_fold:
  assumes "foldM (search_one K rr source) found cs s = (Ok found', t)"
  shows "\<exists>new. found' = found @ new \<and> tables t = tables s \<and>
    (\<forall>m \<in> set new. \<exists>c \<in> set cs. from_criteria K s c m)"
  using assms
proof (induction cs arbitrary: found s)
  case Nil
  then show ?case by (auto simp: run_ret)
next
  case (Cons c cs)
  obtain mid u where step: "search_one K rr source found c s = (Ok mid, u)"
    and rest: "foldM (search_one K rr source) mid cs u = (Ok found', t)"
    using Cons.prems by (auto simp: bindM_def split: prod.splits outcome.splits)
  obtain new1 where new1: "mid = found @ new1" "tables u = tables s" "\<forall>m \<in> set new1. from_criteria K s c m"
    using search_one_step [OF step] by blast
  obtain new2 where new2: "found' = mid @ new2" "tables t = tables u"
    "\<forall>m \<in> set new2. \<exists>c \<in> set cs. from_criteria K u c m"
    using Cons.IH [OF rest] by blast
  show ?case
    using new1 new2 by (intro exI [of _ "new1 @ new2"]) (auto simp: from_criteria_tables [OF new1(2)])
qed

text \<open>
  What a session that answers a criteria is, in the terms of the request: every text of the
  criteria that is not empty is a number or a range, and the session's value is that number or in
  that range.
\<close>

definition fits_text :: "string \<Rightarrow> nat \<Rightarrow> int \<Rightarrow> bool" where
  "fits_text str bits n \<longleftrightarrow> (case parse_filter str bits of
     None \<Rightarrow> False | Some AnyNumber \<Rightarrow> str = [] | Some (EqualTo v) \<Rightarrow> n = v | Some (Between lo hi) \<Rightarrow> lo \<le> n \<and> n \<le> hi)"

definition answers :: "nexlib \<Rightarrow> mm_world \<Rightarrow> search_criteria \<Rightarrow> matchmake_session \<Rightarrow> bool" where
  "answers K s c m \<longleftrightarrow> (\<exists>g \<in> set (t_gatherings s). \<exists>ms \<in> set (t_sessions s). ms_id ms = g_id g \<and>
     g_registered g \<and> g_type g = ''MatchmakeSession'' \<and> scan_session K (g, ms) = Some m \<and>
     ReferGID m = sc_ReferGID c \<and> CodeWord m = sc_CodeWord c \<and>
     (ExcludeLocked c \<longrightarrow> OpenParticipation m) \<and> (ExcludeNonHostPID c \<longrightarrow> HostPID m \<noteq> 0) \<and>
     (ExcludeUserPasswordSet c \<longrightarrow> \<not> UserPasswordEnabled m) \<and>
     (ExcludeSystemPasswordSet c \<longrightarrow> \<not> SystemPasswordEnabled m) \<and>
     (VacantOnly c \<longrightarrow> length (g_participants g) + max 1 (unat (VacantParticipants c)) \<le> unat (MaximumParticipants m)) \<and>
     fits_text (MaxParticipants c) 16 (uint (MaximumParticipants m)) \<and>
     fits_text (MinParticipants c) 16 (uint (MinimumParticipants m)) \<and>
     fits_text (sc_GameMode c) 32 (uint (GameMode m)) \<and>
     fits_text (sc_MatchmakeSystemType c) 32 (uint (MatchmakeSystemType m)) \<and>
     length (Attributes m) = length (Attribs c) \<and>
     (\<forall>i < length (Attribs c). i \<noteq> 1 \<longrightarrow> fits_text (Attribs c ! i) 32 (uint (Attributes m ! i))))"

lemma parse_filter_any: "parse_filter str bits = Some AnyNumber \<Longrightarrow> str = []"
  by (auto simp: parse_filter_def split: if_splits prod.splits option.splits)

lemma filter_fits:
  assumes "parse_filter str bits = Some f" and "filter_holds f n"
  shows "fits_text str bits n"
  using assms parse_filter_any [of str bits] by (cases f) (simp_all add: fits_text_def)

lemma attrib_filters_fit:
  assumes "attrib_filters i ts = Some fs" and "\<forall>f \<in> set fs. attrib_holds vs f" and "k < length ts" and "i + k \<noteq> 1"
    and "i + k < length vs"
  shows "fits_text (ts ! k) 32 (uint (vs ! (i + k)))"
  using assms
proof (induction ts arbitrary: i fs k)
  case (Cons a ts)
  show ?case
  proof (cases k)
    case 0
    then obtain f where f: "parse_filter a 32 = Some f" and "(i + 1, f) \<in> set fs"
      using Cons.prems by (auto split: option.splits if_splits)
    then have "attrib_holds vs (i + 1, f)" using Cons.prems(2) by blast
    moreover have "sql_index vs (i + 1) = Some (vs ! i)" using Cons.prems(5) 0 by (simp add: sql_index_def)
    ultimately have "filter_holds f (uint (vs ! i))" by (cases f) (simp_all add: attrib_holds_def)
    then show ?thesis using filter_fits [OF f] 0 by simp
  next
    case (Suc j)
    obtain fs' where "attrib_filters (i + 1) ts = Some fs'" and "fs = fs' \<or> (\<exists>f. fs = f # fs')"
      using Cons.prems(1) by (auto split: option.splits if_splits)
    then have "\<forall>f \<in> set fs'. attrib_holds vs f" using Cons.prems(2) by auto
    with \<open>attrib_filters (i + 1) ts = Some fs'\<close> have "fits_text (ts ! j) 32 (uint (vs ! (i + 1 + j)))"
      by (rule Cons.IH) (use Cons.prems(3-5) Suc in simp_all)
    then show ?thesis using Suc by simp
  qed
qed simp

lemma criteria_filters_parse:
  assumes "criteria_filters c = Some nf"
  shows "attrib_filters 0 (Attribs c) = Some (nf_attribs nf)"
    and "parse_filter (MaxParticipants c) 16 = Some (nf_max_participants nf)"
    and "parse_filter (MinParticipants c) 16 = Some (nf_min_participants nf)"
    and "parse_filter (sc_GameMode c) 32 = Some (nf_game_mode nf)"
    and "parse_filter (sc_MatchmakeSystemType c) 32 = Some (nf_system_type nf)"
  using assms by (auto simp: criteria_filters_def split: option.splits)

lemma from_criteria_answers:
  assumes "from_criteria K s c m"
  shows "answers K s c m"
proof -
  obtain nf g ms where nf: "criteria_filters c = Some nf" and row: "(g, ms) \<in> set (joined s)"
    and match: "criteria_matches c nf (g, ms)" and scan: "scan_session K (g, ms) = Some m"
    using assms by (auto simp: from_criteria_def)
  have m: "Attributes m = ms_attribs ms" "OpenParticipation m = ms_open_participation ms" "HostPID m = g_host_pid g"
    "UserPasswordEnabled m = ms_user_password_enabled ms" "SystemPasswordEnabled m = ms_system_password_enabled ms"
    "GameMode m = ms_game_mode ms" "MatchmakeSystemType m = ms_matchmake_system_type ms" "CodeWord m = ms_codeword ms"
    "ReferGID m = ms_refer_gid ms" "MaximumParticipants m = g_max_participants g" "MinimumParticipants m = g_min_participants g"
    using scan by (auto simp: scan_session_def fill_session_def row_gathering_def split: option.splits)
  have vacant: "length (g_participants g) + max 1 (unat (VacantParticipants c)) \<le> unat (g_max_participants g)"
    if "VacantOnly c"
  proof -
    have "int (length (g_participants g)) + vacant_needed c \<le> int (unat (g_max_participants g))"
      using match that by (auto simp: criteria_matches_def sql_is_length)
    moreover have "vacant_needed c = int (max 1 (unat (VacantParticipants c)))"
      by (auto simp: vacant_needed_def max_def unat_eq_0 not_le)
    ultimately have "int (length (g_participants g) + max 1 (unat (VacantParticipants c))) \<le> int (unat (g_max_participants g))"
      by simp
    then show ?thesis by (simp only: of_nat_le_iff)
  qed
  note parse = criteria_filters_parse [OF nf]
  have len: "length (ms_attribs ms) = length (Attribs c)"
    and attribs: "\<forall>f \<in> set (nf_attribs nf). attrib_holds (ms_attribs ms) f"
    using match by (auto simp: criteria_matches_def sql_is_length list_all_iff)
  have fits: "fits_text (MaxParticipants c) 16 (uint (g_max_participants g))"
    "fits_text (MinParticipants c) 16 (uint (g_min_participants g))"
    "fits_text (sc_GameMode c) 32 (uint (ms_game_mode ms))"
    "fits_text (sc_MatchmakeSystemType c) 32 (uint (ms_matchmake_system_type ms))"
    using match by (auto simp: criteria_matches_def intro: filter_fits [OF parse(2)] filter_fits [OF parse(3)]
      filter_fits [OF parse(4)] filter_fits [OF parse(5)])
  have each: "fits_text (Attribs c ! i) 32 (uint (ms_attribs ms ! i))" if "i < length (Attribs c)" "i \<noteq> 1" for i
    using attrib_filters_fit [OF parse(1) attribs, of i] that len by simp
  have "g \<in> set (t_gatherings s)" "ms \<in> set (t_sessions s)" "ms_id ms = g_id g"
    using row set_joined [of g ms s] by blast+
  then show ?thesis
    unfolding answers_def
    by (intro bexI [of _ g] bexI [of _ ms] conjI)
      (use match scan vacant fits each len in \<open>simp_all add: m criteria_matches_def\<close>)
qed

text \<open>
  C8: A search by criteria returns nothing but sessions that answer one of the criteria: stored and
  registered ones with the criteria's reference and code word; open, hosted and without password
  when the criteria excludes the others; with enough free places when only vacant ones are wanted;
  and with a capacity, a mode, a system type and attributes, the second one apart, that are what the
  criteria's texts say. The search changes no table, whichever statements fail.
\<close>

theorem search_by_criteria_sound:
  assumes "FindMatchmakeSessionBySearchCriteria K connection cs rr source s = (Ok found, t)"
  shows "tables t = tables s \<and> (\<forall>m \<in> set found. \<exists>c \<in> set cs. answers K s c m)"
proof -
  obtain rr' where fold: "foldM (search_one K rr' source) [] cs s = (Ok found, t)"
    using assms by (auto simp: FindMatchmakeSessionBySearchCriteria_def Let_def)
  then show ?thesis
    using search_fold [OF fold] from_criteria_answers by fastforce
qed

definition sample_criteria :: search_criteria where
  "sample_criteria = \<lparr> Attribs = [[], [], [], [], [], []], sc_GameMode = ''2'', MinParticipants = [],
     MaxParticipants = [], sc_MatchmakeSystemType = [], VacantOnly = True, ExcludeLocked = True,
     ExcludeNonHostPID = False, SelectionMethod = 9, VacantParticipants = 2,
     ExcludeUserPasswordSet = True, ExcludeSystemPasswordSet = True, sc_ReferGID = 0, sc_CodeWord = [],
     ResultRange = \<lparr> RangeOffset = 0, RangeLength = 0 \<rparr> \<rparr>"

definition sample_filters :: number_filters where
  "sample_filters = \<lparr> nf_attribs = [(1, AnyNumber), (3, AnyNumber), (4, AnyNumber), (5, AnyNumber), (6, AnyNumber)],
     nf_max_participants = AnyNumber, nf_min_participants = AnyNumber, nf_game_mode = EqualTo 2,
     nf_system_type = AnyNumber \<rparr>"

lemma sample_criteria_filters: "criteria_filters sample_criteria = Some sample_filters"
  by (simp add: criteria_filters_def sample_criteria_def parse_filter_def ParseUint_def digit_value_def is_digit_def
    of_char_def horner_sum_eq_sum sample_filters_def)

lemma sample_joined: "joined sample_world = [(sample_row, sample_session_row)]"
  by (simp add: joined_def sample_session_row_def)

lemma sample_matches: "criteria_matches sample_criteria sample_filters (sample_row, sample_session_row)"
  by (simp add: criteria_matches_def sample_criteria_def sample_session_row_def sample_row_def sql_is_length
    vacant_needed_def attrib_holds_def sample_filters_def)

lemma sample_order: "selection_order sample_lib sample_criteria None = ServerOrder"
  by (simp add: selection_order_def sample_criteria_def)

lemma sample_scan: "scan_rows sample_lib [(sample_row, sample_session_row)] =
    [read_session sample_lib sample_row sample_session_row]"
  by (simp add: scan_rows_def map_filter_def scan_session_def read_session_def)

lemma server_order: "order_by (order_key ServerOrder) rows = rows"
  by (simp add: order_by_def sort_key_const)

lemma sample_found:
  "FindMatchmakeSessionBySearchCriteria sample_lib player3 [sample_criteria] \<lparr> RangeOffset = 0, RangeLength = 5 \<rparr> None
    sample_world = (Ok [read_session sample_lib sample_row sample_session_row], sample_world)"
proof -
  have "criteria_range sample_criteria \<lparr> RangeOffset = 0, RangeLength = 5 \<rparr> 0 = (5, 0)"
    by (simp add: criteria_range_def sample_criteria_def)
  then show ?thesis
    by (simp add: FindMatchmakeSessionBySearchCriteria_def search_one_def sample_criteria_filters sample_order bindM_def
      db_call_def search_statement_def sample_joined sample_matches ordered_rows_def server_order limit_offset_eq
      sample_scan run_ret)
qed

lemma search_by_criteria_sound_witness:
  "answers sample_lib sample_world sample_criteria (read_session sample_lib sample_row sample_session_row)"
  using search_by_criteria_sound [OF sample_found] by simp

section \<open>The result range\<close>

lemma search_fold_bound:
  assumes "\<forall>c \<in> set cs. RangeLength (ResultRange c) = 0" and "length found \<le> unat (RangeLength rr)"
    and "foldM (search_one K rr source) found cs s = (Ok found', t)"
  shows "length found' \<le> unat (RangeLength rr)"
  using assms
proof (induction cs arbitrary: found s)
  case Nil
  then show ?case by (simp add: run_ret)
next
  case (Cons c cs)
  obtain mid u where step: "search_one K rr source found c s = (Ok mid, u)"
    and rest: "foldM (search_one K rr source) mid cs u = (Ok found', t)"
    using Cons.prems(3) by (auto simp: bindM_def split: prod.splits outcome.splits)
  have small: "length found < 2 ^ 32" proof -
    have "unat (RangeLength rr) < 2 ^ 32" using unsigned_less [where 'a = nat and w = "RangeLength rr"] by simp
    then show ?thesis using Cons.prems(2) by linarith
  qed
  then have n: "unat (word_of_nat (length found) :: u32) = length found" by (rule unat_of_nat_u32)
  then have "(word_of_nat (length found) :: u32) \<le> RangeLength rr" using Cons.prems(2) by (simp add: word_le_nat_alt)
  then have "unat (RangeLength rr - word_of_nat (length found)) = unat (RangeLength rr) - length found"
    using n by (simp add: unat_sub)
  then have "length mid \<le> unat (RangeLength rr)"
    using search_one_step [OF step] Cons.prems(1,2) by (auto simp: criteria_range_def)
  then show ?case using Cons.IH [OF _ _ rest] Cons.prems(1) by simp
qed

text \<open>
  When no criteria has a range of its own, the search returns at most as many sessions as the
  common range asks for, over all criteria together.
\<close>

lemma search_within_range:
  assumes "\<forall>c \<in> set cs. RangeLength (ResultRange c) = 0"
    and "FindMatchmakeSessionBySearchCriteria K connection cs rr source s = (Ok found, t)"
  shows "length found \<le> unat (RangeLength rr)"
proof -
  obtain rr' where rr': "RangeLength rr' = RangeLength rr" and "foldM (search_one K rr' source) [] cs s = (Ok found, t)"
  proof
    let ?rr = "if RangeOffset rr = - 1 then rr\<lparr>RangeOffset := 0\<rparr> else rr"
    show "RangeLength ?rr = RangeLength rr" by simp
    show "foldM (search_one K ?rr source) [] cs s = (Ok found, t)"
      using assms(2) by (simp add: FindMatchmakeSessionBySearchCriteria_def Let_def)
  qed
  then show ?thesis using search_fold_bound [OF assms(1), of "[]" rr'] by fastforce
qed

lemma search_within_range_witness:
  "length [read_session sample_lib sample_row sample_session_row] \<le> unat (5 :: u32)"
  using search_within_range [OF _ sample_found] by (simp add: sample_criteria_def)

text \<open>
  Once a criteria with a range of its own has produced more sessions than the common range
  allows, the next criteria gets no limit at all: the remaining length is computed by an unsigned
  subtraction that wraps, and the statement returns every row that matches.
\<close>

lemma remaining_range_wraps:
  assumes "db_faults s = []" and "criteria_filters c = Some nf" and "selection_order K c source = ServerOrder"
    and "RangeLength (ResultRange c) = 0" and "RangeOffset rr = 0"
    and "unat (RangeLength rr) < length found" and "length found < 2 ^ 31" and "length (joined s) < 2 ^ 31"
  shows "search_one K rr source found c s =
    (Ok (found @ scan_rows K (filter (criteria_matches c nf) (joined s))), s)"
proof -
  let ?n = "word_of_nat (length found) :: u32"
  let ?rows = "filter (criteria_matches c nf) (joined s)"
  have n: "unat ?n = length found" using assms(7) by (intro unat_of_nat_u32) simp
  have "unat (RangeLength rr - ?n) = unat (RangeLength rr) + 2 ^ 32 - length found"
    using assms(6) n by (simp add: unat_sub_if')
  moreover have "length ?rows \<le> length (joined s)" by simp
  moreover have "(2::nat) ^ 32 = 2 ^ 31 + 2 ^ 31" by simp
  ultimately have "length ?rows \<le> unat (RangeLength rr - ?n)" using assms(7,8) by linarith
  then have take: "take (unat (RangeLength rr - ?n)) ?rows = ?rows" by simp
  show ?thesis
    using assms(1-5)
    by (simp add: search_one_def criteria_range_def bindM_def db_call_def search_statement_def Let_def ordered_rows_def
      server_order limit_offset_eq take run_ret)
qed

lemma remaining_range_wraps_witness:
  "search_one sample_lib \<lparr> RangeOffset = 0, RangeLength = 0 \<rparr> None [sample_session] sample_criteria sample_world =
    (Ok [sample_session, read_session sample_lib sample_row sample_session_row], sample_world)"
  using remaining_range_wraps [OF _ sample_criteria_filters sample_order, of sample_world
      "\<lparr> RangeOffset = 0, RangeLength = 0 \<rparr>" "[sample_session]"] sample_matches
  by (simp add: sample_joined sample_scan) (simp add: sample_criteria_def)

text \<open>
  A client can stop the server: browsing with a method that reads \<open>Attribs[1]\<close>, and with fewer
  than two attributes in the criteria, indexes out of range while the mutex is held.
\<close>

lemma short_attributes_panic:
  assumes "w_mutex s = Unlocked" and "CleanupMatchmakeSessionSearchCriterias P = Some (\<lambda>cs. cs)"
    and "length (Attribs c) < 2" and "criteria_filters c = Some nf"
    and "SelectionMethod c = SelectionMethodNearestNeighbor K \<or> SelectionMethod c = SelectionMethodBroadenRange K"
    and "SelectionMethod c \<noteq> SelectionMethodRandom K"
  shows "browseMatchmakeSession K P False connection callID c rr s = (Panic, s\<lparr>w_mutex := RLocked\<rparr>)"
proof -
  have "selection_order K c None = IndexPanic"
    using assms(3,5,6) by (auto simp: selection_order_def)
  then have "FindMatchmakeSessionBySearchCriteria K connection [c] rr None u = (Panic, u)" for u
    using assms(4) by (simp add: FindMatchmakeSessionBySearchCriteria_def search_one_def run_panic Let_def)
  then show ?thesis
    using assms(1,2) by (simp add: browseMatchmakeSession_def run_lock_bind Let_def run_or_unlock_Panic)
qed

lemma short_attributes_panic_witness:
  "browseMatchmakeSession sample_lib server_protocol False player3 7
    (sample_criteria\<lparr>Attribs := [''1''], SelectionMethod := 1\<rparr>) \<lparr> RangeOffset = 0, RangeLength = 5 \<rparr> sample_world =
   (Panic, sample_world\<lparr>w_mutex := RLocked\<rparr>)"
proof -
  have "\<exists>nf. criteria_filters (sample_criteria\<lparr>Attribs := [''1''], SelectionMethod := 1\<rparr>) = Some nf"
    by (simp add: criteria_filters_def sample_criteria_def parse_filter_def ParseUint_def digit_value_def is_digit_def
      of_char_def horner_sum_eq_sum)
  then show ?thesis
    using short_attributes_panic [of sample_world server_protocol
        "sample_criteria\<lparr>Attribs := [''1''], SelectionMethod := 1\<rparr>" _ sample_lib player3 7]
    by (auto simp: server_protocol_def)
qed

section \<open>The order of the results\<close>

lemma order_by_total:
  assumes "\<And>r. r \<in> set rows \<Longrightarrow> k r \<noteq> None"
  shows "order_by k rows = sort_key (\<lambda>r. the (k r)) rows"
proof -
  have "filter (\<lambda>r. k r \<noteq> None) rows = rows" "filter (\<lambda>r. k r = None) rows = []"
    using assms by (simp_all add: filter_empty_conv)
  then show ?thesis by (simp add: order_by_def)
qed

lemma sorted_map_filter:
  assumes "sorted (map f rows)" and "\<And>r m. g r = Some m \<Longrightarrow> h m = f r"
  shows "sorted (map h (List.map_filter g rows))"
proof -
  have "map h (List.map_filter g rows) = map f (filter (\<lambda>r. g r \<noteq> None) rows)"
    by (induction rows) (auto simp: map_filter_def assms(2))
  then show ?thesis using sorted_filter [OF assms(1)] by simp
qed

text \<open>
  With the nearest-neighbor method a criteria's results come in the order of their distance
  from the requested value of the second attribute, when every statement succeeds and no result
  has been found before.
\<close>

lemma nearest_neighbor_sorted:
  assumes "db_faults s = []" and "world_ok s" and "criteria_filters c = Some nf"
    and "selection_order K c source = NearestAttribute a"
    and "search_one K rr source [] c s = (Ok found, t)"
  shows "sorted (map (\<lambda>m. \<bar>a - uint (Attributes m ! 1)\<bar>) found) \<and> t = s"
proof -
  obtain lim off where lim: "criteria_range c rr 0 = (lim, off)" by fastforce
  let ?key = "order_key (NearestAttribute a)"
  let ?rows = "filter (criteria_matches c nf) (joined s)"
  have len: "\<forall>r \<in> set (t_sessions s). length (ms_attribs r) = 6"
    using assms(2) by (simp add: world_ok_def sessions_ok_def)
  have "snd row \<in> set (t_sessions s)" if "row \<in> set ?rows" for row
    using that set_joined [of "fst row" "snd row" s] by simp
  then have key: "?key row = Some \<bar>a - uint (ms_attribs (snd row) ! 1)\<bar>" if "row \<in> set ?rows" for row
    using that len by (simp add: attribs2_def sql_index_def)
  have "order_by ?key ?rows = sort_key (\<lambda>r. the (?key r)) ?rows"
    by (rule order_by_total) (simp add: key del: order_key.simps set_filter)
  then have sorted: "sorted (map (\<lambda>r. the (?key r)) (order_by ?key ?rows))" by (simp only: sorted_sort_key)
  let ?cut = "take (unat lim) (drop (unat off) (order_by ?key ?rows))"
  have cut: "set ?cut \<subseteq> set ?rows"
    using set_take_subset set_drop_subset set_order_by by (metis order_trans)
  have "sorted (map (\<lambda>r. the (?key r)) ?cut)"
    using sorted by (simp only: take_map [symmetric] drop_map [symmetric] sorted_wrt_take sorted_wrt_drop)
  moreover have "map (\<lambda>r. the (?key r)) ?cut = map (\<lambda>row. \<bar>a - uint (ms_attribs (snd row) ! 1)\<bar>) ?cut"
    by (rule map_cong [OF refl]) (simp only: key [OF subsetD [OF cut]] option.sel)
  ultimately have cut_sorted: "sorted (map (\<lambda>row. \<bar>a - uint (ms_attribs (snd row) ! 1)\<bar>) ?cut)" by (simp only:)
  have "Attributes m = ms_attribs (snd r)" if "scan_session K r = Some m" for r m
    using that by (cases r) (auto simp: scan_session_def fill_session_def split: option.splits)
  then have scan: "sorted (map (\<lambda>m. \<bar>a - uint (Attributes m ! 1)\<bar>) (scan_rows K ?cut))"
    unfolding scan_rows_def by (intro sorted_map_filter [OF cut_sorted]) (simp only:)
  have "found = scan_rows K ?cut \<and> t = s"
    using assms(1,3,4,5) lim by (auto simp: search_one_def bindM_def db_call_def search_statement_def Let_def
      ordered_rows_def limit_offset_eq run_ret)
  then show ?thesis using scan by simp
qed

lemma nearest_neighbor_sorted_witness:
  "\<exists>found. search_one sample_lib \<lparr> RangeOffset = 0, RangeLength = 5 \<rparr> None []
      (sample_criteria\<lparr>Attribs := [[], ''9'', [], [], [], []], SelectionMethod := 1\<rparr>) sample_world = (Ok found, sample_world) \<and>
    sorted (map (\<lambda>m. \<bar>9 - uint (Attributes m ! 1)\<bar>) found)"
proof -
  let ?c = "sample_criteria\<lparr>Attribs := [[], ''9'', [], [], [], []], SelectionMethod := 1\<rparr>"
  have filters: "criteria_filters ?c = Some sample_filters"
    by (simp add: criteria_filters_def sample_criteria_def parse_filter_def ParseUint_def digit_value_def is_digit_def
      of_char_def horner_sum_eq_sum sample_filters_def)
  have order: "selection_order sample_lib ?c None = NearestAttribute 9"
    by (simp add: selection_order_def attribute1_def ParseUint_def digit_value_def is_digit_def of_char_def horner_sum_eq_sum)
  obtain lim off where lim: "criteria_range ?c \<lparr> RangeOffset = 0, RangeLength = 5 \<rparr> 0 = (lim, off)" by fastforce
  have "\<exists>found t. search_one sample_lib \<lparr> RangeOffset = 0, RangeLength = 5 \<rparr> None [] ?c sample_world = (Ok found, t)"
    by (simp add: search_one_def filters order lim bindM_def db_call_def search_statement_def Let_def run_ret)
  then show ?thesis
    using nearest_neighbor_sorted [OF _ _ filters order, of sample_world] by fastforce
qed

section \<open>The decimal strings of a criteria\<close>

lemma Cut_absent: "sep \<notin> set s \<Longrightarrow> Cut s sep = (s, [], False)"
  by (induction s) auto

lemma Cut_first: "sep \<notin> set s \<Longrightarrow> Cut (s @ sep # rest) sep = (s, rest, True)"
  by (induction s) auto

text \<open>
  C13: The strings of a criteria are read back as they were written: a printed number is an
  equality, two printed numbers with a comma between them are a range, and a number that does
  not fit its column makes the criteria invalid.
\<close>

theorem parse_filter_roundtrip:
  "parse_filter (decimal n) bits = (if n < 2 ^ bits then Some (EqualTo (int n)) else None) \<and>
   parse_filter (decimal lo @ CHR '','' # decimal hi) bits =
     (if lo < 2 ^ bits \<and> hi < 2 ^ bits then Some (Between (int lo) (int hi)) else None)"
  using decimal_digits [of n] decimal_digits [of lo]
  by (simp add: parse_filter_def Cut_absent Cut_first ParseUint_decimal)

section \<open>Two helpers\<close>

text \<open>
  \<open>RemoveDuplicates\<close> keeps the first occurrence of every value, in the order of the list; its
  result has the same values, each once.
\<close>

lemma RemoveDuplicates_spec:
  "RemoveDuplicates xs = first_occurrences xs \<and> distinct (RemoveDuplicates xs) \<and>
   set (RemoveDuplicates xs) = set xs \<and> length (RemoveDuplicates xs) = card (set xs)"
  using RemoveDuplicates_eq [of xs] length_RemoveDuplicates [of xs] by simp

lemma rune_size_bounds: "1 \<le> rune_size c cs \<and> rune_size c cs \<le> 4 \<and> rune_size c cs \<le> 1 + length cs"
  by (auto simp: rune_size_def split: list.splits)

text \<open>
  The rune count of a string is at most its byte length and at least a quarter of it; for a
  string of single-byte characters it is the length. So the limit of 256 runes on the text of a
  notification admits at most 1024 bytes.
\<close>

lemma RuneCountInString_bounds:
  "RuneCountInString s \<le> length s \<and> length s \<le> 4 * RuneCountInString s \<and>
   (list_all (\<lambda>c. (of_char c :: nat) < 128) s \<longrightarrow> RuneCountInString s = length s)"
proof (induction s rule: RuneCountInString.induct)
  case (2 c cs)
  have "rune_size c cs = 1" if "(of_char c :: nat) < 128"
    using that by (simp add: rune_size_def byte_in_def)
  moreover have "list_all P cs \<Longrightarrow> list_all P (drop n cs)" for P n
    by (auto simp: list_all_iff dest: in_set_dropD)
  ultimately show ?case
    using 2 rune_size_bounds [of c cs] by auto
qed simp

lemma RuneCountInString_bounds_witness:
  "RuneCountInString ''friends'' = 7"
  using RuneCountInString_bounds [of "''friends''"] by (simp add: of_char_def horner_sum_eq_sum)

end
