(* ===== verification/Ranking_Db.thy ===== *)
theory Ranking_Db
  imports Sql_Lists Nex_Types
begin

text \<open>
  The leaderboards of the game (\<open>src/database/hyrulewarriors_*.go\<close>): the score upload with its
  transaction, the ranking query with its windows, and the common data of a player. The columns
  are signed 64-bit numbers, so the unsigned values of the protocol pass through \<open>int64\<close>.
\<close>

section \<open>Tables\<close>

record ranking_row =
  r_owner_pid :: int
  r_unique_id :: int
  r_category :: int
  r_score :: int
  r_order_by :: int
  r_update_mode :: int
  r_groups :: bytes
  r_param :: int
  r_updated_at :: int

record category_row =
  rc_category :: int
  rc_order_by :: int
  rc_created_at :: int

record common_data_row =
  cd_unique_id :: int
  cd_owner_pid :: int
  cd_common_data :: bytes
  cd_updated_at :: int

record rk_world = db_env +
  t_rankings :: "ranking_row list"
  t_categories :: "category_row list"
  t_common :: "common_data_row list"
  rk_now :: int

type_synonym 'a rk = "(rk_world, 'a) nex"

definition int64 :: "u64 \<Rightarrow> int" where
  "int64 w = sint w"

lemma uint64_int64 [simp]: "word_of_int (int64 w) = w"
  by (simp add: int64_def)

lemma int64_eq [simp]: "int64 v = int64 w \<longleftrightarrow> v = w"
  by (metis uint64_int64)

section \<open>Uploading a score\<close>

record score_data =
  sd_Category :: u32
  sd_Score :: u32
  sd_OrderBy :: u8
  sd_UpdateMode :: u8
  sd_Groups :: bytes
  sd_Param :: u64

definition ranking_key :: "ranking_row \<Rightarrow> int \<times> int \<times> int" where
  "ranking_key r = (r_unique_id r, r_owner_pid r, r_category r)"

definition score_row :: "pid \<Rightarrow> score_data \<Rightarrow> u64 \<Rightarrow> int \<Rightarrow> ranking_row" where
  "score_row p d uniqueID now = \<lparr> r_owner_pid = int64 p, r_unique_id = int64 uniqueID,
     r_category = uint (sd_Category d), r_score = uint (sd_Score d), r_order_by = uint (sd_OrderBy d),
     r_update_mode = uint (sd_UpdateMode d), r_groups = sd_Groups d, r_param = int64 (sd_Param d),
     r_updated_at = now \<rparr>"

text \<open>
  \<open>ON CONFLICT ... DO UPDATE SET ... WHERE\<close>: the stored row is replaced when the upload asks for
  it (update mode 1) or is better in the order that the stored row has.
\<close>

definition replaces :: "ranking_row \<Rightarrow> ranking_row \<Rightarrow> bool" where
  "replaces new old \<longleftrightarrow> r_update_mode new = 1 \<or>
     r_order_by old = 0 \<and> r_score new < r_score old \<or>
     r_order_by old = 1 \<and> r_score new > r_score old"

definition overwrite :: "ranking_row \<Rightarrow> ranking_row \<Rightarrow> ranking_row" where
  "overwrite new old = (if replaces new old
     then old\<lparr>r_score := r_score new, r_order_by := r_order_by new, r_update_mode := r_update_mode new,
       r_groups := r_groups new, r_param := r_param new, r_updated_at := r_updated_at new\<rparr>
     else old)"

interpretation rankings: upsert_table ranking_key "overwrite new" new for new
  by unfold_locales (simp add: ranking_key_def overwrite_def)

text \<open>
  A transaction: what its body did to the tables is undone when the body fails or the commit
  does. A Go \<open>error\<close> without a result code is \<open>Err Core_Unknown\<close>; the handlers only test it.
\<close>

definition rollback :: "rk_world \<Rightarrow> rk_world \<Rightarrow> rk_world" where
  "rollback begin s = s\<lparr>t_rankings := t_rankings begin, t_categories := t_categories begin,
     t_common := t_common begin\<rparr>"

definition commit_or_rollback :: "rk_world \<Rightarrow> unit outcome \<times> rk_world \<Rightarrow> unit outcome \<times> rk_world" where
  "commit_or_rollback begin rs = (case rs of
     (Ok _, s) \<Rightarrow> (case db_call (\<lambda>t. ((), t)) s of
         (Ok (Inr _), t) \<Rightarrow> (Ok (), t)
       | (_, t) \<Rightarrow> (Err Core_Unknown, rollback begin t))
   | (r, s) \<Rightarrow> (r, rollback begin s))"

definition transaction :: "unit rk \<Rightarrow> unit rk" where
  "transaction body =
     bindM (db_call (\<lambda>s. ((), s))) (\<lambda>r. case r of
       Inl _ \<Rightarrow> throwM Core_Unknown
     | Inr _ \<Rightarrow> (\<lambda>s. commit_or_rollback s (body s)))"

definition HyruleWarriorsInsertRankingByPIDAndRankingScoreData ::
  "pid \<Rightarrow> score_data \<Rightarrow> u64 \<Rightarrow> unit rk" where
  "HyruleWarriorsInsertRankingByPIDAndRankingScoreData p d uniqueID =
    (if sd_OrderBy d > 1 then throwM Core_Unknown
     else if sd_UpdateMode d > 1 then throwM Core_Unknown
     else
       bindM (getM rk_now) (\<lambda>now.
       transaction (
         bindM (sql_exec (\<lambda>_. 1) (\<lambda>s. s\<lparr>t_categories :=
             upsert rc_category (\<lambda>c. c)
               \<lparr> rc_category = uint (sd_Category d), rc_order_by = uint (sd_OrderBy d), rc_created_at = now \<rparr>
               (t_categories s)\<rparr>)) (\<lambda>r.
         ok_or Core_Unknown r (\<lambda>_.
         bindM (sql_exec (\<lambda>_. 1) (\<lambda>s. s\<lparr>t_rankings :=
             upsert ranking_key (overwrite (score_row p d uniqueID now)) (score_row p d uniqueID now)
               (t_rankings s)\<rparr>)) (\<lambda>r.
         ok_or Core_Unknown r (\<lambda>_. retM ())))))))"

section \<open>The ranking query\<close>

record order_param =
  op_OrderCalculation :: u8
  op_GroupIndex :: u8
  op_GroupNum :: u8
  op_Offset :: u32
  op_Length :: u32

record rank_data =
  rd_PrincipalID :: pid
  rd_UniqueID :: u64
  rd_Order :: u32
  rd_Category :: u32
  rd_Score :: u32
  rd_Groups :: bytes
  rd_Param :: u64
  rd_CommonData :: bytes
  rd_UpdateTime :: u64

text \<open>
  Taken from outside the repository: the constant of the protocol package, the packing of a
  Unix time into the library's \<open>DateTime\<close>, and what the \<open>DateTime\<close> field of a fresh structure
  holds after a call \<open>x.FromTimestamp(t)\<close> whose result is dropped.
\<close>

record rank_lib =
  FilterGroupIndexNone :: u8
  FromTimestamp_receiver :: "int \<Rightarrow> u64"
  RkDateTimeFromTimestamp :: "int \<Rightarrow> u64"

definition rankingModeRange :: u8 where "rankingModeRange = 0"
definition rankingModeUser :: u8 where "rankingModeUser = 4"
definition rankingModeNearHyruleWarriors :: u8 where "rankingModeNearHyruleWarriors = 1"
definition rankingModeFriendRangeHyruleWarriors :: u8 where "rankingModeFriendRangeHyruleWarriors = 2"
definition maxRankingRows :: u32 where "maxRankingRows = 1000"

lemmas ranking_modes = rankingModeRange_def rankingModeUser_def rankingModeNearHyruleWarriors_def
  rankingModeFriendRangeHyruleWarriors_def

text \<open>A row of \<open>base\<close>: the ranking with the columns of the two left joins.\<close>

record base_row =
  b_row :: ranking_row
  b_common_data :: bytes
  b_category_order :: int

definition category_order :: "rk_world \<Rightarrow> ranking_row \<Rightarrow> int" where
  "category_order s r = (case filter (\<lambda>c. rc_category c = r_category r) (t_categories s) of
     [] \<Rightarrow> r_order_by r | c # _ \<Rightarrow> rc_order_by c)"

definition common_data_of :: "rk_world \<Rightarrow> ranking_row \<Rightarrow> bytes" where
  "common_data_of s r =
    (case filter (\<lambda>c. cd_owner_pid c = r_owner_pid r \<and> cd_unique_id c = r_unique_id r) (t_common s) of
       [] \<Rightarrow> [] | c # _ \<Rightarrow> cd_common_data c)"

definition in_group :: "u8 \<Rightarrow> u8 \<Rightarrow> bytes \<Rightarrow> bool" where
  "in_group groupIndex groupNum groups \<longleftrightarrow> (if groupIndex = 255 then True
     else length groups > unat groupIndex \<and> groups ! unat groupIndex = groupNum)"

definition base_rows :: "u32 \<Rightarrow> u8 \<Rightarrow> u8 \<Rightarrow> rk_world \<Rightarrow> base_row list" where
  "base_rows category groupIndex groupNum s =
     map (\<lambda>r. \<lparr> b_row = r, b_common_data = common_data_of s r, b_category_order = category_order s r \<rparr>)
       (filter (\<lambda>r. r_category r = uint category \<and> in_group groupIndex groupNum (r_groups r)) (t_rankings s))"

text \<open>
  The two sort keys of the windows: \<open>CASE WHEN category_order = 1 THEN score END DESC\<close>, where
  \<open>NULL\<close> comes first, and \<open>CASE WHEN category_order = 0 THEN score END ASC\<close>, where it comes last.
\<close>

fun desc_before :: "int option \<Rightarrow> int option \<Rightarrow> bool" where
  "desc_before None (Some _) = True"
| "desc_before (Some a) (Some b) = (a > b)"
| "desc_before _ None = False"

fun asc_before :: "int option \<Rightarrow> int option \<Rightarrow> bool" where
  "asc_before (Some _) None = True"
| "asc_before (Some a) (Some b) = (a < b)"
| "asc_before None _ = False"

definition score_when :: "int \<Rightarrow> base_row \<Rightarrow> int option" where
  "score_when n b = (if b_category_order b = n then Some (r_score (b_row b)) else None)"

definition score_before :: "base_row \<Rightarrow> base_row \<Rightarrow> bool" where
  "score_before a b \<longleftrightarrow> desc_before (score_when 1 a) (score_when 1 b) \<or>
     score_when 1 a = score_when 1 b \<and> asc_before (score_when 0 a) (score_when 0 b)"

text \<open>The further keys of \<open>ROW_NUMBER\<close>: \<open>updated_at\<close>, \<open>owner_pid\<close>, \<open>unique_id\<close>, all ascending.\<close>

definition tie_before :: "base_row \<Rightarrow> base_row \<Rightarrow> bool" where
  "tie_before a b = (let r = b_row a; q = b_row b in
     r_updated_at r < r_updated_at q \<or> r_updated_at r = r_updated_at q \<and>
       (r_owner_pid r < r_owner_pid q \<or> r_owner_pid r = r_owner_pid q \<and> r_unique_id r < r_unique_id q))"

definition row_before :: "base_row \<Rightarrow> base_row \<Rightarrow> bool" where
  "row_before a b \<longleftrightarrow> score_before a b \<or>
     score_when 1 a = score_when 1 b \<and> score_when 0 a = score_when 0 b \<and> tie_before a b"

text \<open>
  \<open>RANK()\<close> is one more than the number of rows before the row. So is \<open>ROW_NUMBER()\<close>, as its keys
  contain the key of the table within one category and so no two rows are equal in them.
\<close>

definition ranking_order :: "u8 \<Rightarrow> base_row list \<Rightarrow> base_row \<Rightarrow> int" where
  "ranking_order orderCalculation bs b =
     1 + int (length (filter (\<lambda>a. if orderCalculation = 0 then score_before a b else row_before a b) bs))"

definition ranked_rows :: "u8 \<Rightarrow> base_row list \<Rightarrow> (base_row \<times> int) list" where
  "ranked_rows orderCalculation bs = map (\<lambda>b. (b, ranking_order orderCalculation bs b)) bs"

definition is_users :: "pid \<Rightarrow> u64 \<Rightarrow> base_row \<Rightarrow> bool" where
  "is_users principalID uniqueID b \<longleftrightarrow> r_owner_pid (b_row b) = int64 principalID \<and>
     (int64 uniqueID = 0 \<or> r_unique_id (b_row b) = int64 uniqueID)"

text \<open>\<open>MIN(ranking_order)\<close> over the user's rows, \<open>NULL\<close> without any.\<close>

definition own_order :: "pid \<Rightarrow> u64 \<Rightarrow> (base_row \<times> int) list \<Rightarrow> int option" where
  "own_order principalID uniqueID rs =
    (case map snd (filter (\<lambda>r. is_users principalID uniqueID (fst r)) rs) of
       [] \<Rightarrow> None | n # ns \<Rightarrow> Some (fold min ns n))"

definition selected ::
  "u8 \<Rightarrow> pid \<Rightarrow> u64 \<Rightarrow> u32 \<Rightarrow> (base_row \<times> int) list \<Rightarrow> (base_row \<times> int) list" where
  "selected mode principalID uniqueID limit rs = filter (\<lambda>(b, order).
     mode = 0 \<or> mode = 4 \<and> is_users principalID uniqueID b \<or>
     mode = 1 \<and> sql_is (\<lambda>n. n - uint limit div 2 \<le> order \<and> order \<le> n + uint limit div 2)
       (own_order principalID uniqueID rs)) rs"

text \<open>\<open>ORDER BY ranking_order, owner_pid, unique_id\<close>: three stable sorts, the last key first.\<close>

definition result_order :: "(base_row \<times> int) list \<Rightarrow> (base_row \<times> int) list" where
  "result_order rs = sort_key snd (sort_key (\<lambda>r. r_owner_pid (b_row (fst r)))
     (sort_key (\<lambda>r. r_unique_id (b_row (fst r))) rs))"

definition ranking_query ::
  "u8 \<Rightarrow> pid \<Rightarrow> u64 \<Rightarrow> u32 \<Rightarrow> order_param \<Rightarrow> u32 \<Rightarrow> u32 \<Rightarrow> rk_world \<Rightarrow> (base_row \<times> int \<times> int) list" where
  "ranking_query mode principalID uniqueID category q offset limit s =
    (let rs = ranked_rows (op_OrderCalculation q) (base_rows category (op_GroupIndex q) (op_GroupNum q) s);
         sel = selected mode principalID uniqueID limit rs in
     map (\<lambda>(b, order). (b, order, int (length sel))) (limit_offset limit offset (result_order sel)))"

text \<open>
  \<open>parseRankingDataList\<close>: the signed columns are converted back, and the total is that of the
  last row, so zero when there is no row.
\<close>

definition parse_rank_row :: "rank_lib \<Rightarrow> base_row \<times> int \<times> int \<Rightarrow> rank_data" where
  "parse_rank_row L row = (case row of (b, order, _) \<Rightarrow> let r = b_row b in
     \<lparr> rd_PrincipalID = word_of_int (r_owner_pid r), rd_UniqueID = word_of_int (r_unique_id r),
       rd_Order = word_of_int order, rd_Category = word_of_int (r_category r),
       rd_Score = word_of_int (r_score r), rd_Groups = r_groups r, rd_Param = word_of_int (r_param r),
       rd_CommonData = b_common_data b, rd_UpdateTime = FromTimestamp_receiver L (r_updated_at r) \<rparr>)"

definition parseRankingDataList :: "rank_lib \<Rightarrow> (base_row \<times> int \<times> int) list \<Rightarrow> rank_data list \<times> u32" where
  "parseRankingDataList L rows =
     (map (parse_rank_row L) rows,
      (if rows = [] then 0 else case last rows of (_, _, rowTotal) \<Rightarrow> word_of_int rowTotal))"

definition HyruleWarriorsGetRankings ::
  "rank_lib \<Rightarrow> u8 \<Rightarrow> pid \<Rightarrow> u64 \<Rightarrow> u32 \<Rightarrow> order_param \<Rightarrow> (rank_data list \<times> u32) rk" where
  "HyruleWarriorsGetRankings L rankingMode principalID uniqueID category q =
    (let mode = (if rankingMode = rankingModeFriendRangeHyruleWarriors then rankingModeUser else rankingMode) in
    if mode \<noteq> rankingModeRange \<and> mode \<noteq> rankingModeUser \<and> mode \<noteq> rankingModeNearHyruleWarriors
    then throwM Core_Unknown
    else if op_GroupIndex q \<noteq> FilterGroupIndexNone L \<and> op_GroupIndex q > 3 then throwM Core_Unknown
    else if op_OrderCalculation q > 1 then throwM Core_Unknown
    else
      let limit = (if op_Length q = 0 then maxRankingRows
                   else if op_Length q > maxRankingRows then maxRankingRows else op_Length q);
          offset = (if mode = rankingModeUser \<or> mode = rankingModeNearHyruleWarriors then 0 else op_Offset q) in
      bindM (sql_query (ranking_query mode principalID uniqueID category q offset limit)) (\<lambda>r.
      ok_or Core_Unknown r (\<lambda>rows. retM (parseRankingDataList L rows))))"

definition HyruleWarriorsGetRankingsAndCountByCategoryAndRankingOrderParam ::
  "rank_lib \<Rightarrow> u32 \<Rightarrow> order_param \<Rightarrow> (rank_data list \<times> u32) rk" where
  "HyruleWarriorsGetRankingsAndCountByCategoryAndRankingOrderParam L category q =
     HyruleWarriorsGetRankings L rankingModeRange 0 0 category q"

section \<open>Common data\<close>

definition common_key :: "common_data_row \<Rightarrow> int \<times> int" where
  "common_key c = (cd_unique_id c, cd_owner_pid c)"

definition common_row :: "pid \<Rightarrow> u64 \<Rightarrow> bytes \<Rightarrow> int \<Rightarrow> common_data_row" where
  "common_row p uniqueID commonData now = \<lparr> cd_unique_id = int64 uniqueID, cd_owner_pid = int64 p,
     cd_common_data = commonData, cd_updated_at = now \<rparr>"

definition overwrite_common :: "common_data_row \<Rightarrow> common_data_row \<Rightarrow> common_data_row" where
  "overwrite_common new old = old\<lparr>cd_common_data := cd_common_data new, cd_updated_at := cd_updated_at new\<rparr>"

interpretation commons: upsert_table common_key "overwrite_common new" new for new
  by unfold_locales (simp add: common_key_def overwrite_common_def)

definition HyruleWarriorsGetCommonData :: "pid \<Rightarrow> u64 \<Rightarrow> bytes rk" where
  "HyruleWarriorsGetCommonData p uniqueID =
    bindM (if uniqueID = 0
           then sql_query_row (\<lambda>s. order_by (\<lambda>c. Some (- cd_updated_at c))
                  (filter (\<lambda>c. cd_owner_pid c = int64 p) (t_common s)))
           else sql_query_row (\<lambda>s. filter (\<lambda>c. cd_owner_pid c = int64 p \<and> cd_unique_id c = int64 uniqueID) (t_common s)))
      (\<lambda>r. row_or Core_Unknown r (\<lambda>c. retM (cd_common_data c)))"

definition HyruleWarriorsUploadCommonData :: "pid \<Rightarrow> u64 \<Rightarrow> bytes \<Rightarrow> unit rk" where
  "HyruleWarriorsUploadCommonData p uniqueID commonData =
    bindM (getM rk_now) (\<lambda>now.
    bindM (sql_exec (\<lambda>_. 1) (\<lambda>s. s\<lparr>t_common :=
        upsert common_key (overwrite_common (common_row p uniqueID commonData now)) (common_row p uniqueID commonData now)
          (t_common s)\<rparr>)) (\<lambda>r.
    ok_or Core_Unknown r (\<lambda>_. retM ())))"

end
