(* ===== verification/Ranking.thy ===== *)
theory Ranking
  imports Ranking_Db
begin

text \<open>
  The handlers of the ranking protocol (\<open>ranking/\<close>) over the callbacks of the game. A callback
  that is not set is \<open>None\<close>; the order of the tests is that of the code.
\<close>

record ranking_protocol =
  rp_GetCommonData :: "(pid \<Rightarrow> u64 \<Rightarrow> bytes rk) option"
  rp_UploadCommonData :: "(pid \<Rightarrow> u64 \<Rightarrow> bytes \<Rightarrow> unit rk) option"
  rp_InsertRankingByPIDAndRankingScoreData :: "(pid \<Rightarrow> score_data \<Rightarrow> u64 \<Rightarrow> unit rk) option"
  rp_GetRankingsAndCountByCategoryAndRankingOrderParam ::
    "(u32 \<Rightarrow> order_param \<Rightarrow> (rank_data list \<times> u32) rk) option"
  rp_GetRankingsByMode :: "(u8 \<Rightarrow> pid \<Rightarrow> u64 \<Rightarrow> u32 \<Rightarrow> order_param \<Rightarrow> (rank_data list \<times> u32) rk) option"

definition server_ranking :: "rank_lib \<Rightarrow> ranking_protocol" where
  "server_ranking L = \<lparr>
     rp_GetCommonData = Some HyruleWarriorsGetCommonData,
     rp_UploadCommonData = Some HyruleWarriorsUploadCommonData,
     rp_InsertRankingByPIDAndRankingScoreData = Some HyruleWarriorsInsertRankingByPIDAndRankingScoreData,
     rp_GetRankingsAndCountByCategoryAndRankingOrderParam =
       Some (HyruleWarriorsGetRankingsAndCountByCategoryAndRankingOrderParam L),
     rp_GetRankingsByMode = Some (HyruleWarriorsGetRankings L) \<rparr>"

record ranking_result =
  rr_RankDataList :: "rank_data list"
  rr_TotalCount :: u32
  rr_SinceTime :: u64

record ranking_cached_result =
  cr_RankingResult :: ranking_result
  cr_CreatedTime :: u64
  cr_ExpiredTime :: u64
  cr_MaxLength :: u8

datatype rk_body =
    WCommonData bytes
  | WRankingResult ranking_result
  | WRankingCachedResult ranking_cached_result
  | WRankingCachedResults "ranking_cached_result list"

datatype rk_method =
    MethodGetCachedTopXRanking
  | MethodGetCachedTopXRankings
  | MethodGetCommonData
  | MethodGetRanking
  | MethodUploadCommonData
  | MethodUploadScore

type_synonym rk_response = "(rk_method, rk_body) rmc_response"

definition ranking_result_of :: "rank_data list \<Rightarrow> u32 \<Rightarrow> ranking_result" where
  "ranking_result_of rankDataList totalCount =
     \<lparr> rr_RankDataList = rankDataList, rr_TotalCount = totalCount, rr_SinceTime = 0x1F40420000 \<rparr>"

text \<open>A Go call whose error, whatever it is, becomes the given code.\<close>

definition or_error :: "result_code \<Rightarrow> 'a rk \<Rightarrow> ('a \<Rightarrow> 'b rk) \<Rightarrow> 'b rk" where
  "or_error e m k = bindM (catchM m) (\<lambda>r. case r of Inl _ \<Rightarrow> throwM e | Inr a \<Rightarrow> k a)"

definition cached_result ::
  "rank_lib \<Rightarrow> (u32 \<Rightarrow> order_param \<Rightarrow> (rank_data list \<times> u32) rk) \<Rightarrow> u32 \<Rightarrow> order_param \<Rightarrow>
   ranking_cached_result rk" where
  "cached_result L rankings category orderParam =
     or_error Ranking_Unknown (rankings category orderParam) (\<lambda>(rankDataList, totalCount).
     if totalCount = 0 \<or> length rankDataList = 0 then throwM Ranking_NotFound
     else bindM (getM rk_now) (\<lambda>now.
       retM \<lparr> cr_RankingResult = ranking_result_of rankDataList totalCount,
         cr_CreatedTime = RkDateTimeFromTimestamp L now,
         cr_ExpiredTime = FromTimestamp_receiver L (now + 5 * 60), cr_MaxLength = 10 \<rparr>))"

definition getCachedTopXRanking ::
  "rank_lib \<Rightarrow> ranking_protocol \<Rightarrow> bool \<Rightarrow> connection \<Rightarrow> u32 \<Rightarrow> u32 \<Rightarrow> order_param \<Rightarrow> rk_response rk" where
  "getCachedTopXRanking L P err connection callID category orderParam =
    (case rp_GetRankingsAndCountByCategoryAndRankingOrderParam P of
       None \<Rightarrow> throwM Core_NotImplemented
     | Some rankings \<Rightarrow>
         if err then throwM Ranking_InvalidArgument
         else bindM (cached_result L rankings category orderParam) (\<lambda>pResult.
           retM (rmcSuccess Ranking_Protocol MethodGetCachedTopXRanking callID [WRankingCachedResult pResult])))"

definition getCachedTopXRankings ::
  "rank_lib \<Rightarrow> ranking_protocol \<Rightarrow> bool \<Rightarrow> connection \<Rightarrow> u32 \<Rightarrow> u32 list \<Rightarrow> order_param list \<Rightarrow> rk_response rk" where
  "getCachedTopXRankings L P err connection callID categories orderParams =
    (case rp_GetRankingsAndCountByCategoryAndRankingOrderParam P of
       None \<Rightarrow> throwM Core_NotImplemented
     | Some rankings \<Rightarrow>
         if err then throwM Ranking_InvalidArgument
         else if length categories \<noteq> length orderParams then throwM Ranking_InvalidArgument
         else
           bindM (foldM (\<lambda>pResult (category, orderParam).
               bindM (cached_result L rankings category orderParam) (\<lambda>result. retM (pResult @ [result])))
             [] (zip categories orderParams)) (\<lambda>pResult.
           retM (rmcSuccess Ranking_Protocol MethodGetCachedTopXRankings callID [WRankingCachedResults pResult])))"

definition getCommonData :: "ranking_protocol \<Rightarrow> bool \<Rightarrow> connection \<Rightarrow> u32 \<Rightarrow> u64 \<Rightarrow> rk_response rk" where
  "getCommonData P err connection callID uniqueID =
    (case rp_GetCommonData P of
       None \<Rightarrow> throwM Core_NotImplemented
     | Some get \<Rightarrow>
         if err then throwM Ranking_InvalidArgument
         else or_error Ranking_NotFound (get (conn_PID connection) uniqueID) (\<lambda>commonData.
           retM (rmcSuccess Ranking_Protocol MethodGetCommonData callID [WCommonData commonData])))"

definition getRanking ::
  "ranking_protocol \<Rightarrow> bool \<Rightarrow> connection \<Rightarrow> u32 \<Rightarrow> u8 \<Rightarrow> u32 \<Rightarrow> order_param \<Rightarrow> u64 \<Rightarrow> pid \<Rightarrow> rk_response rk" where
  "getRanking P err connection callID rankingMode category orderParam uniqueID principalID =
    (if rp_GetRankingsByMode P = None \<and> rp_GetRankingsAndCountByCategoryAndRankingOrderParam P = None
     then throwM Core_NotImplemented
     else if err then throwM Ranking_InvalidArgument
     else
       let callerPID = (if principalID = 0 then conn_PID connection else principalID) in
       or_error Ranking_Unknown
         (case rp_GetRankingsByMode P of
            Some byMode \<Rightarrow> byMode rankingMode callerPID uniqueID category orderParam
          | None \<Rightarrow> (case rp_GetRankingsAndCountByCategoryAndRankingOrderParam P of
              Some rankings \<Rightarrow> rankings category orderParam
            | None \<Rightarrow> panicM))
         (\<lambda>(rankDataList, totalCount).
       let empty = (totalCount = 0 \<or> length rankDataList = 0) in
       retM (rmcSuccess Ranking_Protocol MethodGetRanking callID
         [WRankingResult (ranking_result_of (if empty then [] else rankDataList) (if empty then 0 else totalCount))])))"

definition uploadCommonData ::
  "ranking_protocol \<Rightarrow> bool \<Rightarrow> connection \<Rightarrow> u32 \<Rightarrow> bytes \<Rightarrow> u64 \<Rightarrow> rk_response rk" where
  "uploadCommonData P err connection callID commonData uniqueID =
    (case rp_UploadCommonData P of
       None \<Rightarrow> throwM Core_NotImplemented
     | Some upload \<Rightarrow>
         if err then throwM Ranking_InvalidArgument
         else or_error Ranking_Unknown (upload (conn_PID connection) uniqueID commonData) (\<lambda>_.
           retM (rmcSuccess Ranking_Protocol MethodUploadCommonData callID [])))"

definition uploadScore ::
  "ranking_protocol \<Rightarrow> bool \<Rightarrow> connection \<Rightarrow> u32 \<Rightarrow> score_data \<Rightarrow> u64 \<Rightarrow> rk_response rk" where
  "uploadScore P err connection callID scoreData uniqueID =
    (case rp_InsertRankingByPIDAndRankingScoreData P of
       None \<Rightarrow> throwM Core_NotImplemented
     | Some upload \<Rightarrow>
         if err then throwM Ranking_InvalidArgument
         else or_error Ranking_Unknown (upload (conn_PID connection) scoreData uniqueID) (\<lambda>_.
           retM (rmcSuccess Ranking_Protocol MethodUploadScore callID [])))"

section \<open>Requests\<close>

datatype rk_request =
    ReqGetCachedTopXRanking u32 order_param
  | ReqGetCachedTopXRankings "u32 list" "order_param list"
  | ReqGetCommonData u64
  | ReqGetRanking u8 u32 order_param u64 pid
  | ReqUploadCommonData bytes u64
  | ReqUploadScore score_data u64

fun handle_ranking :: "rank_lib \<Rightarrow> ranking_protocol \<Rightarrow> bool \<Rightarrow> connection \<Rightarrow> u32 \<Rightarrow> rk_request \<Rightarrow> rk_response rk" where
  "handle_ranking L P err c callID (ReqGetCachedTopXRanking category q) = getCachedTopXRanking L P err c callID category q"
| "handle_ranking L P err c callID (ReqGetCachedTopXRankings cs qs) = getCachedTopXRankings L P err c callID cs qs"
| "handle_ranking L P err c callID (ReqGetCommonData uid) = getCommonData P err c callID uid"
| "handle_ranking L P err c callID (ReqGetRanking mode category q uid p) = getRanking P err c callID mode category q uid p"
| "handle_ranking L P err c callID (ReqUploadCommonData d uid) = uploadCommonData P err c callID d uid"
| "handle_ranking L P err c callID (ReqUploadScore d uid) = uploadScore P err c callID d uid"

end
