(* ===== verification/Ranking_Props.thy ===== *)
theory Ranking_Props
  imports Ranking "HOL-Library.Multiset"
begin

text \<open>
  What the leaderboards promise: an upload keeps the best score and is all or nothing, the order
  numbers of a ranking are what the chosen calculation says, a page of a ranking is bounded and in
  order, and common data is read back.
\<close>

section \<open>Uploading\<close>

definition score_uploaded :: "pid \<Rightarrow> score_data \<Rightarrow> u64 \<Rightarrow> rk_world \<Rightarrow> rk_world" where
  "score_uploaded p d uniqueID s = s\<lparr>
     t_categories := upsert rc_category (\<lambda>c. c) \<lparr> rc_category = uint (sd_Category d),
       rc_order_by = uint (sd_OrderBy d), rc_created_at = rk_now s \<rparr> (t_categories s),
     t_rankings := upsert ranking_key (overwrite (score_row p d uniqueID (rk_now s)))
       (score_row p d uniqueID (rk_now s)) (t_rankings s)\<rparr>"

lemma run_Insert:
  assumes "db_faults s = []" and "sd_OrderBy d \<le> 1" and "sd_UpdateMode d \<le> 1"
  shows "HyruleWarriorsInsertRankingByPIDAndRankingScoreData p d uniqueID s = (Ok (), score_uploaded p d uniqueID s)"
proof -
  have "\<not> sd_OrderBy d > 1" "\<not> sd_UpdateMode d > 1" using assms(2,3) by (simp_all add: not_less)
  then show ?thesis
    using assms(1) by (simp add: HyruleWarriorsInsertRankingByPIDAndRankingScoreData_def transaction_def bindM_def
      run_simps db_call_def commit_or_rollback_def score_uploaded_def)
qed

text \<open>
  C31: A score upload stores a new row when the player has none in the category; otherwise the
  stored row is replaced exactly when the upload asks for it or beats the stored score in the
  stored order. No other player's or category's row changes, and the order of the category is
  the one that its first upload chose.
\<close>

theorem upload_keeps_the_best:
  assumes "db_faults s = []" and "distinct (map ranking_key (t_rankings s))"
    and "sd_OrderBy d \<le> 1" and "sd_UpdateMode d \<le> 1"
  shows "\<exists>t. HyruleWarriorsInsertRankingByPIDAndRankingScoreData p d uniqueID s = (Ok (), t) \<and>
    (let new = score_row p d uniqueID (rk_now s); mine = (int64 uniqueID, int64 p, uint (sd_Category d)) in
     (case filter (\<lambda>r. ranking_key r = mine) (t_rankings s) of
        [] \<Rightarrow> filter (\<lambda>r. ranking_key r = mine) (t_rankings t) = [new]
      | old # _ \<Rightarrow> \<exists>r. filter (\<lambda>r. ranking_key r = mine) (t_rankings t) = [r] \<and>
          r_score r = (if sd_UpdateMode d = 1 \<or> r_order_by old = 0 \<and> uint (sd_Score d) < r_score old
              \<or> r_order_by old = 1 \<and> uint (sd_Score d) > r_score old then uint (sd_Score d) else r_score old)) \<and>
     (\<forall>k. k \<noteq> mine \<longrightarrow> filter (\<lambda>r. ranking_key r = k) (t_rankings t) = filter (\<lambda>r. ranking_key r = k) (t_rankings s)) \<and>
     (\<forall>c \<in> set (t_categories s). c \<in> set (t_categories t)))"
proof -
  let ?new = "score_row p d uniqueID (rk_now s)"
  let ?mine = "(int64 uniqueID, int64 p, uint (sd_Category d))"
  let ?t = "score_uploaded p d uniqueID s"
  have key: "ranking_key ?new = ?mine" by (simp add: ranking_key_def score_row_def)
  have rows: "t_rankings ?t = upsert ranking_key (overwrite ?new) ?new (t_rankings s)"
    by (simp add: score_uploaded_def)
  have one: "\<exists>r. filter (\<lambda>r. ranking_key r = ?mine) (t_rankings ?t) = [r]"
    using rankings.one_row_upsert [OF assms(2), of ?new] by (simp add: key rows)
  have mine: "filter (\<lambda>r. ranking_key r = ?mine) (t_rankings ?t) =
      (case filter (\<lambda>r. ranking_key r = ?mine) (t_rankings s) of [] \<Rightarrow> [?new] | rs \<Rightarrow> map (overwrite ?new) rs)"
    using rankings.key_rows_upsert [of ?new "t_rankings s"] by (simp add: key rows)
  have mode: "uint (sd_UpdateMode d) = 1 \<longleftrightarrow> sd_UpdateMode d = 1"
    by (metis uint_1 word_uint_eq_iff)
  have score: "r_score (overwrite ?new old) = (if sd_UpdateMode d = 1 \<or> r_order_by old = 0 \<and> uint (sd_Score d) < r_score old
      \<or> r_order_by old = 1 \<and> uint (sd_Score d) > r_score old then uint (sd_Score d) else r_score old)" for old
    using mode by (simp add: overwrite_def replaces_def score_row_def)
  have "filter (\<lambda>r. ranking_key r = k) (t_rankings ?t) = filter (\<lambda>r. ranking_key r = k) (t_rankings s)" if "k \<noteq> ?mine" for k
    using rankings.other_rows_upsert [of k ?new "t_rankings s"] that by (simp add: key rows)
  moreover have "c \<in> set (t_categories ?t)" if "c \<in> set (t_categories s)" for c
    using that by (auto simp: score_uploaded_def upsert_def)
  moreover have "case filter (\<lambda>r. ranking_key r = ?mine) (t_rankings s) of
      [] \<Rightarrow> filter (\<lambda>r. ranking_key r = ?mine) (t_rankings ?t) = [?new]
    | old # _ \<Rightarrow> \<exists>r. filter (\<lambda>r. ranking_key r = ?mine) (t_rankings ?t) = [r] \<and>
        r_score r = (if sd_UpdateMode d = 1 \<or> r_order_by old = 0 \<and> uint (sd_Score d) < r_score old
          \<or> r_order_by old = 1 \<and> uint (sd_Score d) > r_score old then uint (sd_Score d) else r_score old)"
    using mine one score by (auto split: list.splits)
  ultimately show ?thesis
    using run_Insert [OF assms(1,3,4), of p uniqueID] by (auto simp: Let_def)
qed

definition sample_score :: score_data where
  "sample_score = \<lparr> sd_Category = 3, sd_Score = 700, sd_OrderBy = 1, sd_UpdateMode = 0, sd_Groups = [1],
     sd_Param = 0 \<rparr>"

definition sample_ranks :: rk_world where
  "sample_ranks = \<lparr> db_faults = [], t_rankings =
       [\<lparr> r_owner_pid = 1001, r_unique_id = 5, r_category = 3, r_score = 500, r_order_by = 1, r_update_mode = 0,
          r_groups = [1], r_param = 0, r_updated_at = 10 \<rparr>,
        \<lparr> r_owner_pid = 1002, r_unique_id = 6, r_category = 3, r_score = 900, r_order_by = 1, r_update_mode = 0,
          r_groups = [2], r_param = 0, r_updated_at = 20 \<rparr>],
     t_categories = [\<lparr> rc_category = 3, rc_order_by = 1, rc_created_at = 10 \<rparr>],
     t_common = [], rk_now = 1000 \<rparr>"

lemma sample_ranks_simps [simp]:
  "db_faults sample_ranks = []" "distinct (map ranking_key (t_rankings sample_ranks))"
  "length (t_rankings sample_ranks) = 2" "rk_now sample_ranks = 1000"
  by (simp_all add: sample_ranks_def ranking_key_def)

lemma upload_keeps_the_best_witness:
  "\<exists>t r. HyruleWarriorsInsertRankingByPIDAndRankingScoreData 1001 sample_score 5 sample_ranks = (Ok (), t) \<and>
    filter (\<lambda>r. ranking_key r = (5, 1001, 3)) (t_rankings t) = [r] \<and> r_score r = 700"
proof -
  have i: "int64 1001 = 1001" "int64 5 = 5" by (simp_all add: int64_def)
  have "filter (\<lambda>r. ranking_key r = (5, 1001, 3)) (t_rankings sample_ranks) = [hd (t_rankings sample_ranks)]"
    "r_score (hd (t_rankings sample_ranks)) = 500" "r_order_by (hd (t_rankings sample_ranks)) = 1"
    by (simp_all add: sample_ranks_def ranking_key_def)
  then show ?thesis
    using upload_keeps_the_best [of sample_ranks sample_score 1001 5]
    by (auto simp: sample_score_def i Let_def)
qed

lemma db_call_tables:
  assumes "\<And>u. snd (q u) = u" and "db_call q s = (r, t)"
  shows "\<exists>bs. t = s\<lparr>db_faults := bs\<rparr>"
proof (cases "db_faults s")
  case Nil
  then show ?thesis using assms(2) assms(1) [of s] by (auto simp: db_call_def split: prod.splits intro!: exI [of _ "[]"])
next
  case (Cons b bs)
  then show ?thesis using assms(2) assms(1) [of "s\<lparr>db_faults := bs\<rparr>"]
    by (auto simp: db_call_def split: prod.splits if_splits)
qed

lemma refused_upload:
  assumes "HyruleWarriorsInsertRankingByPIDAndRankingScoreData p d uniqueID s = (r, t)" and "r \<noteq> Ok ()"
  shows "t_rankings t = t_rankings s \<and> t_categories t = t_categories s \<and> t_common t = t_common s"
proof -
  have rolled: "t_rankings u = t_rankings b \<and> t_categories u = t_categories b \<and> t_common u = t_common b"
    if "commit_or_rollback b rs = (r, u)" for b rs u
    using that assms(2) by (auto simp: commit_or_rollback_def rollback_def split: prod.splits outcome.splits sum.splits)
  have "t_rankings t = t_rankings s \<and> t_categories t = t_categories s \<and> t_common t = t_common s"
    if "transaction body s = (r, t)" for body
  proof -
    obtain x b where call: "db_call (\<lambda>u. ((), u)) s = (x, b)" by fastforce
    then have b: "t_rankings b = t_rankings s \<and> t_categories b = t_categories s \<and> t_common b = t_common s"
      using db_call_tables [of "\<lambda>u. ((), u)" s x b] by auto
    show ?thesis
      using that call b rolled [of b "body b" t]
      by (auto simp: transaction_def bindM_def run_throw split: outcome.splits sum.splits)
  qed
  then show ?thesis
    using assms(1) by (auto simp: HyruleWarriorsInsertRankingByPIDAndRankingScoreData_def run_simps split: if_splits)
qed

text \<open>
  C32: A score upload that fails, by a refused parameter or by any statement of its transaction,
  leaves the three tables as they were.
\<close>

theorem failed_upload_changes_nothing:
  assumes "HyruleWarriorsInsertRankingByPIDAndRankingScoreData p d uniqueID s = (r, t)" and "r \<noteq> Ok ()"
  shows "t_rankings t = t_rankings s \<and> t_categories t = t_categories s \<and> t_common t = t_common s"
  by (rule refused_upload [OF assms])

lemma failed_upload_changes_nothing_witness:
  "t_rankings (snd (HyruleWarriorsInsertRankingByPIDAndRankingScoreData 1001 (sample_score\<lparr>sd_OrderBy := 2\<rparr>) 5 sample_ranks))
    = t_rankings sample_ranks"
proof -
  have "fst (HyruleWarriorsInsertRankingByPIDAndRankingScoreData 1001 (sample_score\<lparr>sd_OrderBy := 2\<rparr>) 5 sample_ranks) \<noteq> Ok ()"
    by (simp add: HyruleWarriorsInsertRankingByPIDAndRankingScoreData_def run_throw)
  then show ?thesis
    using failed_upload_changes_nothing [of 1001 "sample_score\<lparr>sd_OrderBy := 2\<rparr>" 5 sample_ranks] by (metis prod.collapse)
qed

section \<open>Order numbers\<close>

lemma desc_strict:
  "\<not> desc_before a a" "desc_before a b \<Longrightarrow> desc_before b c \<Longrightarrow> desc_before a c"
  "a = b \<or> desc_before a b \<or> desc_before b a"
  by (cases a; cases b; cases c; auto)+

lemma asc_strict:
  "\<not> asc_before a a" "asc_before a b \<Longrightarrow> asc_before b c \<Longrightarrow> asc_before a c"
  "a = b \<or> asc_before a b \<or> asc_before b a"
  by (cases a; cases b; cases c; auto)+

lemma score_before_strict:
  "\<not> score_before a a" "score_before a b \<Longrightarrow> score_before b c \<Longrightarrow> score_before a c"
  unfolding score_before_def using desc_strict asc_strict by metis+

lemma row_before_strict:
  "\<not> row_before a a" "row_before a b \<Longrightarrow> row_before b c \<Longrightarrow> row_before a c"
proof -
  show "\<not> row_before a a" by (simp add: row_before_def score_before_strict tie_before_def Let_def)
  have tie: "tie_before a b \<Longrightarrow> tie_before b c \<Longrightarrow> tie_before a c"
    by (auto simp: tie_before_def Let_def)
  assume "row_before a b" "row_before b c"
  then show "row_before a c"
    using tie score_before_strict(2) [of a b c] unfolding row_before_def score_before_def by metis
qed

lemma base_rows_total:
  assumes "distinct (map ranking_key (t_rankings s))"
    and "a \<in> set (base_rows c gi gn s)" and "b \<in> set (base_rows c gi gn s)" and "a \<noteq> b"
  shows "row_before a b \<or> row_before b a"
proof (rule ccontr)
  assume n: "\<not> (row_before a b \<or> row_before b a)"
  then have "score_when 1 a = score_when 1 b \<and> score_when 0 a = score_when 0 b"
    using desc_strict(3) [of "score_when 1 a" "score_when 1 b"] asc_strict(3) [of "score_when 0 a" "score_when 0 b"]
    unfolding row_before_def score_before_def by metis
  then have "\<not> tie_before a b" "\<not> tie_before b a" using n unfolding row_before_def by auto
  then have tie: "r_owner_pid (b_row a) = r_owner_pid (b_row b)" "r_unique_id (b_row a) = r_unique_id (b_row b)"
    unfolding tie_before_def Let_def by linarith+
  have rows: "b_row a \<in> set (t_rankings s)" "b_row b \<in> set (t_rankings s)"
    "r_category (b_row a) = r_category (b_row b)"
    using assms(2,3) by (auto simp: base_rows_def)
  then have "ranking_key (b_row a) = ranking_key (b_row b)" using tie by (simp add: ranking_key_def)
  then have "b_row a = b_row b" using assms(1) rows by (auto simp: distinct_map inj_on_def)
  then show False using assms(2-4) by (auto simp: base_rows_def)
qed

text \<open>Counting the predecessors in a strict total order numbers a list of distinct elements.\<close>

lemma predecessors_number:
  assumes "distinct xs" and irrefl: "\<And>a. \<not> before_rel a a"
    and trans: "\<And>a b c. before_rel a b \<Longrightarrow> before_rel b c \<Longrightarrow> before_rel a c"
    and total: "\<And>a b. a \<in> set xs \<Longrightarrow> b \<in> set xs \<Longrightarrow> a \<noteq> b \<Longrightarrow> before_rel a b \<or> before_rel b a"
  shows "bij_betw (\<lambda>b. 1 + length (filter (\<lambda>a. before_rel a b) xs)) (set xs) {1..length xs}"
proof -
  let ?f = "\<lambda>b. 1 + length (filter (\<lambda>a. before_rel a b) xs)"
  have card: "length (filter P xs) = card {x \<in> set xs. P x}" for P
    using distinct_card [of "filter P xs"] assms(1) by simp
  have less: "?f a < ?f b" if "before_rel a b" "a \<in> set xs" for a b
  proof -
    have "{x \<in> set xs. before_rel x a} \<subset> {x \<in> set xs. before_rel x b}"
      using that irrefl trans by blast
    then show ?thesis unfolding card by (simp add: psubset_card_mono)
  qed
  have inj: "inj_on ?f (set xs)"
  proof (rule inj_onI, rule ccontr)
    fix a b
    assume ab: "a \<in> set xs" "b \<in> set xs" "?f a = ?f b" "a \<noteq> b"
    then have "before_rel a b \<or> before_rel b a" using total by blast
    then show False using less [of a b] less [of b a] ab by auto
  qed
  have "?f b \<in> {1..length xs}" if "b \<in> set xs" for b
  proof -
    have "{x \<in> set xs. before_rel x b} \<subset> set xs" using that irrefl by blast
    then have "card {x \<in> set xs. before_rel x b} < card (set xs)" by (simp add: psubset_card_mono)
    then show ?thesis using card [of "\<lambda>x. before_rel x b"] distinct_card [OF assms(1)] by simp
  qed
  then have "?f ` set xs \<subseteq> {1..length xs}" by blast
  moreover have "card (?f ` set xs) = card {1..length xs}"
    using card_image [OF inj] distinct_card [OF assms(1)] by simp
  ultimately have "?f ` set xs = {1..length xs}" by (simp add: card_subset_eq)
  then show ?thesis using inj by (simp add: bij_betw_def)
qed

text \<open>
  C33: The order numbers of a ranking. With the ordinal calculation they are the numbers from one
  to the number of rows, each once. With the standard calculation two rows of a category with a
  recorded order compare as their scores do, and rows of equal score share their number.
\<close>

theorem ranking_order_numbers:
  assumes "distinct (map ranking_key (t_rankings s))"
  shows "bij_betw (ranking_order 1 (base_rows c gi gn s)) (set (base_rows c gi gn s)) {1..int (length (base_rows c gi gn s))}
    \<and> (\<forall>a \<in> set (base_rows c gi gn s). \<forall>b \<in> set (base_rows c gi gn s).
      b_category_order a = b_category_order b \<and> (b_category_order b = 0 \<or> b_category_order b = 1) \<longrightarrow>
      (ranking_order 0 (base_rows c gi gn s) a < ranking_order 0 (base_rows c gi gn s) b \<longleftrightarrow>
        (if b_category_order b = 1 then r_score (b_row a) > r_score (b_row b) else r_score (b_row a) < r_score (b_row b))))"
proof -
  let ?bs = "base_rows c gi gn s"
  have "distinct (t_rankings s)" using assms by (rule distinct_map [THEN iffD1, THEN conjunct1])
  then have d: "distinct ?bs"
    unfolding base_rows_def distinct_map by (auto simp: inj_on_def)
  have "bij_betw (\<lambda>b. 1 + length (filter (\<lambda>a. row_before a b) ?bs)) (set ?bs) {1..length ?bs}"
    by (rule predecessors_number [OF d row_before_strict(1) row_before_strict(2) base_rows_total [OF assms]])
  then have n: "bij_betw (int \<circ> (\<lambda>b. 1 + length (filter (\<lambda>a. row_before a b) ?bs))) (set ?bs) (int ` {1..length ?bs})"
    by (rule bij_betw_trans) (simp add: bij_betw_def)
  have ordinal: "int \<circ> (\<lambda>b. 1 + length (filter (\<lambda>a. row_before a b) ?bs)) = ranking_order 1 ?bs"
    by (rule ext) (simp add: ranking_order_def)
  have "bij_betw (ranking_order 1 ?bs) (set ?bs) {1..int (length ?bs)}"
    using n unfolding ordinal by (simp add: image_int_atLeastAtMost)
  moreover have "ranking_order 0 ?bs a < ranking_order 0 ?bs b \<longleftrightarrow> score_before a b"
    if ab: "a \<in> set ?bs" "b \<in> set ?bs" "b_category_order a = b_category_order b" for a b
  proof -
    have card: "length (filter P ?bs) = card {x \<in> set ?bs. P x}" for P
      using distinct_card [of "filter P ?bs"] d by simp
    have less: "ranking_order 0 ?bs x < ranking_order 0 ?bs y" if "score_before x y" "x \<in> set ?bs" for x y
    proof -
      have "{z \<in> set ?bs. score_before z x} \<subset> {z \<in> set ?bs. score_before z y}"
        using that score_before_strict by blast
      then show ?thesis by (simp add: ranking_order_def card psubset_card_mono)
    qed
    have equal: "ranking_order 0 ?bs a = ranking_order 0 ?bs b" if "\<not> score_before a b" "\<not> score_before b a"
    proof -
      have "score_when 1 a = score_when 1 b \<and> score_when 0 a = score_when 0 b"
        using that desc_strict(3) [of "score_when 1 a" "score_when 1 b"] asc_strict(3) [of "score_when 0 a" "score_when 0 b"]
        unfolding score_before_def by metis
      then have "score_before z a = score_before z b" for z by (simp add: score_before_def)
      then show ?thesis by (simp add: ranking_order_def)
    qed
    show ?thesis using less [of a b] less [of b a] equal ab by (metis less_asym less_irrefl)
  qed
  moreover have "score_before a b \<longleftrightarrow>
      (if b_category_order b = 1 then r_score (b_row a) > r_score (b_row b) else r_score (b_row a) < r_score (b_row b))"
    if "b_category_order a = b_category_order b \<and> (b_category_order b = 0 \<or> b_category_order b = 1)" for a b
    using that by (auto simp: score_before_def score_when_def)
  ultimately show ?thesis by blast
qed

lemma ranking_order_numbers_witness:
  "bij_betw (ranking_order 1 (base_rows 3 255 0 sample_ranks)) (set (base_rows 3 255 0 sample_ranks)) {1..2}"
proof -
  have "length (base_rows 3 255 0 sample_ranks) = 2"
    by (simp add: base_rows_def in_group_def sample_ranks_def)
  then show ?thesis using ranking_order_numbers [of sample_ranks 3 255 0] by auto
qed

section \<open>Pages\<close>

lemma result_order_sorted: "sorted (map snd (result_order rs))"
  by (simp add: result_order_def)

lemma result_order_set [simp]: "set (result_order rs) = set rs" "length (result_order rs) = length rs"
  by (simp_all add: result_order_def)

lemma in_page: "x \<in> set (take n (drop k (result_order rs))) \<Longrightarrow> x \<in> set rs"
  by (drule in_set_takeD, drule in_set_dropD) simp

text \<open>The number of entries a page may have, and where it starts: at most a thousand, and an offset only in a range.\<close>

definition page_limit :: "order_param \<Rightarrow> u32" where
  "page_limit q = (if op_Length q = 0 \<or> 1000 < op_Length q then 1000 else op_Length q)"

definition page_offset :: "u8 \<Rightarrow> order_param \<Rightarrow> u32" where
  "page_offset rankingMode q = (if rankingMode = 0 then op_Offset q else 0)"

lemma page_limit_bound: "unat (page_limit q) \<le> 1000"
proof -
  have "op_Length q \<le> 1000 \<Longrightarrow> unat (op_Length q) \<le> unat (1000 :: u32)" by (simp only: word_le_nat_alt)
  then show ?thesis by (simp add: page_limit_def not_less)
qed

lemma run_GetRankings:
  assumes "db_faults s = []" and "HyruleWarriorsGetRankings L rankingMode p uid c q s = (Ok (found, totalCount), t)"
  shows "t = s" and "rankingMode \<in> {0, 1, 2, 4}"
    and "(found, totalCount) = parseRankingDataList L (ranking_query (if rankingMode = 2 then 4 else rankingMode) p uid c q
      (page_offset rankingMode q) (page_limit q) s)"
  using assms
  by (auto simp: HyruleWarriorsGetRankings_def ranking_modes maxRankingRows_def page_limit_def page_offset_def Let_def
    bindM_def run_simps split: if_splits)

text \<open>
  Which rows a ranking of a mode has, in its own terms: all of them for a range; the player's own for
  the mode of a single user and, as there is no list of friends, for the one of friends; and for the
  mode near a player those whose number differs by at most half the limit from the player's best one.
\<close>

definition belongs_to :: "pid \<Rightarrow> u64 \<Rightarrow> base_row \<Rightarrow> bool" where
  "belongs_to p uid b \<longleftrightarrow> r_owner_pid (b_row b) = sint p \<and> (uid = 0 \<or> r_unique_id (b_row b) = sint uid)"

definition asked_for :: "u8 \<Rightarrow> pid \<Rightarrow> u64 \<Rightarrow> int \<Rightarrow> (base_row \<Rightarrow> int) \<Rightarrow> base_row list \<Rightarrow> base_row \<Rightarrow> bool" where
  "asked_for rankingMode p uid radius order bs b \<longleftrightarrow>
     (if rankingMode = 0 then True
      else if rankingMode = 1 then (\<exists>own \<in> set bs. belongs_to p uid own \<and>
        (\<forall>other \<in> set bs. belongs_to p uid other \<longrightarrow> order own \<le> order other) \<and> \<bar>order b - order own\<bar> \<le> radius)
      else belongs_to p uid b)"

lemma is_users_belongs: "is_users p uid b \<longleftrightarrow> belongs_to p uid b"
proof -
  have "sint uid = 0 \<longleftrightarrow> uid = 0" by (metis int64_def of_int_0 signed_0 uint64_int64)
  then show ?thesis by (simp add: is_users_def belongs_to_def int64_def)
qed

lemma fold_min_least: "fold min ns (n :: int) \<in> set (n # ns) \<and> (\<forall>x \<in> set (n # ns). fold min ns n \<le> x)"
proof -
  have "fold min ns n = Min (set (n # ns))" by (simp only: Min.set_eq_fold)
  then show ?thesis using Min_in [of "set (n # ns)"] Min_le [of "set (n # ns)"] by (simp only: finite_set) simp
qed

lemma own_order_least:
  "own_order p uid (ranked_rows calc bs) = Some n \<longleftrightarrow> (\<exists>own \<in> set bs. belongs_to p uid own \<and> n = ranking_order calc bs own \<and>
     (\<forall>other \<in> set bs. belongs_to p uid other \<longrightarrow> ranking_order calc bs own \<le> ranking_order calc bs other))"
proof -
  let ?own = "map (ranking_order calc bs) (filter (belongs_to p uid) bs)"
  have rows: "map snd (filter (\<lambda>r. is_users p uid (fst r)) (ranked_rows calc bs)) = ?own"
    by (simp add: ranked_rows_def filter_map comp_def is_users_belongs)
  show ?thesis
  proof (cases ?own)
    case Nil
    then show ?thesis by (auto simp: own_order_def rows filter_empty_conv)
  next
    case (Cons x xs)
    have least: "fold min xs x \<in> set ?own" "\<forall>y \<in> set ?own. fold min xs x \<le> y"
      using fold_min_least [of xs x] unfolding Cons by blast+
    have own: "own_order p uid (ranked_rows calc bs) = Some (fold min xs x)" by (simp add: own_order_def rows Cons)
    have image: "y \<in> set ?own \<longleftrightarrow> (\<exists>b \<in> set bs. belongs_to p uid b \<and> y = ranking_order calc bs b)" for y by auto
    obtain b where b: "b \<in> set bs" "belongs_to p uid b" "fold min xs x = ranking_order calc bs b"
      using least(1) unfolding image by blast
    have all: "ranking_order calc bs b \<le> ranking_order calc bs o'" if "o' \<in> set bs" "belongs_to p uid o'" for o'
      using least(2) that unfolding b(3) by auto
    show ?thesis
      unfolding own option.inject b(3)
    proof (intro iffI)
      assume "ranking_order calc bs b = n"
      then show "\<exists>own \<in> set bs. belongs_to p uid own \<and> n = ranking_order calc bs own \<and>
          (\<forall>other \<in> set bs. belongs_to p uid other \<longrightarrow> ranking_order calc bs own \<le> ranking_order calc bs other)"
        using b(1,2) all by (intro bexI [of _ b]) simp_all
    next
      assume "\<exists>own \<in> set bs. belongs_to p uid own \<and> n = ranking_order calc bs own \<and>
          (\<forall>other \<in> set bs. belongs_to p uid other \<longrightarrow> ranking_order calc bs own \<le> ranking_order calc bs other)"
      then obtain o' where "o' \<in> set bs" "belongs_to p uid o'" "n = ranking_order calc bs o'"
        "ranking_order calc bs o' \<le> ranking_order calc bs b" using b(1,2) by blast
      then show "ranking_order calc bs b = n" using all [of o'] by simp
    qed
  qed
qed

lemma selected_asked_for:
  assumes "rankingMode \<in> {0, 1, 2, 4}"
  shows "selected (if rankingMode = 2 then 4 else rankingMode) p uid lim (ranked_rows calc bs) =
    map (\<lambda>b. (b, ranking_order calc bs b))
      (filter (asked_for rankingMode p uid (uint lim div 2) (ranking_order calc bs) bs) bs)"
proof -
  have near: "sql_is (\<lambda>n. n - uint lim div 2 \<le> i \<and> i \<le> n + uint lim div 2) (own_order p uid (ranked_rows calc bs)) \<longleftrightarrow>
      (\<exists>own \<in> set bs. belongs_to p uid own \<and>
        (\<forall>other \<in> set bs. belongs_to p uid other \<longrightarrow> ranking_order calc bs own \<le> ranking_order calc bs other) \<and>
        \<bar>i - ranking_order calc bs own\<bar> \<le> uint lim div 2)" for i
  proof (cases "own_order p uid (ranked_rows calc bs)")
    case None
    then have "\<not> (\<exists>own \<in> set bs. belongs_to p uid own \<and>
        (\<forall>other \<in> set bs. belongs_to p uid other \<longrightarrow> ranking_order calc bs own \<le> ranking_order calc bs other))"
      using own_order_least [of p uid calc bs] by (metis option.distinct(1))
    then show ?thesis unfolding None sql_is_simps by blast
  next
    case (Some n)
    from Some obtain own where own: "own \<in> set bs" "belongs_to p uid own" "n = ranking_order calc bs own"
      "\<forall>other \<in> set bs. belongs_to p uid other \<longrightarrow> ranking_order calc bs own \<le> ranking_order calc bs other"
      unfolding own_order_least by blast
    have least: "ranking_order calc bs o' = n" if "o' \<in> set bs" "belongs_to p uid o'"
      "\<forall>other \<in> set bs. belongs_to p uid other \<longrightarrow> ranking_order calc bs o' \<le> ranking_order calc bs other" for o'
      using that own by (metis antisym)
    have "n - uint lim div 2 \<le> i \<and> i \<le> n + uint lim div 2 \<longleftrightarrow> \<bar>i - n\<bar> \<le> uint lim div 2" by arith
    then show ?thesis using own least unfolding Some sql_is_simps by metis
  qed
  have "selected (if rankingMode = 2 then 4 else rankingMode) p uid lim (map (\<lambda>b. (b, ranking_order calc bs b)) bs) =
      map (\<lambda>b. (b, ranking_order calc bs b)) (filter (\<lambda>b. rankingMode = 0 \<or>
        (rankingMode = 2 \<or> rankingMode = 4) \<and> belongs_to p uid b \<or>
        rankingMode = 1 \<and> (\<exists>own \<in> set bs. belongs_to p uid own \<and>
          (\<forall>other \<in> set bs. belongs_to p uid other \<longrightarrow> ranking_order calc bs own \<le> ranking_order calc bs other) \<and>
          \<bar>ranking_order calc bs b - ranking_order calc bs own\<bar> \<le> uint lim div 2)) bs)"
    unfolding near [symmetric] ranked_rows_def selected_def is_users_belongs filter_map comp_def by (simp cong: filter_cong)
  also have "\<dots> = map (\<lambda>b. (b, ranking_order calc bs b))
      (filter (asked_for rankingMode p uid (uint lim div 2) (ranking_order calc bs) bs) bs)"
    using assms by (intro arg_cong [where f = "map _"] filter_cong) (auto simp: asked_for_def)
  finally show ?thesis by (simp only: ranked_rows_def)
qed

text \<open>A page as the code reads it: the entries, and the total taken from the rows.\<close>

lemma page_entries:
  assumes "(found, totalCount) = parseRankingDataList L (ranking_query mode p uid c q off lim s)"
  defines "sel \<equiv> selected mode p uid lim (ranked_rows (op_OrderCalculation q) (base_rows c (op_GroupIndex q) (op_GroupNum q) s))"
  defines "page \<equiv> take (unat lim) (drop (unat off) (result_order sel))"
  shows "found = map (\<lambda>(b, order). parse_rank_row L (b, order, int (length sel))) page"
    and "totalCount = (if page = [] then 0 else word_of_int (int (length sel)))"
proof -
  have query: "ranking_query mode p uid c q off lim s = map (\<lambda>(b, order). (b, order, int (length sel))) page"
    by (simp add: ranking_query_def Let_def limit_offset_eq sel_def page_def)
  show "found = map (\<lambda>(b, order). parse_rank_row L (b, order, int (length sel))) page"
    and "totalCount = (if page = [] then 0 else word_of_int (int (length sel)))"
    using assms(1) unfolding query parseRankingDataList_def
    by (simp_all add: comp_def case_prod_beta last_map split: if_splits)
qed

text \<open>An entry that shows a row of the tables with its number.\<close>

definition shows_row :: "rk_world \<Rightarrow> u32 \<Rightarrow> (base_row \<Rightarrow> int) \<Rightarrow> rank_data \<Rightarrow> base_row \<Rightarrow> bool" where
  "shows_row s c order d b \<longleftrightarrow> rd_Order d = word_of_int (order b) \<and> rd_Category d = c \<and>
     rd_PrincipalID d = word_of_int (r_owner_pid (b_row b)) \<and> rd_UniqueID d = word_of_int (r_unique_id (b_row b)) \<and>
     rd_Score d = word_of_int (r_score (b_row b)) \<and> rd_Groups d = r_groups (b_row b) \<and>
     rd_Param d = word_of_int (r_param (b_row b)) \<and> rd_CommonData d = common_data_of s (b_row b)"

lemma page_rows:
  assumes "(found, totalCount) = parseRankingDataList L (ranking_query (if rankingMode = 2 then 4 else rankingMode) p uid c q off lim s)"
    and "rankingMode \<in> {0, 1, 2, 4}"
  defines "bs \<equiv> base_rows c (op_GroupIndex q) (op_GroupNum q) s"
    and "order \<equiv> ranking_order (op_OrderCalculation q) (base_rows c (op_GroupIndex q) (op_GroupNum q) s)"
  shows "\<exists>rows. mset rows = mset (filter (asked_for rankingMode p uid (uint lim div 2) order bs) bs) \<and>
      sorted (map order rows) \<and> list_all2 (shows_row s c order) found (take (unat lim) (drop (unat off) rows)) \<and>
      totalCount = (if found = [] then 0 else word_of_nat (length rows))"
proof -
  let ?asked = "filter (asked_for rankingMode p uid (uint lim div 2) order bs) bs"
  let ?sel = "selected (if rankingMode = 2 then 4 else rankingMode) p uid lim (ranked_rows (op_OrderCalculation q) bs)"
  let ?sorted = "result_order ?sel"
  let ?page = "take (unat lim) (drop (unat off) ?sorted)"
  have sel: "?sel = map (\<lambda>b. (b, order b)) ?asked"
    unfolding bs_def order_def by (rule selected_asked_for [OF assms(2)])
  note found = page_entries(1) [OF assms(1), folded bs_def] and count = page_entries(2) [OF assms(1), folded bs_def]
  have pairs: "(b, i) \<in> set ?sorted \<Longrightarrow> i = order b \<and> b \<in> set bs" for b i unfolding result_order_set(1) sel by auto
  then have snds: "map snd ?sorted = map order (map fst ?sorted)" by (auto simp: map_eq_conv)
  have "sorted (map order (map fst ?sorted))" using result_order_sorted [of ?sel] unfolding snds .
  moreover have "mset (map fst ?sorted) = mset ?asked" by (simp add: result_order_def sel multiset.map_comp comp_def)
  moreover have "list_all2 (shows_row s c order) found (take (unat lim) (drop (unat off) (map fst ?sorted)))"
  proof -
    have "i = order b \<and> b \<in> set bs" if "(b, i) \<in> set ?page" for b i
      using pairs [OF in_set_dropD [OF in_set_takeD [OF that]]] .
    moreover have "b_common_data b = common_data_of s (b_row b) \<and> r_category (b_row b) = uint c" if "b \<in> set bs" for b
      using that by (auto simp: base_rows_def bs_def)
    ultimately show ?thesis
      unfolding found take_map drop_map list_all2_map1 list_all2_map2
      by (intro list.rel_refl_strong) (auto simp: parse_rank_row_def shows_row_def Let_def)
  qed
  moreover have "totalCount = (if found = [] then 0 else word_of_nat (length (map fst ?sorted)))"
    by (simp add: found count)
  ultimately show ?thesis by blast
qed

text \<open>
  C34: A page of a ranking. Only the modes 0, 1, 2 and 4 are answered. The entries are those rows of
  the category, and of the wanted group if one is named, that the mode asks for (\<open>asked_for\<close>): sorted
  by their order numbers, from the offset on in the mode of a range and from the start in the others,
  as many as are asked for but at most a thousand, none left out in between. Each entry shows its row
  with its order number, and the total, when there is an entry, is the number of all rows that the
  mode asks for.
\<close>

theorem ranking_page:
  assumes "db_faults s = []" and "length (t_rankings s) < 2 ^ 31"
    and "HyruleWarriorsGetRankings L rankingMode p uid c q s = (Ok (found, totalCount), t)"
  defines "bs \<equiv> base_rows c (op_GroupIndex q) (op_GroupNum q) s"
    and "order \<equiv> ranking_order (op_OrderCalculation q) (base_rows c (op_GroupIndex q) (op_GroupNum q) s)"
  shows "t = s \<and> rankingMode \<in> {0, 1, 2, 4} \<and> length found \<le> 1000 \<and> length found \<le> unat totalCount \<and>
    sorted (map (\<lambda>d. unat (rd_Order d)) found) \<and>
    map b_row bs = filter (\<lambda>r. r_category r = uint c \<and> (op_GroupIndex q = 255 \<or>
      unat (op_GroupIndex q) < length (r_groups r) \<and> r_groups r ! unat (op_GroupIndex q) = op_GroupNum q)) (t_rankings s) \<and>
    (\<exists>rows. mset rows = mset (filter (asked_for rankingMode p uid (uint (page_limit q) div 2) order bs) bs) \<and>
      sorted (map order rows) \<and>
      list_all2 (shows_row s c order) found (take (unat (page_limit q)) (drop (unat (page_offset rankingMode q)) rows)) \<and>
      totalCount = (if found = [] then 0 else word_of_nat (length rows)))"
proof -
  note run = run_GetRankings [OF assms(1,3)]
  obtain rows where rows: "mset rows = mset (filter (asked_for rankingMode p uid (uint (page_limit q) div 2) order bs) bs)"
    and sorted: "sorted (map order rows)"
    and shown: "list_all2 (shows_row s c order) found (take (unat (page_limit q)) (drop (unat (page_offset rankingMode q)) rows))"
    and count: "totalCount = (if found = [] then 0 else word_of_nat (length rows))"
    using page_rows [OF run(3,2)] unfolding bs_def order_def by blast
  have "length rows \<le> length bs"
    using arg_cong [OF rows, of size] length_filter_le [of _ bs] by (simp only: size_mset)
  moreover have small: "length bs < 2 ^ 31" using assms(2) by (simp add: bs_def base_rows_def le_less_trans [OF length_filter_le])
  ultimately have "unat (word_of_nat (length rows) :: u32) = length rows" by (intro unat_of_nat_u32) simp
  then have "length found \<le> unat totalCount" using list_all2_lengthD [OF shown] by (auto simp: count)
  moreover have "length found \<le> 1000" using list_all2_lengthD [OF shown] page_limit_bound [of q] by simp
  moreover have orders: "map (\<lambda>d. unat (rd_Order d)) found = 
      map (\<lambda>b. nat (order b)) (take (unat (page_limit q)) (drop (unat (page_offset rankingMode q)) rows))"
  proof -
    have "unat (word_of_int (order b) :: u32) = nat (order b)" for b
    proof -
      have "0 \<le> order b" and "order b \<le> 1 + int (length bs)" using length_filter_le [of _ bs] by (auto simp: order_def ranking_order_def bs_def)
      then have "nat (order b) < 2 ^ 32" using small by simp
      then show ?thesis using unat_of_nat_u32 [of "nat (order b)"] \<open>0 \<le> order b\<close> by simp
    qed
    with shown show ?thesis by (induction rule: list_all2_induct) (auto simp: shows_row_def)
  qed
  moreover have "sorted (map (\<lambda>d. unat (rd_Order d)) found)"
  proof -
    have "sorted (map (\<lambda>b. nat (order b)) rows)"
      using sorted_map_mono [of "map order rows" nat] sorted by (simp add: comp_def mono_on_def nat_mono)
    then show ?thesis
      unfolding orders by (simp only: take_map [symmetric] drop_map [symmetric] sorted_wrt_take sorted_wrt_drop)
  qed
  moreover have "map b_row bs = filter (\<lambda>r. r_category r = uint c \<and> (op_GroupIndex q = 255 \<or>
      unat (op_GroupIndex q) < length (r_groups r) \<and> r_groups r ! unat (op_GroupIndex q) = op_GroupNum q)) (t_rankings s)"
    by (auto simp: bs_def base_rows_def comp_def in_group_def intro!: filter_cong)
  ultimately show ?thesis using run(1,2) rows sorted shown count by blast
qed

definition sample_rank_lib :: rank_lib where
  "sample_rank_lib = \<lparr> FilterGroupIndexNone = 255, FromTimestamp_receiver = (\<lambda>_. 0),
     RkDateTimeFromTimestamp = word_of_int \<rparr>"

definition sample_order :: order_param where
  "sample_order = \<lparr> op_OrderCalculation = 0, op_GroupIndex = 255, op_GroupNum = 0, op_Offset = 0, op_Length = 10 \<rparr>"

lemma ranking_page_witness:
  "\<exists>found count. HyruleWarriorsGetRankings sample_rank_lib 0 1001 0 3 sample_order sample_ranks =
    (Ok (found, count), sample_ranks) \<and> length found \<le> unat count"
proof -
  have "\<exists>found count. HyruleWarriorsGetRankings sample_rank_lib 0 1001 0 3 sample_order sample_ranks =
      (Ok (found, count), sample_ranks)"
    by (simp add: HyruleWarriorsGetRankings_def ranking_modes sample_order_def sample_rank_lib_def Let_def bindM_def
      run_simps parseRankingDataList_def)
  then show ?thesis using ranking_page [of sample_ranks sample_rank_lib 0 1001 0 3 sample_order] by fastforce
qed

text \<open>
  The total of a ranking is read from its rows: a page that starts beyond the last row
  reports a total of zero, and the handler answers with an empty ranking as if nobody had a score.
\<close>

lemma page_beyond_the_end:
  assumes "db_faults s = []" and "length (t_rankings s) \<le> unat (op_Offset q)" and "op_OrderCalculation q \<le> 1"
    and "op_GroupIndex q = FilterGroupIndexNone L"
  shows "getRanking (server_ranking L) False connection callID 0 c q uid p s =
    (Ok (rmcSuccess Ranking_Protocol MethodGetRanking callID [WRankingResult (ranking_result_of [] 0)]), s)"
proof -
  let ?bs = "base_rows c (op_GroupIndex q) (op_GroupNum q) s"
  have "length ?bs \<le> length (t_rankings s)" by (simp add: base_rows_def)
  moreover have "length (selected mode p' uid lim (ranked_rows calc ?bs)) \<le> length ?bs" for mode p' lim calc
    by (simp add: selected_def ranked_rows_def order_trans [OF length_filter_le])
  ultimately have "length (selected mode p' uid lim (ranked_rows calc ?bs)) \<le> unat (op_Offset q)" for mode p' lim calc
    using assms(2) by (meson order_trans)
  then have "ranking_query 0 p' uid c q (op_Offset q) lim s = []" for p' lim
    by (simp add: ranking_query_def Let_def limit_offset_eq)
  moreover have "\<not> op_OrderCalculation q > 1" using assms(3) by (simp add: not_less)
  ultimately show ?thesis
    using assms(1,4) by (simp add: getRanking_def server_ranking_def or_error_def HyruleWarriorsGetRankings_def
      ranking_modes Let_def bindM_def run_simps catchM_def parseRankingDataList_def)
qed

lemma page_beyond_the_end_witness:
  "fst (getRanking (server_ranking sample_rank_lib) False \<lparr> conn_PID = 1001, conn_ID = 1, conn_StationURLs = [] \<rparr> 7 0 3
    (sample_order\<lparr>op_Offset := 2\<rparr>) 0 0 sample_ranks) =
   Ok (rmcSuccess Ranking_Protocol MethodGetRanking 7 [WRankingResult (ranking_result_of [] 0)])"
  using page_beyond_the_end [of sample_ranks "sample_order\<lparr>op_Offset := 2\<rparr>" sample_rank_lib]
  by (simp add: sample_order_def sample_rank_lib_def)

section \<open>Common data\<close>

text \<open>
  Common data that a player uploads is what the same player gets back, by its unique ID, until
  the next upload.
\<close>

lemma common_data_read_back:
  assumes "db_faults s = []" and "distinct (map common_key (t_common s))" and "uniqueID \<noteq> 0"
  shows "\<exists>t. uploadCommonData (server_ranking L) False connection callID commonData uniqueID s =
      (Ok (rmcSuccess Ranking_Protocol MethodUploadCommonData callID []), t) \<and>
    getCommonData (server_ranking L) False connection callID' uniqueID t =
      (Ok (rmcSuccess Ranking_Protocol MethodGetCommonData callID' [WCommonData commonData]), t)"
proof -
  let ?p = "conn_PID connection"
  let ?new = "common_row ?p uniqueID commonData (rk_now s)"
  let ?rows = "upsert common_key (overwrite_common ?new) ?new (t_common s)"
  let ?t = "s\<lparr>t_common := ?rows\<rparr>"
  have key: "common_key ?new = (int64 uniqueID, int64 ?p)" by (simp add: common_key_def common_row_def)
  obtain r where r: "filter (\<lambda>c. common_key c = common_key ?new) ?rows = [r]"
    using commons.one_row_upsert [OF assms(2)] by blast
  have data: "cd_common_data r = commonData"
    using commons.key_rows_upsert [of ?new "t_common s"] r
    by (auto simp: overwrite_common_def common_row_def split: list.splits)
  have "filter (\<lambda>c. cd_owner_pid c = int64 ?p \<and> cd_unique_id c = int64 uniqueID) ?rows = [r]"
    using r unfolding key by (simp add: common_key_def conj_commute)
  then have "getCommonData (server_ranking L) False connection callID' uniqueID ?t =
      (Ok (rmcSuccess Ranking_Protocol MethodGetCommonData callID' [WCommonData commonData]), ?t)"
    using assms(1,3) data by (simp add: getCommonData_def server_ranking_def or_error_def
      HyruleWarriorsGetCommonData_def bindM_def catchM_def run_simps)
  moreover have "uploadCommonData (server_ranking L) False connection callID commonData uniqueID s =
      (Ok (rmcSuccess Ranking_Protocol MethodUploadCommonData callID []), ?t)"
    using assms(1) by (simp add: uploadCommonData_def server_ranking_def or_error_def
      HyruleWarriorsUploadCommonData_def bindM_def catchM_def run_simps)
  ultimately show ?thesis by blast
qed

lemma common_data_read_back_witness:
  "\<exists>t. getCommonData (server_ranking sample_rank_lib) False \<lparr> conn_PID = 1001, conn_ID = 1, conn_StationURLs = [] \<rparr> 8 5 t =
    (Ok (rmcSuccess Ranking_Protocol MethodGetCommonData 8 [WCommonData [1, 2]]), t)"
  using common_data_read_back [of sample_ranks 5 sample_rank_lib "\<lparr> conn_PID = 1001, conn_ID = 1, conn_StationURLs = [] \<rparr>" 7 "[1, 2]" 8]
  by (auto simp: sample_ranks_def)

end
