(* ===== verification/Datastore_Db.thy ===== *)
theory Datastore_Db
  imports Sql_Lists Nex_Types Decimal
begin

text \<open>
  The object store of the game (\<open>src/database\<close>): the table of objects, its rows as the queries
  scan them, and the callbacks that \<open>nex/secure.go\<close> installs in the datastore protocol.
\<close>

section \<open>Objects and the data of requests\<close>

record ds_permission =
  Permission :: u8
  RecipientIDs :: "pid list"

record object_row =
  o_data_id :: int
  o_upload_completed :: bool
  o_deleted :: bool
  o_owner :: int
  o_size :: int
  o_name :: string
  o_data_type :: int
  o_meta_binary :: bytes
  o_permission :: int
  o_permission_recipients :: "int list"
  o_delete_permission :: int
  o_delete_permission_recipients :: "int list"
  o_flag :: int
  o_period :: int
  o_refer_data_id :: int
  o_tags :: "string list"
  o_persistence_slot_id :: int
  o_extra_data :: "string list"
  o_access_password :: int
  o_update_password :: int
  o_creation_date :: int
  o_update_date :: int

record meta_info =
  mi_DataID :: u64
  mi_OwnerID :: pid
  mi_Size :: u32
  mi_Name :: string
  mi_DataType :: u16
  mi_MetaBinary :: bytes
  mi_Permission :: ds_permission
  mi_DelPermission :: ds_permission
  mi_CreatedTime :: u64
  mi_UpdatedTime :: u64
  mi_Period :: u16
  mi_ReferDataID :: u32
  mi_Flag :: u32
  mi_ReferredTime :: u64
  mi_ExpireTime :: u64
  mi_Tags :: "string list"

text \<open>The rating parameters of a new object are never looked at; only their slot is kept here.\<close>

record prepare_post_param =
  pp_Size :: u32
  pp_Name :: string
  pp_DataType :: u16
  pp_MetaBinary :: bytes
  pp_Permission :: ds_permission
  pp_DelPermission :: ds_permission
  pp_Flag :: u32
  pp_Period :: u16
  pp_ReferDataID :: u32
  pp_Tags :: "string list"
  pp_RatingInitSlots :: "u8 list"
  pp_PersistenceSlotID :: u16
  pp_ExtraData :: "string list"

record persistence_target =
  pt_OwnerID :: pid
  pt_PersistenceSlotID :: u16

record ds_search_param =
  sp_OwnerIDs :: "pid list"
  sp_DataTypes :: "u16 list"
  sp_DataType :: u16
  sp_Tags :: "string list"
  sp_ResultOffset :: u32
  sp_ResultLength :: u32
  sp_ResultOption :: u8
  sp_TotalCountEnabled :: bool
  sp_StructureVersion :: u8

text \<open>
  The state: the objects, the sequence of their IDs, the clock, and the sizes of the objects in
  the S3 store by bucket and key, which clients fill on their own.
\<close>

record ds_world = db_env +
  t_objects :: "object_row list"
  next_data_id :: int
  ds_now :: int
  s3_sizes :: "string \<Rightarrow> string \<Rightarrow> u64 option"

type_synonym 'a ds = "(ds_world, 'a) nex"

text \<open>
  Taken from outside the repository: the structures that \<open>NewDataStoreMetaInfo\<close> and
  \<open>NewDataStoreRatingInfo\<close> make (a rating, never looked at, is its serialization),
  \<open>FilterPropertiesByResultOption\<close>, the text that the method \<open>String()\<close> of a string of the library
  gives (which need not be the string itself), the \<open>DateTime\<close> field of a fresh structure after a call
  \<open>x.FromTimestamp(t)\<close> whose result is dropped, and the library version test of the search.
\<close>

type_synonym rating_info = bytes

record ds_lib =
  NewDataStoreMetaInfo :: meta_info
  NewDataStoreRatingInfo :: rating_info
  FilterPropertiesByResultOption :: "u8 \<Rightarrow> meta_info \<Rightarrow> meta_info"
  String_String :: "string \<Rightarrow> string"
  MetaFromTimestamp_receiver :: "int \<Rightarrow> u64"
  DataStore_AtLeast_4_0_0 :: bool

section \<open>Scanning\<close>

definition convertPIDList :: "pid list \<Rightarrow> int list" where
  "convertPIDList ps = map uint ps"

definition createPIDList :: "int list \<Rightarrow> pid list" where
  "createPIDList us = map word_of_int us"

text \<open>Strings are stored as the text of \<open>n.String()\<close>, and read back as they are stored.\<close>

definition convertStringList :: "ds_lib \<Rightarrow> string list \<Rightarrow> string list" where
  "convertStringList L list = map (String_String L) list"

definition createStringList :: "string list \<Rightarrow> string list" where
  "createStringList list = map (\<lambda>u. u) list"

definition parse_object :: "ds_lib \<Rightarrow> object_row \<Rightarrow> meta_info" where
  "parse_object L r = (NewDataStoreMetaInfo L)\<lparr>
     mi_ExpireTime := 0x9C3F3E0000, mi_DataID := word_of_int (o_data_id r), mi_Size := word_of_int (o_size r),
     mi_Name := o_name r, mi_DataType := word_of_int (o_data_type r), mi_MetaBinary := o_meta_binary r,
     mi_Permission := \<lparr> Permission = word_of_int (o_permission r),
       RecipientIDs = createPIDList (o_permission_recipients r) \<rparr>,
     mi_DelPermission := \<lparr> Permission = word_of_int (o_delete_permission r),
       RecipientIDs = createPIDList (o_delete_permission_recipients r) \<rparr>,
     mi_Flag := word_of_int (o_flag r), mi_Period := word_of_int (o_period r),
     mi_ReferDataID := word_of_int (o_refer_data_id r), mi_OwnerID := word_of_int (o_owner r), mi_Tags := createStringList (o_tags r),
     mi_CreatedTime := MetaFromTimestamp_receiver L (o_creation_date r),
     mi_UpdatedTime := MetaFromTimestamp_receiver L (o_update_date r),
     mi_ReferredTime := MetaFromTimestamp_receiver L (o_creation_date r) \<rparr>"

text \<open>
  Only numbers in the range of the Go variable are scanned; a value outside of it is an error of
  the whole list.
\<close>

definition scannable :: "object_row \<Rightarrow> bool" where
  "scannable r \<longleftrightarrow> 0 \<le> o_data_id r \<and> 0 \<le> o_owner r \<and> 0 \<le> o_size r \<and> o_size r < 2 ^ 32 \<and>
     0 \<le> o_data_type r \<and> o_data_type r < 2 ^ 16 \<and> 0 \<le> o_permission r \<and> o_permission r < 2 ^ 8 \<and>
     0 \<le> o_delete_permission r \<and> o_delete_permission r < 2 ^ 8 \<and> 0 \<le> o_flag r \<and> o_flag r < 2 ^ 32 \<and>
     0 \<le> o_period r \<and> o_period r < 2 ^ 16 \<and> 0 \<le> o_refer_data_id r \<and> o_refer_data_id r < 2 ^ 32 \<and>
     0 \<le> o_persistence_slot_id r \<and> 0 \<le> o_access_password r \<and> 0 \<le> o_update_password r \<and>
     list_all (\<lambda>n. 0 \<le> n) (o_permission_recipients r) \<and> list_all (\<lambda>n. 0 \<le> n) (o_delete_permission_recipients r)"

definition parseObjectList :: "ds_lib \<Rightarrow> object_row list \<Rightarrow> meta_info list option" where
  "parseObjectList L rows = (if list_all scannable rows then Some (map (parse_object L) rows) else None)"

definition object_rows :: "u64 \<Rightarrow> ds_world \<Rightarrow> object_row list" where
  "object_rows dataID s = filter (\<lambda>r. o_data_id r = sint dataID) (t_objects s)"

definition update_object :: "u64 \<Rightarrow> (object_row \<Rightarrow> object_row) \<Rightarrow> ds_world \<Rightarrow> ds_world" where
  "update_object dataID f s = s\<lparr>t_objects := map (\<lambda>r. if o_data_id r = sint dataID then f r else r) (t_objects s)\<rparr>"

section \<open>Reading objects\<close>

text \<open>
  A query that fails is answered with \<open>Unknown\<close>. The code distinguishes one SQL state, 42P01, for a
  table that does not exist, and answers it with \<open>NotFound\<close>; a running process has created the
  table (\<open>running_process_can_store\<close>) and nothing drops it, so that state is left out.
\<close>

definition first_object :: "ds_lib \<Rightarrow> sql_error + object_row list \<Rightarrow> meta_info ds" where
  "first_object L r = (case r of
     Inl _ \<Rightarrow> throwM DataStore_Unknown
   | Inr rows \<Rightarrow> (case parseObjectList L rows of
       Some (info # _) \<Rightarrow> retM info
     | _ \<Rightarrow> throwM DataStore_NotFound))"

definition GetObjectInfoByDataID :: "ds_lib \<Rightarrow> u64 \<Rightarrow> meta_info ds" where
  "GetObjectInfoByDataID L dataID = bindM (sql_query (object_rows dataID)) (first_object L)"

definition GetObjectInfoByDataIDWithPassword :: "ds_lib \<Rightarrow> u64 \<Rightarrow> u64 \<Rightarrow> meta_info ds" where
  "GetObjectInfoByDataIDWithPassword L dataID password =
    bindM (sql_query_row (object_rows dataID)) (\<lambda>r. case r of
      Inl ErrNoRows \<Rightarrow> throwM DataStore_NotFound
    | Inl ErrDatabase \<Rightarrow> throwM DataStore_Unknown
    | Inr row \<Rightarrow>
        if o_access_password row \<noteq> 0 \<and> o_access_password row \<noteq> sint password
        then throwM DataStore_PermissionDenied
        else GetObjectInfoByDataID L dataID)"

definition GetObjectInfoByPersistenceTargetWithPassword ::
  "ds_lib \<Rightarrow> persistence_target \<Rightarrow> u64 \<Rightarrow> meta_info ds" where
  "GetObjectInfoByPersistenceTargetWithPassword L persistenceTarget password =
    bindM (sql_query (\<lambda>s. take 1 (order_by (\<lambda>r. Some (- o_update_date r)) (filter (\<lambda>r.
      o_owner r = sint (pt_OwnerID persistenceTarget) \<and>
      o_persistence_slot_id r = uint (pt_PersistenceSlotID persistenceTarget) \<and> \<not> o_deleted r) (t_objects s)))))
      (first_object L)"

definition dataTypeWildcard :: u16 where "dataTypeWildcard = 0xFFFF"

definition object_found :: "ds_search_param \<Rightarrow> object_row \<Rightarrow> bool" where
  "object_found param r \<longleftrightarrow> o_upload_completed r \<and> \<not> o_deleted r \<and>
     (sp_DataType param \<noteq> dataTypeWildcard \<longrightarrow> o_data_type r = uint (sp_DataType param)) \<and>
     (sp_DataTypes param = [] \<or> o_data_type r \<in> uint ` set (sp_DataTypes param)) \<and>
     (sp_Tags param = [] \<or> list_ex (\<lambda>t. t \<in> set (sp_Tags param)) (o_tags r)) \<and>
     (sp_OwnerIDs param = [] \<or> o_owner r \<in> sint ` set (sp_OwnerIDs param))"

text \<open>
  The limit is \<open>int32(Length)\<close>, replaced by 100 outside of 1 to 1000; a negative \<open>OFFSET\<close> is an
  error of the statement. Any error gives no results.
\<close>

definition search_limit :: "u32 \<Rightarrow> nat" where
  "search_limit len = (let n = sint len in if n \<le> 0 \<or> n > 1000 then 100 else nat n)"

definition GetObjectInfosByDataStoreSearchParam ::
  "ds_lib \<Rightarrow> ds_search_param \<Rightarrow> pid \<Rightarrow> (meta_info list \<times> u32) ds" where
  "GetObjectInfosByDataStoreSearchParam L param p =
    (let offset = sint (sp_ResultOffset param) in
    bindM (sql_query (\<lambda>s.
      let rows = order_by (\<lambda>r. Some (- o_update_date r)) (filter (object_found param) (t_objects s)) in
      take (search_limit (sp_ResultLength param)) (drop (nat (min offset (int (length rows)))) rows))) (\<lambda>r.
    case r of
      Inl _ \<Rightarrow> retM ([], 0)
    | Inr rows \<Rightarrow>
        if offset < 0 then retM ([], 0)
        else (case parseObjectList L rows of
            None \<Rightarrow> retM ([], 0)
          | Some results \<Rightarrow> retM (results, word_of_nat (length results)))))"

definition object_column :: "u64 \<Rightarrow> (object_row \<Rightarrow> int) \<Rightarrow> u32 ds" where
  "object_column dataID column =
    bindM (sql_query_row (object_rows dataID)) (\<lambda>r. case r of
      Inl ErrNoRows \<Rightarrow> throwM DataStore_NotFound
    | Inl ErrDatabase \<Rightarrow> throwM DataStore_Unknown
    | Inr row \<Rightarrow> retM (word_of_int (column row)))"

definition GetObjectOwnerByDataID :: "u64 \<Rightarrow> u32 ds" where
  "GetObjectOwnerByDataID dataID = object_column dataID o_owner"

definition GetObjectSizeByDataID :: "u64 \<Rightarrow> u32 ds" where
  "GetObjectSizeByDataID dataID = object_column dataID o_size"

section \<open>Writing objects\<close>

text \<open>
  A new row. The columns are of the types \<open>int\<close> and \<open>bigint\<close>; the statement fails for a value that
  does not fit, and when the sequence of the IDs (\<open>MAXVALUE 281474976710656\<close>) is exhausted.
\<close>

definition new_object :: "ds_lib \<Rightarrow> pid \<Rightarrow> prepare_post_param \<Rightarrow> int \<Rightarrow> int \<Rightarrow> object_row" where
  "new_object L ownerPID param dataID now = \<lparr> o_data_id = dataID, o_upload_completed = False, o_deleted = False,
     o_owner = uint ownerPID, o_size = uint (pp_Size param), o_name = pp_Name param,
     o_data_type = uint (pp_DataType param), o_meta_binary = pp_MetaBinary param,
     o_permission = uint (Permission (pp_Permission param)),
     o_permission_recipients = convertPIDList (RecipientIDs (pp_Permission param)),
     o_delete_permission = uint (Permission (pp_DelPermission param)),
     o_delete_permission_recipients = convertPIDList (RecipientIDs (pp_DelPermission param)),
     o_flag = uint (pp_Flag param), o_period = uint (pp_Period param),
     o_refer_data_id = uint (pp_ReferDataID param), o_tags = convertStringList L (pp_Tags param),
     o_persistence_slot_id = uint (pp_PersistenceSlotID param), o_extra_data = convertStringList L (pp_ExtraData param),
     o_access_password = 0, o_update_password = 0, o_creation_date = now, o_update_date = now \<rparr>"

definition fits_columns :: "object_row \<Rightarrow> bool" where
  "fits_columns r \<longleftrightarrow> o_owner r < 2 ^ 63 \<and> o_size r < 2 ^ 31 \<and> o_flag r < 2 ^ 31 \<and>
     list_all (\<lambda>n. n < 2 ^ 31) (o_permission_recipients r) \<and>
     list_all (\<lambda>n. n < 2 ^ 31) (o_delete_permission_recipients r)"

definition InitializeObjectByPreparePostParam :: "ds_lib \<Rightarrow> pid \<Rightarrow> prepare_post_param \<Rightarrow> u64 ds" where
  "InitializeObjectByPreparePostParam L ownerPID param =
    bindM (getM ds_now) (\<lambda>now.
    bindM (db_call (\<lambda>s. let row = new_object L ownerPID param (next_data_id s) now in
      if next_data_id s \<le> 281474976710656 \<and> fits_columns row
      then (Some (next_data_id s), s\<lparr>t_objects := t_objects s @ [row], next_data_id := next_data_id s + 1\<rparr>)
      else (None, s))) (\<lambda>r. case r of
        Inr (Some dataID) \<Rightarrow> retM (word_of_int dataID)
      | _ \<Rightarrow> throwM DataStore_Unknown))"

definition InitializeObjectRatingWithSlot :: "u64 \<Rightarrow> u8 \<Rightarrow> unit ds" where
  "InitializeObjectRatingWithSlot dataID slot = retM ()"

definition object_exec :: "u64 \<Rightarrow> (object_row \<Rightarrow> object_row) \<Rightarrow> unit ds" where
  "object_exec dataID f =
    bindM (sql_exec (\<lambda>s. length (object_rows dataID s)) (update_object dataID f)) (\<lambda>r. case r of
      Inl _ \<Rightarrow> throwM DataStore_Unknown
    | Inr _ \<Rightarrow> retM ())"

definition UpdateObjectPeriodByDataIDWithPassword :: "u64 \<Rightarrow> u16 \<Rightarrow> u64 \<Rightarrow> unit ds" where
  "UpdateObjectPeriodByDataIDWithPassword dataID period updatePassword =
    bindM (getM ds_now) (\<lambda>now.
    object_exec dataID (\<lambda>r. r\<lparr>o_period := uint period, o_update_date := now\<rparr>))"

definition UpdateObjectMetaBinaryByDataIDWithPassword :: "u64 \<Rightarrow> bytes \<Rightarrow> u64 \<Rightarrow> unit ds" where
  "UpdateObjectMetaBinaryByDataIDWithPassword dataID metaBinary updatePassword =
    bindM (getM ds_now) (\<lambda>now.
    object_exec dataID (\<lambda>r. r\<lparr>o_meta_binary := metaBinary, o_update_date := now\<rparr>))"

definition UpdateObjectDataTypeByDataIDWithPassword :: "u64 \<Rightarrow> u16 \<Rightarrow> u64 \<Rightarrow> unit ds" where
  "UpdateObjectDataTypeByDataIDWithPassword dataID dataType updatePassword =
    bindM (getM ds_now) (\<lambda>now.
    object_exec dataID (\<lambda>r. r\<lparr>o_data_type := uint dataType, o_update_date := now\<rparr>))"

definition UpdateObjectUploadCompletedByDataID :: "u64 \<Rightarrow> bool \<Rightarrow> unit ds" where
  "UpdateObjectUploadCompletedByDataID dataID uploadCompleted =
    object_exec dataID (\<lambda>r. r\<lparr>o_upload_completed := uploadCompleted\<rparr>)"

definition DeleteObjectByDataID :: "u64 \<Rightarrow> unit ds" where
  "DeleteObjectByDataID dataID = object_exec dataID (\<lambda>r. r\<lparr>o_deleted := True\<rparr>)"

end
