(* ===== verification/Datastore.thy ===== *)
theory Datastore
  imports Datastore_Db
begin

text \<open>
  The handlers of the datastore protocol (\<open>datastore/\<close>) over the callbacks of the game and an S3
  store. A callback that is not set is \<open>None\<close>, and calling it is a panic; the order of the tests
  is that of the code. The \<open>OnAfter\<close> hooks, which the server leaves unset, are not modelled.
\<close>

section \<open>The S3 store\<close>

text \<open>
  The MinIO client. Signing is the library's: a URL, and for an upload the form data (a Go map,
  here in the order of the iteration), or an error. Sizes of objects are read from the world.
\<close>

record minio_client =
  PresignedGetObject :: "string \<Rightarrow> string \<Rightarrow> int \<Rightarrow> string option"
  PresignedPostPolicy :: "string \<Rightarrow> string \<Rightarrow> int \<Rightarrow> (string \<times> (string \<times> string) list) option"
  SetBucket_ok :: "string \<Rightarrow> bool"
  SetKey_ok :: "string \<Rightarrow> bool"
  SetExpires_ok :: "int \<Rightarrow> bool"

definition Presigner_GetObject :: "minio_client \<Rightarrow> string \<Rightarrow> string \<Rightarrow> int \<Rightarrow> string option" where
  "Presigner_GetObject m bucket key lifetime = PresignedGetObject m bucket key lifetime"

definition Presigner_PostObject ::
  "minio_client \<Rightarrow> string \<Rightarrow> string \<Rightarrow> int \<Rightarrow> int \<Rightarrow> (string \<times> (string \<times> string) list) option" where
  "Presigner_PostObject m bucket key lifetime now =
    (if \<not> SetBucket_ok m bucket then None
     else if \<not> SetKey_ok m key then None
     else if \<not> SetExpires_ok m (now + lifetime) then None
     else PresignedPostPolicy m bucket key (now + lifetime))"

section \<open>The protocol\<close>

record ds_protocol =
  dp_S3Bucket :: string
  dp_s3DataKeyBase :: string
  dp_s3NotifyKeyBase :: string
  dp_RootCACert :: bytes
  dp_minIOClient :: "minio_client option"
  dp_S3Presigner :: "minio_client option"
  dp_GetUserFriendPIDs :: "(u32 \<Rightarrow> u32 list) option"
  dp_GetObjectInfoByDataID :: "(u64 \<Rightarrow> meta_info ds) option"
  dp_UpdateObjectPeriodByDataIDWithPassword :: "(u64 \<Rightarrow> u16 \<Rightarrow> u64 \<Rightarrow> unit ds) option"
  dp_UpdateObjectMetaBinaryByDataIDWithPassword :: "(u64 \<Rightarrow> bytes \<Rightarrow> u64 \<Rightarrow> unit ds) option"
  dp_UpdateObjectDataTypeByDataIDWithPassword :: "(u64 \<Rightarrow> u16 \<Rightarrow> u64 \<Rightarrow> unit ds) option"
  dp_GetObjectSizeByDataID :: "(u64 \<Rightarrow> u32 ds) option"
  dp_UpdateObjectUploadCompletedByDataID :: "(u64 \<Rightarrow> bool \<Rightarrow> unit ds) option"
  dp_GetObjectInfoByPersistenceTargetWithPassword :: "(persistence_target \<Rightarrow> u64 \<Rightarrow> meta_info ds) option"
  dp_GetObjectInfoByDataIDWithPassword :: "(u64 \<Rightarrow> u64 \<Rightarrow> meta_info ds) option"
  dp_S3GetRequestHeaders :: "(string \<times> string) list ds"
  dp_S3PostRequestHeaders :: "(string \<times> string) list ds"
  dp_InitializeObjectByPreparePostParam :: "(pid \<Rightarrow> prepare_post_param \<Rightarrow> u64 ds) option"
  dp_InitializeObjectRatingWithSlot :: "(u64 \<Rightarrow> u8 \<Rightarrow> unit ds) option"
  dp_RateObjectWithPassword :: "(u64 \<Rightarrow> u8 \<Rightarrow> u32 \<Rightarrow> u64 \<Rightarrow> rating_info ds) option"
  dp_DeleteObjectByDataIDWithPassword :: "(u64 \<Rightarrow> u64 \<Rightarrow> unit ds) option"
  dp_DeleteObjectByDataID :: "(u64 \<Rightarrow> unit ds) option"
  dp_GetObjectInfosByDataStoreSearchParam :: "(ds_search_param \<Rightarrow> pid \<Rightarrow> (meta_info list \<times> u32) ds) option"
  dp_GetObjectOwnerByDataID :: "(u64 \<Rightarrow> u32 ds) option"

definition TrimPrefix :: "string \<Rightarrow> string \<Rightarrow> string" where
  "TrimPrefix s p = (if take (length p) s = p then drop (length p) s else s)"

definition TrimSuffix :: "string \<Rightarrow> string \<Rightarrow> string" where
  "TrimSuffix s p = rev (TrimPrefix (rev s) (rev p))"

definition SetDataKeyBase :: "string \<Rightarrow> ds_protocol \<Rightarrow> ds_protocol" where
  "SetDataKeyBase base P = P\<lparr>dp_s3DataKeyBase := TrimSuffix (TrimPrefix base ''/'') ''/''\<rparr>"

definition SetNotifyKeyBase :: "string \<Rightarrow> ds_protocol \<Rightarrow> ds_protocol" where
  "SetNotifyKeyBase base P = P\<lparr>dp_s3NotifyKeyBase := TrimSuffix (TrimPrefix base ''/'') ''/''\<rparr>"

definition SetMinIOClient :: "minio_client \<Rightarrow> ds_protocol \<Rightarrow> ds_protocol" where
  "SetMinIOClient client P = P\<lparr>dp_minIOClient := Some client, dp_S3Presigner := Some client\<rparr>"

definition new_ds_protocol :: ds_protocol where
  "new_ds_protocol = \<lparr> dp_S3Bucket = [], dp_s3DataKeyBase = [], dp_s3NotifyKeyBase = [], dp_RootCACert = [], dp_minIOClient = None,
     dp_S3Presigner = None, dp_GetUserFriendPIDs = None, dp_GetObjectInfoByDataID = None,
     dp_UpdateObjectPeriodByDataIDWithPassword = None, dp_UpdateObjectMetaBinaryByDataIDWithPassword = None,
     dp_UpdateObjectDataTypeByDataIDWithPassword = None, dp_GetObjectSizeByDataID = None,
     dp_UpdateObjectUploadCompletedByDataID = None, dp_GetObjectInfoByPersistenceTargetWithPassword = None,
     dp_GetObjectInfoByDataIDWithPassword = None, dp_S3GetRequestHeaders = retM [],
     dp_S3PostRequestHeaders = retM [], dp_InitializeObjectByPreparePostParam = None,
     dp_InitializeObjectRatingWithSlot = None, dp_RateObjectWithPassword = None,
     dp_DeleteObjectByDataIDWithPassword = None, dp_DeleteObjectByDataID = None,
     dp_GetObjectInfosByDataStoreSearchParam = None, dp_GetObjectOwnerByDataID = None \<rparr>"

text \<open>
  What \<open>nex/secure.go\<close> sets. The S3 client is there when its endpoint is configured; the bucket
  of the configuration has a default.
\<close>

definition server_datastore :: "ds_lib \<Rightarrow> minio_client option \<Rightarrow> string \<Rightarrow> ds_protocol" where
  "server_datastore L client bucket = (let P = new_ds_protocol\<lparr>
     dp_GetObjectInfosByDataStoreSearchParam := Some (GetObjectInfosByDataStoreSearchParam L),
     dp_InitializeObjectByPreparePostParam := Some (InitializeObjectByPreparePostParam L),
     dp_InitializeObjectRatingWithSlot := Some InitializeObjectRatingWithSlot,
     dp_GetObjectInfoByDataID := Some (GetObjectInfoByDataID L),
     dp_UpdateObjectPeriodByDataIDWithPassword := Some UpdateObjectPeriodByDataIDWithPassword,
     dp_UpdateObjectMetaBinaryByDataIDWithPassword := Some UpdateObjectMetaBinaryByDataIDWithPassword,
     dp_UpdateObjectDataTypeByDataIDWithPassword := Some UpdateObjectDataTypeByDataIDWithPassword,
     dp_GetObjectInfoByDataIDWithPassword := Some (GetObjectInfoByDataIDWithPassword L),
     dp_GetObjectInfoByPersistenceTargetWithPassword := Some (GetObjectInfoByPersistenceTargetWithPassword L),
     dp_GetObjectOwnerByDataID := Some GetObjectOwnerByDataID,
     dp_GetObjectSizeByDataID := Some GetObjectSizeByDataID,
     dp_UpdateObjectUploadCompletedByDataID := Some UpdateObjectUploadCompletedByDataID,
     dp_DeleteObjectByDataID := Some DeleteObjectByDataID\<rparr> in
     case client of None \<Rightarrow> P
     | Some m \<Rightarrow> SetMinIOClient m (SetDataKeyBase ''hyrulewarriors'' (P\<lparr>dp_S3Bucket :=
         (if bucket = [] then ''hyrulewarriors-datastore'' else bucket)\<rparr>)))"

definition required :: "'a option \<Rightarrow> ('a \<Rightarrow> 'b ds) \<Rightarrow> 'b ds" where
  "required f k = (case f of None \<Rightarrow> throwM Core_NotImplemented | Some g \<Rightarrow> k g)"

definition called :: "'a option \<Rightarrow> ('a \<Rightarrow> 'b ds) \<Rightarrow> 'b ds" where
  "called f k = (case f of None \<Rightarrow> panicM | Some g \<Rightarrow> k g)"

definition object_key :: "ds_protocol \<Rightarrow> u64 \<Rightarrow> string" where
  "object_key P dataID = dp_s3DataKeyBase P @ ''/'' @ decimal (unat dataID) @ ''.bin''"

definition S3ObjectSize :: "string \<Rightarrow> string \<Rightarrow> u64 option ds" where
  "S3ObjectSize bucket key = getM (\<lambda>s. s3_sizes s bucket key)"

definition VerifyObjectPermission :: "ds_protocol \<Rightarrow> pid \<Rightarrow> pid \<Rightarrow> ds_permission \<Rightarrow> unit ds" where
  "VerifyObjectPermission P ownerPID accessorPID permission =
    (if Permission permission > 3 then throwM DataStore_InvalidArgument
     else if ownerPID = accessorPID then retM ()
     else if Permission permission = 0 then retM ()
     else if Permission permission = 1 then
       called (dp_GetUserFriendPIDs P) (\<lambda>friends.
         if ucast accessorPID \<in> set (friends (ucast ownerPID)) then retM ()
         else throwM DataStore_PermissionDenied)
     else if Permission permission = 2 then
       (if accessorPID \<in> set (RecipientIDs permission) then retM () else throwM DataStore_PermissionDenied)
     else throwM DataStore_PermissionDenied)"

section \<open>Data of requests and responses\<close>

record get_meta_param =
  gm_DataID :: u64
  gm_PersistenceTarget :: persistence_target
  gm_ResultOption :: u8
  gm_AccessPassword :: u64

record prepare_get_param =
  pg_DataID :: u64
  pg_PersistenceTarget :: persistence_target
  pg_AccessPassword :: u64

record complete_post_param =
  cp_DataID :: u64
  cp_IsSuccess :: bool

record change_meta_param =
  cm_DataID :: u64
  cm_ModifiesFlag :: u32
  cm_Period :: u16
  cm_MetaBinary :: bytes
  cm_UpdatePassword :: u64
  cm_DataType :: u16

record delete_param =
  del_DataID :: u64
  del_UpdatePassword :: u64

record rating_target =
  rt_DataID :: u64
  rt_Slot :: u8

record rate_object_param =
  ro_RatingValue :: u32
  ro_AccessPassword :: u64

record req_get_info =
  gi_URL :: string
  gi_RequestHeaders :: "(string \<times> string) list"
  gi_Size :: u32
  gi_RootCACert :: bytes
  gi_DataID :: u64

record req_post_info =
  pi_DataID :: u64
  pi_URL :: string
  pi_RequestHeaders :: "(string \<times> string) list"
  pi_FormFields :: "(string \<times> string) list"
  pi_RootCACert :: bytes

record ds_search_result =
  sr_TotalCount :: u32
  sr_Result :: "meta_info list"
  sr_TotalCountType :: u8

record rating_info_with_slot =
  rs_Slot :: u8
  rs_Rating :: rating_info

datatype qresult = QResultSuccess result_code | QResultError result_code

datatype ds_body =
    WDataID u64
  | WReqPostInfo req_post_info
  | WReqGetInfo req_get_info
  | WMetaInfo meta_info
  | WMetaInfos "meta_info list"
  | WQResults "qresult list"
  | WSearchResult ds_search_result
  | WRating rating_info
  | WRatings "rating_info list"
  | WRatingsWithSlot "rating_info_with_slot list list"

datatype ds_method =
    MethodPreparePostObject
  | MethodPostMetaBinary
  | MethodCompletePostObject
  | MethodCompletePostObjects
  | MethodPrepareGetObject
  | MethodGetMeta
  | MethodGetMetas
  | MethodGetMetasMultipleParam
  | MethodSearchObject
  | MethodChangeMeta
  | MethodDeleteObject
  | MethodRateObject
  | MethodRateObjects
  | MethodGetRatings

type_synonym ds_response = "(ds_method, ds_body) rmc_response"

definition ds_ok :: "ds_method \<Rightarrow> u32 \<Rightarrow> ds_body list \<Rightarrow> ds_response ds" where
  "ds_ok method callID body = retM (rmcSuccess DataStore_Protocol method callID body)"

section \<open>Posting objects\<close>

definition new_posted_object :: "ds_protocol \<Rightarrow> pid \<Rightarrow> prepare_post_param \<Rightarrow>
    (pid \<Rightarrow> prepare_post_param \<Rightarrow> u64 ds) \<Rightarrow> (u64 \<Rightarrow> u8 \<Rightarrow> unit ds) \<Rightarrow> u64 ds" where
  "new_posted_object P p param initialize rating =
    bindM (initialize p param) (\<lambda>dataID.
    bindM (forM (pp_RatingInitSlots param) (rating dataID)) (\<lambda>_. retM dataID))"

definition preparePostObject ::
  "ds_protocol \<Rightarrow> bool \<Rightarrow> connection \<Rightarrow> u32 \<Rightarrow> prepare_post_param \<Rightarrow> ds_response ds" where
  "preparePostObject P err connection callID param =
    required (dp_InitializeObjectByPreparePostParam P) (\<lambda>initialize.
    required (dp_InitializeObjectRatingWithSlot P) (\<lambda>rating.
    required (dp_S3Presigner P) (\<lambda>presigner.
    if err then throwM DataStore_Unknown
    else
      bindM (new_posted_object P (conn_PID connection) param initialize rating) (\<lambda>dataID.
      bindM (getM ds_now) (\<lambda>now.
      case Presigner_PostObject presigner (dp_S3Bucket P) (object_key P dataID) (15 * 60) now of
        None \<Rightarrow> throwM DataStore_OperationNotAllowed
      | Some (url, formData) \<Rightarrow>
          bindM (dp_S3PostRequestHeaders P) (\<lambda>requestHeaders.
          ds_ok MethodPreparePostObject callID [WReqPostInfo \<lparr> pi_DataID = dataID, pi_URL = url,
            pi_RequestHeaders = requestHeaders, pi_FormFields = formData, pi_RootCACert = dp_RootCACert P \<rparr>]))))))"

definition postMetaBinary ::
  "ds_protocol \<Rightarrow> bool \<Rightarrow> connection \<Rightarrow> u32 \<Rightarrow> prepare_post_param \<Rightarrow> ds_response ds" where
  "postMetaBinary P err connection callID param =
    required (dp_InitializeObjectByPreparePostParam P) (\<lambda>initialize.
    required (dp_InitializeObjectRatingWithSlot P) (\<lambda>rating.
    if err then throwM DataStore_Unknown
    else
      bindM (new_posted_object P (conn_PID connection) param initialize rating) (\<lambda>dataID.
      ds_ok MethodPostMetaBinary callID [WDataID dataID])))"

text \<open>The size in the S3 store is compared with the announced one before an object is completed.\<close>

definition complete_upload ::
  "ds_protocol \<Rightarrow> (u64 \<Rightarrow> u32 ds) \<Rightarrow> (u64 \<Rightarrow> bool \<Rightarrow> unit ds) \<Rightarrow> u64 \<Rightarrow> unit ds" where
  "complete_upload P getSize setCompleted dataID =
    bindM (S3ObjectSize (dp_S3Bucket P) (object_key P dataID)) (\<lambda>r. case r of
      None \<Rightarrow> throwM DataStore_NotFound
    | Some objectSizeS3 \<Rightarrow>
        bindM (getSize dataID) (\<lambda>objectSizeDB.
        if objectSizeS3 \<noteq> ucast objectSizeDB then throwM DataStore_Unknown
        else setCompleted dataID True))"

definition completePostObject ::
  "ds_protocol \<Rightarrow> bool \<Rightarrow> connection \<Rightarrow> u32 \<Rightarrow> complete_post_param \<Rightarrow> ds_response ds" where
  "completePostObject P err connection callID param =
    required (dp_minIOClient P) (\<lambda>_.
    required (dp_GetObjectInfoByDataID P) (\<lambda>getInfo.
    required (dp_GetObjectOwnerByDataID P) (\<lambda>getOwner.
    required (dp_GetObjectSizeByDataID P) (\<lambda>getSize.
    required (dp_UpdateObjectUploadCompletedByDataID P) (\<lambda>setCompleted.
    required (dp_DeleteObjectByDataID P) (\<lambda>delete.
    if err then throwM DataStore_Unknown
    else
      bindM (catchM (getInfo (cp_DataID param))) (\<lambda>r. case r of
        Inr _ \<Rightarrow> throwM DataStore_PermissionDenied
      | Inl _ \<Rightarrow>
          bindM (getOwner (cp_DataID param)) (\<lambda>ownerPID.
          if ownerPID \<noteq> ucast (conn_PID connection) then throwM DataStore_PermissionDenied
          else
            bindM (if cp_IsSuccess param then complete_upload P getSize setCompleted (cp_DataID param)
                   else delete (cp_DataID param)) (\<lambda>_.
            ds_ok MethodCompletePostObject callID [])))))))))"

definition completePostObjects ::
  "ds_protocol \<Rightarrow> bool \<Rightarrow> connection \<Rightarrow> u32 \<Rightarrow> u64 list \<Rightarrow> ds_response ds" where
  "completePostObjects P err connection callID dataIDs =
    required (dp_minIOClient P) (\<lambda>_.
    required (dp_GetObjectSizeByDataID P) (\<lambda>getSize.
    required (dp_UpdateObjectUploadCompletedByDataID P) (\<lambda>setCompleted.
    if err then throwM DataStore_Unknown
    else
      bindM (forM dataIDs (complete_upload P getSize setCompleted)) (\<lambda>_.
      ds_ok MethodCompletePostObjects callID []))))"

section \<open>Reading objects\<close>

text \<open>A data ID other than zero takes precedence over the persistence target.\<close>

definition requested_object :: "(persistence_target \<Rightarrow> u64 \<Rightarrow> meta_info ds) \<Rightarrow> (u64 \<Rightarrow> u64 \<Rightarrow> meta_info ds) \<Rightarrow>
    u64 \<Rightarrow> persistence_target \<Rightarrow> u64 \<Rightarrow> meta_info ds" where
  "requested_object byTarget byID dataID target password =
    (if dataID = 0 then byTarget target password else byID dataID password)"

definition prepareGetObject ::
  "ds_protocol \<Rightarrow> bool \<Rightarrow> connection \<Rightarrow> u32 \<Rightarrow> prepare_get_param \<Rightarrow> ds_response ds" where
  "prepareGetObject P err connection callID param =
    required (dp_GetObjectInfoByDataID P) (\<lambda>_.
    required (dp_S3Presigner P) (\<lambda>presigner.
    if err then throwM Core_Unknown
    else
      bindM (if pg_DataID param = 0
             then called (dp_GetObjectInfoByPersistenceTargetWithPassword P) (\<lambda>byTarget.
               byTarget (pg_PersistenceTarget param) (pg_AccessPassword param))
             else called (dp_GetObjectInfoByDataIDWithPassword P) (\<lambda>byID.
               byID (pg_DataID param) (pg_AccessPassword param))) (\<lambda>objectInfo.
      bindM (VerifyObjectPermission P (mi_OwnerID objectInfo) (conn_PID connection) (mi_Permission objectInfo)) (\<lambda>_.
      case Presigner_GetObject presigner (dp_S3Bucket P) (object_key P (mi_DataID objectInfo)) (15 * 60) of
        None \<Rightarrow> throwM DataStore_OperationNotAllowed
      | Some url \<Rightarrow>
          bindM (dp_S3GetRequestHeaders P) (\<lambda>requestHeaders.
          ds_ok MethodPrepareGetObject callID [WReqGetInfo \<lparr> gi_URL = url, gi_RequestHeaders = requestHeaders,
            gi_Size = mi_Size objectInfo, gi_RootCACert = dp_RootCACert P, gi_DataID = pg_DataID param \<rparr>])))))"

definition getMeta :: "ds_lib \<Rightarrow> ds_protocol \<Rightarrow> bool \<Rightarrow> connection \<Rightarrow> u32 \<Rightarrow> get_meta_param \<Rightarrow> ds_response ds" where
  "getMeta L P err connection callID param =
    required (dp_GetObjectInfoByPersistenceTargetWithPassword P) (\<lambda>byTarget.
    required (dp_GetObjectInfoByDataIDWithPassword P) (\<lambda>byID.
    if err then throwM DataStore_Unknown
    else
      bindM (requested_object byTarget byID (gm_DataID param) (gm_PersistenceTarget param) (gm_AccessPassword param))
        (\<lambda>pMetaInfo.
      bindM (VerifyObjectPermission P (mi_OwnerID pMetaInfo) (conn_PID connection) (mi_Permission pMetaInfo)) (\<lambda>_.
      ds_ok MethodGetMeta callID [WMetaInfo (FilterPropertiesByResultOption L (gm_ResultOption param) pMetaInfo)]))))"

text \<open>
  One entry of a list of results: an object that cannot be read is an empty structure, and an
  error in the list of codes.
\<close>

definition meta_entry :: "ds_lib \<Rightarrow> ds_protocol \<Rightarrow> connection \<Rightarrow> u8 \<Rightarrow> meta_info ds \<Rightarrow> (meta_info \<times> qresult) ds" where
  "meta_entry L P connection resultOption getInfo =
    bindM (catchM getInfo) (\<lambda>r. case r of
      Inl e \<Rightarrow> retM (NewDataStoreMetaInfo L, QResultError e)
    | Inr objectInfo \<Rightarrow>
        bindM (catchM (VerifyObjectPermission P (mi_OwnerID objectInfo) (conn_PID connection) (mi_Permission objectInfo)))
          (\<lambda>v. retM (case v of
            Inl e \<Rightarrow> (FilterPropertiesByResultOption L resultOption (NewDataStoreMetaInfo L), QResultError e)
          | Inr _ \<Rightarrow> (FilterPropertiesByResultOption L resultOption objectInfo, QResultSuccess DataStore_Unknown))))"

definition meta_entries :: "('a \<Rightarrow> (meta_info \<times> qresult) ds) \<Rightarrow> 'a list \<Rightarrow> (meta_info list \<times> qresult list) ds" where
  "meta_entries entry xs = foldM (\<lambda>(pMetaInfo, pResults) x.
     bindM (entry x) (\<lambda>(objectInfo, qresult). retM (pMetaInfo @ [objectInfo], pResults @ [qresult]))) ([], []) xs"

definition getMetas ::
  "ds_lib \<Rightarrow> ds_protocol \<Rightarrow> bool \<Rightarrow> connection \<Rightarrow> u32 \<Rightarrow> u64 list \<Rightarrow> get_meta_param \<Rightarrow> ds_response ds" where
  "getMetas L P err connection callID dataIDs param =
    required (dp_GetObjectInfoByDataID P) (\<lambda>getInfo.
    if err then throwM DataStore_Unknown
    else
      bindM (meta_entries (\<lambda>dataID. meta_entry L P connection (gm_ResultOption param) (getInfo dataID)) dataIDs)
        (\<lambda>(pMetaInfo, pResults).
      ds_ok MethodGetMetas callID [WMetaInfos pMetaInfo, WQResults pResults]))"

definition getMetasMultipleParam ::
  "ds_lib \<Rightarrow> ds_protocol \<Rightarrow> bool \<Rightarrow> connection \<Rightarrow> u32 \<Rightarrow> get_meta_param list \<Rightarrow> ds_response ds" where
  "getMetasMultipleParam L P err connection callID params =
    required (dp_GetObjectInfoByPersistenceTargetWithPassword P) (\<lambda>byTarget.
    required (dp_GetObjectInfoByDataIDWithPassword P) (\<lambda>byID.
    if err then throwM DataStore_Unknown
    else
      bindM (meta_entries (\<lambda>param. meta_entry L P connection (gm_ResultOption param)
          (requested_object byTarget byID (gm_DataID param) (gm_PersistenceTarget param) (gm_AccessPassword param)))
        params) (\<lambda>(pMetaInfo, pResults).
      ds_ok MethodGetMetasMultipleParam callID [WMetaInfos pMetaInfo, WQResults pResults])))"

definition searchObject ::
  "ds_lib \<Rightarrow> ds_protocol \<Rightarrow> bool \<Rightarrow> connection \<Rightarrow> u32 \<Rightarrow> ds_search_param \<Rightarrow> ds_response ds" where
  "searchObject L P err connection callID param =
    required (dp_GetObjectInfosByDataStoreSearchParam P) (\<lambda>search.
    if err then throwM DataStore_Unknown
    else
      bindM (search param (conn_PID connection)) (\<lambda>(objects, totalCount).
      bindM (collectM (\<lambda>object.
          bindM (catchM (VerifyObjectPermission P (mi_OwnerID object) (conn_PID connection) (mi_Permission object)))
            (\<lambda>v. retM (case v of
              Inl _ \<Rightarrow> None
            | Inr _ \<Rightarrow> Some (FilterPropertiesByResultOption L (sp_ResultOption param) object)))) objects) (\<lambda>result.
      let counted = (sp_StructureVersion param \<ge> 3 \<or> DataStore_AtLeast_4_0_0 L) \<and> \<not> sp_TotalCountEnabled param in
      ds_ok MethodSearchObject callID [WSearchResult \<lparr>
        sr_TotalCount = (if counted then 0 else totalCount),
        sr_Result = result,
        sr_TotalCountType = (if counted then 3 else if totalCount = word_of_nat (length result) then 0 else 1) \<rparr>])))"

section \<open>Changing objects\<close>

definition changeMeta :: "ds_protocol \<Rightarrow> bool \<Rightarrow> connection \<Rightarrow> u32 \<Rightarrow> change_meta_param \<Rightarrow> ds_response ds" where
  "changeMeta P err connection callID param =
    required (dp_GetObjectInfoByDataID P) (\<lambda>getInfo.
    required (dp_UpdateObjectPeriodByDataIDWithPassword P) (\<lambda>setPeriod.
    required (dp_UpdateObjectMetaBinaryByDataIDWithPassword P) (\<lambda>setMetaBinary.
    required (dp_UpdateObjectDataTypeByDataIDWithPassword P) (\<lambda>setDataType.
    if err then throwM DataStore_Unknown
    else
      bindM (getInfo (cm_DataID param)) (\<lambda>metaInfo.
      bindM (VerifyObjectPermission P (mi_OwnerID metaInfo) (conn_PID connection) (mi_DelPermission metaInfo)) (\<lambda>_.
      bindM (if cm_ModifiesFlag param AND 0x08 \<noteq> 0
        then setPeriod (cm_DataID param) (cm_Period param) (cm_UpdatePassword param) else retM ()) (\<lambda>_.
      bindM (if cm_ModifiesFlag param AND 0x10 \<noteq> 0
        then setMetaBinary (cm_DataID param) (cm_MetaBinary param) (cm_UpdatePassword param) else retM ()) (\<lambda>_.
      bindM (if cm_ModifiesFlag param AND 0x80 \<noteq> 0
        then setDataType (cm_DataID param) (cm_DataType param) (cm_UpdatePassword param) else retM ()) (\<lambda>_.
      ds_ok MethodChangeMeta callID [])))))))))"

definition deleteObject :: "ds_protocol \<Rightarrow> bool \<Rightarrow> connection \<Rightarrow> u32 \<Rightarrow> delete_param \<Rightarrow> ds_response ds" where
  "deleteObject P err connection callID param =
    required (dp_GetObjectInfoByDataID P) (\<lambda>getInfo.
    required (dp_DeleteObjectByDataIDWithPassword P) (\<lambda>delete.
    if err then throwM DataStore_Unknown
    else
      bindM (getInfo (del_DataID param)) (\<lambda>metaInfo.
      bindM (VerifyObjectPermission P (mi_OwnerID metaInfo) (conn_PID connection) (mi_DelPermission metaInfo)) (\<lambda>_.
      bindM (delete (del_DataID param) (del_UpdatePassword param)) (\<lambda>_.
      ds_ok MethodDeleteObject callID [])))))"

text \<open>Rating one object: it must be readable with the password and permitted.\<close>

definition rate_one :: "ds_protocol \<Rightarrow> connection \<Rightarrow> (u64 \<Rightarrow> u64 \<Rightarrow> meta_info ds) \<Rightarrow>
    (u64 \<Rightarrow> u8 \<Rightarrow> u32 \<Rightarrow> u64 \<Rightarrow> rating_info ds) \<Rightarrow> rating_target \<Rightarrow> rate_object_param \<Rightarrow> rating_info ds" where
  "rate_one P connection byID rate target param =
    bindM (byID (rt_DataID target) (ro_AccessPassword param)) (\<lambda>objectInfo.
    bindM (VerifyObjectPermission P (mi_OwnerID objectInfo) (conn_PID connection) (mi_Permission objectInfo)) (\<lambda>_.
    rate (rt_DataID target) (rt_Slot target) (ro_RatingValue param) (ro_AccessPassword param)))"

definition rateObject :: "ds_lib \<Rightarrow> ds_protocol \<Rightarrow> bool \<Rightarrow> connection \<Rightarrow> u32 \<Rightarrow> rating_target \<Rightarrow> rate_object_param \<Rightarrow>
    bool \<Rightarrow> ds_response ds" where
  "rateObject L P err connection callID target param fetchRatings =
    required (dp_GetObjectInfoByDataIDWithPassword P) (\<lambda>byID.
    required (dp_RateObjectWithPassword P) (\<lambda>rate.
    if err then throwM DataStore_Unknown
    else
      bindM (rate_one P connection byID rate target param) (\<lambda>pRating.
      ds_ok MethodRateObject callID [WRating (if fetchRatings then pRating else NewDataStoreRatingInfo L)])))"

definition rateObjects :: "ds_protocol \<Rightarrow> bool \<Rightarrow> connection \<Rightarrow> u32 \<Rightarrow> rating_target list \<Rightarrow> rate_object_param list \<Rightarrow>
    bool \<Rightarrow> bool \<Rightarrow> ds_response ds" where
  "rateObjects P err connection callID targets params transactional fetchRatings =
    required (dp_GetObjectInfoByDataIDWithPassword P) (\<lambda>byID.
    required (dp_RateObjectWithPassword P) (\<lambda>rate.
    if err then throwM DataStore_Unknown
    else if length targets \<noteq> length params then throwM DataStore_InvalidArgument
    else
      bindM (collectM (\<lambda>(target, param).
          bindM (rate_one P connection byID rate target param) (\<lambda>rating.
          retM (if fetchRatings then Some rating else None))) (zip targets params)) (\<lambda>pRatings.
      ds_ok MethodRateObjects callID [WRatings pRatings, WQResults []])))"

text \<open>\<open>database/hyrulewarriors_get_ratings.go\<close>: ratings are not stored, every slot is empty.\<close>

definition HyruleWarriorsGetRatings :: "ds_lib \<Rightarrow> bool \<Rightarrow> connection \<Rightarrow> u32 \<Rightarrow> u64 list \<Rightarrow> u64 \<Rightarrow> ds_response ds" where
  "HyruleWarriorsGetRatings L err connection callID dataIDs accessPassword =
    (if err then throwM DataStore_Unknown
     else ds_ok MethodGetRatings callID
       [WRatingsWithSlot (map (\<lambda>_. map (\<lambda>slot. \<lparr> rs_Slot = word_of_nat slot, rs_Rating = NewDataStoreRatingInfo L \<rparr>) [0..<8])
          dataIDs),
        WQResults (map (\<lambda>_. QResultSuccess DataStore_Unknown) dataIDs)])"

section \<open>Requests\<close>

datatype ds_request =
    ReqPreparePostObject prepare_post_param
  | ReqPostMetaBinary prepare_post_param
  | ReqCompletePostObject complete_post_param
  | ReqCompletePostObjects "u64 list"
  | ReqPrepareGetObject prepare_get_param
  | ReqGetMeta get_meta_param
  | ReqGetMetas "u64 list" get_meta_param
  | ReqGetMetasMultipleParam "get_meta_param list"
  | ReqSearchObject ds_search_param
  | ReqChangeMeta change_meta_param
  | ReqDeleteObject delete_param
  | ReqRateObject rating_target rate_object_param bool
  | ReqRateObjects "rating_target list" "rate_object_param list" bool bool
  | ReqGetRatings "u64 list" u64

fun handle_datastore :: "ds_lib \<Rightarrow> ds_protocol \<Rightarrow> bool \<Rightarrow> connection \<Rightarrow> u32 \<Rightarrow> ds_request \<Rightarrow> ds_response ds" where
  "handle_datastore L P err c callID (ReqPreparePostObject q) = preparePostObject P err c callID q"
| "handle_datastore L P err c callID (ReqPostMetaBinary q) = postMetaBinary P err c callID q"
| "handle_datastore L P err c callID (ReqCompletePostObject q) = completePostObject P err c callID q"
| "handle_datastore L P err c callID (ReqCompletePostObjects ids) = completePostObjects P err c callID ids"
| "handle_datastore L P err c callID (ReqPrepareGetObject q) = prepareGetObject P err c callID q"
| "handle_datastore L P err c callID (ReqGetMeta q) = getMeta L P err c callID q"
| "handle_datastore L P err c callID (ReqGetMetas ids q) = getMetas L P err c callID ids q"
| "handle_datastore L P err c callID (ReqGetMetasMultipleParam qs) = getMetasMultipleParam L P err c callID qs"
| "handle_datastore L P err c callID (ReqSearchObject q) = searchObject L P err c callID q"
| "handle_datastore L P err c callID (ReqChangeMeta q) = changeMeta P err c callID q"
| "handle_datastore L P err c callID (ReqDeleteObject q) = deleteObject P err c callID q"
| "handle_datastore L P err c callID (ReqRateObject t q f) = rateObject L P err c callID t q f"
| "handle_datastore L P err c callID (ReqRateObjects ts qs tr f) = rateObjects P err c callID ts qs tr f"
| "handle_datastore L P err c callID (ReqGetRatings ids pw) = HyruleWarriorsGetRatings L err c callID ids pw"

end
