(* ===== verification/Triples.thy ===== *)
theory Triples
  imports Nex_Prelude "HOL-Library.Sublist"
begin

text \<open>
  Triples for the state-passing operations: \<open>triple P m Q E\<close> says that \<open>m\<close>, run from a state with
  \<open>P\<close>, either returns a value and a state with \<open>Q\<close> or ends with an error or a panic in a state
  with \<open>E\<close>. One rule per combinator; the rules carry what an earlier statement has read to the
  statements that depend on it.
\<close>

named_theorems triple_rules "rules for triples of the combinators"

definition triple :: "('s \<Rightarrow> bool) \<Rightarrow> ('s, 'a) nex \<Rightarrow> ('a \<Rightarrow> 's \<Rightarrow> bool) \<Rightarrow> ('s \<Rightarrow> bool) \<Rightarrow> bool" where
  "triple P m Q E \<longleftrightarrow> (\<forall>s. P s \<longrightarrow> (case fst (m s) of Ok a \<Rightarrow> Q a (snd (m s)) | _ \<Rightarrow> E (snd (m s))))"

lemma tripleI: "(\<And>s. P s \<Longrightarrow> case fst (m s) of Ok a \<Rightarrow> Q a (snd (m s)) | _ \<Rightarrow> E (snd (m s))) \<Longrightarrow> triple P m Q E"
  by (simp add: triple_def)

lemma tripleD1: "triple P m Q E \<Longrightarrow> P s \<Longrightarrow> case fst (m s) of Ok a \<Rightarrow> Q a (snd (m s)) | _ \<Rightarrow> E (snd (m s))"
  by (simp add: triple_def)

lemma tripleD: "triple P m Q E \<Longrightarrow> P s \<Longrightarrow> m s = (Ok a, t) \<Longrightarrow> Q a t"
  by (drule (1) tripleD1) simp

lemma triple_keeps: "triple P m (\<lambda>_. P) P \<Longrightarrow> P s \<Longrightarrow> P (snd (m s))"
  by (drule (1) tripleD1) (simp split: outcome.splits)

lemma triple_weaken:
  assumes "triple P m Q E" and "\<And>s. P' s \<Longrightarrow> P s" and "\<And>a s. Q a s \<Longrightarrow> Q' a s" and "\<And>s. E s \<Longrightarrow> E' s"
  shows "triple P' m Q' E'"
proof (rule tripleI)
  fix s assume "P' s"
  then show "case fst (m s) of Ok a \<Rightarrow> Q' a (snd (m s)) | _ \<Rightarrow> E' (snd (m s))"
    using tripleD1 [OF assms(1), of s] assms(2-4) by (cases "fst (m s)") simp_all
qed

lemma triple_pre: "triple P m Q E \<Longrightarrow> (\<And>s. P' s \<Longrightarrow> P s) \<Longrightarrow> triple P' m Q E"
  by (simp add: triple_def)

lemma triple_ret: "(\<And>s. P s \<Longrightarrow> Q a s) \<Longrightarrow> triple P (retM a) Q E"
  by (simp add: triple_def run_simps)

lemma triple_throw: "(\<And>s. P s \<Longrightarrow> E s) \<Longrightarrow> triple P (throwM e) Q E"
  by (simp add: triple_def run_simps)

lemma triple_panic: "(\<And>s. P s \<Longrightarrow> E s) \<Longrightarrow> triple P panicM Q E"
  by (simp add: triple_def run_simps)

lemma triple_get: "triple P (getM f) (\<lambda>a s. P s \<and> a = f s) E"
  by (simp add: triple_def run_simps)

lemma triple_bind:
  assumes "triple P m R E" and "\<And>a. triple (R a) (f a) Q E"
  shows "triple P (bindM m f) Q E"
proof (rule tripleI)
  fix s assume P: "P s"
  obtain r t where m: "m s = (r, t)" by fastforce
  show "case fst (bindM m f s) of Ok a \<Rightarrow> Q a (snd (bindM m f s)) | _ \<Rightarrow> E (snd (bindM m f s))"
  proof (cases r)
    case (Ok a)
    then have "bindM m f s = f a t" and "R a t" using m tripleD [OF assms(1) P] by (simp_all add: run_bind)
    then show ?thesis unfolding \<open>bindM m f s = f a t\<close> by (intro tripleD1 [OF assms(2)])
  qed (use m tripleD1 [OF assms(1) P] in \<open>simp_all add: bindM_def\<close>)
qed

lemma triple_catch:
  assumes "triple P m (\<lambda>a. Q (Inr a)) E" and "\<And>e s. E s \<Longrightarrow> Q (Inl e) s"
  shows "triple P (catchM m) Q E"
proof (rule tripleI)
  fix s assume "P s"
  then show "case fst (catchM m s) of Ok a \<Rightarrow> Q a (snd (catchM m s)) | _ \<Rightarrow> E (snd (catchM m s))"
    using tripleD1 [OF assms(1), of s] assms(2)
    by (cases "m s"; cases "fst (m s)") (simp_all add: catchM_def)
qed

lemma triple_for:
  assumes "\<And>x. triple P (f x) (\<lambda>_. P) E"
  shows "triple P (forM xs f) (\<lambda>_. P) E"
  by (induction xs) (auto intro: triple_ret triple_bind assms)

lemma triple_fold:
  assumes "\<And>b x. triple (Q b) (f b x) Q E"
  shows "triple (Q b) (foldM f b xs) Q E"
  by (induction xs arbitrary: b) (auto intro: triple_ret triple_bind assms)

text \<open>The results that a collecting loop adds, when each pass adds only what satisfies \<open>R\<close>.\<close>

lemma triple_collect:
  assumes "\<And>x. x \<in> set xs \<Longrightarrow> triple P (f x) (\<lambda>r s. P s \<and> (\<forall>y. r = Some y \<longrightarrow> R x y)) E"
  shows "triple P (collectM f xs) (\<lambda>ys s. P s \<and> (\<exists>zs. subseq zs xs \<and> list_all2 R zs ys)) E"
proof -
  let ?g = "\<lambda>bs x. bindM (f x) (\<lambda>r. retM (case r of None \<Rightarrow> bs | Some b \<Rightarrow> bs @ [b]))"
  have "triple (\<lambda>s. P s \<and> (\<exists>zs. subseq zs us \<and> list_all2 R zs bs)) (foldM ?g bs vs)
    (\<lambda>ys s. P s \<and> (\<exists>zs. subseq zs (us @ vs) \<and> list_all2 R zs ys)) E" if "set vs \<subseteq> set xs" for us vs bs
    using that
  proof (induction vs arbitrary: us bs)
    case Nil
    then show ?case by (auto intro: triple_ret)
  next
    case (Cons x vs)
    have step: "triple P (f x) (\<lambda>r s. P s \<and> (\<forall>y. r = Some y \<longrightarrow> R x y)) E" using Cons.prems assms by simp
    have longer: "subseq zs us \<Longrightarrow> subseq zs (us @ [x])" for zs by (rule subseq_order.trans) auto
    have one: "triple (\<lambda>s. P s \<and> (\<exists>zs. subseq zs us \<and> list_all2 R zs bs)) (?g bs x)
      (\<lambda>bs s. P s \<and> (\<exists>zs. subseq zs (us @ [x]) \<and> list_all2 R zs bs)) E"
    proof (cases "\<exists>zs. subseq zs us \<and> list_all2 R zs bs")
      case True
      then obtain zs where zs: "subseq zs us" "list_all2 R zs bs" by blast
      have "\<exists>zs. subseq zs (us @ [x]) \<and> list_all2 R zs (bs @ [b])" if "R x b" for b
        using zs that by (intro exI [of _ "zs @ [x]"]) (auto intro: list_all2_appendI)
      then show ?thesis
        using zs longer by (intro triple_bind [OF triple_weaken [OF step]] triple_ret)
          (auto split: option.splits)
    qed (auto simp: triple_def)
    have "set vs \<subseteq> set xs" using Cons.prems by simp
    from triple_bind [OF one Cons.IH [OF this]] show ?case by simp
  qed
  from this [of xs "[]" "[]"] show ?thesis
    by (auto simp: collectM_def elim: triple_pre)
qed

lemma triple_option:
  "(x = None \<Longrightarrow> triple P m Q E) \<Longrightarrow> (\<And>a. x = Some a \<Longrightarrow> triple P (f a) Q E) \<Longrightarrow>
   triple P (case x of None \<Rightarrow> m | Some a \<Rightarrow> f a) Q E"
  by (cases x) simp_all

lemma triple_sum:
  "(\<And>a. x = Inl a \<Longrightarrow> triple P (f a) Q E) \<Longrightarrow> (\<And>b. x = Inr b \<Longrightarrow> triple P (g b) Q E) \<Longrightarrow>
   triple P (case x of Inl a \<Rightarrow> f a | Inr b \<Rightarrow> g b) Q E"
  by (cases x) simp_all

lemma triple_if:
  "(b \<Longrightarrow> triple P m Q E) \<Longrightarrow> (\<not> b \<Longrightarrow> triple P n Q E) \<Longrightarrow> triple P (if b then m else n) Q E"
  by simp

section \<open>Statements\<close>

text \<open>A property of the tables does not depend on the faults to come.\<close>

definition stable :: "('z db_env_scheme \<Rightarrow> bool) \<Rightarrow> bool" where
  "stable P \<longleftrightarrow> (\<forall>s bs. P s \<longrightarrow> P (s\<lparr>db_faults := bs\<rparr>))"

lemma triple_db_call:
  assumes "stable P" and "\<And>s a t. P s \<Longrightarrow> q s = (a, t) \<Longrightarrow> Q (Inr a) t" and "\<And>s. P s \<Longrightarrow> Q (Inl ErrDatabase) s"
  shows "triple P (db_call q) Q E"
proof (rule tripleI)
  fix s assume s: "P s"
  then have st: "P (s\<lparr>db_faults := bs\<rparr>)" for bs using assms(1) by (simp add: stable_def)
  show "case fst (db_call q s) of Ok a \<Rightarrow> Q a (snd (db_call q s)) | _ \<Rightarrow> E (snd (db_call q s))"
    using s st assms(2) [OF s] assms(2) [OF st] assms(3) [OF st]
    by (auto simp: db_call_def split: prod.splits list.splits)
qed

lemma triple_query:
  assumes "stable P"
  shows "triple P (sql_query q) (\<lambda>r s. P s \<and> (\<forall>rows. r = Inr rows \<longrightarrow> rows = q s)) E"
  unfolding sql_query_def by (rule triple_db_call [OF assms]) auto

lemma triple_query_row:
  assumes "stable P"
  shows "triple P (sql_query_row q) (\<lambda>r s. P s \<and> (\<forall>row. r = Inr row \<longrightarrow> (\<exists>rows. q s = row # rows))) E"
  unfolding sql_query_row_def
  by (rule triple_bind [OF triple_query [OF assms]], rule triple_ret)
    (auto simp: first_row_def split: sum.splits list.splits)

lemma triple_exec:
  assumes "stable P" and "\<And>s. P s \<Longrightarrow> P (f s)"
  shows "triple P (sql_exec n f) (\<lambda>_. P) E"
  unfolding sql_exec_def by (rule triple_db_call [OF assms(1)]) (use assms(2) in auto)

end
