(* ===== verification/Datastore_Runs.thy ===== *)
theory Datastore_Runs
  imports Datastore Triples
begin

text \<open>
  What the callbacks and the permission test of the object store guarantee, as triples and, in the
  absence of database faults, as exact runs.
\<close>

section \<open>The configuration of the server\<close>

lemma server_datastore_simps [simp]:
  "dp_GetUserFriendPIDs (server_datastore L cl b) = None"
  "dp_GetObjectInfoByDataID (server_datastore L cl b) = Some (GetObjectInfoByDataID L)"
  "dp_UpdateObjectPeriodByDataIDWithPassword (server_datastore L cl b) = Some UpdateObjectPeriodByDataIDWithPassword"
  "dp_UpdateObjectMetaBinaryByDataIDWithPassword (server_datastore L cl b) = Some UpdateObjectMetaBinaryByDataIDWithPassword"
  "dp_UpdateObjectDataTypeByDataIDWithPassword (server_datastore L cl b) = Some UpdateObjectDataTypeByDataIDWithPassword"
  "dp_GetObjectSizeByDataID (server_datastore L cl b) = Some GetObjectSizeByDataID"
  "dp_UpdateObjectUploadCompletedByDataID (server_datastore L cl b) = Some UpdateObjectUploadCompletedByDataID"
  "dp_GetObjectInfoByPersistenceTargetWithPassword (server_datastore L cl b) =
     Some (GetObjectInfoByPersistenceTargetWithPassword L)"
  "dp_GetObjectInfoByDataIDWithPassword (server_datastore L cl b) = Some (GetObjectInfoByDataIDWithPassword L)"
  "dp_S3GetRequestHeaders (server_datastore L cl b) = retM []"
  "dp_S3PostRequestHeaders (server_datastore L cl b) = retM []"
  "dp_InitializeObjectByPreparePostParam (server_datastore L cl b) = Some (InitializeObjectByPreparePostParam L)"
  "dp_InitializeObjectRatingWithSlot (server_datastore L cl b) = Some InitializeObjectRatingWithSlot"
  "dp_RateObjectWithPassword (server_datastore L cl b) = None"
  "dp_DeleteObjectByDataIDWithPassword (server_datastore L cl b) = None"
  "dp_DeleteObjectByDataID (server_datastore L cl b) = Some DeleteObjectByDataID"
  "dp_GetObjectInfosByDataStoreSearchParam (server_datastore L cl b) = Some (GetObjectInfosByDataStoreSearchParam L)"
  "dp_GetObjectOwnerByDataID (server_datastore L cl b) = Some GetObjectOwnerByDataID"
  "dp_minIOClient (server_datastore L cl b) = cl"
  "dp_S3Presigner (server_datastore L cl b) = cl"
  by (cases cl; simp add: server_datastore_def new_ds_protocol_def SetMinIOClient_def SetDataKeyBase_def Let_def)+

lemma required_simps [simp]:
  "required None k = throwM Core_NotImplemented" "required (Some f) k = k f"
  "called None k = panicM" "called (Some f) k = k f"
  by (simp_all add: required_def called_def)

lemma triple_required:
  "(\<And>s. P s \<Longrightarrow> E s) \<Longrightarrow> (\<And>f. x = Some f \<Longrightarrow> triple P (k f) Q E) \<Longrightarrow> triple P (required x k) Q E"
  by (cases x) (auto intro: triple_throw)

section \<open>Permissions\<close>

text \<open>
  Who may do what the permission \<open>level\<close> of an object guards, on a server that knows no friends:
  the owner and, at the levels 0 and 2, everyone and the recipients.
\<close>

definition granted :: "int \<Rightarrow> int list \<Rightarrow> int \<Rightarrow> pid \<Rightarrow> bool" where
  "granted level recipients owner p \<longleftrightarrow> level \<le> 3 \<and>
     (word_of_int owner = p \<or> level = 0 \<or> level = 2 \<and> p \<in> word_of_int ` set recipients)"

definition readable :: "object_row \<Rightarrow> pid \<Rightarrow> bool" where
  "readable r p \<longleftrightarrow> granted (o_permission r) (o_permission_recipients r) (o_owner r) p"

definition changeable :: "object_row \<Rightarrow> pid \<Rightarrow> bool" where
  "changeable r p \<longleftrightarrow> granted (o_delete_permission r) (o_delete_permission_recipients r) (o_owner r) p"

text \<open>The answer of the permission test to somebody without the permission.\<close>

definition refusal :: "int \<Rightarrow> unit outcome" where
  "refusal level = (if level > 3 then Err DataStore_InvalidArgument
     else if level = 1 then Panic else Err DataStore_PermissionDenied)"

lemma level_word:
  fixes w :: u8
  assumes "w = word_of_int n" and "0 \<le> n" and "n < 2 ^ 8"
  shows "w > 3 \<longleftrightarrow> n > 3" and "w = 0 \<longleftrightarrow> n = 0" and "w = 1 \<longleftrightarrow> n = 1" and "w = 2 \<longleftrightarrow> n = 2"
proof -
  have u: "uint w = n" using assms by (simp add: uint_word_of_int)
  show "w > 3 \<longleftrightarrow> n > 3" using u by (simp add: word_less_def)
  show "w = 0 \<longleftrightarrow> n = 0" "w = 1 \<longleftrightarrow> n = 1" "w = 2 \<longleftrightarrow> n = 2" using u by (auto simp: word_uint_eq_iff)
qed

lemma run_verify:
  assumes "0 \<le> level" and "level < 2 ^ 8"
  shows "VerifyObjectPermission (server_datastore L cl b) (word_of_int owner) p
      \<lparr> Permission = word_of_int level, RecipientIDs = createPIDList recipients \<rparr> s =
    (if granted level recipients owner p then Ok () else refusal level, s)"
  using level_word [OF refl assms]
  by (simp add: VerifyObjectPermission_def granted_def refusal_def createPIDList_def run_simps)

lemma scannable_levels:
  assumes "scannable r"
  shows "0 \<le> o_permission r" "o_permission r < 2 ^ 8" "0 \<le> o_delete_permission r" "o_delete_permission r < 2 ^ 8"
  using assms by (simp_all add: scannable_def)

lemma run_verify_read:
  assumes "scannable r"
  shows "VerifyObjectPermission (server_datastore L cl b) (mi_OwnerID (parse_object L r)) p
      (mi_Permission (parse_object L r)) s = (if readable r p then Ok () else refusal (o_permission r), s)"
  using scannable_levels [OF assms] by (simp add: parse_object_def readable_def run_verify)

lemma run_verify_change:
  assumes "scannable r"
  shows "VerifyObjectPermission (server_datastore L cl b) (mi_OwnerID (parse_object L r)) p
      (mi_DelPermission (parse_object L r)) s = (if changeable r p then Ok () else refusal (o_delete_permission r), s)"
  using scannable_levels [OF assms] by (simp add: parse_object_def changeable_def run_verify)

text \<open>The permission test writes nothing, and lets pass only who may read.\<close>

lemma triple_verify_read:
  "triple (\<lambda>s. P s \<and> (\<exists>r. scannable r \<and> info = parse_object L r \<and> R r s))
     (VerifyObjectPermission (server_datastore L cl b) (mi_OwnerID info) p (mi_Permission info))
     (\<lambda>_ s. P s \<and> (\<exists>r. scannable r \<and> readable r p \<and> info = parse_object L r \<and> R r s)) P"
  unfolding triple_def by (auto simp: run_verify_read refusal_def)

lemma triple_verify_change:
  "triple (\<lambda>s. P s \<and> (\<exists>r. scannable r \<and> info = parse_object L r \<and> R r s))
     (VerifyObjectPermission (server_datastore L cl b) (mi_OwnerID info) p (mi_DelPermission info))
     (\<lambda>_ s. P s \<and> (\<exists>r. scannable r \<and> changeable r p \<and> info = parse_object L r \<and> R r s)) P"
  unfolding triple_def by (auto simp: run_verify_change refusal_def)

lemma key_filter:
  assumes "distinct (map k xs)" and "x \<in> set xs"
  shows "filter (\<lambda>y. k y = k x) xs = [x]"
  using assms by (induction xs) (auto simp: filter_empty_conv image_iff)

section \<open>Triples of the callbacks\<close>

lemma stable_tables [intro]: "stable (\<lambda>s. t_objects s = rows)" "stable (\<lambda>s. s3_sizes s = z)"
  by (simp_all add: stable_def)

lemma stable_conj: "stable P \<Longrightarrow> stable Q \<Longrightarrow> stable (\<lambda>s. P s \<and> Q s)"
  by (simp add: stable_def)

lemma triple_first_object:
  "triple (\<lambda>s. P s \<and> (\<forall>rows. r = Inr rows \<longrightarrow> rows = q s)) (first_object L r)
     (\<lambda>info s. P s \<and> (\<exists>row. scannable row \<and> info = parse_object L row \<and> (\<exists>rows. q s = row # rows))) P"
  unfolding triple_def first_object_def
  by (auto simp: run_simps parseObjectList_def split: sum.splits list.splits)

lemma triple_GetObjectInfo:
  assumes "stable P"
  shows "triple P (GetObjectInfoByDataID L dataID)
     (\<lambda>info s. P s \<and> (\<exists>row. scannable row \<and> info = parse_object L row \<and> (\<exists>rows. object_rows dataID s = row # rows))) P"
  unfolding GetObjectInfoByDataID_def by (rule triple_bind [OF triple_query [OF assms] triple_first_object])

lemma triple_GetObjectInfoWithPassword:
  assumes "stable P"
  shows "triple P (GetObjectInfoByDataIDWithPassword L dataID password)
     (\<lambda>info s. P s \<and> (\<exists>row. scannable row \<and> info = parse_object L row \<and>
        (\<exists>rows. object_rows dataID s = row # rows) \<and>
        (o_access_password row = 0 \<or> o_access_password row = sint password))) P"
proof -
  let ?pw = "\<lambda>row. o_access_password row = 0 \<or> o_access_password row = sint password"
  have st: "stable (\<lambda>s. P s \<and> (\<exists>row rows. object_rows dataID s = row # rows \<and> ?pw row))"
    using assms by (auto simp: stable_def object_rows_def)
  show ?thesis
    unfolding GetObjectInfoByDataIDWithPassword_def
    by (rule triple_bind [OF triple_query_row [OF assms]])
      (auto split: sum.splits sql_error.splits intro!: triple_throw
        intro: triple_weaken [OF triple_GetObjectInfo [OF st]])
qed

definition target_rows :: "persistence_target \<Rightarrow> ds_world \<Rightarrow> object_row list" where
  "target_rows target s = take 1 (order_by (\<lambda>r. Some (- o_update_date r)) (filter (\<lambda>r.
     o_owner r = sint (pt_OwnerID target) \<and> o_persistence_slot_id r = uint (pt_PersistenceSlotID target) \<and>
     \<not> o_deleted r) (t_objects s)))"

lemma set_target_rows:
  assumes "target_rows target s = row # rows"
  shows "row \<in> set (t_objects s)" and "o_owner row = sint (pt_OwnerID target)" and "\<not> o_deleted row"
    and "o_persistence_slot_id row = uint (pt_PersistenceSlotID target)"
proof -
  have "row \<in> set (target_rows target s)" using assms by simp
  then have "row \<in> set (order_by (\<lambda>r. Some (- o_update_date r)) (filter (\<lambda>r.
     o_owner r = sint (pt_OwnerID target) \<and> o_persistence_slot_id r = uint (pt_PersistenceSlotID target) \<and>
     \<not> o_deleted r) (t_objects s)))"
    unfolding target_rows_def by (rule in_set_takeD)
  then show "row \<in> set (t_objects s)" and "o_owner row = sint (pt_OwnerID target)" and "\<not> o_deleted row"
    and "o_persistence_slot_id row = uint (pt_PersistenceSlotID target)"
    by simp_all
qed

lemma triple_GetObjectInfoByTarget:
  assumes "stable P"
  shows "triple P (GetObjectInfoByPersistenceTargetWithPassword L target password)
     (\<lambda>info s. P s \<and> (\<exists>row. scannable row \<and> info = parse_object L row \<and> (\<exists>rows. target_rows target s = row # rows))) P"
  unfolding GetObjectInfoByPersistenceTargetWithPassword_def target_rows_def
  by (rule triple_bind [OF triple_query [OF assms] triple_first_object])

lemma triple_object_column:
  assumes "stable P"
  shows "triple P (object_column dataID column)
     (\<lambda>v s. P s \<and> (\<exists>row rows. object_rows dataID s = row # rows \<and> v = word_of_int (column row))) P"
  unfolding object_column_def
  by (rule triple_bind [OF triple_query_row [OF assms]])
    (auto split: sum.splits sql_error.splits intro!: triple_throw triple_ret)

lemma triple_object_exec:
  assumes "stable P" and "\<And>s. P s \<Longrightarrow> P (update_object dataID f s)"
  shows "triple P (object_exec dataID f) (\<lambda>_. P) P"
  unfolding object_exec_def
  by (rule triple_bind [OF triple_exec [OF assms]]) (auto split: sum.splits intro!: triple_throw triple_ret)

text \<open>What no update of an object touches, apart from the completion of its upload.\<close>

definition same_object :: "object_row \<Rightarrow> object_row \<Rightarrow> bool" where
  "same_object r q \<longleftrightarrow> o_data_id q = o_data_id r \<and> o_upload_completed q = o_upload_completed r \<and>
     o_owner q = o_owner r \<and> o_size q = o_size r"

lemma triple_updates:
  assumes "stable P" and "\<And>f s. (\<And>r. same_object r (f r)) \<Longrightarrow> P s \<Longrightarrow> P (update_object dataID f s)"
  shows "triple P (UpdateObjectPeriodByDataIDWithPassword dataID period pw) (\<lambda>_. P) P"
    and "triple P (UpdateObjectMetaBinaryByDataIDWithPassword dataID meta pw) (\<lambda>_. P) P"
    and "triple P (UpdateObjectDataTypeByDataIDWithPassword dataID dt pw) (\<lambda>_. P) P"
    and "triple P (DeleteObjectByDataID dataID) (\<lambda>_. P) P"
proof -
  have exec: "triple P (object_exec dataID f) (\<lambda>_. P) P" if "\<And>r. same_object r (f r)" for f
    by (rule triple_object_exec [OF assms(1)]) (use assms(2) that in blast)
  show "triple P (UpdateObjectPeriodByDataIDWithPassword dataID period pw) (\<lambda>_. P) P"
    "triple P (UpdateObjectMetaBinaryByDataIDWithPassword dataID meta pw) (\<lambda>_. P) P"
    "triple P (UpdateObjectDataTypeByDataIDWithPassword dataID dt pw) (\<lambda>_. P) P"
    "triple P (DeleteObjectByDataID dataID) (\<lambda>_. P) P"
    unfolding UpdateObjectPeriodByDataIDWithPassword_def UpdateObjectMetaBinaryByDataIDWithPassword_def
      UpdateObjectDataTypeByDataIDWithPassword_def DeleteObjectByDataID_def
    by (rule triple_bind [OF triple_get], rule triple_pre [OF exec], simp_all add: same_object_def)+
      (rule exec, simp add: same_object_def)
qed

lemma triple_Initialize:
  assumes "stable P"
    and "\<And>s now. P s \<Longrightarrow> next_data_id s \<le> 281474976710656 \<Longrightarrow> fits_columns (new_object L p param (next_data_id s) now) \<Longrightarrow>
      P (s\<lparr>t_objects := t_objects s @ [new_object L p param (next_data_id s) now], next_data_id := next_data_id s + 1\<rparr>)"
  shows "triple P (InitializeObjectByPreparePostParam L p param) (\<lambda>_. P) P"
  unfolding InitializeObjectByPreparePostParam_def
proof (rule triple_bind [OF triple_get])
  fix now
  show "triple (\<lambda>s. P s \<and> now = ds_now s)
    (bindM (db_call (\<lambda>s. let row = new_object L p param (next_data_id s) now in
      if next_data_id s \<le> 281474976710656 \<and> fits_columns row
      then (Some (next_data_id s), s\<lparr>t_objects := t_objects s @ [row], next_data_id := next_data_id s + 1\<rparr>)
      else (None, s))) (\<lambda>r. case r of Inr (Some dataID) \<Rightarrow> retM (word_of_int dataID) | _ \<Rightarrow> throwM DataStore_Unknown))
    (\<lambda>_. P) P"
    by (rule triple_bind [where R = "\<lambda>_. P"], rule triple_pre [where P = P], rule triple_db_call)
      (use assms in \<open>auto simp: Let_def split: if_splits sum.splits option.splits intro!: triple_ret triple_throw\<close>)
qed

lemma triple_new_posted:
  assumes "triple P (InitializeObjectByPreparePostParam L p param) (\<lambda>_. P) P"
  shows "triple P (new_posted_object D p param (InitializeObjectByPreparePostParam L) InitializeObjectRatingWithSlot) (\<lambda>_. P) P"
  unfolding new_posted_object_def
  by (rule triple_bind [OF assms], rule triple_bind [OF triple_for])
    (auto simp: InitializeObjectRatingWithSlot_def intro: triple_ret)

section \<open>Handlers that only read\<close>

lemma triple_verify: "triple P (VerifyObjectPermission D owner p permission) (\<lambda>_. P) P"
  unfolding VerifyObjectPermission_def called_def
  by (auto intro!: triple_if triple_option triple_throw triple_panic triple_ret)

lemma triple_ds_ok: "triple P (ds_ok method callID body) (\<lambda>_. P) P"
  unfolding ds_ok_def by (rule triple_ret)

lemmas triple_forget = triple_weaken [where P' = P and P = P and E = P and E' = P and Q' = "\<lambda>_. P" for P]

lemma triple_infos:
  assumes "stable P"
  shows "triple P (GetObjectInfoByDataID L dataID) (\<lambda>_. P) P"
    and "triple P (GetObjectInfoByDataIDWithPassword L dataID password) (\<lambda>_. P) P"
    and "triple P (GetObjectInfoByPersistenceTargetWithPassword L target password) (\<lambda>_. P) P"
  by (rule triple_forget [OF triple_GetObjectInfo [OF assms]], simp_all)
    (rule triple_forget [OF triple_GetObjectInfoWithPassword [OF assms]]
      triple_forget [OF triple_GetObjectInfoByTarget [OF assms]], simp_all)+

lemma triple_requested:
  assumes "stable P"
  shows "triple P (requested_object (GetObjectInfoByPersistenceTargetWithPassword L)
    (GetObjectInfoByDataIDWithPassword L) dataID target password) (\<lambda>_. P) P"
  unfolding requested_object_def by (rule triple_if triple_infos [OF assms])+

lemma triple_meta_entry:
  assumes "triple P getInfo (\<lambda>_. P) P"
  shows "triple P (meta_entry L D c opt getInfo) (\<lambda>_. P) P"
proof -
  have entry: "triple P (bindM (catchM (VerifyObjectPermission D (mi_OwnerID info) (conn_PID c) (mi_Permission info)))
      (\<lambda>v. retM (case v of
        Inl e \<Rightarrow> (FilterPropertiesByResultOption L opt (NewDataStoreMetaInfo L), QResultError e)
      | Inr _ \<Rightarrow> (FilterPropertiesByResultOption L opt info, QResultSuccess DataStore_Unknown)))) (\<lambda>_. P) P" for info
    by (rule triple_bind [where R = "\<lambda>_. P"], rule triple_catch, rule triple_verify, assumption, rule triple_ret)
  show ?thesis
    unfolding meta_entry_def
    by (rule triple_bind [where R = "\<lambda>_. P"], rule triple_catch, rule assms, assumption)
      (auto intro: triple_ret entry split: sum.splits)
qed

lemma triple_meta_entries:
  assumes "\<And>x. triple P (entry x) (\<lambda>_. P) P"
  shows "triple P (meta_entries entry xs) (\<lambda>_. P) P"
  unfolding meta_entries_def
  by (rule triple_fold) (auto intro!: triple_bind [OF assms] triple_ret split: prod.splits)

lemma triple_search:
  assumes "stable P"
  shows "triple P (GetObjectInfosByDataStoreSearchParam L param p) (\<lambda>_. P) P"
  unfolding GetObjectInfosByDataStoreSearchParam_def Let_def
  by (rule triple_bind [OF triple_forget [OF triple_query [OF assms]]])
    (auto split: sum.splits option.splits intro: triple_ret)

lemma triple_collect_keeps:
  assumes "\<And>x. triple P (f x) (\<lambda>_. P) P"
  shows "triple P (collectM f xs) (\<lambda>_. P) P"
  unfolding collectM_def by (rule triple_fold) (auto intro: triple_bind [OF assms] triple_ret)

lemma triple_rejected: "triple P (throwM e) (\<lambda>_. P) P"
  by (rule triple_throw)

fun only_reads :: "ds_request \<Rightarrow> bool" where
  "only_reads (ReqPreparePostObject q) = False"
| "only_reads (ReqPostMetaBinary q) = False"
| "only_reads (ReqCompletePostObject q) = False"
| "only_reads (ReqCompletePostObjects ids) = False"
| "only_reads (ReqChangeMeta q) = False"
| "only_reads _ = True"

lemma triple_readers:
  assumes "stable P" and "only_reads req"
  shows "triple P (handle_datastore L (server_datastore L cl b) err c callID req) (\<lambda>_. P) P"
proof (cases req)
  case (ReqPrepareGetObject q)
  then show ?thesis
    by (auto simp: prepareGetObject_def split: option.splits intro!: triple_required triple_if triple_rejected
      triple_bind [OF triple_infos(2) [OF assms(1)]] triple_bind [OF triple_infos(3) [OF assms(1)]]
      triple_bind [OF triple_verify] triple_ds_ok)
next
  case (ReqGetMeta q)
  then show ?thesis
    by (auto simp: getMeta_def intro!: triple_rejected triple_bind [OF triple_requested [OF assms(1)]]
      triple_bind [OF triple_verify] triple_ds_ok)
next
  case (ReqGetMetas ids q)
  then show ?thesis
    by (auto simp: getMetas_def split: prod.splits intro!: triple_rejected triple_ds_ok
      triple_bind [OF triple_meta_entries [OF triple_meta_entry [OF triple_infos(1) [OF assms(1)]]]])
next
  case (ReqGetMetasMultipleParam qs)
  then show ?thesis
    by (auto simp: getMetasMultipleParam_def split: prod.splits intro!: triple_rejected triple_ds_ok
      triple_bind [OF triple_meta_entries [OF triple_meta_entry [OF triple_requested [OF assms(1)]]]])
next
  case (ReqSearchObject q)
  then show ?thesis
    by (auto simp: searchObject_def Let_def split: prod.splits sum.splits intro!: triple_rejected triple_ds_ok
      triple_bind [OF triple_search [OF assms(1)]] triple_bind [OF triple_collect_keeps] triple_ret
      triple_bind [OF triple_catch [OF triple_verify]])
qed (use assms(2) in \<open>auto simp: deleteObject_def rateObject_def rateObjects_def HyruleWarriorsGetRatings_def
  intro!: triple_rejected triple_ds_ok\<close>)

section \<open>Handlers that write\<close>

lemma triple_post:
  assumes "\<And>p param. triple P (InitializeObjectByPreparePostParam L p param) (\<lambda>_. P) P"
  shows "triple P (preparePostObject (server_datastore L cl b) err c callID q) (\<lambda>_. P) P"
    and "triple P (postMetaBinary (server_datastore L cl b) err c callID q) (\<lambda>_. P) P"
proof -
  show "triple P (preparePostObject (server_datastore L cl b) err c callID q) (\<lambda>_. P) P"
    by (auto simp: preparePostObject_def split: option.splits prod.splits intro!: triple_required triple_if triple_rejected
      triple_bind [OF triple_new_posted [OF assms]] triple_bind [OF triple_forget [OF triple_get]] triple_ds_ok)
  show "triple P (postMetaBinary (server_datastore L cl b) err c callID q) (\<lambda>_. P) P"
    by (auto simp: postMetaBinary_def intro!: triple_rejected triple_bind [OF triple_new_posted [OF assms]] triple_ds_ok)
qed

lemma triple_completeObjects:
  assumes "\<And>dataID. triple P (complete_upload (server_datastore L cl b) GetObjectSizeByDataID
    UpdateObjectUploadCompletedByDataID dataID) (\<lambda>_. P) P"
  shows "triple P (completePostObjects (server_datastore L cl b) err c callID ids) (\<lambda>_. P) P"
  by (simp only: completePostObjects_def server_datastore_simps required_simps, rule triple_required, assumption,
      rule triple_if, rule triple_rejected)
    (rule triple_bind [OF triple_for [OF assms]], rule triple_ds_ok)

text \<open>
  A step that is taken only in states with \<open>P\<close> and, in addition, \<open>R\<close>: when these make \<open>allowed\<close>
  true, the step may rely on it.
\<close>

lemma triple_allowed:
  assumes "\<And>s. P s \<Longrightarrow> R s \<Longrightarrow> allowed" and "allowed \<Longrightarrow> triple P m (\<lambda>_. P) P"
  shows "triple (\<lambda>s. P s \<and> R s) m (\<lambda>_. P) P"
proof (cases allowed)
  case True
  then show ?thesis by (intro triple_pre [OF assms(2)]) simp_all
qed (use assms(1) in \<open>auto simp: triple_def\<close>)

lemma triple_completeObject:
  assumes "stable P"
    and "\<And>row rows s. P s \<Longrightarrow> object_rows (cp_DataID q) s = row # rows \<Longrightarrow>
      (word_of_int (o_owner row) :: u32) = ucast (conn_PID c) \<Longrightarrow> allowed"
    and "\<And>dataID. triple P (complete_upload (server_datastore L cl b) GetObjectSizeByDataID
      UpdateObjectUploadCompletedByDataID dataID) (\<lambda>_. P) P"
    and "allowed \<Longrightarrow> triple P (DeleteObjectByDataID (cp_DataID q)) (\<lambda>_. P) P"
  shows "triple P (completePostObject (server_datastore L cl b) err c callID q) (\<lambda>_. P) P"
proof -
  let ?work = "if cp_IsSuccess q then complete_upload (server_datastore L cl b) GetObjectSizeByDataID
         UpdateObjectUploadCompletedByDataID (cp_DataID q)
       else DeleteObjectByDataID (cp_DataID q)"
  have work: "triple (\<lambda>s. P s \<and> (\<exists>row rows. object_rows (cp_DataID q) s = row # rows \<and>
      owner = word_of_int (o_owner row))) ?work (\<lambda>_. P) P" if "owner = ucast (conn_PID c)" for owner :: u32
    by (rule triple_allowed [where allowed = allowed]) (use assms that in \<open>auto intro: triple_if\<close>)
  have owner: "triple P (bindM (GetObjectOwnerByDataID (cp_DataID q)) (\<lambda>ownerPID.
      if ownerPID \<noteq> ucast (conn_PID c) then throwM DataStore_PermissionDenied
      else bindM ?work (\<lambda>_. ds_ok MethodCompletePostObject callID []))) (\<lambda>_. P) P"
    unfolding GetObjectOwnerByDataID_def
    by (rule triple_bind [OF triple_object_column [OF assms(1)]], rule triple_if, rule triple_throw, simp)
      (rule triple_bind [OF work triple_ds_ok], simp)
  show ?thesis
    unfolding completePostObject_def
    by (simp only: server_datastore_simps required_simps, rule triple_required, assumption, rule triple_if,
        rule triple_rejected)
      (rule triple_bind [where R = "\<lambda>_. P"], rule triple_catch [OF triple_infos(1) [OF assms(1)]], assumption,
       rule triple_sum, rule owner, rule triple_rejected)
qed

lemma triple_changeMeta:
  assumes "stable P"
    and "\<And>row rows s. P s \<Longrightarrow> object_rows (cm_DataID q) s = row # rows \<Longrightarrow> changeable row (conn_PID c) \<Longrightarrow> allowed"
    and "\<And>f s. allowed \<Longrightarrow> (\<And>r. same_object r (f r)) \<Longrightarrow> P s \<Longrightarrow> P (update_object (cm_DataID q) f s)"
  shows "triple P (changeMeta (server_datastore L cl b) err c callID q) (\<lambda>_. P) P"
proof -
  let ?updates = "bindM (if cm_ModifiesFlag q AND 0x08 \<noteq> 0
      then UpdateObjectPeriodByDataIDWithPassword (cm_DataID q) (cm_Period q) (cm_UpdatePassword q) else retM ()) (\<lambda>_.
    bindM (if cm_ModifiesFlag q AND 0x10 \<noteq> 0
      then UpdateObjectMetaBinaryByDataIDWithPassword (cm_DataID q) (cm_MetaBinary q) (cm_UpdatePassword q) else retM ()) (\<lambda>_.
    bindM (if cm_ModifiesFlag q AND 0x80 \<noteq> 0
      then UpdateObjectDataTypeByDataIDWithPassword (cm_DataID q) (cm_DataType q) (cm_UpdatePassword q) else retM ()) (\<lambda>_.
    ds_ok MethodChangeMeta callID [])))"
  have updates: "triple P ?updates (\<lambda>_. P) P" if ok: allowed
    by (rule triple_bind [OF triple_if [OF triple_updates(1) [OF assms(1) assms(3) [OF ok]]]], assumption+, rule triple_ret, assumption,
        rule triple_bind [OF triple_if [OF triple_updates(2) [OF assms(1) assms(3) [OF ok]]]], assumption+, rule triple_ret, assumption,
        rule triple_bind [OF triple_if [OF triple_updates(3) [OF assms(1) assms(3) [OF ok]]]], assumption+, rule triple_ret, assumption,
        rule triple_ds_ok)
  have after: "triple (\<lambda>s. P s \<and> (\<exists>row. scannable row \<and> changeable row (conn_PID c) \<and> info = parse_object L row \<and>
      (\<exists>rows. object_rows (cm_DataID q) s = row # rows))) ?updates (\<lambda>_. P) P" for info
    by (rule triple_allowed [where allowed = allowed]) (use assms(2) updates in blast)+
  show ?thesis
    unfolding changeMeta_def
    by (simp only: server_datastore_simps required_simps, rule triple_if, rule triple_rejected)
      (rule triple_bind [OF triple_GetObjectInfo [OF assms(1)]], rule triple_bind [OF triple_verify_change after])
qed

section \<open>Runs without database faults\<close>

text \<open>What a lookup by data ID answers.\<close>

definition found_object :: "object_row list \<Rightarrow> object_row option" where
  "found_object rows = (case rows of [] \<Rightarrow> None | r # rs \<Rightarrow> if list_all scannable (r # rs) then Some r else None)"

lemma run_GetObjectInfo:
  assumes "db_faults s = []"
  shows "GetObjectInfoByDataID L dataID s =
    (case found_object (object_rows dataID s) of None \<Rightarrow> Err DataStore_NotFound | Some r \<Rightarrow> Ok (parse_object L r), s)"
  using assms by (auto simp: GetObjectInfoByDataID_def bindM_def run_simps first_object_def parseObjectList_def
    found_object_def split: list.splits)

lemma run_column:
  assumes "db_faults s = []" and "object_rows dataID s = r # rs"
  shows "object_column dataID column s = (Ok (word_of_int (column r)), s)"
  using assms by (simp add: object_column_def bindM_def run_simps first_row_def)

lemma run_object_exec:
  "db_faults s = [] \<Longrightarrow> object_exec dataID f s = (Ok (), update_object dataID f s)"
  by (simp add: object_exec_def bindM_def run_simps)

lemma run_complete_upload:
  assumes "db_faults s = []" and "object_rows dataID s = r # rs"
  shows "complete_upload D GetObjectSizeByDataID UpdateObjectUploadCompletedByDataID dataID s =
    (case s3_sizes s (dp_S3Bucket D) (object_key D dataID) of
       None \<Rightarrow> (Err DataStore_NotFound, s)
     | Some z \<Rightarrow>
         if z = ucast (word_of_int (o_size r) :: u32)
         then (Ok (), update_object dataID (\<lambda>r. r\<lparr>o_upload_completed := True\<rparr>) s)
         else (Err DataStore_Unknown, s))"
  using assms by (auto simp: complete_upload_def S3ObjectSize_def GetObjectSizeByDataID_def bindM_def run_simps
    run_column UpdateObjectUploadCompletedByDataID_def run_object_exec split: option.splits)

definition posted :: "ds_lib \<Rightarrow> pid \<Rightarrow> prepare_post_param \<Rightarrow> ds_world \<Rightarrow> ds_world" where
  "posted L p param s = s\<lparr>t_objects := t_objects s @ [new_object L p param (next_data_id s) (ds_now s)],
     next_data_id := next_data_id s + 1\<rparr>"

lemma run_Initialize:
  assumes "db_faults s = []" and "next_data_id s \<le> 281474976710656"
    and "fits_columns (new_object L p param (next_data_id s) (ds_now s))"
  shows "InitializeObjectByPreparePostParam L p param s = (Ok (word_of_int (next_data_id s)), posted L p param s)"
  using assms by (simp add: InitializeObjectByPreparePostParam_def run_simps)
    (simp add: bindM_def db_call_def Let_def posted_def run_simps)

lemma run_ratings: "forM slots (InitializeObjectRatingWithSlot dataID) = retM ()"
  by (induction slots) (simp_all add: InitializeObjectRatingWithSlot_def)

lemma run_new_posted:
  assumes "db_faults s = []" and "next_data_id s \<le> 281474976710656"
    and "fits_columns (new_object L p param (next_data_id s) (ds_now s))"
  shows "new_posted_object D p param (InitializeObjectByPreparePostParam L) InitializeObjectRatingWithSlot s =
    (Ok (word_of_int (next_data_id s)), posted L p param s)"
  using run_Initialize [OF assms] by (simp add: new_posted_object_def run_ratings bindM_def run_simps)

lemma scannable_new_object:
  assumes "fits_columns (new_object L p param i now)" and "0 \<le> i"
  shows "scannable (new_object L p param i now)"
proof -
  have u: "uint (w :: u8) < 256" "uint (x :: u16) < 65536" "uint (y :: u32) < 4294967296" for w x y
    using uint_lt2p [of w] uint_lt2p [of x] uint_lt2p [of y] by simp_all
  show ?thesis
    using assms u by (auto simp: scannable_def new_object_def fits_columns_def convertPIDList_def list_all_iff)
qed

lemma parse_new_object:
  "parse_object L (new_object L p param i now) = (NewDataStoreMetaInfo L)\<lparr>
     mi_ExpireTime := 0x9C3F3E0000, mi_DataID := word_of_int i, mi_Size := pp_Size param, mi_Name := pp_Name param,
     mi_DataType := pp_DataType param, mi_MetaBinary := pp_MetaBinary param, mi_Permission := pp_Permission param,
     mi_DelPermission := pp_DelPermission param, mi_Flag := pp_Flag param, mi_Period := pp_Period param,
     mi_ReferDataID := pp_ReferDataID param, mi_OwnerID := p, mi_Tags := convertStringList L (pp_Tags param),
     mi_CreatedTime := MetaFromTimestamp_receiver L now, mi_UpdatedTime := MetaFromTimestamp_receiver L now,
     mi_ReferredTime := MetaFromTimestamp_receiver L now\<rparr>"
  by (simp add: parse_object_def new_object_def createStringList_def createPIDList_def convertPIDList_def map_idI o_def)

lemma sint_data_id:
  assumes "0 \<le> i" and "i \<le> 281474976710657"
  shows "sint (word_of_int i :: u64) = i"
  using assms by (simp add: signed_of_int signed_take_bit_int_eq_self)

end
