(* ===== verification/Datastore_Store.thy ===== *)
theory Datastore_Store
  imports Datastore_Runs
begin

text \<open>
  The reachable states of the object store, their invariant, and sample states that the witnesses
  of the properties use.
\<close>

section \<open>Reachable states\<close>

text \<open>
  The store starts empty; requests arrive in any order, the database fails and recovers and time
  passes at any moment, and clients put objects of any size into the S3 store, under new keys or
  over what is there: the policy that \<open>PostObject\<close> signs names the bucket, the key and a time of
  expiry, and no size. Nothing in the repository takes an object out of the S3 store.
\<close>

inductive ds_reachable :: "ds_lib \<Rightarrow> ds_protocol \<Rightarrow> ds_world \<Rightarrow> bool" for L D where
  start: "t_objects s = [] \<Longrightarrow> next_data_id s = 1 \<Longrightarrow> ds_reachable L D s"
| request: "ds_reachable L D s \<Longrightarrow> ds_reachable L D (snd (handle_datastore L D err c callID req s))"
| environment: "ds_reachable L D s \<Longrightarrow> ds_reachable L D (s\<lparr>db_faults := bs, ds_now := now\<rparr>)"
| upload: "ds_reachable L D s \<Longrightarrow>
    ds_reachable L D (s\<lparr>s3_sizes := (s3_sizes s)(bucket := (s3_sizes s bucket)(key := Some n))\<rparr>)"

text \<open>
  What an object with a completed upload has in the S3 store: something, if it was completed \<open>before\<close>
  (by the IDs in a set), and what was announced for it otherwise.
\<close>

definition upload_checked :: "int set \<Rightarrow> ds_protocol \<Rightarrow> (string \<Rightarrow> string \<Rightarrow> u64 option) \<Rightarrow> object_row \<Rightarrow> bool" where
  "upload_checked earlier D sizes r \<longleftrightarrow> (o_upload_completed r \<longrightarrow>
     (let stored = sizes (dp_S3Bucket D) (object_key D (word_of_int (o_data_id r))) in
      if o_data_id r \<in> earlier then stored \<noteq> None else stored = Some (ucast (word_of_int (o_size r) :: u32))))"

definition store_inv :: "int set \<Rightarrow> ds_protocol \<Rightarrow> ds_world \<Rightarrow> bool" where
  "store_inv earlier D s \<longleftrightarrow> distinct (map o_data_id (t_objects s)) \<and> 1 \<le> next_data_id s \<and> next_data_id s \<le> 281474976710657 \<and>
     (\<forall>r \<in> set (t_objects s). 0 < o_data_id r \<and> o_data_id r < next_data_id s \<and> upload_checked earlier D (s3_sizes s) r)"

lemma stable_store_inv: "stable (store_inv B D)"
  by (simp add: stable_def store_inv_def)

lemma map_update_object:
  assumes "\<And>r. o_data_id (f r) = o_data_id r"
  shows "map o_data_id (t_objects (update_object dataID f s)) = map o_data_id (t_objects s)"
  using assms by (simp add: update_object_def)

lemma store_inv_update:
  assumes "store_inv B D s" and "\<And>r. o_data_id (f r) = o_data_id r"
    and "\<And>r. r \<in> set (t_objects s) \<Longrightarrow> o_data_id r = sint dataID \<Longrightarrow> upload_checked B D (s3_sizes s) (f r)"
  shows "store_inv B D (update_object dataID f s)"
proof -
  have "distinct (map o_data_id (t_objects (update_object dataID f s)))"
    using assms(1) by (simp add: map_update_object [OF assms(2)] store_inv_def)
  then show ?thesis using assms by (auto simp: store_inv_def update_object_def)
qed

lemma store_inv_same:
  assumes "store_inv B D s" and "\<And>r. same_object r (f r)"
  shows "store_inv B D (update_object dataID f s)"
proof (rule store_inv_update [OF assms(1)])
  show "o_data_id (f r) = o_data_id r" for r using assms(2) [of r] by (simp add: same_object_def)
  show "upload_checked B D (s3_sizes s) (f r)" if "r \<in> set (t_objects s)" for r
    using assms(1) assms(2) [of r] that by (auto simp: same_object_def store_inv_def upload_checked_def Let_def)
qed

lemmas store_inv_updates = triple_updates [OF stable_store_inv store_inv_same]

lemma store_inv_complete:
  assumes "store_inv B D s" and "s3_sizes s (dp_S3Bucket D) (object_key D dataID) = Some (ucast v)"
    and "object_rows dataID s = row # rows" and "v = (word_of_int (o_size row) :: u32)"
  shows "store_inv B D (update_object dataID (\<lambda>r. r\<lparr>o_upload_completed := True\<rparr>) s)"
proof (rule store_inv_update [OF assms(1)])
  fix r assume r: "r \<in> set (t_objects s)" "o_data_id r = sint dataID"
  have "row \<in> set (object_rows dataID s)" using assms(3) by simp
  then have "row \<in> set (t_objects s)" "o_data_id row = sint dataID" by (simp_all add: object_rows_def)
  moreover have "inj_on o_data_id (set (t_objects s))"
    using assms(1) by (simp add: store_inv_def distinct_map)
  ultimately have "r = row" using r by (metis inj_onD)
  then show "upload_checked B D (s3_sizes s) (r\<lparr>o_upload_completed := True\<rparr>)"
    using assms(2,4) r(2) by (simp add: upload_checked_def Let_def)
qed simp

lemma store_inv_upload:
  "triple (store_inv B D) (complete_upload D GetObjectSizeByDataID UpdateObjectUploadCompletedByDataID dataID)
     (\<lambda>_. store_inv B D) (store_inv B D)"
proof -
  let ?size = "\<lambda>z s. store_inv B D s \<and> s3_sizes s (dp_S3Bucket D) (object_key D dataID) = Some z"
  let ?row = "\<lambda>v s. \<exists>row rows. object_rows dataID s = row # rows \<and> v = (word_of_int (o_size row) :: u32)"
  have st: "stable (?size z)" for z using stable_store_inv by (auto simp: stable_def)
  have st2: "stable (\<lambda>s. ?size (ucast v) s \<and> ?row v s)" for v :: u32
    using stable_store_inv by (auto simp: stable_def object_rows_def)
  have set: "triple (\<lambda>s. ?size (ucast v) s \<and> ?row v s) (UpdateObjectUploadCompletedByDataID dataID True)
    (\<lambda>_. store_inv B D) (store_inv B D)" for v
  proof -
    have "triple (\<lambda>s. ?size (ucast v) s \<and> ?row v s \<or> store_inv B D s \<and> False) (object_exec dataID (\<lambda>r. r\<lparr>o_upload_completed := True\<rparr>))
      (\<lambda>_. store_inv B D) (store_inv B D)"
      unfolding object_exec_def sql_exec_def
      by (rule triple_bind [where R = "\<lambda>_. store_inv B D"], rule triple_pre, rule triple_db_call [OF st2 [of v]])
        (auto split: sum.splits intro!: triple_throw triple_ret elim!: store_inv_complete)
    then show ?thesis by (simp add: UpdateObjectUploadCompletedByDataID_def)
  qed
  show ?thesis
    unfolding complete_upload_def S3ObjectSize_def
  proof (rule triple_bind [OF triple_get], rule triple_option)
    fix r and z :: u64 assume "r = Some z"
    have "triple (?size z) (bindM (GetObjectSizeByDataID dataID)
        (\<lambda>objectSizeDB. if z \<noteq> ucast objectSizeDB then throwM DataStore_Unknown
          else UpdateObjectUploadCompletedByDataID dataID True)) (\<lambda>_. store_inv B D) (store_inv B D)"
      unfolding GetObjectSizeByDataID_def
    proof (rule triple_bind [OF triple_weaken [OF triple_object_column [OF st]]], assumption, assumption)
      fix v
      show "triple (\<lambda>s. ?size z s \<and> ?row v s) (if z \<noteq> ucast v then throwM DataStore_Unknown
          else UpdateObjectUploadCompletedByDataID dataID True) (\<lambda>_. store_inv B D) (store_inv B D)"
        by (cases "z = ucast v") (auto intro: triple_throw triple_pre [OF set])
    qed simp
    then show "triple (\<lambda>s. store_inv B D s \<and> r = s3_sizes s (dp_S3Bucket D) (object_key D dataID))
      (bindM (GetObjectSizeByDataID dataID)
        (\<lambda>objectSizeDB. if z \<noteq> ucast objectSizeDB then throwM DataStore_Unknown
          else UpdateObjectUploadCompletedByDataID dataID True)) (\<lambda>_. store_inv B D) (store_inv B D)"
      by (rule triple_pre) (simp add: \<open>r = Some z\<close>)
  qed (auto intro: triple_throw)
qed

lemma store_inv_post: "triple (store_inv B D) (InitializeObjectByPreparePostParam L p param) (\<lambda>_. store_inv B D) (store_inv B D)"
  by (rule triple_Initialize [OF stable_store_inv])
    (force simp: store_inv_def new_object_def upload_checked_def)

lemma store_inv_handle:
  "triple (store_inv B (server_datastore L cl b)) (handle_datastore L (server_datastore L cl b) err c callID req)
     (\<lambda>_. store_inv B (server_datastore L cl b)) (store_inv B (server_datastore L cl b))"
proof (cases "only_reads req")
  case False
  then show ?thesis
    by (cases req) (auto intro: triple_post [OF store_inv_post] triple_completeObjects [OF store_inv_upload]
      triple_completeObject [OF stable_store_inv TrueI store_inv_upload store_inv_updates(4)]
      triple_changeMeta [OF stable_store_inv TrueI store_inv_same])
qed (rule triple_readers [OF stable_store_inv])

lemma reachable_store_inv:
  assumes "ds_reachable L (server_datastore L cl b) s"
  shows "store_inv UNIV (server_datastore L cl b) s"
  using assms
proof (induction rule: ds_reachable.induct)
  case (request s err c callID req)
  then show ?case by (metis triple_keeps store_inv_handle)
next
  case (upload s bucket key n)
  then show ?case by (auto simp: store_inv_def upload_checked_def Let_def)
qed (simp_all add: store_inv_def)

lemma store_inv_completed:
  assumes "store_inv B D s" and "r \<in> set (t_objects s)" and "o_upload_completed r"
  shows "s3_sizes s (dp_S3Bucket D) (object_key D (word_of_int (o_data_id r))) \<noteq> None"
  using assms by (auto simp: store_inv_def upload_checked_def Let_def split: if_splits)

text \<open>No request puts anything into the S3 store; the clients do, with what a request signed for them.\<close>

lemma sizes_handle:
  "triple (\<lambda>s. s3_sizes s = Z) (handle_datastore L (server_datastore L cl b) err c callID req)
     (\<lambda>_ s. s3_sizes s = Z) (\<lambda>s. s3_sizes s = Z)"
proof -
  have st: "stable (\<lambda>s. s3_sizes s = Z)" by (simp add: stable_def)
  have upload: "triple (\<lambda>s. s3_sizes s = Z)
      (complete_upload D GetObjectSizeByDataID UpdateObjectUploadCompletedByDataID dataID)
      (\<lambda>_ s. s3_sizes s = Z) (\<lambda>s. s3_sizes s = Z)" for D dataID
    unfolding complete_upload_def S3ObjectSize_def GetObjectSizeByDataID_def UpdateObjectUploadCompletedByDataID_def
    by (rule triple_bind [OF triple_forget [OF triple_get]], simp, simp, simp,
        rule triple_option, rule triple_throw, simp,
        rule triple_bind [OF triple_forget [OF triple_object_column [OF st]]], simp, simp, simp,
        rule triple_if, rule triple_throw, simp)
      (rule triple_object_exec [OF st], simp add: update_object_def)
  have update: "s3_sizes s = Z \<Longrightarrow> s3_sizes (update_object dataID f s) = Z" for dataID f and s :: ds_world
    by (simp add: update_object_def)
  have post: "triple (\<lambda>s. s3_sizes s = Z) (InitializeObjectByPreparePostParam L p param)
      (\<lambda>_ s. s3_sizes s = Z) (\<lambda>s. s3_sizes s = Z)" for p param
    by (rule triple_Initialize [OF st]) simp
  show ?thesis
  proof (cases "only_reads req")
    case False
    then show ?thesis
      by (cases req) (auto intro: triple_post [OF post] triple_completeObjects [OF upload]
        triple_completeObject [OF st TrueI upload triple_updates(4) [OF st update]]
        triple_changeMeta [OF st TrueI update])
  qed (rule triple_readers [OF st])
qed

section \<open>Requests in reachable states\<close>

lemma run_postMetaBinary:
  assumes "db_faults s = []" and "next_data_id s \<le> 281474976710656"
    and "fits_columns (new_object L (conn_PID c) param (next_data_id s) (ds_now s))"
  shows "postMetaBinary (server_datastore L cl b) False c callID param s =
    (Ok (rmcSuccess DataStore_Protocol MethodPostMetaBinary callID [WDataID (word_of_int (next_data_id s))]),
     posted L (conn_PID c) param s)"
  using run_new_posted [OF assms] by (simp add: postMetaBinary_def bindM_def ds_ok_def run_simps)

lemma posted_rows:
  assumes "store_inv B D s" and "next_data_id s \<le> 281474976710656"
  shows "object_rows (word_of_int (next_data_id s)) (posted L p param s) = [new_object L p param (next_data_id s) (ds_now s)]"
proof -
  have "sint (word_of_int (next_data_id s) :: u64) = next_data_id s"
    using assms by (intro sint_data_id) (simp_all add: store_inv_def)
  moreover have "filter (\<lambda>r. o_data_id r = next_data_id s) (t_objects s) = []"
    using assms(1) by (auto simp: store_inv_def filter_empty_conv)
  ultimately show ?thesis by (simp add: object_rows_def posted_def new_object_def)
qed

lemma reachable_rows:
  assumes "ds_reachable L (server_datastore L cl b) s" and "r \<in> set (t_objects s)"
  shows "object_rows (word_of_int (o_data_id r)) s = [r]" and "sint (word_of_int (o_data_id r) :: u64) = o_data_id r"
proof -
  have inv: "store_inv UNIV (server_datastore L cl b) s" by (rule reachable_store_inv [OF assms(1)])
  show id: "sint (word_of_int (o_data_id r) :: u64) = o_data_id r"
    using inv assms(2) by (intro sint_data_id) (auto simp: store_inv_def)
  show "object_rows (word_of_int (o_data_id r)) s = [r]"
    using inv key_filter [OF _ assms(2), of o_data_id] by (simp add: object_rows_def id store_inv_def)
qed

lemma run_complete_one:
  assumes "ds_reachable L (server_datastore L (Some m) b) s" and "db_faults s = []" and "r \<in> set (t_objects s)"
    and "s3_sizes s (dp_S3Bucket (server_datastore L (Some m) b))
      (object_key (server_datastore L (Some m) b) (word_of_int (o_data_id r))) = Some (ucast (word_of_int (o_size r) :: u32))"
  shows "completePostObjects (server_datastore L (Some m) b) False c callID [word_of_int (o_data_id r)] s =
    (Ok (rmcSuccess DataStore_Protocol MethodCompletePostObjects callID []),
     s\<lparr>t_objects := map (\<lambda>q. if o_data_id q = o_data_id r then q\<lparr>o_upload_completed := True\<rparr> else q) (t_objects s)\<rparr>)"
  using run_complete_upload [OF assms(2) reachable_rows(1) [OF assms(1,3)], of "server_datastore L (Some m) b"] assms(4)
  by (simp add: completePostObjects_def bindM_def ds_ok_def run_simps update_object_def reachable_rows(2) [OF assms(1,3)])

section \<open>Samples\<close>

definition sample_ds_lib :: ds_lib where
  "sample_ds_lib = \<lparr> NewDataStoreMetaInfo = \<lparr> mi_DataID = 0, mi_OwnerID = 0, mi_Size = 0, mi_Name = [], mi_DataType = 0,
       mi_MetaBinary = [], mi_Permission = \<lparr> Permission = 0, RecipientIDs = [] \<rparr>,
       mi_DelPermission = \<lparr> Permission = 0, RecipientIDs = [] \<rparr>, mi_CreatedTime = 0, mi_UpdatedTime = 0, mi_Period = 0,
       mi_ReferDataID = 0, mi_Flag = 0, mi_ReferredTime = 0, mi_ExpireTime = 0, mi_Tags = [] \<rparr>,
     NewDataStoreRatingInfo = [], FilterPropertiesByResultOption = (\<lambda>_ i. i), String_String = (\<lambda>s. s),
     MetaFromTimestamp_receiver = (\<lambda>_. 0), DataStore_AtLeast_4_0_0 = False \<rparr>"

definition sample_minio :: minio_client where
  "sample_minio = \<lparr> PresignedGetObject = (\<lambda>bucket key _. Some (bucket @ key)),
     PresignedPostPolicy = (\<lambda>bucket key _. Some (bucket @ key, [])), SetBucket_ok = (\<lambda>b. b \<noteq> []),
     SetKey_ok = (\<lambda>k. k \<noteq> []), SetExpires_ok = (\<lambda>t. 0 < t) \<rparr>"

abbreviation sample_D :: ds_protocol where
  "sample_D \<equiv> server_datastore sample_ds_lib (Some sample_minio) []"

definition sample_post :: "u8 \<Rightarrow> prepare_post_param" where
  "sample_post level = \<lparr> pp_Size = 10, pp_Name = ''fairy'', pp_DataType = 7, pp_MetaBinary = [1, 2],
     pp_Permission = \<lparr> Permission = level, RecipientIDs = [] \<rparr>,
     pp_DelPermission = \<lparr> Permission = 3, RecipientIDs = [] \<rparr>, pp_Flag = 0, pp_Period = 30, pp_ReferDataID = 0,
     pp_Tags = [''t''], pp_RatingInitSlots = [], pp_PersistenceSlotID = 0, pp_ExtraData = [] \<rparr>"

definition sample_conn :: "pid \<Rightarrow> connection" where
  "sample_conn p = \<lparr> conn_PID = p, conn_ID = 1, conn_StationURLs = [] \<rparr>"

definition empty_store :: ds_world where
  "empty_store = \<lparr> db_faults = [], t_objects = [], next_data_id = 1, ds_now = 1000, s3_sizes = (\<lambda>_ _. None) \<rparr>"

definition sample_object :: "u8 \<Rightarrow> object_row" where
  "sample_object level = new_object sample_ds_lib 1001 (sample_post level) 1 1000"

definition posted_store :: "u8 \<Rightarrow> ds_world" where
  "posted_store level = posted sample_ds_lib 1001 (sample_post level) empty_store"

definition uploaded_store :: "u8 \<Rightarrow> ds_world" where
  "uploaded_store level = posted_store level\<lparr>s3_sizes := (\<lambda>_ _. None)(dp_S3Bucket sample_D :=
     (\<lambda>_. None)(object_key sample_D 1 := Some 10))\<rparr>"

definition completed_store :: "u8 \<Rightarrow> ds_world" where
  "completed_store level = uploaded_store level\<lparr>t_objects := [sample_object level\<lparr>o_upload_completed := True\<rparr>]\<rparr>"

lemma sample_conn_PID [simp]: "conn_PID (sample_conn p) = p"
  by (simp add: sample_conn_def)

lemma sample_object_simps [simp]:
  "o_data_id (sample_object level) = 1" "o_owner (sample_object level) = 1001" "o_size (sample_object level) = 10"
  "o_permission (sample_object level) = uint level" "o_access_password (sample_object level) = 0"
  "o_delete_permission (sample_object level) = 3" "o_permission_recipients (sample_object level) = []"
  "o_upload_completed (sample_object level) = False" "o_deleted (sample_object level) = False"
  "o_data_type (sample_object level) = 7"
  by (simp_all add: sample_object_def new_object_def sample_post_def convertPIDList_def)

lemma sample_object_fits: "fits_columns (sample_object level)"
  by (simp add: fits_columns_def sample_object_def new_object_def sample_post_def convertPIDList_def)

lemma sample_object_scannable [simp]: "scannable (sample_object level)"
  using sample_object_fits unfolding sample_object_def by (rule scannable_new_object) simp

lemma sample_store_simps [simp]:
  "db_faults empty_store = []" "db_faults (posted_store level) = []" "db_faults (uploaded_store level) = []"
  "db_faults (completed_store level) = []"
  "t_objects (posted_store level) = [sample_object level]" "t_objects (uploaded_store level) = [sample_object level]"
  "t_objects (completed_store level) = [sample_object level\<lparr>o_upload_completed := True\<rparr>]"
  "s3_sizes (uploaded_store level) (dp_S3Bucket sample_D) (object_key sample_D 1) = Some 10"
  "next_data_id empty_store = 1"
  by (simp_all add: empty_store_def posted_store_def uploaded_store_def completed_store_def posted_def sample_object_def)

lemma reachable_empty: "ds_reachable L D empty_store"
  by (rule start) (simp_all add: empty_store_def)

lemma reachable_posted: "ds_reachable sample_ds_lib sample_D (posted_store level)"
proof -
  have "postMetaBinary sample_D False (sample_conn 1001) 1 (sample_post level) empty_store =
      (Ok (rmcSuccess DataStore_Protocol MethodPostMetaBinary 1 [WDataID 1]), posted_store level)"
    using run_postMetaBinary [of empty_store sample_ds_lib "sample_conn 1001" "sample_post level"] sample_object_fits [of level]
    by (simp add: posted_store_def sample_object_def empty_store_def)
  then have "posted_store level = snd (handle_datastore sample_ds_lib sample_D False (sample_conn 1001) 1
      (ReqPostMetaBinary (sample_post level)) empty_store)" by simp
  also have "ds_reachable sample_ds_lib sample_D \<dots>" by (rule request [OF reachable_empty])
  finally show ?thesis .
qed

lemma reachable_uploaded: "ds_reachable sample_ds_lib sample_D (uploaded_store level)"
  using upload [OF reachable_posted, of level "dp_S3Bucket sample_D" "object_key sample_D 1" 10]
  by (simp add: uploaded_store_def posted_store_def posted_def empty_store_def fun_upd_def)

lemma reachable_completed: "ds_reachable sample_ds_lib sample_D (completed_store level)"
proof -
  have "completePostObjects sample_D False (sample_conn 7) 2 [1] (uploaded_store level) =
    (Ok (rmcSuccess DataStore_Protocol MethodCompletePostObjects 2 []), completed_store level)"
    using run_complete_one [OF reachable_uploaded, of level "sample_object level"] by (simp add: completed_store_def)
  then have "completed_store level = snd (handle_datastore sample_ds_lib sample_D False (sample_conn 7) 2
      (ReqCompletePostObjects [1]) (uploaded_store level))" by simp
  also have "ds_reachable sample_ds_lib sample_D \<dots>" by (rule request [OF reachable_uploaded])
  finally show ?thesis .
qed

end
