(* ===== verification/Datastore_Props.thy ===== *)
theory Datastore_Props
  imports Datastore_Store
begin

text \<open>
  What the object store promises, and where it does not: an upload is completed only with the announced
  size, objects are read and changed only by whom their permissions name, searches return visible
  objects, posted objects are read back.
\<close>

section \<open>Uploads\<close>

lemma store_inv_announced:
  assumes "store_inv B D s" and "r \<in> set (t_objects s)" and "o_upload_completed r" and "o_data_id r \<notin> B"
  shows "s3_sizes s (dp_S3Bucket D) (object_key D (word_of_int (o_data_id r))) = Some (ucast (word_of_int (o_size r) :: u32))"
  using assms by (auto simp: store_inv_def upload_checked_def Let_def split: if_splits)

text \<open>
  C35: In every reachable state of the object store no two objects have the same ID, and every object
  whose upload counts as completed has something in the S3 store under its key. No request writes
  to the S3 store, and a request that completes an upload (any request, sent by anybody, whatever
  statements of the database fail) does so only when the S3 store has exactly the size that was
  announced when the object was posted. Clients may upload anything at any time, in place of what is
  stored, too; so the size is the announced one at the moment of the completion, and need not stay so.
\<close>

theorem completed_uploads_are_stored:
  assumes "ds_reachable L (server_datastore L cl b) s"
  shows "distinct (map o_data_id (t_objects s)) \<and>
    (\<forall>r \<in> set (t_objects s). o_upload_completed r \<longrightarrow> s3_sizes s (dp_S3Bucket (server_datastore L cl b))
      (object_key (server_datastore L cl b) (word_of_int (o_data_id r))) \<noteq> None) \<and>
    (\<forall>err c callID req. let t = snd (handle_datastore L (server_datastore L cl b) err c callID req s) in
      s3_sizes t = s3_sizes s \<and>
      (\<forall>r \<in> set (t_objects t). o_upload_completed r \<and>
          \<not> (\<exists>q \<in> set (t_objects s). o_data_id q = o_data_id r \<and> o_upload_completed q) \<longrightarrow>
        s3_sizes s (dp_S3Bucket (server_datastore L cl b))
          (object_key (server_datastore L cl b) (word_of_int (o_data_id r))) = Some (ucast (word_of_int (o_size r) :: u32))))"
proof -
  let ?D = "server_datastore L cl b"
  have inv: "store_inv UNIV ?D s" by (rule reachable_store_inv [OF assms])
  let ?B = "o_data_id ` {q \<in> set (t_objects s). o_upload_completed q}"
  have start: "store_inv ?B ?D s" using inv by (auto simp: store_inv_def upload_checked_def Let_def)
  have sizes: "s3_sizes (snd (handle_datastore L ?D err c callID req s)) = s3_sizes s" for err c callID req
    by (rule triple_keeps [OF sizes_handle refl])
  have new: "store_inv ?B ?D (snd (handle_datastore L ?D err c callID req s))" for err c callID req
    by (rule triple_keeps [OF store_inv_handle start])
  have later: "s3_sizes s (dp_S3Bucket ?D) (object_key ?D (word_of_int (o_data_id r))) = Some (ucast (word_of_int (o_size r) :: u32))"
    if "r \<in> set (t_objects (snd (handle_datastore L ?D err c callID req s)))" "o_upload_completed r \<and>
      \<not> (\<exists>q \<in> set (t_objects s). o_data_id q = o_data_id r \<and> o_upload_completed q)" for r err c callID req
  proof -
    have "o_data_id r \<notin> ?B" using that(2) by auto
    then show ?thesis using store_inv_announced [OF new that(1)] that(2) by (simp add: sizes)
  qed
  show ?thesis
    unfolding Let_def
  proof (intro conjI allI ballI impI)
    show "distinct (map o_data_id (t_objects s))" using inv by (simp add: store_inv_def)
  next
    fix r assume "r \<in> set (t_objects s)" "o_upload_completed r"
    then show "s3_sizes s (dp_S3Bucket ?D) (object_key ?D (word_of_int (o_data_id r))) \<noteq> None"
      by (rule store_inv_completed [OF inv])
  qed (rule sizes, rule later)
qed

lemma completed_uploads_are_stored_witness:
  "\<exists>r. t_objects (snd (handle_datastore sample_ds_lib sample_D False (sample_conn 7) 2 (ReqCompletePostObjects [1]) (uploaded_store 3))) = [r] \<and>
    o_upload_completed r \<and> s3_sizes (uploaded_store 3) (dp_S3Bucket sample_D) (object_key sample_D (word_of_int (o_data_id r))) =
      Some (ucast (word_of_int (o_size r) :: u32))"
proof -
  have "completePostObjects sample_D False (sample_conn 7) 2 [1] (uploaded_store 3) =
    (Ok (rmcSuccess DataStore_Protocol MethodCompletePostObjects 2 []), completed_store 3)"
    using run_complete_one [OF reachable_uploaded, of 3 "sample_object 3"] by (simp add: completed_store_def)
  then have run: "t_objects (snd (handle_datastore sample_ds_lib sample_D False (sample_conn 7) 2 (ReqCompletePostObjects [1])
      (uploaded_store 3))) = [sample_object 3\<lparr>o_upload_completed := True\<rparr>]" by simp
  have "\<forall>err c callID req. let t = snd (handle_datastore sample_ds_lib sample_D err c callID req (uploaded_store 3)) in
      \<forall>r \<in> set (t_objects t). o_upload_completed r \<and>
          \<not> (\<exists>q \<in> set (t_objects (uploaded_store 3)). o_data_id q = o_data_id r \<and> o_upload_completed q) \<longrightarrow>
        s3_sizes (uploaded_store 3) (dp_S3Bucket sample_D) (object_key sample_D (word_of_int (o_data_id r))) =
          Some (ucast (word_of_int (o_size r) :: u32))"
    using completed_uploads_are_stored [OF reachable_uploaded [of 3]] unfolding Let_def by blast
  from this [rule_format, of False "sample_conn 7" 2 "ReqCompletePostObjects [1]"] show ?thesis
    unfolding Let_def run by (intro exI [of _ "sample_object 3\<lparr>o_upload_completed := True\<rparr>"]) simp
qed

text \<open>
  What is stored for a completed object need not stay what was checked: the signed policy names no
  size and lets its holder upload again until it expires, and nothing is checked after the completion.
\<close>

lemma completed_upload_can_be_replaced:
  "\<exists>s r. ds_reachable sample_ds_lib sample_D s \<and> r \<in> set (t_objects s) \<and> o_upload_completed r \<and> o_size r = 10 \<and>
    s3_sizes s (dp_S3Bucket sample_D) (object_key sample_D (word_of_int (o_data_id r))) = Some 4000000"
  using upload [OF reachable_completed, of 3 "dp_S3Bucket sample_D" "object_key sample_D 1" 4000000]
  by (intro exI [of _ "sample_object 3\<lparr>o_upload_completed := True\<rparr>"] exI) (auto simp: word_of_int_1)

section \<open>Changes\<close>

definition untouched :: "object_row \<Rightarrow> ds_world \<Rightarrow> bool" where
  "untouched r s \<longleftrightarrow> o_data_id r < next_data_id s \<and> o_data_id r \<in> set (map o_data_id (t_objects s)) \<and>
     (\<forall>q \<in> set (t_objects s). o_data_id q = o_data_id r \<longrightarrow> q = r \<or> q = r\<lparr>o_upload_completed := True\<rparr>)"

lemma stable_untouched: "stable (untouched r)"
  by (simp add: stable_def untouched_def)

lemma untouched_update:
  assumes "untouched r s" and "sint dataID \<noteq> o_data_id r" and "\<And>q. same_object q (f q)"
  shows "untouched r (update_object dataID f s)"
proof -
  have "map o_data_id (t_objects (update_object dataID f s)) = map o_data_id (t_objects s)"
    using assms(3) by (simp add: map_update_object same_object_def)
  moreover have "next_data_id (update_object dataID f s) = next_data_id s" by (simp add: update_object_def)
  ultimately show ?thesis
    using assms unfolding untouched_def by (auto simp: update_object_def same_object_def)
qed

lemma untouched_complete:
  assumes "untouched r s"
  shows "untouched r (update_object dataID (\<lambda>q. q\<lparr>o_upload_completed := True\<rparr>) s)"
proof -
  let ?f = "\<lambda>q. q\<lparr>o_upload_completed := True\<rparr>"
  have "map o_data_id (t_objects (update_object dataID ?f s)) = map o_data_id (t_objects s)"
    by (simp add: map_update_object)
  moreover have "next_data_id (update_object dataID ?f s) = next_data_id s" by (simp add: update_object_def)
  moreover have "q = r \<or> q = ?f r" if q: "q \<in> set (t_objects (update_object dataID ?f s))" "o_data_id q = o_data_id r" for q
  proof -
    obtain x where x: "x \<in> set (t_objects s)" "q = x \<or> q = ?f x" using q(1) by (auto simp: update_object_def)
    then have "o_data_id x = o_data_id r" using q(2) by auto
    then have "x = r \<or> x = ?f r" using assms x(1) by (simp add: untouched_def)
    then show ?thesis using x(2) by auto
  qed
  ultimately show ?thesis using assms unfolding untouched_def by simp
qed

lemma untouched_upload:
  "triple (untouched r) (complete_upload D GetObjectSizeByDataID UpdateObjectUploadCompletedByDataID dataID)
     (\<lambda>_. untouched r) (untouched r)"
  unfolding complete_upload_def S3ObjectSize_def GetObjectSizeByDataID_def UpdateObjectUploadCompletedByDataID_def
  by (rule triple_bind [OF triple_forget [OF triple_get]], simp, simp, simp,
      rule triple_option, rule triple_throw, simp,
      rule triple_bind [OF triple_forget [OF triple_object_column [OF stable_untouched]]], simp, simp, simp,
      rule triple_if, rule triple_throw, simp)
    (rule triple_object_exec [OF stable_untouched untouched_complete])

lemma untouched_post: "triple (untouched r) (InitializeObjectByPreparePostParam L p param) (\<lambda>_. untouched r) (untouched r)"
  by (rule triple_Initialize [OF stable_untouched]) (auto simp: untouched_def new_object_def)

lemma untouched_row:
  assumes "untouched r s" and "object_rows dataID s = row # rows" and "sint dataID = o_data_id r"
  shows "row = r \<or> row = r\<lparr>o_upload_completed := True\<rparr>"
proof -
  have "row \<in> set (object_rows dataID s)" using assms(2) by simp
  then show ?thesis using assms(1,3) by (simp add: object_rows_def untouched_def)
qed

lemma untouched_filter:
  assumes "untouched r s" and "distinct (map o_data_id (t_objects s))"
  shows "filter (\<lambda>q. o_data_id q = o_data_id r) (t_objects s) \<in> {[r], [r\<lparr>o_upload_completed := True\<rparr>]}"
proof -
  have "o_data_id r \<in> o_data_id ` set (t_objects s)" using assms(1) by (simp add: untouched_def)
  then obtain q where q: "o_data_id r = o_data_id q" "q \<in> set (t_objects s)" by (rule imageE)
  then have "q = r \<or> q = r\<lparr>o_upload_completed := True\<rparr>" using assms(1) by (simp add: untouched_def)
  then show ?thesis using key_filter [OF assms(2) q(2)] unfolding q(1) by auto
qed

lemma untouched_handle:
  assumes "(word_of_int (o_owner r) :: u32) \<noteq> ucast (conn_PID c)" and "\<not> changeable r (conn_PID c)"
  shows "triple (untouched r) (handle_datastore L (server_datastore L cl b) err c callID req)
     (\<lambda>_. untouched r) (untouched r)"
proof (cases "only_reads req")
  case False
  have owner: "sint dataID \<noteq> o_data_id r" if "untouched r s" "object_rows dataID s = row # rows"
      "(word_of_int (o_owner row) :: u32) = ucast (conn_PID c)" for dataID s row rows
    using untouched_row [OF that(1,2)] that(3) assms(1) by auto
  have change: "sint dataID \<noteq> o_data_id r" if "untouched r s" "object_rows dataID s = row # rows"
      "changeable row (conn_PID c)" for dataID s row rows
    using untouched_row [OF that(1,2)] that(3) assms(2) by (auto simp: changeable_def)
  show ?thesis
  proof (cases req)
    case (ReqCompletePostObject q)
    show ?thesis
      unfolding ReqCompletePostObject handle_datastore.simps
      by (rule triple_completeObject [OF stable_untouched owner untouched_upload
        triple_updates(4) [OF stable_untouched untouched_update]])
  next
    case (ReqChangeMeta q)
    show ?thesis
      unfolding ReqChangeMeta handle_datastore.simps
      by (rule triple_changeMeta [OF stable_untouched change untouched_update])
  qed (use False in \<open>auto intro: triple_post [OF untouched_post] triple_completeObjects [OF untouched_upload]\<close>)
qed (rule triple_readers [OF stable_untouched])

text \<open>
  C36: A request changes an object only on behalf of its owner (as the server compares owners, by
  the low 32 bits of the PID) or of a player whom its delete permission names. For anybody else
  the object stays as it is, with one exception: everybody may have its upload marked as
  completed.
\<close>

theorem objects_are_protected:
  assumes "ds_reachable L (server_datastore L cl b) s" and "r \<in> set (t_objects s)"
    and "(word_of_int (o_owner r) :: u32) \<noteq> ucast (conn_PID c)" and "\<not> changeable r (conn_PID c)"
  shows "filter (\<lambda>q. o_data_id q = o_data_id r)
      (t_objects (snd (handle_datastore L (server_datastore L cl b) err c callID req s))) \<in>
    {[r], [r\<lparr>o_upload_completed := True\<rparr>]}"
proof -
  let ?t = "snd (handle_datastore L (server_datastore L cl b) err c callID req s)"
  have inv: "store_inv UNIV (server_datastore L cl b) s" by (rule reachable_store_inv [OF assms(1)])
  then have inj: "inj_on o_data_id (set (t_objects s))" by (simp add: store_inv_def distinct_map)
  have "q = r" if "q \<in> set (t_objects s)" "o_data_id q = o_data_id r" for q
    using inj_onD [OF inj that(2) that(1) assms(2)] .
  then have "untouched r s" using inv assms(2) unfolding untouched_def store_inv_def by simp
  then have un: "untouched r ?t" by (rule triple_keeps [OF untouched_handle [OF assms(3,4)]])
  moreover have "distinct (map o_data_id (t_objects ?t))"
    using triple_keeps [OF store_inv_handle inv] by (simp add: store_inv_def)
  ultimately show ?thesis by (rule untouched_filter)
qed

definition sample_change :: change_meta_param where
  "sample_change = \<lparr> cm_DataID = 1, cm_ModifiesFlag = 0x98, cm_Period = 5, cm_MetaBinary = [9], cm_UpdatePassword = 0,
     cm_DataType = 2 \<rparr>"

lemma objects_are_protected_witness:
  "filter (\<lambda>q. o_data_id q = 1) (t_objects (snd (handle_datastore sample_ds_lib sample_D False (sample_conn 1002) 5
      (ReqChangeMeta sample_change) (completed_store 3)))) = [sample_object 3\<lparr>o_upload_completed := True\<rparr>]"
  using objects_are_protected [OF reachable_completed, of "sample_object 3\<lparr>o_upload_completed := True\<rparr>" 3
      "sample_conn 1002" False 5 "ReqChangeMeta sample_change"]
  by (simp add: changeable_def granted_def)

section \<open>Posting and reading back\<close>

lemma run_GetObjectInfoWithPassword:
  assumes "db_faults s = []" and "object_rows dataID s = [r]" and "o_access_password r = 0"
  shows "GetObjectInfoByDataIDWithPassword L dataID pw s =
    (case found_object [r] of None \<Rightarrow> Err DataStore_NotFound | Some r \<Rightarrow> Ok (parse_object L r), s)"
  using assms by (simp add: GetObjectInfoByDataIDWithPassword_def bindM_def run_simps run_GetObjectInfo)

lemma run_getMeta:
  assumes "db_faults s = []" and "object_rows (gm_DataID q) s = [r]" and "o_access_password r = 0"
    and "gm_DataID q \<noteq> 0" and "scannable r"
  shows "getMeta L (server_datastore L cl b) False c callID q s =
    (if readable r (conn_PID c)
     then Ok (rmcSuccess DataStore_Protocol MethodGetMeta callID
       [WMetaInfo (FilterPropertiesByResultOption L (gm_ResultOption q) (parse_object L r))])
     else (case refusal (o_permission r) of Err e \<Rightarrow> Err e | _ \<Rightarrow> Panic), s)"
  using assms(4,5) run_GetObjectInfoWithPassword [OF assms(1-3), of L "gm_AccessPassword q"]
  by (simp add: getMeta_def requested_object_def bindM_def found_object_def run_verify_read ds_ok_def run_simps
    refusal_def)

lemma readable_new_object:
  assumes "Permission (pp_Permission param) \<le> 3"
  shows "readable (new_object L p param n now) q \<longleftrightarrow> q = p \<or> Permission (pp_Permission param) = 0 \<or>
    Permission (pp_Permission param) = 2 \<and> q \<in> set (RecipientIDs (pp_Permission param))"
proof -
  have level: "o_permission (new_object L p param n now) = uint (Permission (pp_Permission param))"
    "o_permission_recipients (new_object L p param n now) = map uint (RecipientIDs (pp_Permission param))"
    "o_owner (new_object L p param n now) = uint p"
    by (simp_all add: new_object_def convertPIDList_def)
  have "uint (Permission (pp_Permission param)) \<le> 3"
    "uint (Permission (pp_Permission param)) = 0 \<longleftrightarrow> Permission (pp_Permission param) = 0"
    "uint (Permission (pp_Permission param)) = 2 \<longleftrightarrow> Permission (pp_Permission param) = 2"
    using assms by (auto simp: word_le_def word_uint_eq_iff)
  then show ?thesis unfolding readable_def granted_def level by (auto simp: image_image)
qed

text \<open>
  C39: An object that a player posts is what that player reads back under the returned ID: the
  same name, size, type, data, permissions, period, flags and reference, owned by the player, with the
  tags that the library makes of the posted ones. Another player reads it exactly when its permission says so.
\<close>

theorem posted_object_is_read_back:
  assumes "ds_reachable L (server_datastore L cl b) s" and "db_faults s = []" and "next_data_id s \<le> 281474976710656"
    and "fits_columns (new_object L (conn_PID c) param (next_data_id s) (ds_now s))" and "Permission (pp_Permission param) \<le> 3"
  shows "\<exists>dataID t info.
    postMetaBinary (server_datastore L cl b) False c callID param s =
      (Ok (rmcSuccess DataStore_Protocol MethodPostMetaBinary callID [WDataID dataID]), t) \<and>
    (\<forall>q d. gm_DataID q = dataID \<and> conn_PID d = conn_PID c \<longrightarrow>
      getMeta L (server_datastore L cl b) False d callID q t =
        (Ok (rmcSuccess DataStore_Protocol MethodGetMeta callID
          [WMetaInfo (FilterPropertiesByResultOption L (gm_ResultOption q) info)]), t)) \<and>
    (\<forall>q d. gm_DataID q = dataID \<and> conn_PID d \<noteq> conn_PID c \<longrightarrow>
      ((\<exists>r. fst (getMeta L (server_datastore L cl b) False d callID q t) = Ok r) \<longleftrightarrow>
        Permission (pp_Permission param) = 0 \<or>
        Permission (pp_Permission param) = 2 \<and> conn_PID d \<in> set (RecipientIDs (pp_Permission param)))) \<and>
    mi_DataID info = dataID \<and> mi_OwnerID info = conn_PID c \<and> mi_Name info = pp_Name param \<and>
    mi_Size info = pp_Size param \<and> mi_DataType info = pp_DataType param \<and> mi_MetaBinary info = pp_MetaBinary param \<and>
    mi_Permission info = pp_Permission param \<and> mi_DelPermission info = pp_DelPermission param \<and>
    mi_Period info = pp_Period param \<and> mi_Flag info = pp_Flag param \<and>
    mi_ReferDataID info = pp_ReferDataID param \<and> mi_Tags info = convertStringList L (pp_Tags param)"
proof -
  let ?row = "new_object L (conn_PID c) param (next_data_id s) (ds_now s)"
  let ?id = "word_of_int (next_data_id s) :: u64"
  have inv: "store_inv UNIV (server_datastore L cl b) s" by (rule reachable_store_inv [OF assms(1)])
  have id: "sint ?id = next_data_id s" and pos: "1 \<le> next_data_id s"
    using inv by (auto simp: store_inv_def intro!: sint_data_id)
  have nz: "?id \<noteq> 0" using id pos by (metis less_le_not_le signed_0 zero_less_one)
  have scan: "scannable ?row" using assms(4) pos by (intro scannable_new_object) simp_all
  have password: "o_access_password ?row = 0" by (simp add: new_object_def)
  note read = readable_new_object [OF assms(5)]
  have faults: "db_faults (posted L (conn_PID c) param s) = []" using assms(2) by (simp add: posted_def)
  have meta: "getMeta L (server_datastore L cl b) False d callID q (posted L (conn_PID c) param s) =
      (if readable ?row (conn_PID d)
       then Ok (rmcSuccess DataStore_Protocol MethodGetMeta callID
         [WMetaInfo (FilterPropertiesByResultOption L (gm_ResultOption q) (parse_object L ?row))])
       else (case refusal (o_permission ?row) of Err e \<Rightarrow> Err e | _ \<Rightarrow> Panic), posted L (conn_PID c) param s)"
    if "gm_DataID q = ?id" for q :: get_meta_param and d :: connection
    using posted_rows [OF inv assms(3)] nz scan that by (intro run_getMeta [OF faults _ password]) simp_all
  show ?thesis
  proof (intro exI conjI allI impI)
    show "postMetaBinary (server_datastore L cl b) False c callID param s =
      (Ok (rmcSuccess DataStore_Protocol MethodPostMetaBinary callID [WDataID ?id]), posted L (conn_PID c) param s)"
      by (rule run_postMetaBinary [OF assms(2-4)])
  next
    fix q :: get_meta_param and d :: connection assume "gm_DataID q = ?id \<and> conn_PID d = conn_PID c"
    then show "getMeta L (server_datastore L cl b) False d callID q (posted L (conn_PID c) param s) =
        (Ok (rmcSuccess DataStore_Protocol MethodGetMeta callID
          [WMetaInfo (FilterPropertiesByResultOption L (gm_ResultOption q) (parse_object L ?row))]),
         posted L (conn_PID c) param s)"
      using meta read by simp
  next
    fix q :: get_meta_param and d :: connection assume "gm_DataID q = ?id \<and> conn_PID d \<noteq> conn_PID c"
    then show "(\<exists>r. fst (getMeta L (server_datastore L cl b) False d callID q (posted L (conn_PID c) param s)) = Ok r) \<longleftrightarrow>
        Permission (pp_Permission param) = 0 \<or>
        Permission (pp_Permission param) = 2 \<and> conn_PID d \<in> set (RecipientIDs (pp_Permission param))"
      using meta read by (simp add: refusal_def)
  qed (simp_all add: parse_new_object)
qed

lemma posted_object_is_read_back_witness:
  "\<exists>dataID t info.
    postMetaBinary sample_D False (sample_conn 1001) 1 (sample_post 3) empty_store =
      (Ok (rmcSuccess DataStore_Protocol MethodPostMetaBinary 1 [WDataID dataID]), t) \<and>
    getMeta sample_ds_lib sample_D False (sample_conn 1001) 1
        \<lparr> gm_DataID = dataID, gm_PersistenceTarget = \<lparr> pt_OwnerID = 0, pt_PersistenceSlotID = 0 \<rparr>, gm_ResultOption = 0,
          gm_AccessPassword = 0 \<rparr> t =
      (Ok (rmcSuccess DataStore_Protocol MethodGetMeta 1 [WMetaInfo info]), t) \<and>
    mi_Name info = ''fairy'' \<and> mi_MetaBinary info = [1, 2]"
proof -
  have fits: "fits_columns (new_object sample_ds_lib (conn_PID (sample_conn 1001)) (sample_post 3) (next_data_id empty_store) (ds_now empty_store))"
    using sample_object_fits [of 3] by (simp add: sample_object_def empty_store_def)
  have post: "pp_Name (sample_post 3) = ''fairy''" "pp_MetaBinary (sample_post 3) = [1, 2]" by (simp_all add: sample_post_def)
  have filter: "FilterPropertiesByResultOption sample_ds_lib opt info = info" for opt info by (simp add: sample_ds_lib_def)
  have level: "Permission (pp_Permission (sample_post 3)) \<le> 3" by (simp add: sample_post_def)
  from posted_object_is_read_back [OF reachable_empty _ _ fits level, where callID = 1 and cl = "Some sample_minio" and b = "[]"]
  obtain dataID t info where
    "postMetaBinary sample_D False (sample_conn 1001) 1 (sample_post 3) empty_store =
      (Ok (rmcSuccess DataStore_Protocol MethodPostMetaBinary 1 [WDataID dataID]), t)"
    "\<forall>q d. gm_DataID q = dataID \<and> conn_PID d = conn_PID (sample_conn 1001) \<longrightarrow>
      getMeta sample_ds_lib sample_D False d 1 q t =
        (Ok (rmcSuccess DataStore_Protocol MethodGetMeta 1
          [WMetaInfo (FilterPropertiesByResultOption sample_ds_lib (gm_ResultOption q) info)]), t)"
    "mi_Name info = pp_Name (sample_post 3)" "mi_MetaBinary info = pp_MetaBinary (sample_post 3)" by auto
  then show ?thesis unfolding post filter by (intro exI conjI) auto
qed

text \<open>
  A search compares the tag as it is, with tags that were stored as the text of \<open>n.String()\<close>: when the
  library's text of a string is never the tag that is searched for, nothing is ever found by it.
\<close>

lemma tags_are_searched_as_text:
  assumes "sp_Tags param = [tag]" and "\<And>n. String_String L n \<noteq> tag"
  shows "\<not> object_found param (new_object L p post i now\<lparr>o_upload_completed := b\<rparr>)"
  using assms by (auto simp: object_found_def new_object_def convertStringList_def list_ex_iff)

section \<open>Reading\<close>

text \<open>Which object a request names: by its ID, with the password, or by owner and slot.\<close>

definition names_object :: "u64 \<Rightarrow> persistence_target \<Rightarrow> u64 \<Rightarrow> object_row \<Rightarrow> bool" where
  "names_object dataID target password r \<longleftrightarrow>
     (if dataID = 0 then o_owner r = sint (pt_OwnerID target) \<and>
        o_persistence_slot_id r = uint (pt_PersistenceSlotID target) \<and> \<not> o_deleted r
      else o_data_id r = sint dataID \<and> (o_access_password r = 0 \<or> o_access_password r = sint password))"

lemma object_rows_hd: "object_rows dataID s = r # rs \<Longrightarrow> r \<in> set (t_objects s) \<and> o_data_id r = sint dataID"
proof -
  assume "object_rows dataID s = r # rs"
  then have "r \<in> set (object_rows dataID s)" by simp
  then show ?thesis by (simp add: object_rows_def)
qed

lemma triple_named:
  fixes rows :: "object_row list"
  shows "triple (\<lambda>s. t_objects s = rows) (requested_object (GetObjectInfoByPersistenceTargetWithPassword L)
      (GetObjectInfoByDataIDWithPassword L) dataID target password)
    (\<lambda>info s. t_objects s = rows \<and> (\<exists>r. scannable r \<and> info = parse_object L r \<and>
      r \<in> set rows \<and> names_object dataID target password r)) (\<lambda>s. t_objects s = rows)"
  unfolding requested_object_def
proof (rule triple_if)
  assume z: "dataID = 0"
  show "triple (\<lambda>s. t_objects s = rows) (GetObjectInfoByPersistenceTargetWithPassword L target password)
    (\<lambda>info s. t_objects s = rows \<and> (\<exists>r. scannable r \<and> info = parse_object L r \<and>
      r \<in> set rows \<and> names_object dataID target password r)) (\<lambda>s. t_objects s = rows)"
    by (rule triple_weaken [OF triple_GetObjectInfoByTarget [OF stable_tables(1)]])
      (auto simp: names_object_def z dest: set_target_rows)
next
  assume nz: "dataID \<noteq> 0"
  show "triple (\<lambda>s. t_objects s = rows) (GetObjectInfoByDataIDWithPassword L dataID password)
    (\<lambda>info s. t_objects s = rows \<and> (\<exists>r. scannable r \<and> info = parse_object L r \<and>
      r \<in> set rows \<and> names_object dataID target password r)) (\<lambda>s. t_objects s = rows)"
    by (rule triple_weaken [OF triple_GetObjectInfoWithPassword [OF stable_tables(1)]])
      (auto simp: names_object_def nz dest: object_rows_hd)
qed

definition signed_download :: "minio_client option \<Rightarrow> string \<Rightarrow> string \<Rightarrow> string option" where
  "signed_download cl bucket key = (case cl of None \<Rightarrow> None | Some m \<Rightarrow> PresignedGetObject m bucket key (15 * 60))"

lemma getMeta_result:
  "triple (\<lambda>s. t_objects s = rows) (getMeta L (server_datastore L cl b) err c callID q)
    (\<lambda>resp s. \<exists>r. r \<in> set rows \<and> readable r (conn_PID c) \<and>
      names_object (gm_DataID q) (gm_PersistenceTarget q) (gm_AccessPassword q) r \<and>
      Body resp = [WMetaInfo (FilterPropertiesByResultOption L (gm_ResultOption q) (parse_object L r))]) (\<lambda>_. True)"
  unfolding getMeta_def server_datastore_simps required_simps
  by (rule triple_if, rule triple_throw, simp, rule triple_bind [OF triple_weaken [OF triple_named]], assumption, assumption, simp,
      rule triple_bind [OF triple_weaken [OF triple_verify_read]], assumption, assumption, simp)
    (auto simp: ds_ok_def rmcSuccess_def intro!: triple_ret)

lemma prepareGet_object:
  "(if pg_DataID q = 0
    then called (dp_GetObjectInfoByPersistenceTargetWithPassword (server_datastore L cl b)) (\<lambda>byTarget.
      byTarget (pg_PersistenceTarget q) (pg_AccessPassword q))
    else called (dp_GetObjectInfoByDataIDWithPassword (server_datastore L cl b)) (\<lambda>byID.
      byID (pg_DataID q) (pg_AccessPassword q))) =
   requested_object (GetObjectInfoByPersistenceTargetWithPassword L) (GetObjectInfoByDataIDWithPassword L)
     (pg_DataID q) (pg_PersistenceTarget q) (pg_AccessPassword q)"
  by (simp add: requested_object_def)

lemma prepareGetObject_result:
  "triple (\<lambda>s. t_objects s = rows) (prepareGetObject (server_datastore L cl b) err c callID q)
    (\<lambda>resp s. \<exists>r info. r \<in> set rows \<and> readable r (conn_PID c) \<and>
      names_object (pg_DataID q) (pg_PersistenceTarget q) (pg_AccessPassword q) r \<and> Body resp = [WReqGetInfo info] \<and>
      signed_download cl (dp_S3Bucket (server_datastore L cl b))
        (object_key (server_datastore L cl b) (word_of_int (o_data_id r))) = Some (gi_URL info)) (\<lambda>_. True)"
  unfolding prepareGetObject_def prepareGet_object unfolding server_datastore_simps required_simps
  by (rule triple_required, simp, rule triple_if, rule triple_throw, simp,
      rule triple_bind [OF triple_weaken [OF triple_named]], assumption, assumption, simp,
      rule triple_bind [OF triple_weaken [OF triple_verify_read]], assumption, assumption, simp,
      rule triple_option, rule triple_throw, simp)
    (force simp: ds_ok_def rmcSuccess_def signed_download_def Presigner_GetObject_def parse_object_def intro!: triple_ret)

text \<open>
  One entry of a list of results: a success comes with the data of an object that the request names
  and the player may read, an error with the library's empty structure.
\<close>

definition permitted_entry :: "ds_lib \<Rightarrow> pid \<Rightarrow> u8 \<Rightarrow> object_row list \<Rightarrow> (object_row \<Rightarrow> bool) \<Rightarrow> meta_info \<Rightarrow> qresult \<Rightarrow> bool" where
  "permitted_entry L p opt rows named info result = (case result of
     QResultSuccess _ \<Rightarrow> list_ex (\<lambda>r. named r \<and> readable r p \<and> info = FilterPropertiesByResultOption L opt (parse_object L r)) rows
   | QResultError _ \<Rightarrow> info = NewDataStoreMetaInfo L \<or> info = FilterPropertiesByResultOption L opt (NewDataStoreMetaInfo L))"

lemma triple_permitted_entry:
  assumes "triple (\<lambda>s. t_objects s = rows) getInfo
    (\<lambda>info s. t_objects s = rows \<and> (\<exists>r. scannable r \<and> info = parse_object L r \<and> r \<in> set rows \<and> named r)) (\<lambda>s. t_objects s = rows)"
  shows "triple (\<lambda>s. t_objects s = rows) (meta_entry L (server_datastore L cl b) c opt getInfo)
    (\<lambda>(info, result) s. t_objects s = rows \<and> permitted_entry L (conn_PID c) opt rows named info result) (\<lambda>s. t_objects s = rows)"
proof -
  let ?found = "\<lambda>info. \<exists>r. scannable r \<and> info = parse_object L r \<and> r \<in> set rows \<and> named r"
  let ?verify = "\<lambda>info. VerifyObjectPermission (server_datastore L cl b) (mi_OwnerID info) (conn_PID c) (mi_Permission info)"
  have get: "triple (\<lambda>s. t_objects s = rows) (catchM getInfo)
      (\<lambda>x s. t_objects s = rows \<and> (\<forall>info. x = Inr info \<longrightarrow> ?found info)) (\<lambda>s. t_objects s = rows)"
    by (rule triple_catch [OF triple_weaken [OF assms]]) auto
  have verify: "triple (\<lambda>s. t_objects s = rows \<and> ?found info) (catchM (?verify info))
      (\<lambda>v s. t_objects s = rows \<and> (\<forall>u. v = Inr u \<longrightarrow>
        (\<exists>r. scannable r \<and> readable r (conn_PID c) \<and> info = parse_object L r \<and> r \<in> set rows \<and> named r)))
      (\<lambda>s. t_objects s = rows)" for info
    by (rule triple_catch [OF triple_weaken [OF triple_verify_read [where R = "\<lambda>r s. r \<in> set rows \<and> named r"]]]) auto
  show ?thesis
    unfolding meta_entry_def
  proof (rule triple_bind [OF get], rule triple_sum)
    fix x and info :: meta_info assume x: "x = Inr info"
    show "triple (\<lambda>s. t_objects s = rows \<and> (\<forall>info. x = Inr info \<longrightarrow> ?found info))
      (bindM (catchM (?verify info)) (\<lambda>v. retM (case v of
          Inl e \<Rightarrow> (FilterPropertiesByResultOption L opt (NewDataStoreMetaInfo L), QResultError e)
        | Inr _ \<Rightarrow> (FilterPropertiesByResultOption L opt info, QResultSuccess DataStore_Unknown))))
      (\<lambda>(info, result) s. t_objects s = rows \<and> permitted_entry L (conn_PID c) opt rows named info result) (\<lambda>s. t_objects s = rows)"
      by (rule triple_bind [OF triple_pre [OF verify]], simp add: x, rule triple_ret)
        (auto simp: permitted_entry_def list_ex_iff split: sum.splits)
  qed (auto simp: permitted_entry_def intro: triple_ret)
qed

text \<open>A list of results has one entry for each thing that was asked for, at its place.\<close>

lemma triple_permitted_entries:
  assumes "\<And>x. triple P (entry x) (\<lambda>(info, result) s. P s \<and> R x info result) E"
  shows "triple P (meta_entries entry xs) (\<lambda>(infos, results) s. P s \<and> length infos = length xs \<and> length results = length xs \<and>
    (\<forall>i < length xs. R (xs ! i) (infos ! i) (results ! i))) E"
proof -
  let ?f = "\<lambda>(pMetaInfo, pResults) x. bindM (entry x) (\<lambda>(objectInfo, qresult). retM (pMetaInfo @ [objectInfo], pResults @ [qresult]))"
  have "triple P (foldM ?f (ms, rs) xs) (\<lambda>(infos, results) s. P s \<and> (\<exists>is qs. infos = ms @ is \<and> results = rs @ qs \<and>
      length is = length xs \<and> length qs = length xs \<and> (\<forall>i < length xs. R (xs ! i) (is ! i) (qs ! i)))) E" for ms rs
  proof (induction xs arbitrary: ms rs)
    case Nil
    show ?case by (auto intro: triple_ret)
  next
    case (Cons x xs)
    have "bindM (?f (ms, rs) x) (\<lambda>b. foldM ?f b xs) =
        bindM (entry x) (\<lambda>(info, result). foldM ?f (ms @ [info], rs @ [result]) xs)"
      by (rule ext) (simp add: bindM_def retM_def split: prod.splits outcome.splits)
    moreover have "triple P (bindM (entry x) (\<lambda>(info, result). foldM ?f (ms @ [info], rs @ [result]) xs))
        (\<lambda>(infos, results) s. P s \<and> (\<exists>is qs. infos = ms @ is \<and> results = rs @ qs \<and> length is = length (x # xs) \<and>
          length qs = length (x # xs) \<and> (\<forall>i < length (x # xs). R ((x # xs) ! i) (is ! i) (qs ! i)))) E"
    proof (rule triple_bind [OF assms], clarify)
      fix info result
      have longer: "\<exists>is qs. (ms @ [info]) @ is' = ms @ is \<and> (rs @ [result]) @ qs' = rs @ qs \<and> length is = length (x # xs) \<and>
          length qs = length (x # xs) \<and> (\<forall>i < length (x # xs). R ((x # xs) ! i) (is ! i) (qs ! i))"
        if "R x info result" "length is' = length xs" "length qs' = length xs" "\<forall>i < length xs. R (xs ! i) (is' ! i) (qs' ! i)"
        for is' qs'
        using that by (intro exI [of _ "info # is'"] exI [of _ "result # qs'"]) (auto simp: less_Suc_eq_0_disj)
      show "triple (\<lambda>s. P s \<and> R x info result) (foldM ?f (ms @ [info], rs @ [result]) xs)
        (\<lambda>(infos, results) s. P s \<and> (\<exists>is qs. infos = ms @ is \<and> results = rs @ qs \<and> length is = length (x # xs) \<and>
          length qs = length (x # xs) \<and> (\<forall>i < length (x # xs). R ((x # xs) ! i) (is ! i) (qs ! i)))) E"
      proof (cases "R x info result")
        case True
        show ?thesis
          by (rule triple_weaken [OF Cons.IH]) (use longer [OF True] in blast)+
      qed (simp add: triple_def)
    qed
    ultimately show ?case by simp
  qed
  from triple_weaken [OF this [of "[]" "[]"]] show ?thesis unfolding meta_entries_def by fastforce
qed

lemma getMetas_result:
  "triple (\<lambda>s. t_objects s = rows) (getMetas L (server_datastore L cl b) err c callID dataIDs q)
    (\<lambda>resp s. \<exists>infos results. Body resp = [WMetaInfos infos, WQResults results] \<and>
      length infos = length dataIDs \<and> length results = length dataIDs \<and> (\<forall>i < length dataIDs.
        permitted_entry L (conn_PID c) (gm_ResultOption q) rows (\<lambda>r. o_data_id r = sint (dataIDs ! i)) (infos ! i) (results ! i)))
    (\<lambda>_. True)"
proof -
  have get: "triple (\<lambda>s. t_objects s = rows) (GetObjectInfoByDataID L dataID)
      (\<lambda>info s. t_objects s = rows \<and> (\<exists>r. scannable r \<and> info = parse_object L r \<and> r \<in> set rows \<and> o_data_id r = sint dataID))
      (\<lambda>s. t_objects s = rows)" for dataID
    by (rule triple_weaken [OF triple_GetObjectInfo [OF stable_tables(1)]]) (auto dest: object_rows_hd)
  note entries = triple_permitted_entries [OF triple_permitted_entry [OF get]]
  show ?thesis
    unfolding getMetas_def server_datastore_simps required_simps
    by (rule triple_if, rule triple_throw, simp, rule triple_bind [OF triple_weaken [OF entries]], assumption, assumption, simp)
      (auto simp: ds_ok_def rmcSuccess_def intro!: triple_ret)
qed

lemma getMetasMultipleParam_result:
  "triple (\<lambda>s. t_objects s = rows) (getMetasMultipleParam L (server_datastore L cl b) err c callID params)
    (\<lambda>resp s. \<exists>infos results. Body resp = [WMetaInfos infos, WQResults results] \<and>
      length infos = length params \<and> length results = length params \<and> (\<forall>i < length params.
        permitted_entry L (conn_PID c) (gm_ResultOption (params ! i)) rows
          (names_object (gm_DataID (params ! i)) (gm_PersistenceTarget (params ! i)) (gm_AccessPassword (params ! i)))
          (infos ! i) (results ! i)))
    (\<lambda>_. True)"
proof -
  note entries = triple_permitted_entries [OF triple_permitted_entry [OF triple_named]]
  show ?thesis
    unfolding getMetasMultipleParam_def server_datastore_simps required_simps
    by (rule triple_if, rule triple_throw, simp, rule triple_bind [OF triple_weaken [OF entries]], assumption, assumption, simp)
      (auto simp: ds_ok_def rmcSuccess_def intro!: triple_ret)
qed

text \<open>
  C37: Whatever the state of the store and of the database, meta data of an object and signed URLs to
  download one are given only of objects that the request names and whose permission lets the player read
  them. A request names an object by its ID, with the right password where the request carries one, or
  by its owner and persistence slot when it is not deleted. A list of results has one entry for each ID or
  parameter, at its place: the meta data of such an object, or an error with an empty structure.
\<close>

theorem only_permitted_objects_are_read:
  assumes "handle_datastore L (server_datastore L cl b) err c callID req s = (Ok resp, t)"
  shows "case req of
      ReqGetMeta q \<Rightarrow> (\<exists>r \<in> set (t_objects s). readable r (conn_PID c) \<and>
        names_object (gm_DataID q) (gm_PersistenceTarget q) (gm_AccessPassword q) r \<and>
        Body resp = [WMetaInfo (FilterPropertiesByResultOption L (gm_ResultOption q) (parse_object L r))])
    | ReqPrepareGetObject q \<Rightarrow> (\<exists>r \<in> set (t_objects s). \<exists>info. readable r (conn_PID c) \<and>
        names_object (pg_DataID q) (pg_PersistenceTarget q) (pg_AccessPassword q) r \<and> Body resp = [WReqGetInfo info] \<and>
        signed_download cl (dp_S3Bucket (server_datastore L cl b))
          (object_key (server_datastore L cl b) (word_of_int (o_data_id r))) = Some (gi_URL info))
    | ReqGetMetas dataIDs q \<Rightarrow> (\<exists>infos results. Body resp = [WMetaInfos infos, WQResults results] \<and>
        length infos = length dataIDs \<and> length results = length dataIDs \<and> (\<forall>i < length dataIDs.
          permitted_entry L (conn_PID c) (gm_ResultOption q) (t_objects s) (\<lambda>r. o_data_id r = sint (dataIDs ! i))
            (infos ! i) (results ! i)))
    | ReqGetMetasMultipleParam params \<Rightarrow> (\<exists>infos results. Body resp = [WMetaInfos infos, WQResults results] \<and>
        length infos = length params \<and> length results = length params \<and> (\<forall>i < length params.
          permitted_entry L (conn_PID c) (gm_ResultOption (params ! i)) (t_objects s)
            (names_object (gm_DataID (params ! i)) (gm_PersistenceTarget (params ! i)) (gm_AccessPassword (params ! i)))
            (infos ! i) (results ! i)))
    | _ \<Rightarrow> True"
proof (cases req)
  case (ReqGetMeta q)
  with assms have "getMeta L (server_datastore L cl b) err c callID q s = (Ok resp, t)" by simp
  from tripleD [OF getMeta_result refl this] show ?thesis unfolding ReqGetMeta ds_request.case by blast
next
  case (ReqPrepareGetObject q)
  with assms have "prepareGetObject (server_datastore L cl b) err c callID q s = (Ok resp, t)" by simp
  from tripleD [OF prepareGetObject_result refl this] show ?thesis unfolding ReqPrepareGetObject ds_request.case by blast
next
  case (ReqGetMetas dataIDs q)
  with assms have "getMetas L (server_datastore L cl b) err c callID dataIDs q s = (Ok resp, t)" by simp
  from tripleD [OF getMetas_result refl this] show ?thesis unfolding ReqGetMetas ds_request.case .
next
  case (ReqGetMetasMultipleParam params)
  with assms have "getMetasMultipleParam L (server_datastore L cl b) err c callID params s = (Ok resp, t)" by simp
  from tripleD [OF getMetasMultipleParam_result refl this] show ?thesis unfolding ReqGetMetasMultipleParam ds_request.case .
qed simp_all

definition sample_get :: get_meta_param where
  "sample_get = \<lparr> gm_DataID = 1, gm_PersistenceTarget = \<lparr> pt_OwnerID = 0, pt_PersistenceSlotID = 0 \<rparr>,
     gm_ResultOption = 0, gm_AccessPassword = 0 \<rparr>"

lemma sample_get_simps [simp]: "gm_DataID sample_get = 1" "gm_AccessPassword sample_get = 0" "gm_ResultOption sample_get = 0"
  by (simp_all add: sample_get_def)

lemma sample_object_at [simp]: "object_rows 1 (posted_store level) = [sample_object level]"
  by (simp add: object_rows_def)

lemma sample_readable [simp]: "readable (sample_object level) p \<longleftrightarrow> uint level \<le> 3 \<and> (p = 1001 \<or> level = 0)"
  by (auto simp: readable_def granted_def word_uint_eq_iff)

lemma only_permitted_objects_are_read_witness:
  "\<exists>resp r. getMeta sample_ds_lib sample_D False (sample_conn 1002) 5 sample_get (posted_store 0) = (Ok resp, posted_store 0) \<and>
    r \<in> set (t_objects (posted_store 0)) \<and> readable r 1002 \<and>
    Body resp = [WMetaInfo (FilterPropertiesByResultOption sample_ds_lib 0 (parse_object sample_ds_lib r))]"
proof -
  obtain resp where run: "getMeta sample_ds_lib sample_D False (sample_conn 1002) 5 sample_get (posted_store 0) =
      (Ok resp, posted_store 0)"
    using run_getMeta [of "posted_store 0" sample_get "sample_object 0" sample_ds_lib "Some sample_minio" "[]"] by simp
  then have "handle_datastore sample_ds_lib sample_D False (sample_conn 1002) 5 (ReqGetMeta sample_get) (posted_store 0) =
      (Ok resp, posted_store 0)" by simp
  from only_permitted_objects_are_read [OF this] run show ?thesis by (auto simp del: sample_store_simps)
qed

section \<open>Searching\<close>

definition search_rows :: "ds_search_param \<Rightarrow> object_row list \<Rightarrow> object_row list" where
  "search_rows param rows = (let found = order_by (\<lambda>r. Some (- o_update_date r)) (filter (object_found param) rows) in
     take (search_limit (sp_ResultLength param)) (drop (nat (min (sint (sp_ResultOffset param)) (int (length found)))) found))"

lemma search_limit_bound: "1 \<le> search_limit n" "search_limit n \<le> 1000"
  by (auto simp: search_limit_def Let_def)

lemma search_rows_found: "r \<in> set (search_rows param rows) \<Longrightarrow> r \<in> set rows \<and> object_found param r"
  unfolding search_rows_def Let_def by (auto dest!: in_set_takeD in_set_dropD)

lemma length_search_rows: "length (search_rows param rows) \<le> 1000"
  using search_limit_bound(2) [of "sp_ResultLength param"] by (simp add: search_rows_def Let_def)

lemma sorted_search_rows: "sorted (map (\<lambda>r. - o_update_date r) (search_rows param rows))"
proof -
  let ?found = "order_by (\<lambda>r. Some (- o_update_date r)) (filter (object_found param) rows)"
  have "sorted (map (\<lambda>r. - o_update_date r) ?found)" by (simp add: order_by_def)
  then show ?thesis by (simp add: search_rows_def Let_def take_map [symmetric] drop_map [symmetric] sorted_wrt_take sorted_wrt_drop)
qed

lemma triple_search_rows:
  "triple (\<lambda>s. t_objects s = rows) (GetObjectInfosByDataStoreSearchParam L param p)
     (\<lambda>(infos, n) s. t_objects s = rows \<and> n = word_of_nat (length infos) \<and>
       (\<exists>found. subseq found (search_rows param rows) \<and> list_all scannable found \<and> infos = map (parse_object L) found))
     (\<lambda>_. True)"
proof -
  let ?Q = "\<lambda>(infos, n) s. t_objects s = rows \<and> n = word_of_nat (length infos) \<and>
       (\<exists>found. subseq found (search_rows param rows) \<and> list_all scannable found \<and> infos = map (parse_object L) found)"
  have none: "?Q ([], 0) s" if "t_objects s = rows" for s :: ds_world using that by auto
  have some: "?Q (infos, word_of_nat (length infos)) s"
    if "t_objects s = rows" "found = search_rows param rows" "parseObjectList L found = Some infos" for s :: ds_world and infos found
    using that by (auto simp: parseObjectList_def split: if_splits)
  show ?thesis
    unfolding GetObjectInfosByDataStoreSearchParam_def Let_def
    by (rule triple_bind [OF triple_query [OF stable_tables(1)]], rule triple_sum, rule triple_ret, rule none, simp,
        rule triple_if, rule triple_ret, rule none, simp, rule triple_option, rule triple_ret, rule none, simp,
        rule triple_ret, rule some, simp, simp add: search_rows_def Let_def, simp add: search_rows_def Let_def)
qed

text \<open>
  The loop of the handler over the results: the objects that the player may not read are skipped.
  An object for friends only stops the server, which has no list of friends.
\<close>

definition search_entry :: "ds_lib \<Rightarrow> ds_protocol \<Rightarrow> connection \<Rightarrow> u8 \<Rightarrow> meta_info \<Rightarrow> meta_info option ds" where
  "search_entry L D c opt object =
    bindM (catchM (VerifyObjectPermission D (mi_OwnerID object) (conn_PID c) (mi_Permission object)))
      (\<lambda>v. retM (case v of Inl _ \<Rightarrow> None | Inr _ \<Rightarrow> Some (FilterPropertiesByResultOption L opt object)))"

lemma run_search_entry:
  assumes "scannable r"
  shows "search_entry L (server_datastore L cl b) c opt (parse_object L r) s =
    (if readable r (conn_PID c) then Ok (Some (FilterPropertiesByResultOption L opt (parse_object L r)))
     else if o_permission r = 1 then Panic else Ok None, s)"
  using assms by (auto simp: search_entry_def bindM_def catchM_def run_verify_read refusal_def run_simps)

lemma run_search_fold:
  assumes "list_all scannable rows"
  shows "foldM (\<lambda>bs x. bindM (search_entry L (server_datastore L cl b) c opt x)
      (\<lambda>r. retM (case r of None \<Rightarrow> bs | Some y \<Rightarrow> bs @ [y]))) bs (map (parse_object L) rows) s =
    (if list_ex (\<lambda>r. o_permission r = 1 \<and> \<not> readable r (conn_PID c)) rows then Panic
     else Ok (bs @ map (\<lambda>r. FilterPropertiesByResultOption L opt (parse_object L r))
       (filter (\<lambda>r. readable r (conn_PID c)) rows)), s)"
  using assms by (induction rows arbitrary: bs) (simp_all add: run_search_entry bindM_def run_simps)

lemma run_search_loop:
  assumes "list_all scannable rows"
  shows "collectM (search_entry L (server_datastore L cl b) c opt) (map (parse_object L) rows) s =
    (if list_ex (\<lambda>r. o_permission r = 1 \<and> \<not> readable r (conn_PID c)) rows then Panic
     else Ok (map (\<lambda>r. FilterPropertiesByResultOption L opt (parse_object L r))
       (filter (\<lambda>r. readable r (conn_PID c)) rows)), s)"
  using run_search_fold [OF assms, of L cl b c opt "[]"] by (simp add: collectM_def)

lemma searchObject_eq:
  "searchObject L (server_datastore L cl b) err c callID param =
    (if err then throwM DataStore_Unknown
     else bindM (GetObjectInfosByDataStoreSearchParam L param (conn_PID c)) (\<lambda>(objects, totalCount).
       bindM (collectM (search_entry L (server_datastore L cl b) c (sp_ResultOption param)) objects) (\<lambda>result.
       let counted = (sp_StructureVersion param \<ge> 3 \<or> DataStore_AtLeast_4_0_0 L) \<and> \<not> sp_TotalCountEnabled param in
       ds_ok MethodSearchObject callID [WSearchResult \<lparr>
         sr_TotalCount = (if counted then 0 else totalCount),
         sr_Result = result,
         sr_TotalCountType = (if counted then 3 else if totalCount = word_of_nat (length result) then 0 else 1) \<rparr>])))"
  by (simp add: searchObject_def search_entry_def [abs_def])

lemma searchObject_result:
  "triple (\<lambda>s. t_objects s = rows) (searchObject L (server_datastore L cl b) err c callID param)
    (\<lambda>resp s. \<exists>found result. Body resp = [WSearchResult result] \<and> subseq found (search_rows param rows) \<and>
      list_all scannable found \<and>
      sr_Result result = map (\<lambda>r. FilterPropertiesByResultOption L (sp_ResultOption param) (parse_object L r))
        (filter (\<lambda>r. readable r (conn_PID c)) found)) (\<lambda>_. True)"
proof -
  have loop: "triple (\<lambda>s. t_objects s = rows \<and> (\<exists>found. subseq found (search_rows param rows) \<and>
        list_all scannable found \<and> infos = map (parse_object L) found))
      (collectM (search_entry L (server_datastore L cl b) c (sp_ResultOption param)) infos)
      (\<lambda>ys s. \<exists>found. subseq found (search_rows param rows) \<and> list_all scannable found \<and>
        ys = map (\<lambda>r. FilterPropertiesByResultOption L (sp_ResultOption param) (parse_object L r))
          (filter (\<lambda>r. readable r (conn_PID c)) found)) (\<lambda>_. True)" for infos
    unfolding triple_def by (auto simp: run_search_loop)
  show ?thesis
    unfolding searchObject_eq Let_def
    by (rule triple_if, rule triple_throw, simp, rule triple_bind [OF triple_search_rows])
      (auto split: prod.splits simp: ds_ok_def rmcSuccess_def intro!: triple_bind [OF triple_pre [OF loop]] triple_ret)
qed

lemma run_searchObject:
  assumes "db_faults s = []" and "0 \<le> sint (sp_ResultOffset param)" and "sp_TotalCountEnabled param"
    and "list_all (\<lambda>r. scannable r \<and> o_permission r = 0) (t_objects s)"
  shows "searchObject L (server_datastore L cl b) False c callID param s =
    (Ok (rmcSuccess DataStore_Protocol MethodSearchObject callID [WSearchResult
      \<lparr> sr_TotalCount = word_of_nat (length (search_rows param (t_objects s))),
        sr_Result = map (\<lambda>r. FilterPropertiesByResultOption L (sp_ResultOption param) (parse_object L r))
          (search_rows param (t_objects s)),
        sr_TotalCountType = 0 \<rparr>]), s)"
proof -
  let ?rows = "search_rows param (t_objects s)"
  have rows: "scannable r \<and> o_permission r = 0" if "r \<in> set ?rows" for r
    using search_rows_found [OF that] assms(4) by (simp add: list_all_iff)
  then have scan: "list_all scannable ?rows" and read: "\<forall>r \<in> set ?rows. readable r (conn_PID c)"
    by (auto simp: list_all_iff readable_def granted_def)
  have search: "GetObjectInfosByDataStoreSearchParam L param (conn_PID c) s =
      (Ok (map (parse_object L) ?rows, word_of_nat (length ?rows)), s)"
    using assms(1,2) scan by (simp add: GetObjectInfosByDataStoreSearchParam_def Let_def bindM_def run_simps
      parseObjectList_def search_rows_def)
  have "\<not> list_ex (\<lambda>r. o_permission r = 1 \<and> \<not> readable r (conn_PID c)) ?rows" using read by (auto simp: list_ex_iff)
  then have loop: "collectM (search_entry L (server_datastore L cl b) c (sp_ResultOption param)) (map (parse_object L) ?rows) s =
      (Ok (map (\<lambda>r. FilterPropertiesByResultOption L (sp_ResultOption param) (parse_object L r)) ?rows), s)"
    using run_search_loop [OF scan] read by (simp add: filter_True)
  show ?thesis
    using assms(3) search loop by (simp add: searchObject_eq Let_def run_bind ds_ok_def run_simps)
qed

text \<open>
  C38: Whatever the state of the store and of the database, the results of a search are at most a
  thousand objects of the table, the most recently updated first; each has been uploaded
  completely, is not deleted, answers the search and may be read by the player.
\<close>

theorem search_returns_visible_objects:
  assumes "searchObject L (server_datastore L cl b) err c callID param s = (Ok resp, t)"
  shows "\<exists>found result. Body resp = [WSearchResult result] \<and>
    sr_Result result = map (FilterPropertiesByResultOption L (sp_ResultOption param) \<circ> parse_object L) found \<and>
    length found \<le> 1000 \<and> sorted (map (\<lambda>r. - o_update_date r) found) \<and>
    (\<forall>r \<in> set found. r \<in> set (t_objects s) \<and> o_upload_completed r \<and> \<not> o_deleted r \<and> object_found param r \<and>
      readable r (conn_PID c))"
proof -
  obtain found result where f: "Body resp = [WSearchResult result]" "subseq found (search_rows param (t_objects s))"
      "sr_Result result = map (\<lambda>r. FilterPropertiesByResultOption L (sp_ResultOption param) (parse_object L r))
        (filter (\<lambda>r. readable r (conn_PID c)) found)"
    using tripleD [OF searchObject_result refl assms] by blast
  let ?visible = "filter (\<lambda>r. readable r (conn_PID c)) found"
  have sub: "subseq ?visible (search_rows param (t_objects s))"
    using f(2) subseq_filter_left subseq_order.trans by blast
  have "length ?visible \<le> 1000"
    using list_emb_length [OF sub] length_search_rows by (rule order_trans)
  moreover have "sorted (map (\<lambda>r. - o_update_date r) ?visible)"
  proof -
    obtain N where "map (\<lambda>r. - o_update_date r) ?visible = nths (map (\<lambda>r. - o_update_date r) (search_rows param (t_objects s))) N"
      using subseq_map [OF sub] unfolding subseq_conv_nths by blast
    then show ?thesis using sorted_nths [OF sorted_search_rows] by simp
  qed
  moreover have "r \<in> set (t_objects s) \<and> object_found param r" if "r \<in> set ?visible" for r
  proof -
    obtain N where "?visible = nths (search_rows param (t_objects s)) N" using sub unfolding subseq_conv_nths by blast
    then have "r \<in> set (search_rows param (t_objects s))" using that by (metis in_set_nthsD)
    then show ?thesis by (rule search_rows_found)
  qed
  ultimately show ?thesis
    using f by (intro exI [of _ ?visible] exI [of _ result]) (simp add: object_found_def)
qed

definition sample_search :: ds_search_param where
  "sample_search = \<lparr> sp_OwnerIDs = [], sp_DataTypes = [7], sp_DataType = 0xFFFF, sp_Tags = [], sp_ResultOffset = 0,
     sp_ResultLength = 10, sp_ResultOption = 0, sp_TotalCountEnabled = True, sp_StructureVersion = 0 \<rparr>"

lemma sample_completed_scannable: "scannable (sample_object level\<lparr>o_upload_completed := b\<rparr>)"
  using sample_object_scannable [of level] by (simp add: scannable_def)

lemma sample_search_simps [simp]:
  "sp_ResultOffset sample_search = 0" "sp_ResultOption sample_search = 0" "sp_TotalCountEnabled sample_search"
  "FilterPropertiesByResultOption sample_ds_lib opt info = info"
  by (simp_all add: sample_search_def sample_ds_lib_def)

lemma sample_search_rows:
  "search_rows sample_search [sample_object 0\<lparr>o_upload_completed := True\<rparr>] = [sample_object 0\<lparr>o_upload_completed := True\<rparr>]"
  by (simp add: search_rows_def sample_search_def search_limit_def order_by_def object_found_def dataTypeWildcard_def)

lemma run_sample_search:
  "searchObject sample_ds_lib sample_D False (sample_conn 1002) 5 sample_search (completed_store 0) =
    (Ok (rmcSuccess DataStore_Protocol MethodSearchObject 5 [WSearchResult
      \<lparr> sr_TotalCount = 1, sr_Result = [parse_object sample_ds_lib (sample_object 0\<lparr>o_upload_completed := True\<rparr>)],
        sr_TotalCountType = 0 \<rparr>]), completed_store 0)"
  using run_searchObject [of "completed_store 0" sample_search sample_ds_lib "Some sample_minio" "[]" "sample_conn 1002" 5]
  by (simp add: sample_search_rows sample_completed_scannable)

lemma search_returns_visible_objects_witness:
  "\<exists>r result. sr_Result result = [parse_object sample_ds_lib r] \<and> o_upload_completed r \<and> \<not> o_deleted r \<and>
    searchObject sample_ds_lib sample_D False (sample_conn 1002) 5 sample_search (completed_store 0) =
      (Ok (rmcSuccess DataStore_Protocol MethodSearchObject 5 [WSearchResult result]), completed_store 0)"
proof -
  have filter: "FilterPropertiesByResultOption sample_ds_lib opt info = info" for opt info by (simp add: sample_ds_lib_def)
  obtain found result where f: "Body (rmcSuccess DataStore_Protocol MethodSearchObject 5 [WSearchResult
      \<lparr> sr_TotalCount = 1, sr_Result = [parse_object sample_ds_lib (sample_object 0\<lparr>o_upload_completed := True\<rparr>)],
        sr_TotalCountType = 0 \<rparr>]) = [WSearchResult result]"
    "sr_Result result = map (FilterPropertiesByResultOption sample_ds_lib 0 \<circ> parse_object sample_ds_lib) found"
    "\<And>r. r \<in> set found \<Longrightarrow> o_upload_completed r \<and> \<not> o_deleted r"
    using search_returns_visible_objects [OF run_sample_search] by (auto simp: sample_search_def)
  then have r: "result = \<lparr> sr_TotalCount = 1, sr_Result = [parse_object sample_ds_lib (sample_object 0\<lparr>o_upload_completed := True\<rparr>)],
        sr_TotalCountType = 0 \<rparr>" by (simp add: rmcSuccess_def)
  with f(2) obtain x where "found = [x]" by (cases found; cases "tl found") auto
  then show ?thesis using f r run_sample_search by (auto simp: filter intro!: exI [of _ x] exI [of _ result])
qed

section \<open>Where the store falls short\<close>

text \<open>
  C40: \<open>completePostObject\<close> never completes an upload. It takes an object that \<open>GetObjectInfoByDataID\<close>
  finds to be completed already, but that lookup finds the objects that are not completed, too: the
  owner of a posted and uploaded object is refused like everybody else, and nothing is stored.
\<close>

theorem completePostObject_never_completes:
  assumes "ds_reachable L (server_datastore L (Some m) b) s" and "db_faults s = []"
    and "r \<in> set (t_objects s)" and "scannable r"
  shows "completePostObject (server_datastore L (Some m) b) False c callID
      \<lparr> cp_DataID = word_of_int (o_data_id r), cp_IsSuccess = success \<rparr> s = (Err DataStore_PermissionDenied, s)"
  using reachable_rows(1) [OF assms(1,3)] assms(2,4)
  by (simp add: completePostObject_def bindM_def catchM_def run_GetObjectInfo found_object_def run_simps)

lemma completePostObject_never_completes_witness:
  "completePostObject sample_D False (sample_conn 1001) 9 \<lparr> cp_DataID = 1, cp_IsSuccess = True \<rparr> (uploaded_store 3) =
    (Err DataStore_PermissionDenied, uploaded_store 3)"
  using completePostObject_never_completes [OF reachable_uploaded, of 3 "sample_object 3" "sample_conn 1001" 9 True] by simp

text \<open>
  \<open>completePostObjects\<close> asks for nothing but the right size in the S3 store: any player may
  complete the upload of any object, whoever owns it and whatever its permissions say.
\<close>

lemma anyone_completes_uploads:
  assumes "ds_reachable L (server_datastore L (Some m) b) s" and "db_faults s = []" and "r \<in> set (t_objects s)"
    and "s3_sizes s (dp_S3Bucket (server_datastore L (Some m) b))
      (object_key (server_datastore L (Some m) b) (word_of_int (o_data_id r))) = Some (ucast (word_of_int (o_size r) :: u32))"
  shows "completePostObjects (server_datastore L (Some m) b) False c callID [word_of_int (o_data_id r)] s =
    (Ok (rmcSuccess DataStore_Protocol MethodCompletePostObjects callID []),
     s\<lparr>t_objects := map (\<lambda>q. if o_data_id q = o_data_id r then q\<lparr>o_upload_completed := True\<rparr> else q) (t_objects s)\<rparr>)"
  by (rule run_complete_one [OF assms])

lemma anyone_completes_uploads_witness:
  "completePostObjects sample_D False (sample_conn 666) 9 [1] (uploaded_store 3) =
    (Ok (rmcSuccess DataStore_Protocol MethodCompletePostObjects 9 []), completed_store 3)"
  using anyone_completes_uploads [OF reachable_uploaded, of 3 "sample_object 3" "sample_conn 666" 9]
  by (simp add: completed_store_def)

text \<open>
  An object whose permission is "friends only" stops the server when a player other than its
  owner asks for it: the list of friends is a callback that the server does not set.
\<close>

lemma friends_permission_panics:
  assumes "ds_reachable L (server_datastore L cl b) s" and "db_faults s = []" and "r \<in> set (t_objects s)"
    and "scannable r" and "o_permission r = 1" and "word_of_int (o_owner r) \<noteq> conn_PID c"
    and "o_access_password r = 0"
  shows "getMeta L (server_datastore L cl b) False c callID
      \<lparr> gm_DataID = word_of_int (o_data_id r), gm_PersistenceTarget = target, gm_ResultOption = opt,
        gm_AccessPassword = pw \<rparr> s = (Panic, s)"
proof -
  have "0 < o_data_id r"
    using reachable_store_inv [OF assms(1)] assms(3) by (auto simp: store_inv_def)
  then have "(word_of_int (o_data_id r) :: u64) \<noteq> 0" using reachable_rows(2) [OF assms(1,3)] by auto
  moreover have "\<not> readable r (conn_PID c)" using assms(5,6) by (simp add: readable_def granted_def)
  ultimately show ?thesis
    using assms(4,5) run_getMeta [OF assms(2), of "\<lparr> gm_DataID = word_of_int (o_data_id r), gm_PersistenceTarget = target,
      gm_ResultOption = opt, gm_AccessPassword = pw \<rparr>" r L cl b c callID] reachable_rows(1) [OF assms(1,3)] assms(7)
    by (simp add: refusal_def)
qed

lemma friends_permission_panics_witness:
  "getMeta sample_ds_lib sample_D False (sample_conn 1002) 9 sample_get (posted_store 1) = (Panic, posted_store 1)"
  using friends_permission_panics [OF reachable_posted, of 1 "sample_object 1" "sample_conn 1002" 9 _ 0 0]
  by (simp add: sample_get_def)

text \<open>The entry of a list of results for one object.\<close>

definition entry_for :: "ds_lib \<Rightarrow> pid \<Rightarrow> u8 \<Rightarrow> object_row list \<Rightarrow> meta_info \<times> qresult" where
  "entry_for L p opt rows = (case found_object rows of
     None \<Rightarrow> (NewDataStoreMetaInfo L, QResultError DataStore_NotFound)
   | Some r \<Rightarrow> if readable r p
       then (FilterPropertiesByResultOption L opt (parse_object L r), QResultSuccess DataStore_Unknown)
       else (FilterPropertiesByResultOption L opt (NewDataStoreMetaInfo L),
         QResultError (if o_permission r > 3 then DataStore_InvalidArgument else DataStore_PermissionDenied)))"

lemma run_meta_entry:
  assumes "db_faults s = []" and "list_all (\<lambda>r. o_permission r \<noteq> 1) (t_objects s)"
  shows "meta_entry L (server_datastore L cl b) c opt (GetObjectInfoByDataID L dataID) s =
    (Ok (entry_for L (conn_PID c) opt (object_rows dataID s)), s)"
proof (cases "found_object (object_rows dataID s)")
  case None
  then show ?thesis using assms(1) by (simp add: meta_entry_def entry_for_def bindM_def catchM_def run_GetObjectInfo run_simps)
next
  case (Some r)
  then have "r \<in> set (object_rows dataID s)" and scan: "scannable r"
    by (auto simp: found_object_def split: list.splits if_splits)
  then have "o_permission r \<noteq> 1" using assms(2) by (simp add: object_rows_def list_all_iff)
  then show ?thesis
    using assms(1) Some scan
    by (auto simp: meta_entry_def entry_for_def bindM_def catchM_def run_GetObjectInfo run_simps run_verify_read refusal_def)
qed

lemma run_meta_entries:
  assumes "\<And>x. x \<in> set xs \<Longrightarrow> entry x s = (Ok (e x), s)"
  shows "meta_entries entry xs s = (Ok (map (fst \<circ> e) xs, map (snd \<circ> e) xs), s)"
proof -
  let ?f = "\<lambda>(pMetaInfo, pResults) x. bindM (entry x) (\<lambda>(objectInfo, qresult). retM (pMetaInfo @ [objectInfo], pResults @ [qresult]))"
  have "foldM ?f (ms, rs) xs s = (Ok (ms @ map (fst \<circ> e) xs, rs @ map (snd \<circ> e) xs), s)" for ms rs
    using assms
  proof (induction xs arbitrary: ms rs)
    case (Cons x xs)
    then have "?f (ms, rs) x s = (Ok (ms @ [fst (e x)], rs @ [snd (e x)]), s)"
      by (simp add: bindM_def run_simps split: prod.splits)
    then show ?case using Cons by (simp add: run_bind)
  qed (simp add: run_simps)
  from this [of "[]" "[]"] show ?thesis by (simp add: meta_entries_def)
qed

text \<open>
  \<open>getMetas\<close> answers each ID of the request at its place, and changes nothing: the object with
  a success, an empty structure with the reason when it is missing or not for the player.
\<close>

lemma getMetas_pointwise:
  assumes "db_faults s = []" and "list_all (\<lambda>r. o_permission r \<noteq> 1) (t_objects s)"
  shows "getMetas L (server_datastore L cl b) False c callID dataIDs q s =
    (Ok (rmcSuccess DataStore_Protocol MethodGetMetas callID
      [WMetaInfos (map (\<lambda>dataID. fst (entry_for L (conn_PID c) (gm_ResultOption q) (object_rows dataID s))) dataIDs),
       WQResults (map (\<lambda>dataID. snd (entry_for L (conn_PID c) (gm_ResultOption q) (object_rows dataID s))) dataIDs)]), s)"
  using run_meta_entries [of dataIDs "\<lambda>dataID. meta_entry L (server_datastore L cl b) c (gm_ResultOption q)
      (GetObjectInfoByDataID L dataID)" s, OF run_meta_entry [OF assms]]
  by (simp add: getMetas_def bindM_def ds_ok_def run_simps comp_def)

lemma getMetas_pointwise_witness:
  "\<exists>infos. getMetas sample_ds_lib sample_D False (sample_conn 1002) 9 [1, 2] sample_get (posted_store 3) =
    (Ok (rmcSuccess DataStore_Protocol MethodGetMetas 9 [WMetaInfos infos,
      WQResults [QResultError DataStore_PermissionDenied, QResultError DataStore_NotFound]]), posted_store 3)"
proof -
  have "object_rows 2 (posted_store 3) = []" by (simp add: object_rows_def)
  then have "snd (entry_for sample_ds_lib 1002 0 (object_rows 1 (posted_store 3))) = QResultError DataStore_PermissionDenied"
    "snd (entry_for sample_ds_lib 1002 0 (object_rows 2 (posted_store 3))) = QResultError DataStore_NotFound"
    by (simp_all add: entry_for_def found_object_def)
  then show ?thesis
    using getMetas_pointwise [of "posted_store 3" sample_ds_lib "Some sample_minio" "[]" "sample_conn 1002" 9 "[1, 2]" sample_get]
    by (simp, blast)
qed

text \<open>
  The total of a search is the length of its page, not the number of objects that answer it,
  so a page that is filled to its limit is reported as "no more data" however many more there are.
\<close>

lemma search_counts_the_page:
  assumes "db_faults s = []" and "0 \<le> sint (sp_ResultOffset param)" and "sp_TotalCountEnabled param"
    and "list_all (\<lambda>r. scannable r \<and> o_permission r = 0) (t_objects s)"
  shows "\<exists>result. searchObject L (server_datastore L cl b) False c callID param s =
      (Ok (rmcSuccess DataStore_Protocol MethodSearchObject callID [WSearchResult result]), s) \<and>
    length (sr_Result result) = length (search_rows param (t_objects s)) \<and>
    sr_TotalCount result = word_of_nat (length (sr_Result result)) \<and> sr_TotalCountType result = 0"
  using run_searchObject [OF assms, of L cl b c callID] by auto

lemma search_counts_the_page_witness:
  "\<exists>result. searchObject sample_ds_lib sample_D False (sample_conn 1002) 5 (sample_search\<lparr>sp_ResultLength := 1\<rparr>) (completed_store 0) =
      (Ok (rmcSuccess DataStore_Protocol MethodSearchObject 5 [WSearchResult result]), completed_store 0) \<and>
    sr_TotalCountType result = 0"
  using search_counts_the_page [where s = "completed_store 0" and param = "sample_search\<lparr>sp_ResultLength := 1\<rparr>"
      and L = sample_ds_lib and cl = "Some sample_minio" and b = "[]" and c = "sample_conn 1002" and callID = 5] sample_completed_scannable
  by (auto simp: sample_search_def)

end
