(* ===== verification/Go_Codecs.thy ===== *)
theory Go_Codecs
  imports Nex_Prelude
begin

text \<open>
  The parts of Go's standard library that the login tokens go through: little- and big-endian
  integers, base64, CRC-32, and cipher block chaining over a block cipher. Encoding is inverse to
  decoding.
\<close>

section \<open>Integers as bytes\<close>

primrec le_value :: "bytes \<Rightarrow> nat" where
  "le_value [] = 0"
| "le_value (b # bs) = unat b + 256 * le_value bs"

primrec le_bytes :: "nat \<Rightarrow> nat \<Rightarrow> bytes" where
  "le_bytes 0 k = []"
| "le_bytes (Suc n) k = word_of_nat k # le_bytes n (k div 256)"

definition BigEndian_Uint32 :: "bytes \<Rightarrow> u32" where
  "BigEndian_Uint32 bs = word_of_nat (le_value (rev (take 4 bs)))"

definition BigEndian_PutUint32 :: "u32 \<Rightarrow> bytes" where
  "BigEndian_PutUint32 w = rev (le_bytes 4 (unat w))"

lemma length_le_bytes [simp]: "length (le_bytes n k) = n"
  by (induction n arbitrary: k) simp_all

lemma unat_byte: "unat (word_of_nat k :: u8) = k mod 256"
  by (simp add: unat_of_nat)

lemma le_value_bytes [simp]: "le_value (le_bytes n k) = k mod 256 ^ n"
proof (induction n arbitrary: k)
  case (Suc n)
  have "k mod 256 + 256 * (k div 256 mod 256 ^ n) = k mod (256 * 256 ^ n)"
    by (simp add: mod_mult2_eq)
  then show ?case using Suc by (simp add: unat_byte)
qed simp

lemma BigEndian_round_trip [simp]: "BigEndian_Uint32 (BigEndian_PutUint32 w @ bs) = w"
proof -
  have "unat w mod 256 ^ 4 = unat w" using unsigned_less [of w, where 'a = nat] by simp
  then show ?thesis by (simp add: BigEndian_Uint32_def BigEndian_PutUint32_def)
qed

lemma length_PutUint32 [simp]: "length (BigEndian_PutUint32 w) = 4"
  by (simp add: BigEndian_PutUint32_def)

section \<open>Base64\<close>

definition std_alphabet :: string where
  "std_alphabet = ''ABCDEFGHIJKLMNOPQRSTUVWXYZabcdefghijklmnopqrstuvwxyz0123456789+/''"

definition url_alphabet :: string where
  "url_alphabet = ''ABCDEFGHIJKLMNOPQRSTUVWXYZabcdefghijklmnopqrstuvwxyz0123456789-_''"

primrec index_of :: "'a \<Rightarrow> 'a list \<Rightarrow> nat option" where
  "index_of x [] = None"
| "index_of x (y # ys) = (if x = y then Some 0 else map_option Suc (index_of x ys))"

definition b64_value :: "char \<Rightarrow> nat option" where
  "b64_value c = index_of c std_alphabet"

definition quantum_bytes :: "nat \<Rightarrow> bytes" where
  "quantum_bytes n = [word_of_nat (n div 65536), word_of_nat (n div 256), word_of_nat n]"

text \<open>
  \<open>base64.StdEncoding.DecodeString\<close>: line breaks are skipped, each group of four characters gives
  three bytes, and only the last group may end with padding, which is required. Bits that the
  padding leaves over are ignored.
\<close>

fun decode_quanta :: "string \<Rightarrow> bytes option" where
  "decode_quanta [] = Some []"
| "decode_quanta (a # b # c # d # cs) =
    (case (b64_value a, b64_value b) of
       (Some i, Some j) \<Rightarrow>
         (case (b64_value c, b64_value d) of
            (Some k, Some l) \<Rightarrow> (case decode_quanta cs of
                None \<Rightarrow> None
              | Some bs \<Rightarrow> Some (quantum_bytes (((i * 64 + j) * 64 + k) * 64 + l) @ bs))
          | (Some k, None) \<Rightarrow>
              if d = CHR ''='' \<and> cs = [] then Some (take 2 (quantum_bytes (((i * 64 + j) * 64 + k) * 64))) else None
          | (None, _) \<Rightarrow>
              if c = CHR ''='' \<and> d = CHR ''='' \<and> cs = [] then Some (take 1 (quantum_bytes ((i * 64 + j) * 4096))) else None)
     | _ \<Rightarrow> None)"
| "decode_quanta _ = None"

definition Base64_DecodeString :: "string \<Rightarrow> bytes option" where
  "Base64_DecodeString s = decode_quanta (filter (\<lambda>c. c \<noteq> CHR 0x0A \<and> c \<noteq> CHR 0x0D) s)"

text \<open>Encoding, with an alphabet and with or without padding.\<close>

definition quantum_value :: "bytes \<Rightarrow> nat" where
  "quantum_value bs = (case bs of
     [x] \<Rightarrow> unat x * 65536 | [x, y] \<Rightarrow> unat x * 65536 + unat y * 256
   | x # y # z # _ \<Rightarrow> unat x * 65536 + unat y * 256 + unat z | [] \<Rightarrow> 0)"

definition quantum_chars :: "string \<Rightarrow> nat \<Rightarrow> string" where
  "quantum_chars alphabet n = map (\<lambda>i. alphabet ! i) [n div 262144 mod 64, n div 4096 mod 64, n div 64 mod 64, n mod 64]"

fun encode_quanta :: "string \<Rightarrow> string \<Rightarrow> bytes \<Rightarrow> string" where
  "encode_quanta alphabet pad [] = []"
| "encode_quanta alphabet pad [x] = take 2 (quantum_chars alphabet (quantum_value [x])) @ pad @ pad"
| "encode_quanta alphabet pad [x, y] = take 3 (quantum_chars alphabet (quantum_value [x, y])) @ pad"
| "encode_quanta alphabet pad (x # y # z # bs) =
     quantum_chars alphabet (quantum_value [x, y, z]) @ encode_quanta alphabet pad bs"

definition Base64_EncodeToString :: "bytes \<Rightarrow> string" where
  "Base64_EncodeToString bs = encode_quanta std_alphabet ''='' bs"

definition RawURLEncoding_EncodeToString :: "bytes \<Rightarrow> string" where
  "RawURLEncoding_EncodeToString bs = encode_quanta url_alphabet [] bs"

lemma index_of_nth: "distinct xs \<Longrightarrow> i < length xs \<Longrightarrow> index_of (xs ! i) xs = Some i"
proof (induction xs arbitrary: i)
  case (Cons x xs)
  then show ?case by (cases i) auto
qed simp

lemma index_of_None: "x \<notin> set xs \<Longrightarrow> index_of x xs = None"
  by (induction xs) auto

lemma std_alphabet_distinct: "distinct std_alphabet" and std_alphabet_length: "length std_alphabet = 64"
  by (simp_all add: std_alphabet_def)

lemma b64_value_nth [simp]: "i < 64 \<Longrightarrow> b64_value (std_alphabet ! i) = Some i"
  by (simp add: b64_value_def index_of_nth std_alphabet_distinct std_alphabet_length)

lemma b64_value_pad [simp]: "b64_value (CHR ''='') = None"
  by (simp add: b64_value_def std_alphabet_def)

text \<open>Four base-64 digits make up three bytes.\<close>

lemma quantum_digits: "((n div 262144 mod 64 * 64 + n div 4096 mod 64) * 64 + n div 64 mod 64) * 64 + n mod 64 = n mod 16777216"
  for n :: nat
proof -
  have "n mod (64 * 262144) = 64 * (n div 64 mod 262144) + n mod 64" using mod_mult2_eq [of n 64 262144] by simp
  moreover have "n div 64 mod (64 * 4096) = 64 * (n div 64 div 64 mod 4096) + n div 64 mod 64"
    using mod_mult2_eq [of "n div 64" 64 4096] by simp
  moreover have "n div 64 div 64 mod (64 * 64) = 64 * (n div 64 div 64 div 64 mod 64) + n div 64 div 64 mod 64"
    using mod_mult2_eq [of "n div 64 div 64" 64 64] by simp
  ultimately show ?thesis by (simp add: div_mult2_eq [symmetric])
qed

lemma byte_of_nat: "(word_of_nat n :: u8) = word_of_nat (n mod 256)"
  by (rule word_unat_eq_iff [THEN iffD2]) (simp add: unat_byte)

lemma quantum_bytes_mod: "quantum_bytes (n mod 16777216) = quantum_bytes n"
proof -
  have a: "n mod (65536 * 256) div 65536 mod 256 = n div 65536 mod 256" using mod_mult2_eq [of n 65536 256] by simp
  have "n mod 16777216 mod 65536 = n mod 65536" by (simp add: mod_mod_cancel)
  moreover have "m div 256 mod 256 = m mod 65536 div 256" for m :: nat using mod_mult2_eq [of m 256 256] by simp
  ultimately have b: "n mod 16777216 div 256 mod 256 = n div 256 mod 256" by metis
  have c: "n mod 16777216 mod 256 = n mod 256" by (simp add: mod_mod_cancel)
  show ?thesis
    using a b c unfolding quantum_bytes_def
    by (subst (1 2 3 4 5 6) byte_of_nat) simp
qed

lemma quantum_bytes_value:
  "quantum_bytes (quantum_value [x, y, z]) = [x, y, z]"
  "take 2 (quantum_bytes (quantum_value [x, y])) = [x, y]" "take 1 (quantum_bytes (quantum_value [x])) = [x]"
proof -
  have lt: "unat (w :: u8) < 256" for w using unsigned_less [of w, where 'a = nat] by simp
  have byte: "(word_of_nat n :: u8) = w" if "n mod 256 = unat w" for n w
    using that by (simp add: word_unat_eq_iff unat_byte)
  have h: "(unat x * 65536 + unat y * 256 + k) div 65536 mod 256 = unat x" if "k < 256" for k
  proof -
    have "unat y * 256 + k < 65536" using that lt [of y] by simp
    then have "(unat x * 65536 + (unat y * 256 + k)) div 65536 = unat x" by (simp add: div_mult_self3)
    then show ?thesis using lt [of x] by (simp add: add.assoc)
  qed
  have m: "(unat x * 65536 + unat y * 256 + k) div 256 mod 256 = unat y" if "k < 256" for k
  proof -
    have "(unat x * 65536 + unat y * 256 + k) div 256 = unat x * 256 + unat y"
      using that by (simp add: div_mult_self3 flip: add.assoc mult.assoc)
    then show ?thesis using lt [of y] by simp
  qed
  have l: "(unat x * 65536 + unat y * 256 + unat z) mod 256 = unat z"
  proof -
    have "unat x * 65536 + unat y * 256 + unat z = unat z + 256 * (unat x * 256 + unat y)" by simp
    then show ?thesis using lt [of z] by (simp only: mod_mult_self2 mod_less)
  qed
  have v: "quantum_value [x, y, z] = unat x * 65536 + unat y * 256 + unat z"
    "quantum_value [x, y] = unat x * 65536 + unat y * 256 + 0" "quantum_value [x] = unat x * 65536"
    by (simp_all add: quantum_value_def)
  show "quantum_bytes (quantum_value [x, y, z]) = [x, y, z]"
    unfolding v quantum_bytes_def byte [OF h [OF lt [of z]]] byte [OF m [OF lt [of z]]] byte [OF l] ..
  show "take 2 (quantum_bytes (quantum_value [x, y])) = [x, y]"
    unfolding v quantum_bytes_def byte [OF h [OF zero_less_numeral]] byte [OF m [OF zero_less_numeral]] by simp
  show "take 1 (quantum_bytes (quantum_value [x])) = [x]"
    using lt [of x] by (simp add: quantum_bytes_def v byte)
qed

lemma two_digits: "n div 262144 mod 64 * 64 + n div 4096 mod 64 = n div 4096 mod 4096" for n :: nat
  using mod_mult2_eq [of "n div 4096" 64 64] by (simp add: div_mult2_eq [symmetric])

lemma three_digits:
  "(n div 262144 mod 64 * 64 + n div 4096 mod 64) * 64 + n div 64 mod 64 = n div 64 mod 262144" for n :: nat
  using mod_mult2_eq [of "n div 64" 64 4096] by (simp add: two_digits div_mult2_eq [symmetric])

text \<open>What is encoded is decoded, for every length.\<close>

lemma decode_encode_quanta: "decode_quanta (encode_quanta std_alphabet ''='' bs) = Some bs"
proof (induction std_alphabet "''=''" bs rule: encode_quanta.induct)
  case (2 x)
  have lt: "unat x < 256" using unsigned_less [of x, where 'a = nat] by simp
  have v: "quantum_value [x] = unat x * 65536" by (simp add: quantum_value_def)
  have n: "(quantum_value [x] div 262144 mod 64 * 64 + quantum_value [x] div 4096 mod 64) * 4096 = quantum_value [x]"
    using lt unfolding two_digits v by simp
  have "decode_quanta [std_alphabet ! i, std_alphabet ! j, CHR ''='', CHR ''=''] = Some (take 1 (quantum_bytes ((i * 64 + j) * 4096)))"
    if "i < 64" "j < 64" for i j using that by simp
  from this [of "quantum_value [x] div 262144 mod 64" "quantum_value [x] div 4096 mod 64"]
  show ?case unfolding n quantum_bytes_value(3) by (simp add: quantum_chars_def)
next
  case (3 x y)
  have lt: "unat x < 256" "unat y < 256"
    using unsigned_less [of x, where 'a = nat] unsigned_less [of y, where 'a = nat] by simp_all
  have v: "quantum_value [x, y] = (unat x * 1024 + unat y * 4) * 64" by (simp add: quantum_value_def)
  have n: "((quantum_value [x, y] div 262144 mod 64 * 64 + quantum_value [x, y] div 4096 mod 64) * 64 +
      quantum_value [x, y] div 64 mod 64) * 64 = quantum_value [x, y]"
    using lt unfolding three_digits v by simp
  have "decode_quanta [std_alphabet ! i, std_alphabet ! j, std_alphabet ! k, CHR ''=''] =
      Some (take 2 (quantum_bytes (((i * 64 + j) * 64 + k) * 64)))"
    if "i < 64" "j < 64" "k < 64" for i j k using that by simp
  from this [of "quantum_value [x, y] div 262144 mod 64" "quantum_value [x, y] div 4096 mod 64" "quantum_value [x, y] div 64 mod 64"]
  show ?case unfolding n quantum_bytes_value(2) by (simp add: quantum_chars_def)
next
  case (4 x y z bs)
  let ?q = "quantum_value [x, y, z]"
  have "decode_quanta (std_alphabet ! i # std_alphabet ! j # std_alphabet ! k # std_alphabet ! l # cs) =
      (case decode_quanta cs of None \<Rightarrow> None | Some bs \<Rightarrow> Some (quantum_bytes (((i * 64 + j) * 64 + k) * 64 + l) @ bs))"
    if "i < 64" "j < 64" "k < 64" "l < 64" for i j k l cs using that by simp
  from this [of "?q div 262144 mod 64" "?q div 4096 mod 64" "?q div 64 mod 64" "?q mod 64"
      "encode_quanta std_alphabet ''='' bs"] 4
  show ?case
    unfolding quantum_digits quantum_bytes_mod quantum_bytes_value(1) by (simp add: quantum_chars_def)
qed simp

lemma encode_quanta_chars: "c \<in> set (encode_quanta alphabet pad bs) \<Longrightarrow> length alphabet = 64 \<Longrightarrow> c \<in> set alphabet \<or> c \<in> set pad"
proof (induction alphabet pad bs rule: encode_quanta.induct)
  case (4 alphabet pad x y z bs)
  then show ?case by (auto simp: quantum_chars_def)
qed (auto simp: quantum_chars_def)

lemma Base64_round_trip: "Base64_DecodeString (Base64_EncodeToString bs) = Some bs"
proof -
  have "c \<noteq> CHR 0x0A \<and> c \<noteq> CHR 0x0D" if "c \<in> set (Base64_EncodeToString bs)" for c
  proof -
    have "c \<in> set std_alphabet \<or> c \<in> set ''=''"
      using that encode_quanta_chars [of c std_alphabet "''=''" bs] by (simp add: Base64_EncodeToString_def std_alphabet_length)
    then show ?thesis by (auto simp: std_alphabet_def)
  qed
  then have "filter (\<lambda>c. c \<noteq> CHR 0x0A \<and> c \<noteq> CHR 0x0D) (Base64_EncodeToString bs) = Base64_EncodeToString bs"
    by simp
  then show ?thesis unfolding Base64_DecodeString_def by (simp add: Base64_EncodeToString_def decode_encode_quanta)
qed

section \<open>CRC-32\<close>

text \<open>\<open>crc32.Checksum\<close> with the table of \<open>crc32.IEEE\<close>, bit by bit.\<close>

primrec crc_bits :: "nat \<Rightarrow> u32 \<Rightarrow> u32" where
  "crc_bits 0 c = c"
| "crc_bits (Suc n) c = crc_bits n (if c AND 1 = 1 then drop_bit 1 c XOR 0xEDB88320 else drop_bit 1 c)"

definition crc_byte :: "u32 \<Rightarrow> u8 \<Rightarrow> u32" where
  "crc_byte c b = crc_bits 8 (c XOR ucast b)"

definition crc32_Checksum :: "bytes \<Rightarrow> u32" where
  "crc32_Checksum bs = foldl crc_byte 0xFFFFFFFF bs XOR 0xFFFFFFFF"

section \<open>Cipher block chaining\<close>

definition xor_bytes :: "bytes \<Rightarrow> bytes \<Rightarrow> bytes" where
  "xor_bytes xs ys = map2 (XOR) xs ys"

text \<open>\<open>cipher.NewCBCDecrypter\<close> over a block decryption, and its inverse.\<close>

function CBC_decrypt :: "(bytes \<Rightarrow> bytes) \<Rightarrow> bytes \<Rightarrow> bytes \<Rightarrow> bytes" where
  "CBC_decrypt D iv cs = (if cs = [] then []
     else xor_bytes (D (take 16 cs)) iv @ CBC_decrypt D (take 16 cs) (drop 16 cs))"
  by auto
termination by (relation "measure (\<lambda>(D, iv, cs). length cs)") auto

function CBC_encrypt :: "(bytes \<Rightarrow> bytes) \<Rightarrow> bytes \<Rightarrow> bytes \<Rightarrow> bytes" where
  "CBC_encrypt E iv ps = (if ps = [] then []
     else E (xor_bytes (take 16 ps) iv) @ CBC_encrypt E (E (xor_bytes (take 16 ps) iv)) (drop 16 ps))"
  by auto
termination by (relation "measure (\<lambda>(E, iv, ps). length ps)") auto

declare CBC_decrypt.simps [simp del] CBC_encrypt.simps [simp del]

lemma length_xor_bytes [simp]: "length (xor_bytes xs ys) = min (length xs) (length ys)"
  by (simp add: xor_bytes_def)

lemma xor_bytes_twice: "length xs \<le> length ys \<Longrightarrow> xor_bytes (xor_bytes xs ys) ys = xs"
proof (induction xs arbitrary: ys)
  case (Cons x xs)
  then show ?case by (cases ys) (simp_all add: xor_bytes_def xor.assoc)
qed (simp add: xor_bytes_def)

lemma CBC_length:
  assumes "length ps mod 16 = 0" and "length iv = 16" and "\<And>b. length b = 16 \<Longrightarrow> length (E b) = 16"
  shows "length (CBC_encrypt E iv ps) = length ps"
  using assms
proof (induction E iv ps rule: CBC_encrypt.induct)
  case (1 E iv ps)
  show ?case
  proof (cases "ps = []")
    case False
    with 1(2) have l: "16 \<le> length ps" by (cases "length ps < 16") simp_all
    have x: "length (E (xor_bytes (take 16 ps) iv)) = 16" using l 1(3) by (intro 1(4)) simp
    have "(length ps - 16) mod 16 = 0" using 1(2) l by (metis le_mod_geq)
    then have "length (CBC_encrypt E (E (xor_bytes (take 16 ps) iv)) (drop 16 ps)) = length ps - 16"
      using 1(1) [OF False _ x 1(4)] by simp
    then show ?thesis using False l x by (subst CBC_encrypt.simps) simp
  qed (simp add: CBC_encrypt.simps)
qed

lemma CBC_round_trip:
  assumes "length ps mod 16 = 0" and "length iv = 16" and "\<And>b. length b = 16 \<Longrightarrow> length (E b) = 16"
    and "\<And>b. length b = 16 \<Longrightarrow> D (E b) = b"
  shows "CBC_decrypt D iv (CBC_encrypt E iv ps) = ps"
  using assms
proof (induction E iv ps rule: CBC_encrypt.induct)
  case (1 E iv ps)
  show ?case
  proof (cases "ps = []")
    case False
    let ?x = "xor_bytes (take 16 ps) iv"
    from False 1(2) have l: "16 \<le> length ps" by (cases "length ps < 16") simp_all
    have lx: "length ?x = 16" using l 1(3) by simp
    then have le: "length (E ?x) = 16" by (rule 1(4))
    have "(length ps - 16) mod 16 = 0" using 1(2) l by (metis le_mod_geq)
    then have rest: "CBC_decrypt D (E ?x) (CBC_encrypt E (E ?x) (drop 16 ps)) = drop 16 ps"
      using 1(1) [OF False _ le 1(4,5)] by simp
    have "CBC_encrypt E iv ps = E ?x @ CBC_encrypt E (E ?x) (drop 16 ps)"
      using False by (subst CBC_encrypt.simps) simp
    moreover have "E ?x \<noteq> []" using le by auto
    ultimately have "CBC_decrypt D iv (CBC_encrypt E iv ps) = xor_bytes ?x iv @ drop 16 ps"
      using le 1(5) [OF lx] rest by (subst CBC_decrypt.simps) simp
    then show ?thesis using l 1(3) by (simp add: xor_bytes_twice)
  qed (simp add: CBC_encrypt.simps CBC_decrypt.simps)
qed

end
