(* ===== verification/Accounts.thy ===== *)
theory Accounts
  imports Go_Codecs Decimal
begin

text \<open>
  Accounts and login tokens: \<open>src/globals\<close> (accounts, passwords, the choice of validation) and
  \<open>globals/authentication.go\<close> of the common protocols (decryption and validation of a token).
\<close>

section \<open>Configuration and state\<close>

text \<open>
  The variables of \<open>src/globals\<close>, and the two primitives of Go's \<open>crypto\<close> packages that stay
  parameters: the decryption of one AES block and HMAC-SHA256.
\<close>

record auth_config =
  KerberosPassword :: string
  NEXTokenAESKey :: bytes
  NEXPasswordSecret :: bytes
  LocalAuthMode :: bool
  AES_DecryptBlock :: "bytes \<Rightarrow> bytes \<Rightarrow> bytes"
  HMAC_SHA256 :: "bytes \<Rightarrow> bytes \<Rightarrow> bytes"

text \<open>
  The state: the clock in nanoseconds, the random source with the reads that fail, and the
  accounts of the settings file (user name and password, in its order), \<open>None\<close> when the file
  cannot be read.
\<close>

record auth_world =
  au_now :: int
  au_random :: "nat \<Rightarrow> u8"
  au_random_pos :: nat
  au_random_faults :: "bool list"
  au_settings :: "(string \<times> string) list option"

type_synonym 'a au = "(auth_world, 'a) nex"

record account =
  acc_PID :: pid
  acc_Username :: string
  acc_Password :: string

section \<open>Passwords\<close>

fun account_password :: "string \<Rightarrow> (string \<times> string) list \<Rightarrow> string option" where
  "account_password want [] = None"
| "account_password want ((username, password) # accounts) =
    (if username = want then Some password else account_password want accounts)"

definition passwordFromPIDLocal :: "pid \<Rightarrow> string au" where
  "passwordFromPIDLocal p = bindM (getM au_settings) (\<lambda>data. case data of
     None \<Rightarrow> throwM RendezVous_InvalidUsername
   | Some accounts \<Rightarrow> (case account_password (decimal (unat p)) accounts of
       None \<Rightarrow> throwM RendezVous_InvalidUsername
     | Some password \<Rightarrow> retM password))"

definition PasswordFromPID :: "auth_config \<Rightarrow> pid \<Rightarrow> string au" where
  "PasswordFromPID C p =
    (if LocalAuthMode C then passwordFromPIDLocal p
     else if length (NEXPasswordSecret C) < 32 then throwM RendezVous_InvalidUsername
     else retM (RawURLEncoding_EncodeToString (HMAC_SHA256 C (NEXPasswordSecret C) (le_bytes 8 (unat p)))))"

section \<open>Accounts\<close>

definition AuthenticationServerAccount :: "auth_config \<Rightarrow> account" where
  "AuthenticationServerAccount C =
     \<lparr> acc_PID = 1, acc_Username = ''Quazal Authentication'', acc_Password = KerberosPassword C \<rparr>"

definition SecureServerAccount :: "auth_config \<Rightarrow> account" where
  "SecureServerAccount C =
     \<lparr> acc_PID = 2, acc_Username = ''Quazal Rendez-Vous'', acc_Password = KerberosPassword C \<rparr>"

text \<open>\<open>strconv.Itoa\<close> and \<open>strconv.Atoi\<close> on 64-bit integers.\<close>

definition Itoa :: "int \<Rightarrow> string" where
  "Itoa i = (if i < 0 then CHR ''-'' # decimal (nat (- i)) else decimal (nat i))"

definition digits_value :: "string \<Rightarrow> int option" where
  "digits_value s = (if s = [] \<or> \<not> list_all is_digit s then None
     else Some (foldl (\<lambda>n c. 10 * n + digit_value c) 0 s))"

definition Atoi :: "string \<Rightarrow> int option" where
  "Atoi s =
    (let signed = s \<noteq> [] \<and> (hd s = CHR ''-'' \<or> hd s = CHR ''+'') in
     case digits_value (if signed then tl s else s) of
       None \<Rightarrow> None
     | Some n \<Rightarrow>
         let i = (if signed \<and> hd s = CHR ''-'' then - n else n) in
         if - (2 ^ 63) \<le> i \<and> i < 2 ^ 63 then Some i else None)"

definition AccountDetailsByPID :: "auth_config \<Rightarrow> pid \<Rightarrow> account au" where
  "AccountDetailsByPID C p =
    (if p = acc_PID (AuthenticationServerAccount C) then retM (AuthenticationServerAccount C)
     else if p = acc_PID (SecureServerAccount C) then retM (SecureServerAccount C)
     else bindM (PasswordFromPID C p) (\<lambda>password.
       retM \<lparr> acc_PID = p, acc_Username = Itoa (sint p), acc_Password = password \<rparr>))"

definition AccountDetailsByUsername :: "auth_config \<Rightarrow> string \<Rightarrow> account au" where
  "AccountDetailsByUsername C username =
    (if username = acc_Username (AuthenticationServerAccount C) then retM (AuthenticationServerAccount C)
     else if username = acc_Username (SecureServerAccount C) then retM (SecureServerAccount C)
     else case Atoi username of
       None \<Rightarrow> throwM RendezVous_InvalidUsername
     | Some pidInt \<Rightarrow>
         bindM (PasswordFromPID C (word_of_int pidInt)) (\<lambda>password.
         retM \<lparr> acc_PID = word_of_int pidInt, acc_Username = username, acc_Password = password \<rparr>))"

section \<open>Login tokens\<close>

record nex_token =
  SystemType :: u8
  TokenType :: u8
  UserPID :: u32
  ExpireTime :: u64
  TitleID :: u64
  AccessLevel :: u8

text \<open>\<open>binary.Read\<close> of the structure, little-endian and without padding: 23 bytes, more are left.\<close>

definition read_token :: "bytes \<Rightarrow> nex_token option" where
  "read_token bs = (if length bs < 23 then None else Some
     \<lparr> SystemType = bs ! 0, TokenType = bs ! 1, UserPID = word_of_nat (le_value (take 4 (drop 2 bs))),
       ExpireTime = word_of_nat (le_value (take 8 (drop 6 bs))), TitleID = word_of_nat (le_value (take 8 (drop 14 bs))),
       AccessLevel = bs ! 22 \<rparr>)"

text \<open>
  A token of four bytes has an empty body; reading its last byte is out of range and panics.
\<close>

definition DecryptToken :: "auth_config \<Rightarrow> bytes \<Rightarrow> bytes \<Rightarrow> nex_token au" where
  "DecryptToken C encryptedToken aesKey =
    (if length encryptedToken < 4 then throwM Authentication_ValidationFailed
     else if length aesKey \<notin> {16, 24, 32} then throwM Authentication_ValidationFailed
     else
       let expectedChecksum = BigEndian_Uint32 encryptedToken;
           encryptedBody = drop 4 encryptedToken in
       if length encryptedBody mod 16 \<noteq> 0 then throwM Authentication_ValidationFailed
       else
         let decrypted = CBC_decrypt (AES_DecryptBlock C aesKey) (replicate 16 0) encryptedBody in
         if decrypted = [] then panicM
         else
           let paddingSize = unat (last decrypted) in
           if paddingSize \<ge> length decrypted then throwM Authentication_ValidationFailed
           else
             let decrypted = take (length decrypted - paddingSize) decrypted in
             if expectedChecksum \<noteq> crc32_Checksum decrypted then throwM Authentication_ValidationFailed
             else case read_token decrypted of
                 None \<Rightarrow> throwM Authentication_ValidationFailed
               | Some token \<Rightarrow> retM token)"

text \<open>The three kinds of login data that carry a token, and any other, by the name of its type.\<close>

datatype login_data =
    NintendoLoginData string
  | AccountExtraInfo string
  | AuthenticationInfo string
  | OtherLoginData string

definition restore_base64 :: "string \<Rightarrow> string" where
  "restore_base64 s = map (\<lambda>c. if c = CHR ''*'' then CHR ''='' else c)
     (map (\<lambda>c. if c = CHR ''-'' then CHR ''/'' else c) (map (\<lambda>c. if c = CHR ''.'' then CHR ''+'' else c) s))"

fun token_base64 :: "login_data \<Rightarrow> string option" where
  "token_base64 (NintendoLoginData token) = Some token"
| "token_base64 (AccountExtraInfo token) = Some (restore_base64 token)"
| "token_base64 (AuthenticationInfo token) = Some (restore_base64 token)"
| "token_base64 (OtherLoginData _) = None"

definition ValidatePretendoLoginData :: "auth_config \<Rightarrow> pid \<Rightarrow> login_data \<Rightarrow> bytes \<Rightarrow> unit au" where
  "ValidatePretendoLoginData C p loginData aesKey =
    (case token_base64 loginData of
       None \<Rightarrow> throwM Authentication_ValidationFailed
     | Some tokenBase64 \<Rightarrow> (case Base64_DecodeString tokenBase64 of
         None \<Rightarrow> throwM Authentication_ValidationFailed
       | Some encryptedToken \<Rightarrow>
           bindM (DecryptToken C encryptedToken aesKey) (\<lambda>token.
           if TokenType token \<noteq> 3 then throwM Authentication_ValidationFailed
           else bindM (getM au_now) (\<lambda>now.
             if uint (ExpireTime token div 1000) * 1000000000 < now then throwM Authentication_TokenExpired
             else if ucast (UserPID token) \<noteq> p then throwM Authentication_PrincipalIDUnmatched
             else if sint (AccessLevel token) < 0 then throwM RendezVous_AccountDisabled
             else retM ()))))"

definition ValidateLoginData :: "auth_config \<Rightarrow> pid \<Rightarrow> login_data \<Rightarrow> unit au" where
  "ValidateLoginData C p loginData =
    (if LocalAuthMode C then retM () else ValidatePretendoLoginData C p loginData (NEXTokenAESKey C))"

end
