(* ===== verification/Stations.thy ===== *)
theory Stations
  imports Nex_Types
begin

text \<open>
  Station URLs. They are the library's (\<open>types.StationURL\<close>): their type is a parameter, and the
  operations that the handlers use on them are the fields of \<open>station_lib\<close>. A getter that may find
  no parameter returns an option, as its second result says in the code. \<open>URL\<close> gives the text;
  \<open>ThroughCopy f u\<close> is a URL \<open>u\<close> after \<open>f\<close> ran on a structure copy of it.
\<close>

record 'u station_lib =
  NewStationURL :: "string \<Rightarrow> 'u"
  URL :: "'u \<Rightarrow> string"
  Address :: "'u \<Rightarrow> string option"
  PortNumber :: "'u \<Rightarrow> u16 option"
  NATFiltering :: "'u \<Rightarrow> u8 option"
  NATMapping :: "'u \<Rightarrow> u8 option"
  RVConnectionID :: "'u \<Rightarrow> u32 option"
  IsPublic :: "'u \<Rightarrow> bool"
  SetURLType :: "u8 \<Rightarrow> 'u \<Rightarrow> 'u"
  SetAddress :: "string \<Rightarrow> 'u \<Rightarrow> 'u"
  SetPortNumber :: "u16 \<Rightarrow> 'u \<Rightarrow> 'u"
  SetNATFiltering :: "u8 \<Rightarrow> 'u \<Rightarrow> 'u"
  SetNATMapping :: "u8 \<Rightarrow> 'u \<Rightarrow> 'u"
  SetStationType :: "u8 \<Rightarrow> 'u \<Rightarrow> 'u"
  SetPrincipalID :: "pid \<Rightarrow> 'u \<Rightarrow> 'u"
  SetRVConnectionID :: "u32 \<Rightarrow> 'u \<Rightarrow> 'u"
  SetConnectionID :: "u8 \<Rightarrow> 'u \<Rightarrow> 'u"
  SetStreamID :: "u8 \<Rightarrow> 'u \<Rightarrow> 'u"
  SetStreamType :: "u8 \<Rightarrow> 'u \<Rightarrow> 'u"
  ThroughCopy :: "('u \<Rightarrow> 'u) \<Rightarrow> 'u \<Rightarrow> 'u"
  UnknownNATFiltering :: u8
  UnknownNATMapping :: u8
  StationURLFlagPublic :: u8
  StationURLFlagBehindNAT :: u8
  StationURLPRUDPS :: u8
  StreamTypeRVSecure :: u8

section \<open>A concrete library\<close>

text \<open>Station URLs with the parameters that the handlers read and write.\<close>

record sample_station =
  st_text :: string
  st_address :: "string option"
  st_port :: "u16 option"
  st_natf :: "u8 option"
  st_natm :: "u8 option"
  st_rvcid :: "u32 option"
  st_pid :: "pid option"
  st_type :: u8

definition sample_U :: "sample_station station_lib" where
  "sample_U = \<lparr> NewStationURL = (\<lambda>s. \<lparr> st_text = s, st_address = None, st_port = None, st_natf = None, st_natm = None,
       st_rvcid = None, st_pid = None, st_type = 0 \<rparr>), URL = st_text,
     Address = st_address, PortNumber = st_port, NATFiltering = st_natf, NATMapping = st_natm,
     RVConnectionID = st_rvcid, IsPublic = (\<lambda>u. st_type u AND 2 = 2), SetURLType = (\<lambda>x u. u),
     SetAddress = (\<lambda>x u. u\<lparr>st_address := Some x\<rparr>), SetPortNumber = (\<lambda>x u. u\<lparr>st_port := Some x\<rparr>),
     SetNATFiltering = (\<lambda>x u. u\<lparr>st_natf := Some x\<rparr>), SetNATMapping = (\<lambda>x u. u\<lparr>st_natm := Some x\<rparr>),
     SetStationType = (\<lambda>x u. u\<lparr>st_type := x\<rparr>), SetPrincipalID = (\<lambda>x u. u\<lparr>st_pid := Some x\<rparr>),
     SetRVConnectionID = (\<lambda>x u. u\<lparr>st_rvcid := Some x\<rparr>), SetConnectionID = (\<lambda>x u. u), SetStreamID = (\<lambda>x u. u),
     SetStreamType = (\<lambda>x u. u), ThroughCopy = (\<lambda>f u. f u), UnknownNATFiltering = 0, UnknownNATMapping = 0,
     StationURLFlagPublic = 2, StationURLFlagBehindNAT = 1, StationURLPRUDPS = 1, StreamTypeRVSecure = 10 \<rparr>"

end
