(* ===== verification/Ticket_Granting.thy ===== *)
theory Ticket_Granting
  imports Accounts Stations
begin

text \<open>
  The ticket granting protocol (\<open>ticket-granting/\<close>) and its configuration by
  \<open>nex/authentication.go\<close>: a player logs in on the authentication endpoint and gets a Kerberos
  ticket for the secure server. The protocol reports most errors inside a successful response.
\<close>

section \<open>Tickets\<close>

record kerberos_internal =
  ki_Issued :: u64
  ki_SourcePID :: pid
  ki_SessionKey :: bytes

record kerberos_ticket =
  kt_SessionKey :: bytes
  kt_TargetPID :: pid
  kt_InternalData :: bytes

record 'u rv_connection_data =
  rv_StationURL :: 'u
  rv_SpecialProtocols :: "u8 list"
  rv_StationURLSpecialProtocols :: 'u
  rv_Time :: u64
  rv_StructureVersion :: u8

text \<open>
  The library's part: the derivation of a key from a password, the encryption of the two parts of
  a ticket (which may fail, and may draw random bytes), the encoding of a date, an empty
  \<open>RVConnectionData\<close>, and the comparison of the configured library version with 3.5.0.
\<close>

record 'u kerb_lib =
  DeriveKerberosKey :: "pid \<Rightarrow> string \<Rightarrow> bytes"
  EncryptInternalData :: "kerberos_internal \<Rightarrow> bytes \<Rightarrow> bytes au"
  EncryptTicket :: "kerberos_ticket \<Rightarrow> bytes \<Rightarrow> bytes au"
  DateTime_Now :: "int \<Rightarrow> u64"
  NewRVConnectionData :: "'u rv_connection_data"
  MainAtLeast_3_5_0 :: bool

text \<open>\<open>rand.Read\<close> fills a slice; \<open>au_random_faults\<close> says which calls fail.\<close>

definition rand_Read :: "nat \<Rightarrow> bytes au" where
  "rand_Read n s = (case au_random_faults s of
      True # faults \<Rightarrow> (Err Core_Unknown, s\<lparr>au_random_faults := faults\<rparr>)
    | _ \<Rightarrow> (Ok (map (\<lambda>i. au_random s (au_random_pos s + i)) [0..<n]),
        s\<lparr>au_random_pos := au_random_pos s + n, au_random_faults := tl (au_random_faults s)\<rparr>))"

text \<open>A call whose Go \<open>error\<close> the caller replaces with an error of its own.\<close>

definition or_fail :: "'a au \<Rightarrow> result_code \<Rightarrow> ('a \<Rightarrow> 'b au) \<Rightarrow> 'b au" where
  "or_fail m e k = bindM (catchM m) (\<lambda>r. case r of Inl _ \<Rightarrow> throwM e | Inr a \<Rightarrow> k a)"

definition generateTicket ::
  "'u kerb_lib \<Rightarrow> account option \<Rightarrow> account option \<Rightarrow> nat \<Rightarrow> bytes au" where
  "generateTicket K source target sessionKeyLength = (case (source, target) of
     (Some source, Some target) \<Rightarrow>
       let sourceKey = DeriveKerberosKey K (acc_PID source) (acc_Password source);
           targetKey = DeriveKerberosKey K (acc_PID target) (acc_Password target) in
       or_fail (rand_Read sessionKeyLength) Authentication_Unknown (\<lambda>sessionKey.
       bindM (getM au_now) (\<lambda>now.
       or_fail (EncryptInternalData K \<lparr> ki_Issued = DateTime_Now K now, ki_SourcePID = acc_PID source,
           ki_SessionKey = sessionKey \<rparr> targetKey) Authentication_Unknown (\<lambda>encryptedTicketInternalData.
       or_fail (EncryptTicket K \<lparr> kt_SessionKey = sessionKey, kt_TargetPID = acc_PID target,
           kt_InternalData = encryptedTicketInternalData \<rparr> sourceKey) Authentication_Unknown retM)))
   | _ \<Rightarrow> throwM Authentication_Unknown)"

section \<open>The protocol\<close>

record 'u tg_protocol =
  tg_SecureStationURL :: 'u
  tg_SpecialProtocols :: "u8 list"
  tg_StationURLSpecialProtocols :: 'u
  tg_BuildName :: string
  tg_allowInsecureLoginMethod :: bool
  tg_SessionKeyLength :: nat
  tg_SecureServerAccount :: "account option"
  tg_ValidateLoginData :: "(pid \<Rightarrow> login_data \<Rightarrow> unit au) option"

definition DisableInsecureLogin :: "'u tg_protocol \<Rightarrow> 'u tg_protocol" where
  "DisableInsecureLogin P = P\<lparr>tg_allowInsecureLoginMethod := False\<rparr>"

definition EnableInsecureLogin :: "'u tg_protocol \<Rightarrow> 'u tg_protocol" where
  "EnableInsecureLogin P = P\<lparr>tg_allowInsecureLoginMethod := True\<rparr>"

definition SetPretendoValidation :: "auth_config \<Rightarrow> bytes \<Rightarrow> 'u tg_protocol \<Rightarrow> 'u tg_protocol" where
  "SetPretendoValidation C aesKey P =
     P\<lparr>tg_ValidateLoginData := Some (\<lambda>p loginData. ValidatePretendoLoginData C p loginData aesKey)\<rparr>"

definition new_tg_protocol :: "'u station_lib \<Rightarrow> 'u tg_protocol" where
  "new_tg_protocol U = DisableInsecureLogin
     \<lparr> tg_SecureStationURL = NewStationURL U ''prudp:/'', tg_SpecialProtocols = [],
       tg_StationURLSpecialProtocols = NewStationURL U [], tg_BuildName = [],
       tg_allowInsecureLoginMethod = False, tg_SessionKeyLength = 32, tg_SecureServerAccount = None,
       tg_ValidateLoginData = None \<rparr>"

text \<open>
  \<open>nex/authentication.go\<close>: the secure server's address and port come from the environment, with
  \<open>localhost\<close> for an unset host; a port keeps its lower 16 bits.
\<close>

definition secure_station_url :: "'u station_lib \<Rightarrow> string \<Rightarrow> int \<Rightarrow> 'u" where
  "secure_station_url U secureHost securePort =
     SetStationType U (StationURLFlagPublic U) (SetStreamType U (StreamTypeRVSecure U) (SetStreamID U 1
       (SetPrincipalID U 2 (SetConnectionID U 1 (SetPortNumber U (word_of_int securePort)
         (SetAddress U (if secureHost = [] then ''localhost'' else secureHost)
           (SetURLType U (StationURLPRUDPS U) (NewStationURL U []))))))))"

definition server_ticket_granting :: "auth_config \<Rightarrow> 'u station_lib \<Rightarrow> string \<Rightarrow> int \<Rightarrow> 'u tg_protocol" where
  "server_ticket_granting C U secureHost securePort = (new_tg_protocol U)
     \<lparr>tg_ValidateLoginData := Some (ValidateLoginData C),
      tg_SecureStationURL := secure_station_url U secureHost securePort,
      tg_BuildName := [],
      tg_SecureServerAccount := Some (SecureServerAccount C)\<rparr>"

section \<open>Handlers\<close>

datatype tg_result = QSuccess result_code | QError result_code

datatype 'u tg_body =
    TResult tg_result
  | TPID pid
  | TBuffer bytes
  | TConnectionData "'u rv_connection_data"
  | TString string

datatype tg_method = MethodLogin | MethodLoginEx | MethodRequestTicket

type_synonym 'u tg_response = "(tg_method, 'u tg_body) rmc_response"

definition connection_data :: "'u kerb_lib \<Rightarrow> 'u tg_protocol \<Rightarrow> int \<Rightarrow> 'u rv_connection_data" where
  "connection_data K P now = (NewRVConnectionData K)
     \<lparr>rv_StationURL := tg_SecureStationURL P, rv_SpecialProtocols := tg_SpecialProtocols P,
      rv_StationURLSpecialProtocols := tg_StationURLSpecialProtocols P, rv_Time := DateTime_Now K now,
      rv_StructureVersion := (if MainAtLeast_3_5_0 K then 1 else rv_StructureVersion (NewRVConnectionData K))\<rparr>"

text \<open>
  The response of both login methods: what the code decides in \<open>errorCode\<close> is the sum. The secure
  server's account is looked up by its name, which is read through a pointer.
\<close>

definition login_response ::
  "'u kerb_lib \<Rightarrow> 'u tg_protocol \<Rightarrow> tg_method \<Rightarrow> u32 \<Rightarrow> result_code + (account \<times> bytes) \<Rightarrow> 'u tg_response au" where
  "login_response K P method callID r = (case r of
     Inl errorCode \<Rightarrow> retM (rmcSuccess TicketGranting_Protocol method callID
       [TResult (QError errorCode), TPID 0, TBuffer [], TConnectionData (NewRVConnectionData K), TString []])
   | Inr (source, encryptedTicket) \<Rightarrow> bindM (getM au_now) (\<lambda>now.
       retM (rmcSuccess TicketGranting_Protocol method callID
         [TResult (QSuccess Core_Unknown), TPID (acc_PID source), TBuffer encryptedTicket,
          TConnectionData (connection_data K P now), TString (tg_BuildName P)])))"

definition target_account :: "auth_config \<Rightarrow> 'u tg_protocol \<Rightarrow> account au" where
  "target_account C P = (case tg_SecureServerAccount P of
     None \<Rightarrow> panicM | Some a \<Rightarrow> AccountDetailsByUsername C (acc_Username a))"

definition login ::
  "auth_config \<Rightarrow> 'u kerb_lib \<Rightarrow> 'u tg_protocol \<Rightarrow> bool \<Rightarrow> u32 \<Rightarrow> string \<Rightarrow> 'u tg_response au" where
  "login C K P err callID strUserName =
    (if err then throwM Core_InvalidArgument
     else bindM (catchM
       (if \<not> tg_allowInsecureLoginMethod P then throwM Authentication_ValidationFailed
        else bindM (AccountDetailsByUsername C strUserName) (\<lambda>source.
          bindM (target_account C P) (\<lambda>target.
          bindM (generateTicket K (Some source) (Some target) (tg_SessionKeyLength P)) (\<lambda>encryptedTicket.
          retM (source, encryptedTicket))))))
       (login_response K P MethodLogin callID))"

definition loginEx ::
  "auth_config \<Rightarrow> 'u kerb_lib \<Rightarrow> 'u tg_protocol \<Rightarrow> bool \<Rightarrow> u32 \<Rightarrow> string \<Rightarrow> login_data \<Rightarrow> 'u tg_response au" where
  "loginEx C K P err callID strUserName oExtraData = (case tg_ValidateLoginData P of
     None \<Rightarrow> throwM Core_NotImplemented
   | Some validate \<Rightarrow>
       if err then throwM Core_InvalidArgument
       else bindM (catchM
         (bindM (AccountDetailsByUsername C strUserName) (\<lambda>source.
          bindM (validate (acc_PID source) oExtraData) (\<lambda>_.
          bindM (target_account C P) (\<lambda>target.
          bindM (generateTicket K (Some source) (Some target) (tg_SessionKeyLength P)) (\<lambda>encryptedTicket.
          retM (source, encryptedTicket)))))))
         (login_response K P MethodLoginEx callID))"

definition requestTicket ::
  "auth_config \<Rightarrow> 'u kerb_lib \<Rightarrow> 'u tg_protocol \<Rightarrow> bool \<Rightarrow> u32 \<Rightarrow> pid \<Rightarrow> pid \<Rightarrow> 'u tg_response au" where
  "requestTicket C K P err callID idSource idTarget =
    (if err then throwM Core_InvalidArgument
     else bindM (catchM
       (bindM (AccountDetailsByPID C idSource) (\<lambda>source.
        bindM (AccountDetailsByPID C idTarget) (\<lambda>target.
        generateTicket K (Some source) (Some target) (tg_SessionKeyLength P)))))
       (\<lambda>r. retM (rmcSuccess TicketGranting_Protocol MethodRequestTicket callID
          (case r of
             Inl errorCode \<Rightarrow> [TResult (QError errorCode), TBuffer []]
           | Inr encryptedTicket \<Rightarrow> [TResult (QSuccess Core_Unknown), TBuffer encryptedTicket]))))"

section \<open>The server\<close>

datatype tg_request =
    Login bool u32 string
  | LoginEx bool u32 string login_data
  | RequestTicket bool u32 pid pid

fun handle_ticket_granting :: "auth_config \<Rightarrow> 'u kerb_lib \<Rightarrow> 'u tg_protocol \<Rightarrow> tg_request \<Rightarrow> 'u tg_response au" where
  "handle_ticket_granting C K P (Login err callID name) = login C K P err callID name"
| "handle_ticket_granting C K P (LoginEx err callID name extra) = loginEx C K P err callID name extra"
| "handle_ticket_granting C K P (RequestTicket err callID source target) =
     requestTicket C K P err callID source target"

end
