(* ===== verification/Startup.thy ===== *)
theory Startup
  imports Ticket_Granting
begin

text \<open>
  The start of the process: \<open>init.go\<close> reads the environment, refuses to start with a bad one, and
  fills the variables of \<open>src/globals\<close>; \<open>nex/authentication.go\<close> and \<open>nex/secure.go\<close> read the ports
  and the host once more when they start to listen. The environment is a function, with the empty
  string for a variable that is not set, as \<open>os.Getenv\<close> has it; it includes what \<open>godotenv.Load\<close>
  took from the file \<open>.env\<close>.
\<close>

section \<open>Strings\<close>

text \<open>
  \<open>strings.TrimSpace\<close>: the white space of Unicode at both ends, as the bytes of its UTF-8 encoding.
\<close>

definition white_spaces :: "string list" where
  "white_spaces = map (\<lambda>n. [char_of (n :: nat)]) [9, 10, 11, 12, 13, 32] @ map (map (char_of :: nat \<Rightarrow> char))
     ([[0xC2, 0x85], [0xC2, 0xA0], [0xE1, 0x9A, 0x80]] @ map (\<lambda>n. [0xE2, 0x80, n]) [0x80..<0x8B] @
      [[0xE2, 0x80, 0xA8], [0xE2, 0x80, 0xA9], [0xE2, 0x80, 0xAF], [0xE2, 0x81, 0x9F], [0xE3, 0x80, 0x80]])"

definition leading :: "string list \<Rightarrow> string \<Rightarrow> string option" where
  "leading ws s = find (\<lambda>w. w \<noteq> [] \<and> take (length w) s = w) ws"

function trim_left :: "string list \<Rightarrow> string \<Rightarrow> string" where
  "trim_left ws s = (case leading ws s of None \<Rightarrow> s | Some w \<Rightarrow> trim_left ws (drop (length w) s))"
  by auto
termination
proof (relation "measure (\<lambda>(ws, s). length s)")
  fix ws s w assume "leading ws s = Some w"
  then have "w \<noteq> [] \<and> take (length w) s = w" by (auto simp: leading_def find_Some_iff)
  then show "((ws, drop (length w) s), ws, s) \<in> measure (\<lambda>(ws, s). length s)" by (cases s) auto
qed simp

declare trim_left.simps [simp del]

definition TrimSpace :: "string \<Rightarrow> string" where
  "TrimSpace s = rev (trim_left (map rev white_spaces) (rev (trim_left white_spaces s)))"

text \<open>\<open>hex.DecodeString\<close>; its errors are \<open>None\<close>.\<close>

definition hex_value :: "char \<Rightarrow> nat option" where
  "hex_value c = (if is_digit c then Some (nat (digit_value c))
     else if c \<in> set ''abcdef'' then Some (of_char c - 87)
     else if c \<in> set ''ABCDEF'' then Some (of_char c - 55) else None)"

fun hex_DecodeString :: "string \<Rightarrow> bytes option" where
  "hex_DecodeString [] = Some []"
| "hex_DecodeString (a # b # cs) = (case (hex_value a, hex_value b, hex_DecodeString cs) of
     (Some x, Some y, Some bs) \<Rightarrow> Some (word_of_nat (16 * x + y) # bs) | _ \<Rightarrow> None)"
| "hex_DecodeString [_] = None"

text \<open>
  The number that \<open>port, _ := strconv.Atoi(s)\<close> keeps when it ignores the error: zero for what is no
  number, the nearest 64-bit integer for one that is out of range.
\<close>

definition Atoi_value :: "string \<Rightarrow> int" where
  "Atoi_value s =
    (let signed = s \<noteq> [] \<and> (hd s = CHR ''-'' \<or> hd s = CHR ''+'') in
     case digits_value (if signed then tl s else s) of
       None \<Rightarrow> 0
     | Some n \<Rightarrow> max (- (2 ^ 63)) (min (2 ^ 63 - 1) (if signed \<and> hd s = CHR ''-'' then - n else n)))"

section \<open>The environment\<close>

type_synonym environment = "string \<Rightarrow> string"

text \<open>\<open>None\<close> is the end of the process by \<open>os.Exit(1)\<close>.\<close>

definition requiredEnv :: "environment \<Rightarrow> string \<Rightarrow> string option" where
  "requiredEnv env name = (let value = TrimSpace (env name) in if value = [] then None else Some value)"

definition requiredPort :: "environment \<Rightarrow> string \<Rightarrow> unit option" where
  "requiredPort env name = (case requiredEnv env name of
     None \<Rightarrow> None
   | Some value \<Rightarrow> (case Atoi value of
       None \<Rightarrow> None
     | Some port \<Rightarrow> if port < 1 \<or> port > 65535 then None else Some ()))"

definition decoded_key :: "environment \<Rightarrow> string \<Rightarrow> (bytes \<Rightarrow> bool) \<Rightarrow> bytes option" where
  "decoded_key env name ok = (case requiredEnv env name of
     None \<Rightarrow> None
   | Some value \<Rightarrow> (case hex_DecodeString value of
       None \<Rightarrow> None | Some key \<Rightarrow> if ok key then Some key else None))"

text \<open>
  The first half of \<open>init\<close>: the variables of \<open>src/globals\<close>, over the block decryption and the HMAC.
\<close>

definition read_config ::
  "(bytes \<Rightarrow> bytes \<Rightarrow> bytes) \<Rightarrow> (bytes \<Rightarrow> bytes \<Rightarrow> bytes) \<Rightarrow> environment \<Rightarrow> auth_config option" where
  "read_config decrypt hmac env =
    (let kerberos = TrimSpace (env ''PN_HYRULEWARRIORS_KERBEROS_PASSWORD'');
         C = \<lparr> KerberosPassword = (if kerberos \<noteq> [] then kerberos else ''password''), NEXTokenAESKey = [],
               NEXPasswordSecret = [], LocalAuthMode = env ''PN_HYRULEWARRIORS_LOCAL_MODE'' = ''1'',
               AES_DecryptBlock = decrypt, HMAC_SHA256 = hmac \<rparr> in
     if LocalAuthMode C then Some C
     else case decoded_key env ''PN_HYRULEWARRIORS_NEX_TOKEN_AES_KEY'' (\<lambda>key. length key = 32) of
         None \<Rightarrow> None
       | Some aesKey \<Rightarrow> (case decoded_key env ''PN_HYRULEWARRIORS_NEX_PASSWORD_SECRET'' (\<lambda>secret. \<not> length secret < 32) of
           None \<Rightarrow> None
         | Some secret \<Rightarrow> Some (C\<lparr>NEXTokenAESKey := aesKey, NEXPasswordSecret := secret\<rparr>)))"

section \<open>The started servers\<close>

record 'u server_setup =
  su_config :: auth_config
  su_auth_port :: int
  su_secure_port :: int
  su_ticket_granting :: "'u tg_protocol"

text \<open>
  The process: the configuration, the checks of ports and host, the database (whose connection
  either works or ends the process), and then the two servers with what they read for themselves.
\<close>

definition start_servers ::
  "(bytes \<Rightarrow> bytes \<Rightarrow> bytes) \<Rightarrow> (bytes \<Rightarrow> bytes \<Rightarrow> bytes) \<Rightarrow> 'u station_lib \<Rightarrow> bool \<Rightarrow> environment \<Rightarrow> 'u server_setup option" where
  "start_servers decrypt hmac U postgres env = (case read_config decrypt hmac env of
     None \<Rightarrow> None
   | Some C \<Rightarrow>
       if requiredPort env ''PN_HYRULEWARRIORS_AUTH_PORT'' = None then None
       else if requiredPort env ''PN_HYRULEWARRIORS_SECURE_PORT'' = None then None
       else if requiredEnv env ''PN_HYRULEWARRIORS_SECURE_HOST'' = None then None
       else if \<not> postgres then None
       else let securePort = Atoi_value (env ''PN_HYRULEWARRIORS_SECURE_PORT'') in
         Some \<lparr> su_config = C, su_auth_port = Atoi_value (env ''PN_HYRULEWARRIORS_AUTH_PORT''),
           su_secure_port = securePort,
           su_ticket_granting = server_ticket_granting C U (env ''PN_HYRULEWARRIORS_SECURE_HOST'') securePort \<rparr>)"

end
