(* ===== verification/Authentication_Runs.thy ===== *)
theory Authentication_Runs
  imports Ticket_Granting
begin

text \<open>
  Runs of the account lookups, the token validation and the ticket generation: what each of them
  returns, and that the first two leave the state alone.
\<close>

section \<open>Lookups and validation only read\<close>

named_theorems reads_rules "operations that leave the state of the authentication alone"

lemma reads_password [reads_rules]: "keeps I (PasswordFromPID C p)"
  unfolding PasswordFromPID_def passwordFromPIDLocal_def by (intro keeps_rules)

lemma reads_by_pid [reads_rules]: "keeps I (AccountDetailsByPID C p)"
  unfolding AccountDetailsByPID_def by (intro keeps_rules reads_rules)

lemma reads_by_username [reads_rules]: "keeps I (AccountDetailsByUsername C name)"
  unfolding AccountDetailsByUsername_def by (intro keeps_rules reads_rules)

lemma reads_target [reads_rules]: "keeps I (target_account C P)"
  unfolding target_account_def by (intro keeps_rules reads_rules)

lemma reads_decrypt [reads_rules]: "keeps I (DecryptToken C bs key)"
  unfolding DecryptToken_def by (intro keeps_rules)

lemma reads_validate_token [reads_rules]: "keeps I (ValidatePretendoLoginData C p d key)"
  unfolding ValidatePretendoLoginData_def by (intro keeps_rules reads_rules)

lemma reads_validate [reads_rules]: "keeps I (ValidateLoginData C p d)"
  unfolding ValidateLoginData_def by (intro keeps_rules reads_rules)

lemma reads_run: "(\<And>I. keeps I m) \<Longrightarrow> m s = (r, t) \<Longrightarrow> t = s"
  using keeps_run [of "\<lambda>u. u = s" m s r t] by simp

lemmas account_state = reads_run [OF reads_by_username] reads_run [OF reads_by_pid] reads_run [OF reads_target]
  reads_run [OF reads_validate] reads_run [OF reads_password]

section \<open>User names\<close>

lemma decimal_digit_head: "is_digit (hd (decimal n))"
  using decimal_digits [of n] by (metis list.set_sel(1) list_all_iff)

lemma sign_not_digit: "\<not> is_digit (CHR ''-'')" "\<not> is_digit (CHR ''+'')" "\<not> is_digit (CHR ''Q'')"
  by (simp_all add: is_digit_def digit_value_def of_char_def horner_sum_eq_sum)

lemma digits_value_decimal [simp]: "digits_value (decimal n) = Some (int n)"
  using decimal_digits [of n] by (simp add: digits_value_def)

lemma decimal_not_signed: "decimal n \<noteq> [] \<and> hd (decimal n) \<noteq> CHR ''-'' \<and> hd (decimal n) \<noteq> CHR ''+'' \<and> hd (decimal n) \<noteq> CHR ''Q''"
  using decimal_digit_head [of n] decimal_digits [of n] sign_not_digit by metis

lemma Atoi_Itoa: "- (2 ^ 63) \<le> i \<Longrightarrow> i < 2 ^ 63 \<Longrightarrow> Atoi (Itoa i) = Some i"
  using decimal_not_signed [of "nat i"] by (simp add: Atoi_def Itoa_def)

lemma sint_range: "- (2 ^ 63) \<le> sint (p :: pid)" "sint (p :: pid) < 2 ^ 63"
  using sint_greater_eq [of p] sint_less [of p] by simp_all

lemma Itoa_not_server: "Itoa i \<noteq> ''Quazal Authentication''" "Itoa i \<noteq> ''Quazal Rendez-Vous''"
proof -
  have "hd (Itoa i) \<noteq> CHR ''Q''" using decimal_not_signed [of "nat i"] by (simp add: Itoa_def)
  then show "Itoa i \<noteq> ''Quazal Authentication''" "Itoa i \<noteq> ''Quazal Rendez-Vous''" by auto
qed

section \<open>Tickets\<close>

text \<open>The session key: the next 32 bytes of the random source.\<close>

definition next_key :: "nat \<Rightarrow> auth_world \<Rightarrow> bytes" where
  "next_key n s = map (\<lambda>i. au_random s (au_random_pos s + i)) [0..<n]"

lemma length_next_key [simp]: "length (next_key n s) = n"
  by (simp add: next_key_def)

lemma rand_Read_Ok: "rand_Read n s = (Ok key, t) \<Longrightarrow> key = next_key n s \<and> au_now t = au_now s"
  by (auto simp: rand_Read_def next_key_def split: list.splits bool.splits)

text \<open>The two decryptions undo what the library encrypts.\<close>

definition tickets_decrypt ::
  "'u kerb_lib \<Rightarrow> (bytes \<Rightarrow> bytes \<Rightarrow> kerberos_internal option) \<Rightarrow> (bytes \<Rightarrow> bytes \<Rightarrow> kerberos_ticket option) \<Rightarrow> bool" where
  "tickets_decrypt K decI decT \<longleftrightarrow>
     (\<forall>x key s c t. EncryptInternalData K x key s = (Ok c, t) \<longrightarrow> decI key c = Some x) \<and>
     (\<forall>x key s c t. EncryptTicket K x key s = (Ok c, t) \<longrightarrow> decT key c = Some x)"

lemma or_fail_OkD:
  assumes "or_fail m e k s = (Ok b, t)"
  obtains a s' where "m s = (Ok a, s')" and "k a s' = (Ok b, t)"
  using assms by (auto simp: or_fail_def bindM_def catchM_def throwM_def split: prod.splits outcome.splits sum.splits)

text \<open>
  The ticket of a successful generation is for the target; the client reads the session key with
  its own key, and the target reads the same key and the client's identity with the target's key.
\<close>

definition agreed_ticket ::
  "'u kerb_lib \<Rightarrow> (bytes \<Rightarrow> bytes \<Rightarrow> kerberos_internal option) \<Rightarrow> (bytes \<Rightarrow> bytes \<Rightarrow> kerberos_ticket option) \<Rightarrow>
   account \<Rightarrow> account \<Rightarrow> int \<Rightarrow> bytes \<Rightarrow> bytes \<Rightarrow> bool" where
  "agreed_ticket K decI decT source target now sessionKey ticket \<longleftrightarrow> (\<exists>internal.
     decT (DeriveKerberosKey K (acc_PID source) (acc_Password source)) ticket =
       Some \<lparr> kt_SessionKey = sessionKey, kt_TargetPID = acc_PID target, kt_InternalData = internal \<rparr> \<and>
     decI (DeriveKerberosKey K (acc_PID target) (acc_Password target)) internal =
       Some \<lparr> ki_Issued = DateTime_Now K now, ki_SourcePID = acc_PID source, ki_SessionKey = sessionKey \<rparr>)"

lemma generateTicket_agreed:
  assumes "tickets_decrypt K decI decT"
    and "generateTicket K (Some source) (Some target) n s = (Ok ticket, t)"
  shows "agreed_ticket K decI decT source target (au_now s) (next_key n s) ticket"
proof -
  from assms(2) obtain key u where key: "rand_Read n s = (Ok key, u)" and
    rest: "bindM (getM au_now) (\<lambda>now. or_fail (EncryptInternalData K \<lparr> ki_Issued = DateTime_Now K now,
        ki_SourcePID = acc_PID source, ki_SessionKey = key \<rparr> (DeriveKerberosKey K (acc_PID target) (acc_Password target)))
        Authentication_Unknown (\<lambda>internal. or_fail (EncryptTicket K \<lparr> kt_SessionKey = key, kt_TargetPID = acc_PID target,
        kt_InternalData = internal \<rparr> (DeriveKerberosKey K (acc_PID source) (acc_Password source)))
        Authentication_Unknown retM)) u = (Ok ticket, t)"
    unfolding generateTicket_def Let_def prod.case option.case by (rule or_fail_OkD)
  from rand_Read_Ok [OF key] have k: "key = next_key n s" and now: "au_now u = au_now s" by simp_all
  from rest [unfolded run_bind_get now] obtain internal v where
    internal: "EncryptInternalData K \<lparr> ki_Issued = DateTime_Now K (au_now s), ki_SourcePID = acc_PID source, ki_SessionKey = key \<rparr>
        (DeriveKerberosKey K (acc_PID target) (acc_Password target)) u = (Ok internal, v)" and
    rest: "or_fail (EncryptTicket K \<lparr> kt_SessionKey = key, kt_TargetPID = acc_PID target, kt_InternalData = internal \<rparr>
        (DeriveKerberosKey K (acc_PID source) (acc_Password source))) Authentication_Unknown retM v = (Ok ticket, t)"
    by (rule or_fail_OkD)
  from rest obtain w where
    "EncryptTicket K \<lparr> kt_SessionKey = key, kt_TargetPID = acc_PID target, kt_InternalData = internal \<rparr>
        (DeriveKerberosKey K (acc_PID source) (acc_Password source)) v = (Ok ticket, w)"
    by (rule or_fail_OkD) (simp add: retM_def)
  then show ?thesis
    using internal assms(1) unfolding agreed_ticket_def tickets_decrypt_def k by blast
qed

text \<open>With a working random source and encryption, a ticket is generated.\<close>

definition encrypts :: "'u kerb_lib \<Rightarrow> bool" where
  "encrypts K \<longleftrightarrow> (\<forall>x key. always_ok (EncryptInternalData K x key)) \<and> (\<forall>x key. always_ok (EncryptTicket K x key))"

lemma generateTicket_succeeds:
  assumes "encrypts K" and "au_random_faults s = []"
  obtains ticket t where "generateTicket K (Some source) (Some target) n s = (Ok ticket, t)"
proof -
  obtain u where r: "rand_Read n s = (Ok (next_key n s), u)" and now: "au_now u = au_now s"
    using assms(2) by (simp add: rand_Read_def next_key_def)
  let ?x = "\<lparr> ki_Issued = DateTime_Now K (au_now s), ki_SourcePID = acc_PID source, ki_SessionKey = next_key n s \<rparr>"
  obtain internal v where i: "EncryptInternalData K ?x (DeriveKerberosKey K (acc_PID target) (acc_Password target)) u = (Ok internal, v)"
    using assms(1) unfolding encrypts_def always_ok_def by meson
  obtain ticket w where t: "EncryptTicket K \<lparr> kt_SessionKey = next_key n s, kt_TargetPID = acc_PID target, kt_InternalData = internal \<rparr>
      (DeriveKerberosKey K (acc_PID source) (acc_Password source)) v = (Ok ticket, w)"
    using assms(1) unfolding encrypts_def always_ok_def by meson
  have "generateTicket K (Some source) (Some target) n s = (Ok ticket, w)"
    by (simp add: generateTicket_def or_fail_def bindM_def catchM_def r i t now run_simps)
  then show thesis ..
qed

section \<open>The server's configuration\<close>

lemma run_target [run_simps]:
  "target_account C (server_ticket_granting C U host port) = retM (SecureServerAccount C)"
  by (simp add: target_account_def server_ticket_granting_def AccountDetailsByUsername_def SecureServerAccount_def
    AuthenticationServerAccount_def)

lemma server_config [simp]:
  "tg_SessionKeyLength (server_ticket_granting C U host port) = 32"
  "tg_ValidateLoginData (server_ticket_granting C U host port) = Some (ValidateLoginData C)"
  "tg_allowInsecureLoginMethod (server_ticket_granting C U host port) = False"
  "tg_BuildName (server_ticket_granting C U host port) = []"
  "tg_SecureStationURL (server_ticket_granting C U host port) = secure_station_url U host port"
  by (simp_all add: server_ticket_granting_def new_tg_protocol_def DisableInsecureLogin_def)

section \<open>Tokens\<close>

text \<open>
  The account server's side: the bytes of a token, padded to a whole number of blocks, encrypted,
  and preceded by the checksum of the bytes. Two of the carriers replace the three characters of
  base64 that a URL may not hold.
\<close>

definition token_bytes :: "nex_token \<Rightarrow> bytes" where
  "token_bytes tk = [SystemType tk, TokenType tk] @ le_bytes 4 (unat (UserPID tk)) @
     le_bytes 8 (unat (ExpireTime tk)) @ le_bytes 8 (unat (TitleID tk)) @ [AccessLevel tk]"

definition seal_token :: "(bytes \<Rightarrow> bytes) \<Rightarrow> nex_token \<Rightarrow> bytes" where
  "seal_token E tk = BigEndian_PutUint32 (crc32_Checksum (token_bytes tk)) @
     CBC_encrypt E (replicate 16 0) (token_bytes tk @ replicate 9 9)"

definition web_base64 :: "string \<Rightarrow> string" where
  "web_base64 s = map (\<lambda>c. if c = CHR ''+'' then CHR ''.'' else if c = CHR ''/'' then CHR ''-''
     else if c = CHR ''='' then CHR ''*'' else c) s"

definition carriers :: "bytes \<Rightarrow> login_data set" where
  "carriers bs = {NintendoLoginData (Base64_EncodeToString bs), AccountExtraInfo (web_base64 (Base64_EncodeToString bs)),
     AuthenticationInfo (web_base64 (Base64_EncodeToString bs))}"

lemma length_token_bytes [simp]: "length (token_bytes tk) = 23"
  by (simp add: token_bytes_def)

lemma read_token_bytes [simp]: "read_token (token_bytes tk) = Some tk"
proof -
  have lt: "unat (UserPID tk) < 256 ^ 4" "unat (ExpireTime tk) < 256 ^ 8" "unat (TitleID tk) < 256 ^ 8"
    using unsigned_less [of "UserPID tk", where 'a = nat] unsigned_less [of "ExpireTime tk", where 'a = nat]
      unsigned_less [of "TitleID tk", where 'a = nat] by simp_all
  show ?thesis
    using lt by (simp add: read_token_def token_bytes_def nth_append del: power_numeral)
qed

lemma Base64_chars: "c \<in> set (Base64_EncodeToString bs) \<Longrightarrow> c \<noteq> CHR ''.'' \<and> c \<noteq> CHR ''-'' \<and> c \<noteq> CHR ''*''"
  using encode_quanta_chars [of c std_alphabet "''=''" bs]
  by (auto simp: Base64_EncodeToString_def std_alphabet_length) (auto simp: std_alphabet_def)

lemma restore_web_base64: "restore_base64 (web_base64 (Base64_EncodeToString bs)) = Base64_EncodeToString bs"
proof -
  have "restore_base64 (web_base64 s) = s" if "\<And>c. c \<in> set s \<Longrightarrow> c \<noteq> CHR ''.'' \<and> c \<noteq> CHR ''-'' \<and> c \<noteq> CHR ''*''" for s
    using that by (induction s) (simp_all add: restore_base64_def web_base64_def)
  then show ?thesis using Base64_chars by blast
qed

lemma carried: "d \<in> carriers bs \<Longrightarrow> token_base64 d = Some (Base64_EncodeToString bs)"
  by (auto simp: carriers_def restore_web_base64)

text \<open>A block cipher of the account server that the configured key decrypts.\<close>

definition block_cipher :: "auth_config \<Rightarrow> (bytes \<Rightarrow> bytes) \<Rightarrow> bool" where
  "block_cipher C E \<longleftrightarrow> length (NEXTokenAESKey C) \<in> {16, 24, 32} \<and>
     (\<forall>b. length b = 16 \<longrightarrow> length (E b) = 16 \<and> AES_DecryptBlock C (NEXTokenAESKey C) (E b) = b)"

lemma DecryptToken_seal:
  assumes "block_cipher C E"
  shows "DecryptToken C (seal_token E tk) (NEXTokenAESKey C) = retM tk"
proof -
  let ?ps = "token_bytes tk @ replicate 9 9"
  let ?cs = "CBC_encrypt E (replicate 16 0) ?ps"
  have E: "length b = 16 \<Longrightarrow> length (E b) = 16" "length b = 16 \<Longrightarrow> AES_DecryptBlock C (NEXTokenAESKey C) (E b) = b" for b
    using assms by (simp_all add: block_cipher_def)
  have l: "length ?cs = 32" using CBC_length [of ?ps "replicate 16 0" E] E(1) by simp
  have D: "CBC_decrypt (AES_DecryptBlock C (NEXTokenAESKey C)) (replicate 16 0) ?cs = ?ps"
    by (rule CBC_round_trip) (use E in simp_all)
  have "length (NEXTokenAESKey C) \<in> {16, 24, 32}" using assms by (simp add: block_cipher_def)
  then show ?thesis
    using l D by (simp add: DecryptToken_def seal_token_def Let_def)
qed

section \<open>Successful logins and requests\<close>

lemma login_ticket:
  assumes "tickets_decrypt K decI decT"
    and "bindM (AccountDetailsByUsername C name) (\<lambda>source.
      bindM (ValidateLoginData C (acc_PID source) extra) (\<lambda>_.
      bindM (target_account C (server_ticket_granting C U host port)) (\<lambda>target.
      bindM (generateTicket K (Some source) (Some target) 32) (\<lambda>ticket. retM (source, ticket))))) s =
      (Ok (source, ticket), t)"
  shows "AccountDetailsByUsername C name s = (Ok source, s) \<and>
    ValidateLoginData C (acc_PID source) extra s = (Ok (), s) \<and>
    agreed_ticket K decI decT source (SecureServerAccount C) (au_now s) (next_key 32 s) ticket"
proof -
  from assms(2) obtain a s1 where a: "AccountDetailsByUsername C name s = (Ok a, s1)" and
    run: "bindM (ValidateLoginData C (acc_PID a) extra) (\<lambda>_.
      bindM (target_account C (server_ticket_granting C U host port)) (\<lambda>target.
      bindM (generateTicket K (Some a) (Some target) 32) (\<lambda>ticket. retM (a, ticket)))) s1 =
      (Ok (source, ticket), t)" by (rule bind_OkD)
  have s1: "s1 = s" using account_state(1) [OF a] .
  from run [unfolded s1] obtain v s2 where v: "ValidateLoginData C (acc_PID a) extra s = (Ok v, s2)" and
    run: "bindM (target_account C (server_ticket_granting C U host port)) (\<lambda>target.
      bindM (generateTicket K (Some a) (Some target) 32) (\<lambda>ticket. retM (a, ticket))) s2 =
      (Ok (source, ticket), t)" by (rule bind_OkD)
  have s2: "s2 = s" using account_state(4) [OF v] .
  from run [unfolded s2 run_target bind_ret] obtain tk w where
    g: "generateTicket K (Some a) (Some (SecureServerAccount C)) 32 s = (Ok tk, w)" and
    eq: "retM (a, tk) w = (Ok (source, ticket), t)" by (rule bind_OkD)
  from eq have "a = source" "tk = ticket" by (simp_all add: retM_def)
  then show ?thesis using generateTicket_agreed [OF assms(1) g] a v s1 s2 by simp
qed

lemma requested_ticket:
  assumes "tickets_decrypt K decI decT"
    and "bindM (AccountDetailsByPID C p) (\<lambda>source. bindM (AccountDetailsByPID C q) (\<lambda>target.
      generateTicket K (Some source) (Some target) 32)) s = (Ok ticket, t)"
  shows "\<exists>source target. AccountDetailsByPID C p s = (Ok source, s) \<and> AccountDetailsByPID C q s = (Ok target, s) \<and>
    agreed_ticket K decI decT source target (au_now s) (next_key 32 s) ticket"
proof -
  from assms(2) obtain a s1 where a: "AccountDetailsByPID C p s = (Ok a, s1)" and
    run: "bindM (AccountDetailsByPID C q) (\<lambda>target. generateTicket K (Some a) (Some target) 32) s1 = (Ok ticket, t)"
    by (rule bind_OkD)
  have s1: "s1 = s" using account_state(2) [OF a] .
  from run [unfolded s1] obtain b s2 where b: "AccountDetailsByPID C q s = (Ok b, s2)" and
    g: "generateTicket K (Some a) (Some b) 32 s2 = (Ok ticket, t)" by (rule bind_OkD)
  have s2: "s2 = s" using account_state(2) [OF b] .
  show ?thesis using generateTicket_agreed [OF assms(1) g [unfolded s2]] a b unfolding s1 s2 by blast
qed

section \<open>The verdict on a token, and the account of a player\<close>

lemma run_ValidateLoginData:
  assumes "\<not> LocalAuthMode C" and "block_cipher C E" and "d \<in> carriers (seal_token E tk)"
  shows "ValidateLoginData C p d s =
    (if TokenType tk \<noteq> 3 then Err Authentication_ValidationFailed
     else if uint (ExpireTime tk div 1000) * 1000000000 < au_now s then Err Authentication_TokenExpired
     else if ucast (UserPID tk) \<noteq> p then Err Authentication_PrincipalIDUnmatched
     else if sint (AccessLevel tk) < 0 then Err RendezVous_AccountDisabled
     else Ok (), s)"
  using assms(1) by (simp add: ValidateLoginData_def ValidatePretendoLoginData_def carried [OF assms(3)]
    Base64_round_trip DecryptToken_seal [OF assms(2)] run_simps)

definition derived_password :: "auth_config \<Rightarrow> pid \<Rightarrow> string" where
  "derived_password C p = RawURLEncoding_EncodeToString (HMAC_SHA256 C (NEXPasswordSecret C) (le_bytes 8 (unat p)))"

lemma Atoi_decimal: "n < 2 ^ 63 \<Longrightarrow> Atoi (decimal n) = Some (int n)"
  using Atoi_Itoa [of "int n"] by (simp add: Itoa_def)

lemma run_player_account:
  assumes "\<not> LocalAuthMode C" and "32 \<le> length (NEXPasswordSecret C)"
  shows "AccountDetailsByUsername C (decimal (unat (u :: u32))) s =
    (Ok \<lparr> acc_PID = ucast u, acc_Username = decimal (unat u), acc_Password = derived_password C (ucast u) \<rparr>, s)"
proof -
  have "unat u < 2 ^ 63" using unsigned_less [of u, where 'a = nat] by simp
  moreover have "(word_of_int (int (unat u)) :: pid) = ucast u" by (simp add: unsigned_ucast_eq)
  moreover have "decimal (unat u) \<noteq> ''Quazal Authentication''" "decimal (unat u) \<noteq> ''Quazal Rendez-Vous''"
    using Itoa_not_server [of "int (unat u)"] by (simp_all add: Itoa_def)
  ultimately show ?thesis
    using assms by (simp add: AccountDetailsByUsername_def AuthenticationServerAccount_def SecureServerAccount_def
      Atoi_decimal PasswordFromPID_def derived_password_def run_simps)
qed

lemma run_account_by_pid:
  assumes "\<not> LocalAuthMode C" and "32 \<le> length (NEXPasswordSecret C)" and "p \<noteq> 1" and "p \<noteq> 2"
  shows "AccountDetailsByPID C p s =
    (Ok \<lparr> acc_PID = p, acc_Username = Itoa (sint p), acc_Password = derived_password C p \<rparr>, s)"
  using assms by (simp add: AccountDetailsByPID_def AuthenticationServerAccount_def SecureServerAccount_def
    PasswordFromPID_def derived_password_def run_simps)

end
