(* ===== verification/Authentication_Samples.thy ===== *)
theory Authentication_Samples
  imports Authentication_Runs
begin

text \<open>
  A concrete configuration, with a block cipher and a ticket encryption that decrypt what they
  encrypt, and a state, a token and an account: the inputs of the authentication witnesses.
\<close>

section \<open>A block cipher and an encoding of tickets\<close>

definition sample_cipher :: "bytes \<Rightarrow> bytes" where
  "sample_cipher b = xor_bytes b (replicate 16 7)"

primrec chunk :: "bytes \<Rightarrow> bytes \<Rightarrow> bytes" where
  "chunk [] rest = 0 # rest"
| "chunk (b # bs) rest = 1 # b # chunk bs rest"

fun unchunk :: "bytes \<Rightarrow> bytes \<times> bytes" where
  "unchunk (x # y # rest) = (if x = 0 then ([], y # rest) else (case unchunk rest of (bs, r) \<Rightarrow> (y # bs, r)))"
| "unchunk _ = ([], [])"

lemma unchunk_chunk [simp]: "unchunk (chunk bs rest) = (bs, rest)"
proof (induction bs)
  case Nil
  then show ?case by (cases rest) simp_all
qed simp

definition unlock :: "bytes \<Rightarrow> bytes \<Rightarrow> bytes option" where
  "unlock key c = (if fst (unchunk c) = key then Some (snd (unchunk c)) else None)"

definition sample_internal :: "bytes \<Rightarrow> kerberos_internal" where
  "sample_internal bs = \<lparr> ki_Issued = word_of_nat (le_value (take 8 bs)),
     ki_SourcePID = word_of_nat (le_value (take 8 (drop 8 bs))), ki_SessionKey = drop 16 bs \<rparr>"

definition sample_ticket :: "bytes \<Rightarrow> kerberos_ticket" where
  "sample_ticket bs = \<lparr> kt_SessionKey = fst (unchunk (drop 8 bs)),
     kt_TargetPID = word_of_nat (le_value (take 8 bs)), kt_InternalData = snd (unchunk (drop 8 bs)) \<rparr>"

definition sample_decI :: "bytes \<Rightarrow> bytes \<Rightarrow> kerberos_internal option" where
  "sample_decI key c = map_option sample_internal (unlock key c)"

definition sample_decT :: "bytes \<Rightarrow> bytes \<Rightarrow> kerberos_ticket option" where
  "sample_decT key c = map_option sample_ticket (unlock key c)"

definition sample_kerb :: "sample_station kerb_lib" where
  "sample_kerb = \<lparr> DeriveKerberosKey = (\<lambda>p password. le_bytes 8 (unat p) @ map of_char password),
     EncryptInternalData = (\<lambda>x key. retM (chunk key (le_bytes 8 (unat (ki_Issued x)) @
       le_bytes 8 (unat (ki_SourcePID x)) @ ki_SessionKey x))),
     EncryptTicket = (\<lambda>x key. retM (chunk key (le_bytes 8 (unat (kt_TargetPID x)) @
       chunk (kt_SessionKey x) (kt_InternalData x)))),
     DateTime_Now = word_of_int,
     NewRVConnectionData = \<lparr> rv_StationURL = NewStationURL sample_U [], rv_SpecialProtocols = [],
       rv_StationURLSpecialProtocols = NewStationURL sample_U [],
       rv_Time = 0, rv_StructureVersion = 0 \<rparr>,
     MainAtLeast_3_5_0 = True \<rparr>"

lemma u64_bytes [simp]: "word_of_nat (unat (w :: u64) mod 256 ^ 8) = w"
proof -
  have "unat w < 256 ^ 8" using unsigned_less [of w, where 'a = nat] by simp
  then show ?thesis by (simp del: power_numeral)
qed

lemma sample_decrypts: "tickets_decrypt sample_kerb sample_decI sample_decT"
  by (auto simp: tickets_decrypt_def sample_kerb_def sample_decI_def sample_decT_def retM_def unlock_def
    sample_internal_def sample_ticket_def simp del: power_numeral)

lemma sample_encrypts: "encrypts sample_kerb"
  by (simp add: encrypts_def sample_kerb_def always_ok_ret)

section \<open>Configuration, state, token\<close>

definition sample_auth :: auth_config where
  "sample_auth = \<lparr> KerberosPassword = ''password'', NEXTokenAESKey = replicate 32 7,
     NEXPasswordSecret = replicate 32 1, LocalAuthMode = False,
     AES_DecryptBlock = (\<lambda>key b. xor_bytes b (take 16 key)), HMAC_SHA256 = (\<lambda>key m. take 3 m) \<rparr>"

definition sample_auth_world :: auth_world where
  "sample_auth_world = \<lparr> au_now = 1000000000, au_random = (\<lambda>_. 5), au_random_pos = 0, au_random_faults = [],
     au_settings = None \<rparr>"

definition sample_token :: nex_token where
  "sample_token = \<lparr> SystemType = 1, TokenType = 3, UserPID = 1001, ExpireTime = 2000, TitleID = 0, AccessLevel = 0 \<rparr>"

lemma sample_block_cipher: "block_cipher sample_auth sample_cipher"
  by (auto simp: block_cipher_def sample_auth_def sample_cipher_def xor_bytes_twice take_replicate)

lemma sample_auth_simps [simp]:
  "\<not> LocalAuthMode sample_auth" "length (NEXPasswordSecret sample_auth) = 32" "length (NEXTokenAESKey sample_auth) = 32"
  "au_random_faults sample_auth_world = []" "au_now sample_auth_world = 1000000000"
  by (simp_all add: sample_auth_def sample_auth_world_def)

lemma sample_token_simps [simp]:
  "SystemType sample_token = 1" "TokenType sample_token = 3" "UserPID sample_token = 1001" "ExpireTime sample_token = 2000"
  "AccessLevel sample_token = 0"
  by (simp_all add: sample_token_def)

lemma in_carriers: "NintendoLoginData (Base64_EncodeToString bs) \<in> carriers bs"
  by (simp add: carriers_def)

abbreviation sample_tg :: "sample_station tg_protocol" where
  "sample_tg \<equiv> server_ticket_granting sample_auth sample_U ''host'' 60001"

lemma player_account_PID: "AccountDetailsByPID C p s = (Ok a, t) \<Longrightarrow> acc_PID a = p"
  by (auto simp: AccountDetailsByPID_def AuthenticationServerAccount_def SecureServerAccount_def retM_def
    elim!: bind_OkD split: if_splits)

lemma run_requestTicket_sample:
  "\<exists>r t. handle_ticket_granting sample_auth sample_kerb sample_tg (RequestTicket False 1 1001 2) sample_auth_world = (Ok r, t) \<and>
     TResult (QSuccess Core_Unknown) \<in> set (Body r)"
proof -
  obtain a where a: "AccountDetailsByPID sample_auth 1001 sample_auth_world = (Ok a, sample_auth_world)"
    by (rule that, rule run_account_by_pid) simp_all
  have b: "AccountDetailsByPID sample_auth 2 sample_auth_world = (Ok (SecureServerAccount sample_auth), sample_auth_world)"
    by (simp add: AccountDetailsByPID_def AuthenticationServerAccount_def SecureServerAccount_def run_simps)
  obtain ticket t where "generateTicket sample_kerb (Some a) (Some (SecureServerAccount sample_auth)) 32 sample_auth_world = (Ok ticket, t)"
    by (rule generateTicket_succeeds [OF sample_encrypts, of sample_auth_world a "SecureServerAccount sample_auth" 32]) simp_all
  then show ?thesis
    using a b by (simp add: requestTicket_def bindM_def catchM_def retM_def rmcSuccess_def)
qed

end
