(* ===== verification/Startup_Props.thy ===== *)
theory Startup_Props
  imports Startup Authentication_Samples
begin

text \<open>What the start of the process guarantees of the running servers, and what it misses.\<close>

section \<open>White space\<close>

text \<open>Text that begins and ends with visible characters of ASCII is not trimmed.\<close>

definition visible :: "char \<Rightarrow> bool" where
  "visible c \<longleftrightarrow> 33 \<le> (of_char c :: nat) \<and> (of_char c :: nat) \<le> 126"

lemma white_spaces_ends: "w \<in> set white_spaces \<Longrightarrow> w \<noteq> [] \<and> \<not> visible (hd w) \<and> \<not> visible (last w)"
  by (auto simp: white_spaces_def visible_def)

lemma leading_Nil [simp]: "leading ws [] = None"
  by (simp add: leading_def find_None_iff)

lemma leading_visible: "(\<And>w. w \<in> set ws \<Longrightarrow> w \<noteq> [] \<and> \<not> visible (hd w)) \<Longrightarrow> visible c \<Longrightarrow> leading ws (c # s) = None"
  by (force simp: leading_def find_None_iff take_Cons split: nat.splits)

lemma TrimSpace_Nil [simp]: "TrimSpace [] = []"
  by (simp add: TrimSpace_def trim_left.simps)

lemma TrimSpace_visible:
  assumes "s \<noteq> []" and "visible (hd s)" and "visible (last s)"
  shows "TrimSpace s = s"
proof -
  have "trim_left white_spaces s = s"
    using assms white_spaces_ends by (cases s) (simp_all add: trim_left.simps leading_visible)
  moreover have "trim_left (map rev white_spaces) (rev s) = rev s"
  proof -
    obtain c t where "rev s = c # t" and "visible c" using assms by (cases "rev s") (auto simp: last_snoc)
    moreover have "leading (map rev white_spaces) (c # t) = None"
      using white_spaces_ends \<open>visible c\<close> by (intro leading_visible) (auto simp: hd_rev)
    ultimately show ?thesis by (simp add: trim_left.simps)
  qed
  ultimately show ?thesis by (simp add: TrimSpace_def)
qed

lemma blank_code: "CHR '' '' = char_of n \<longleftrightarrow> take_bit 8 n = (32 :: nat)"
  using char_of_eq_iff [of n "CHR '' ''"] by (auto simp: of_char_def horner_sum_eq_sum eq_commute)

lemma TrimSpace_blank: "TrimSpace (CHR '' '' # s) = TrimSpace s"
proof -
  have "leading white_spaces (CHR '' '' # s) = Some '' ''" by (simp add: leading_def white_spaces_def blank_code) (simp add: char_of_def bit_Suc_0_iff)
  then have "trim_left white_spaces (CHR '' '' # s) = trim_left white_spaces s"
    by (subst trim_left.simps) simp
  then show ?thesis by (simp add: TrimSpace_def)
qed

section \<open>Numbers\<close>

lemma Atoi_value_Atoi: "Atoi s = Some i \<Longrightarrow> Atoi_value s = i"
  by (auto simp: Atoi_def Atoi_value_def Let_def split: option.splits if_splits)

lemma requiredPort_value:
  assumes "requiredPort env name \<noteq> None" and "TrimSpace (env name) = env name"
  shows "1 \<le> Atoi_value (env name) \<and> Atoi_value (env name) \<le> 65535 \<and>
    uint (word_of_int (Atoi_value (env name)) :: u16) = Atoi_value (env name)"
proof -
  obtain p where "Atoi (env name) = Some p" and p: "1 \<le> p" "p \<le> 65535"
    using assms by (auto simp: requiredPort_def requiredEnv_def Let_def split: option.splits if_splits)
  moreover have "uint (word_of_int p :: u16) = p" using p by (simp add: unsigned_of_int take_bit_int_eq_self)
  ultimately show ?thesis by (simp add: Atoi_value_Atoi)
qed

lemma decoded_key_ok: "decoded_key env name ok = Some key \<Longrightarrow> ok key"
  by (auto simp: decoded_key_def split: option.splits if_splits)

lemma read_config_keys:
  "read_config decrypt hmac env = Some C \<Longrightarrow>
    AES_DecryptBlock C = decrypt \<and> HMAC_SHA256 C = hmac \<and>
    (LocalAuthMode C \<or> length (NEXTokenAESKey C) = 32 \<and> 32 \<le> length (NEXPasswordSecret C))"
  by (auto simp: read_config_def Let_def not_less dest: decoded_key_ok split: option.splits if_splits)

section \<open>A concrete environment\<close>

text \<open>The local mode, two ports and a host; the first port as it is written.\<close>

definition local_env :: "string \<Rightarrow> environment" where
  "local_env port name = (if name = ''PN_HYRULEWARRIORS_LOCAL_MODE'' then ''1''
     else if name = ''PN_HYRULEWARRIORS_AUTH_PORT'' then port
     else if name = ''PN_HYRULEWARRIORS_SECURE_PORT'' then ''60002''
     else if name = ''PN_HYRULEWARRIORS_SECURE_HOST'' then ''host'' else [])"

definition sample_env :: environment where
  "sample_env = local_env ''60001''"

lemma Atoi_sample: "Atoi ''60001'' = Some 60001" "Atoi ''60002'' = Some 60002" "Atoi_value '' 60001'' = 0"
  by (simp_all add: Atoi_def Atoi_value_def digits_value_def is_digit_def digit_value_def)

lemma start_sample:
  assumes "TrimSpace port = ''60001''"
  shows "\<exists>S. start_servers decrypt hmac U True (local_env port) = Some S \<and> su_auth_port S = Atoi_value port"
  using assms by (simp add: start_servers_def read_config_def requiredPort_def requiredEnv_def local_env_def Atoi_sample
    TrimSpace_visible visible_def Let_def)

text \<open>
  The checks trim the white space around a value, the servers do not: a port with a blank in front
  of it passes the check, and the authentication server listens on port zero.
\<close>

lemma padded_port_is_lost:
  "\<exists>S. start_servers decrypt hmac U True (local_env '' 60001'') = Some S \<and> su_auth_port S = 0"
  using start_sample [of "'' 60001''" decrypt hmac U] by (simp add: TrimSpace_blank TrimSpace_visible visible_def Atoi_sample)

section \<open>The property\<close>

text \<open>
  C27: A process that starts is configured. The database was reached; unless the local mode is on,
  the key of the login tokens is an AES-256 key and the secret of the passwords has at least 32
  bytes, so that neither the token validation nor the password derivation ever fails for want of
  configuration; the ports, when written without white space around them, are ports, and the one that
  the login response names survives its conversion to 16 bits; the host is not empty, so the default
  \<open>localhost\<close> is never used; and the ticket granting is set up with this host and port.
\<close>

theorem started_servers_are_configured:
  assumes "start_servers decrypt hmac U postgres env = Some S"
  shows "postgres \<and>
    (LocalAuthMode (su_config S) \<or>
      length (NEXTokenAESKey (su_config S)) = 32 \<and> 32 \<le> length (NEXPasswordSecret (su_config S)) \<and>
      (\<forall>p s. \<exists>password. PasswordFromPID (su_config S) p s = (Ok password, s))) \<and>
    (TrimSpace (env ''PN_HYRULEWARRIORS_AUTH_PORT'') = env ''PN_HYRULEWARRIORS_AUTH_PORT'' \<longrightarrow>
      1 \<le> su_auth_port S \<and> su_auth_port S \<le> 65535) \<and>
    (TrimSpace (env ''PN_HYRULEWARRIORS_SECURE_PORT'') = env ''PN_HYRULEWARRIORS_SECURE_PORT'' \<longrightarrow>
      1 \<le> su_secure_port S \<and> su_secure_port S \<le> 65535 \<and> uint (word_of_int (su_secure_port S) :: u16) = su_secure_port S) \<and>
    env ''PN_HYRULEWARRIORS_SECURE_HOST'' \<noteq> [] \<and>
    su_ticket_granting S = server_ticket_granting (su_config S) U (env ''PN_HYRULEWARRIORS_SECURE_HOST'') (su_secure_port S)"
proof -
  obtain C where C: "read_config decrypt hmac env = Some C" and pg: postgres and
    ports: "requiredPort env ''PN_HYRULEWARRIORS_AUTH_PORT'' \<noteq> None" "requiredPort env ''PN_HYRULEWARRIORS_SECURE_PORT'' \<noteq> None" and
    host: "requiredEnv env ''PN_HYRULEWARRIORS_SECURE_HOST'' \<noteq> None" and
    S: "S = \<lparr> su_config = C, su_auth_port = Atoi_value (env ''PN_HYRULEWARRIORS_AUTH_PORT''),
      su_secure_port = Atoi_value (env ''PN_HYRULEWARRIORS_SECURE_PORT''), su_ticket_granting =
      server_ticket_granting C U (env ''PN_HYRULEWARRIORS_SECURE_HOST'') (Atoi_value (env ''PN_HYRULEWARRIORS_SECURE_PORT'')) \<rparr>"
    using assms unfolding start_servers_def Let_def by (auto split: option.splits if_splits)
  have "env ''PN_HYRULEWARRIORS_SECURE_HOST'' \<noteq> []" using host by (auto simp: requiredEnv_def)
  moreover have "\<exists>password. PasswordFromPID C p s = (Ok password, s)" if "\<not> LocalAuthMode C" for p s
    using that read_config_keys [OF C] by (simp add: PasswordFromPID_def run_simps)
  ultimately show ?thesis
    using pg read_config_keys [OF C] requiredPort_value [OF ports(1)] requiredPort_value [OF ports(2)] by (auto simp: S)
qed

lemma started_servers_are_configured_witness:
  "\<exists>S. start_servers (\<lambda>_ b. b) (\<lambda>_ m. m) sample_U True sample_env = Some S \<and> 1 \<le> su_auth_port S \<and> su_auth_port S \<le> 65535"
proof -
  have port: "TrimSpace ''60001'' = ''60001''" by (simp add: TrimSpace_visible visible_def)
  obtain S where S: "start_servers (\<lambda>_ b. b) (\<lambda>_ m. m) sample_U True sample_env = Some S"
    using start_sample [OF port, of "\<lambda>_ b. b" "\<lambda>_ m. m" sample_U] unfolding sample_env_def by blast
  have "TrimSpace (sample_env ''PN_HYRULEWARRIORS_AUTH_PORT'') = sample_env ''PN_HYRULEWARRIORS_AUTH_PORT''"
    by (simp add: sample_env_def local_env_def port)
  then show ?thesis using S started_servers_are_configured [OF S] by blast
qed

end
