(* ===== verification/Authentication_Props.thy ===== *)
theory Authentication_Props
  imports Authentication_Samples
begin

text \<open>
  The properties of accounts, login tokens and tickets, over the protocol as
  \<open>nex/authentication.go\<close> configures it.
\<close>

section \<open>Accounts\<close>

text \<open>
  The two account lookups agree: the account found for a PID has this PID, and looking its
  user name up finds the same account. Both sides of a ticket therefore derive the same key,
  whichever way the account was looked up. The PID is printed as a signed number and read back as
  one, so this holds for PIDs above \<open>2 ^ 63\<close> as well.
\<close>

lemma account_lookups_agree:
  assumes "AccountDetailsByPID C p s = (Ok a, t)"
  shows "acc_PID a = p \<and> t = s \<and> AccountDetailsByUsername C (acc_Username a) s = (Ok a, s)"
proof -
  have t: "t = s" using account_state(2) [OF assms] .
  show ?thesis
  proof (cases "p = 1 \<or> p = 2")
    case True
    then show ?thesis
      using assms t by (auto simp: AccountDetailsByPID_def AccountDetailsByUsername_def AuthenticationServerAccount_def
        SecureServerAccount_def run_simps)
  next
    case False
    then have "bindM (PasswordFromPID C p) (\<lambda>password.
        retM \<lparr> acc_PID = p, acc_Username = Itoa (sint p), acc_Password = password \<rparr>) s = (Ok a, t)"
      using assms by (simp add: AccountDetailsByPID_def AuthenticationServerAccount_def SecureServerAccount_def)
    then obtain password u where p: "PasswordFromPID C p s = (Ok password, u)" and
      a: "a = \<lparr> acc_PID = p, acc_Username = Itoa (sint p), acc_Password = password \<rparr>"
      by (rule bind_OkD) (simp add: retM_def)
    have "u = s" using account_state(5) [OF p] .
    moreover have "Atoi (Itoa (sint p)) = Some (sint p)" by (rule Atoi_Itoa) (use sint_range [of p] in simp_all)
    ultimately show ?thesis
      using p a t Itoa_not_server by (simp add: AccountDetailsByUsername_def AuthenticationServerAccount_def
        SecureServerAccount_def bindM_def retM_def)
  qed
qed

lemma account_lookups_agree_witness:
  "AccountDetailsByUsername sample_auth ''-1'' sample_auth_world =
    (Ok \<lparr> acc_PID = -1, acc_Username = ''-1'', acc_Password = derived_password sample_auth (-1) \<rparr>, sample_auth_world)"
proof -
  have "Itoa (sint (-1 :: pid)) = ''-1''"
    by (simp add: Itoa_def decimal.simps digit_char_def char_of_def bit_Suc_0_iff)
  then have "AccountDetailsByPID sample_auth (-1) sample_auth_world =
      (Ok \<lparr> acc_PID = -1, acc_Username = ''-1'', acc_Password = derived_password sample_auth (-1) \<rparr>, sample_auth_world)"
    using run_account_by_pid [of sample_auth "-1" sample_auth_world] by simp
  from account_lookups_agree [OF this] show ?thesis by simp
qed

section \<open>Tickets\<close>

text \<open>
  C22: A ticket is issued only for whom it should be, and both ends get the same session key.
  Whatever request is answered with success: it is not the insecure login; a login with data has
  passed the validation of this data for the PID of the account that the user name names, and its
  ticket is for the secure server; a requested ticket is between the accounts of the two PIDs. The
  session key is 32 fresh bytes of the random source. The holder of the source's password reads
  it from the ticket, the holder of the target's password reads it and the source's PID from the
  ticket's inner part. This assumes of the library that decryption undoes encryption.
\<close>

theorem tickets_are_agreed:
  assumes "tickets_decrypt K decI decT"
    and "handle_ticket_granting C K (server_ticket_granting C U host port) req s = (Ok r, t)"
    and "TResult (QSuccess c) \<in> set (Body r)"
  shows "\<exists>source target ticket. TBuffer ticket \<in> set (Body r) \<and>
    agreed_ticket K decI decT source target (au_now s) (next_key 32 s) ticket \<and>
    (case req of
       Login err callID name \<Rightarrow> False
     | LoginEx err callID name extra \<Rightarrow> \<not> err \<and> AccountDetailsByUsername C name s = (Ok source, s) \<and>
         ValidateLoginData C (acc_PID source) extra s = (Ok (), s) \<and> target = SecureServerAccount C \<and>
         TPID (acc_PID source) \<in> set (Body r)
     | RequestTicket err callID p q \<Rightarrow> \<not> err \<and> AccountDetailsByPID C p s = (Ok source, s) \<and>
         AccountDetailsByPID C q s = (Ok target, s))"
proof (cases req)
  case (Login err callID name)
  have False
    using assms(2,3) unfolding Login
    by (auto simp: login_def login_response_def catchM_def bindM_def throwM_def retM_def rmcSuccess_def split: if_splits)
  then show ?thesis ..
next
  case (LoginEx err callID name extra)
  let ?P = "server_ticket_granting C U host port"
  have e: "\<not> err" using assms(2) unfolding LoginEx by (auto simp: loginEx_def throwM_def)
  from assms(2) e obtain res u where
    caught: "catchM (bindM (AccountDetailsByUsername C name) (\<lambda>source.
          bindM (ValidateLoginData C (acc_PID source) extra) (\<lambda>_. bindM (target_account C ?P) (\<lambda>target.
          bindM (generateTicket K (Some source) (Some target) 32) (\<lambda>encryptedTicket. retM (source, encryptedTicket)))))) s
        = (Ok res, u)" and
    response: "login_response K ?P MethodLoginEx callID res u = (Ok r, t)"
    unfolding LoginEx by (auto simp: loginEx_def elim!: bind_OkD)
  have "\<exists>x. res = Inr x"
    using response assms(3) by (cases res) (auto simp: login_response_def retM_def rmcSuccess_def)
  then obtain source ticket where res: "res = Inr (source, ticket)" by auto
  then have run: "bindM (AccountDetailsByUsername C name) (\<lambda>source.
          bindM (ValidateLoginData C (acc_PID source) extra) (\<lambda>_. bindM (target_account C ?P) (\<lambda>target.
          bindM (generateTicket K (Some source) (Some target) 32) (\<lambda>encryptedTicket. retM (source, encryptedTicket))))) s
        = (Ok (source, ticket), u)"
    using caught by (auto elim: catch_OkD)
  have body: "TBuffer ticket \<in> set (Body r)" "TPID (acc_PID source) \<in> set (Body r)"
    using response by (auto simp: res login_response_def rmcSuccess_def run_simps)
  show ?thesis
    using login_ticket [OF assms(1) run] body e unfolding LoginEx tg_request.case by blast
next
  case (RequestTicket err callID p q)
  let ?P = "server_ticket_granting C U host port"
  have e: "\<not> err" using assms(2) unfolding RequestTicket by (auto simp: requestTicket_def throwM_def)
  from assms(2) e obtain res u where
    caught: "catchM (bindM (AccountDetailsByPID C p) (\<lambda>source. bindM (AccountDetailsByPID C q) (\<lambda>target.
        generateTicket K (Some source) (Some target) 32))) s = (Ok res, u)" and
    body: "Body r = (case res of Inl e \<Rightarrow> [TResult (QError e), TBuffer []]
        | Inr ticket \<Rightarrow> [TResult (QSuccess Core_Unknown), TBuffer ticket])"
    unfolding RequestTicket by (auto simp: requestTicket_def retM_def rmcSuccess_def elim!: bind_OkD)
  then obtain ticket where res: "res = Inr ticket" using assms(3) by (cases res) auto
  then have run: "bindM (AccountDetailsByPID C p) (\<lambda>source. bindM (AccountDetailsByPID C q) (\<lambda>target.
        generateTicket K (Some source) (Some target) 32)) s = (Ok ticket, u)"
    using caught by (auto elim: catch_OkD)
  then show ?thesis
    using requested_ticket [OF assms(1) run] body res e unfolding RequestTicket tg_request.case by auto
qed

lemma tickets_are_agreed_witness:
  "\<exists>r t source target ticket. handle_ticket_granting sample_auth sample_kerb sample_tg (RequestTicket False 1 1001 2) sample_auth_world = (Ok r, t) \<and>
    TBuffer ticket \<in> set (Body r) \<and> acc_PID source = 1001 \<and>
    AccountDetailsByPID sample_auth 1001 sample_auth_world = (Ok source, sample_auth_world) \<and>
    agreed_ticket sample_kerb sample_decI sample_decT source target 1000000000 (next_key 32 sample_auth_world) ticket"
proof -
  obtain r t where run: "handle_ticket_granting sample_auth sample_kerb sample_tg (RequestTicket False 1 1001 2)
      sample_auth_world = (Ok r, t)" and ok: "TResult (QSuccess Core_Unknown) \<in> set (Body r)"
    using run_requestTicket_sample by blast
  from tickets_are_agreed [OF sample_decrypts run ok] show ?thesis
    using run player_account_PID by (simp del: handle_ticket_granting.simps) blast
qed

section \<open>Login tokens\<close>

text \<open>
  C23: The verdict on a token of the account server. A token sealed under the configured AES key is
  decrypted to what was sealed, in each of the three carriers, and then judged on its fields, in
  this order: the type is 3, the whole seconds of the expiry time are not over, the PID is the
  one of the account, the access level is not negative. Nothing else matters and the state is left
  alone. This assumes that the configured key decrypts what the account server's cipher encrypts.
\<close>

theorem sealed_token_verdict:
  assumes "\<not> LocalAuthMode C" and "block_cipher C E" and "d \<in> carriers (seal_token E tk)"
  shows "ValidateLoginData C p d s =
    (if TokenType tk \<noteq> 3 then Err Authentication_ValidationFailed
     else if uint (ExpireTime tk div 1000) * 1000000000 < au_now s then Err Authentication_TokenExpired
     else if ucast (UserPID tk) \<noteq> p then Err Authentication_PrincipalIDUnmatched
     else if sint (AccessLevel tk) < 0 then Err RendezVous_AccountDisabled
     else Ok (), s)"
  unfolding run_ValidateLoginData [OF assms] ..

lemma sealed_token_verdict_witness:
  "ValidateLoginData sample_auth 1001 (NintendoLoginData (Base64_EncodeToString (seal_token sample_cipher sample_token)))
     sample_auth_world = (Ok (), sample_auth_world) \<and>
   ValidateLoginData sample_auth 1002 (NintendoLoginData (Base64_EncodeToString (seal_token sample_cipher sample_token)))
     sample_auth_world = (Err Authentication_PrincipalIDUnmatched, sample_auth_world)"
  using sealed_token_verdict [OF _ sample_block_cipher in_carriers, of 1001 sample_token sample_auth_world]
    sealed_token_verdict [OF _ sample_block_cipher in_carriers, of 1002 sample_token sample_auth_world] by simp

text \<open>
  A player with a valid token logs in. When the configuration has its secret, the random source
  and the encryption work, and the token is of the right type, not expired, and not of a disabled
  account, then the login under the token's PID succeeds: the response carries the PID, the secure
  server's URL, and a ticket for this PID and the secure server on which both ends agree.
\<close>

lemma login_with_token_succeeds:
  assumes "\<not> LocalAuthMode C" and "32 \<le> length (NEXPasswordSecret C)" and "block_cipher C E"
    and "encrypts K" and "tickets_decrypt K decI decT" and "au_random_faults s = []"
    and "TokenType tk = 3" and "au_now s \<le> uint (ExpireTime tk div 1000) * 1000000000"
    and "0 \<le> sint (AccessLevel tk)" and "extra \<in> carriers (seal_token E tk)"
  shows "\<exists>r t ticket now. loginEx C K (server_ticket_granting C U host port) False callID
      (decimal (unat (UserPID tk))) extra s = (Ok r, t) \<and>
    Body r = [TResult (QSuccess Core_Unknown), TPID (ucast (UserPID tk)), TBuffer ticket,
      TConnectionData (connection_data K (server_ticket_granting C U host port) now), TString []] \<and>
    agreed_ticket K decI decT \<lparr> acc_PID = ucast (UserPID tk), acc_Username = decimal (unat (UserPID tk)),
      acc_Password = derived_password C (ucast (UserPID tk)) \<rparr> (SecureServerAccount C) (au_now s) (next_key 32 s) ticket"
proof -
  let ?P = "server_ticket_granting C U host port"
  let ?a = "\<lparr> acc_PID = ucast (UserPID tk), acc_Username = decimal (unat (UserPID tk)),
      acc_Password = derived_password C (ucast (UserPID tk)) \<rparr>"
  have a: "AccountDetailsByUsername C (decimal (unat (UserPID tk))) s = (Ok ?a, s)"
    by (rule run_player_account [OF assms(1,2)])
  have v: "ValidateLoginData C (ucast (UserPID tk)) extra s = (Ok (), s)"
    using run_ValidateLoginData [OF assms(1,3,10)] assms(7-9) by simp
  obtain ticket t where g: "generateTicket K (Some ?a) (Some (SecureServerAccount C)) 32 s = (Ok ticket, t)"
    using generateTicket_succeeds [OF assms(4,6)] .
  have "loginEx C K ?P False callID (decimal (unat (UserPID tk))) extra s =
      login_response K ?P MethodLoginEx callID (Inr (?a, ticket)) t"
    using a v g by (simp add: loginEx_def bindM_def catchM_def run_target retM_def)
  then show ?thesis
    using generateTicket_agreed [OF assms(5) g]
    by (intro exI [of _ ticket] exI [of _ "au_now t"] exI) (auto simp: login_response_def rmcSuccess_def run_simps)
qed

text \<open>
  C30: A token of four bytes, the length of the checksum alone, panics the server: the empty body
  passes the test for whole blocks, and the last byte of the decrypted body, which would tell the
  padding, is out of range. No valid token is needed, only a user name with an account.
\<close>

theorem four_byte_token_panics:
  assumes "\<not> LocalAuthMode C" and "length (NEXTokenAESKey C) \<in> {16, 24, 32}"
    and "AccountDetailsByUsername C name s = (Ok a, t)" and "length bs = 4" and "extra \<in> carriers bs"
  shows "loginEx C K (server_ticket_granting C U host port) False callID name extra s = (Panic, s)"
proof -
  have "DecryptToken C bs (NEXTokenAESKey C) = panicM"
    using assms(2,4) by (simp add: DecryptToken_def CBC_decrypt.simps Let_def)
  then have "ValidateLoginData C p extra s = (Panic, s)" for p
    using assms(1) by (simp add: ValidateLoginData_def ValidatePretendoLoginData_def carried [OF assms(5)]
      Base64_round_trip run_simps)
  then show ?thesis
    using assms(3) account_state(1) [OF assms(3)] by (simp add: loginEx_def bindM_def catchM_def)
qed

lemma four_byte_token_panics_witness:
  "loginEx sample_auth sample_kerb sample_tg False 1 (decimal 1001) (NintendoLoginData (Base64_EncodeToString [0, 0, 0, 0]))
     sample_auth_world = (Panic, sample_auth_world)"
  using four_byte_token_panics [OF _ _ run_player_account [of sample_auth 1001 sample_auth_world] _ in_carriers,
    of "[0, 0, 0, 0]" sample_kerb sample_U "''host''" 60001 1] by simp

end
