(* ===== verification/Secure_Connection.thy ===== *)
theory Secure_Connection
  imports Ticket_Granting
begin

text \<open>
  The connections of the secure endpoint and the protocols that work on them: secure connection
  (\<open>secure-connection/\<close>), NAT traversal (\<open>nat-traversal/\<close>) and utility (\<open>utility/\<close>), as
  \<open>nex/secure.go\<close> configures them, with the report files of \<open>create_report_db_record.go\<close>.
\<close>

section \<open>State\<close>

text \<open>\<open>connection.Address()\<close>, a \<open>net.Addr\<close> of which the handlers distinguish two kinds.\<close>

datatype net_addr = UDPAddr string int | TCPAddr string int | OtherAddr

record 'u endpoint_connection =
  ec_PID :: pid
  ec_Address :: net_addr
  ec_StationURLs :: "'u list"

text \<open>
  The connections are objects that the packets and the endpoint point to: a store by connection ID,
  and the answers of the endpoint's two lookups, which are IDs of connections. \<open>sc_sent\<close> lists the
  probe requests handed to \<open>server.Send\<close>: target, call ID, station to probe. \<open>sc_files\<close> is the
  directory of the reports; \<open>sc_file_faults\<close> says which file operations fail, without effect.
\<close>

record 'u sc_world = auth_world +
  sc_connections :: "u32 \<Rightarrow> 'u endpoint_connection"
  FindConnectionByID :: "u32 \<Rightarrow> u32 option"
  FindConnectionByPID :: "pid \<Rightarrow> u32 option"
  sc_sent :: "(u32 \<times> u32 \<times> string) list"
  sc_files :: "string \<Rightarrow> bytes option"
  sc_file_faults :: "bool list"

type_synonym ('u, 'a) sc = "('u sc_world, 'a) nex"

text \<open>An operation of the accounts theory, on the larger state.\<close>

definition on_auth :: "'a au \<Rightarrow> ('u, 'a) sc" where
  "on_auth m s = (case m (auth_world.truncate s) of (r, t) \<Rightarrow> (r, auth_world.extend t (auth_world.more s)))"

definition set_urls :: "u32 \<Rightarrow> ('u list \<Rightarrow> 'u list) \<Rightarrow> 'u sc_world \<Rightarrow> 'u sc_world" where
  "set_urls i f s = s\<lparr>sc_connections := (sc_connections s)(i := sc_connections s i
     \<lparr>ec_StationURLs := f (ec_StationURLs (sc_connections s i))\<rparr>)\<rparr>"

section \<open>Responses\<close>

datatype 'u sc_body =
    SResult tg_result
  | SUInt32 u32
  | SInt32 int
  | SUInt16 u16
  | SUInt64 u64
  | SDateTime u64
  | SString string
  | SBool bool
  | SStationURLs "'u list"

datatype sc_method =
    MethodRegister
  | MethodRequestURLs
  | MethodRegisterEx
  | MethodReplaceURL
  | MethodSendReport
  | MethodRequestProbeInitiationExt
  | MethodReportNATProperties
  | MethodReportNATTraversalResult
  | MethodGetRelaySignatureKey
  | MethodReportNATTraversalResultDetail
  | MethodAcquireNexUniqueID

type_synonym 'u sc_response = "(sc_method, 'u sc_body) rmc_response"

section \<open>The secure connection protocol\<close>

record 'u sc_protocol =
  sp_CreateReportDBRecord :: "(pid \<Rightarrow> u32 \<Rightarrow> bytes \<Rightarrow> ('u, unit) sc) option"
  sp_ValidateLoginData :: "(pid \<Rightarrow> login_data \<Rightarrow> ('u, unit) sc) option"
  sp_allowInsecureRegisterMethod :: bool

definition DisableInsecureRegister :: "'u sc_protocol \<Rightarrow> 'u sc_protocol" where
  "DisableInsecureRegister P = P\<lparr>sp_allowInsecureRegisterMethod := False\<rparr>"

definition EnableInsecureRegister :: "'u sc_protocol \<Rightarrow> 'u sc_protocol" where
  "EnableInsecureRegister P = P\<lparr>sp_allowInsecureRegisterMethod := True\<rparr>"

definition SetPretendoRegisterValidation :: "auth_config \<Rightarrow> bytes \<Rightarrow> 'u sc_protocol \<Rightarrow> 'u sc_protocol" where
  "SetPretendoRegisterValidation C aesKey P =
     P\<lparr>sp_ValidateLoginData := Some (\<lambda>p loginData. on_auth (ValidatePretendoLoginData C p loginData aesKey))\<rparr>"

definition new_sc_protocol :: "'u sc_protocol" where
  "new_sc_protocol = \<lparr> sp_CreateReportDBRecord = None, sp_ValidateLoginData = None,
     sp_allowInsecureRegisterMethod = False \<rparr>"

text \<open>
  The loop over the client's URLs: only those that report both NAT properties count. The first
  that is not public, or has both properties unknown, is the local station; the first public one
  is the public station.
\<close>

definition scan_station :: "'u station_lib \<Rightarrow> 'u option \<times> 'u option \<Rightarrow> 'u \<Rightarrow> 'u option \<times> 'u option" where
  "scan_station U stations stationURL = (case (NATFiltering U stationURL, NATMapping U stationURL) of
     (Some natf, Some natm) \<Rightarrow>
       (let localStation = fst stations;
            publicStation = snd stations;
            localStation = (if localStation = None \<and> \<not> IsPublic U stationURL then Some stationURL else localStation);
            localStation = (if localStation = None \<and> natf = UnknownNATFiltering U \<and> natm = UnknownNATMapping U
              then Some stationURL else localStation);
            publicStation = (if publicStation = None \<and> IsPublic U stationURL then Some stationURL else publicStation)
        in (localStation, publicStation))
   | _ \<Rightarrow> stations)"

definition client_address :: "net_addr \<Rightarrow> string \<times> u16" where
  "client_address a = (case a of
     UDPAddr ip port \<Rightarrow> (ip, word_of_int port) | TCPAddr ip port \<Rightarrow> (ip, word_of_int port) | OtherAddr \<Rightarrow> ([], 0))"

definition derived_public :: "'u station_lib \<Rightarrow> net_addr \<Rightarrow> 'u \<Rightarrow> 'u" where
  "derived_public U a localStation =
     SetStationType U (StationURLFlagPublic U OR StationURLFlagBehindNAT U)
       (SetNATMapping U (UnknownNATMapping U) (SetNATFiltering U (UnknownNATFiltering U)
         (SetPortNumber U (snd (client_address a)) (SetAddress U (fst (client_address a)) localStation))))"

definition owned_url :: "'u station_lib \<Rightarrow> pid \<Rightarrow> u32 \<Rightarrow> 'u \<Rightarrow> 'u" where
  "owned_url U p i url = SetRVConnectionID U i (SetPrincipalID U p url)"

definition register_stations :: "'u station_lib \<Rightarrow> u32 \<Rightarrow> 'u list \<Rightarrow> ('u, 'u) sc" where
  "register_stations U i vecMyURLs = bindM (getM (\<lambda>s. sc_connections s i)) (\<lambda>connection.
     case foldl (scan_station U) (None, None) vecMyURLs of
       (None, _) \<Rightarrow> throwM Core_InvalidArgument
     | (Some localStation, publicStation) \<Rightarrow>
         let publicStation = (case publicStation of
               Some u \<Rightarrow> u | None \<Rightarrow> derived_public U (ec_Address connection) localStation);
             localStation = owned_url U (ec_PID connection) i localStation;
             publicStation = owned_url U (ec_PID connection) i publicStation in
         bindM (modM (set_urls i (\<lambda>urls. (urls @ [localStation]) @ [publicStation]))) (\<lambda>_.
         retM publicStation))"

definition register ::
  "'u station_lib \<Rightarrow> 'u sc_protocol \<Rightarrow> bool \<Rightarrow> u32 \<Rightarrow> u32 \<Rightarrow> 'u list \<Rightarrow> ('u, 'u sc_response) sc" where
  "register U P err i callID vecMyURLs =
    (if err then throwM Core_InvalidArgument
     else if \<not> sp_allowInsecureRegisterMethod P then
       retM (rmcSuccess SecureConnection_Protocol MethodRegister callID
         [SResult (QError Authentication_ValidationFailed), SUInt32 0, SString []])
     else bindM (register_stations U i vecMyURLs) (\<lambda>publicStation.
       retM (rmcSuccess SecureConnection_Protocol MethodRegister callID
         [SResult (QSuccess Core_Unknown), SUInt32 i, SString (URL U publicStation)])))"

definition registerEx ::
  "'u station_lib \<Rightarrow> 'u sc_protocol \<Rightarrow> bool \<Rightarrow> u32 \<Rightarrow> u32 \<Rightarrow> 'u list \<Rightarrow> login_data \<Rightarrow> ('u, 'u sc_response) sc" where
  "registerEx U P err i callID vecMyURLs hCustomData = (case sp_ValidateLoginData P of
     None \<Rightarrow> throwM Core_NotImplemented
   | Some validate \<Rightarrow>
       if err then throwM Core_InvalidArgument
       else bindM (getM (\<lambda>s. ec_PID (sc_connections s i))) (\<lambda>p.
         bindM (catchM (validate p hCustomData)) (\<lambda>r. case r of
           Inl errorCode \<Rightarrow> retM (rmcSuccess SecureConnection_Protocol MethodRegisterEx callID
             [SResult (QError errorCode), SUInt32 0, SString []])
         | Inr _ \<Rightarrow> bindM (register_stations U i vecMyURLs) (\<lambda>publicStation.
             retM (rmcSuccess SecureConnection_Protocol MethodRegisterEx callID
               [SResult (QSuccess Core_Unknown), SUInt32 i, SString (URL U publicStation)])))))"

text \<open>Every URL with the address and the port of the target becomes the new URL.\<close>

definition replaced_url :: "'u station_lib \<Rightarrow> pid \<Rightarrow> 'u \<Rightarrow> 'u \<Rightarrow> 'u \<Rightarrow> 'u" where
  "replaced_url U p target url station = (case (Address U station, PortNumber U station, Address U target, PortNumber U target) of
     (Some currentAddress, Some currentPort, Some oldAddress, Some oldPort) \<Rightarrow>
       if currentAddress = oldAddress \<and> currentPort = oldPort then SetPrincipalID U p url else station
   | _ \<Rightarrow> station)"

definition replaceURL ::
  "'u station_lib \<Rightarrow> bool \<Rightarrow> u32 \<Rightarrow> u32 \<Rightarrow> 'u \<Rightarrow> 'u \<Rightarrow> ('u, 'u sc_response) sc" where
  "replaceURL U err i callID target url =
    (if err then throwM Core_InvalidArgument
     else bindM (getM (\<lambda>s. ec_PID (sc_connections s i))) (\<lambda>p.
       bindM (modM (set_urls i (map (replaced_url U p target url)))) (\<lambda>_.
       retM (rmcSuccess SecureConnection_Protocol MethodReplaceURL callID []))))"

definition requestURLs :: "bool \<Rightarrow> u32 \<Rightarrow> u32 \<Rightarrow> pid \<Rightarrow> ('u, 'u sc_response) sc" where
  "requestURLs err callID cidTarget pidTarget =
    (if err then throwM Core_InvalidArgument
     else bindM (getM (\<lambda>s. case FindConnectionByID s cidTarget of
         Some j \<Rightarrow> Some (ec_StationURLs (sc_connections s j))
       | None \<Rightarrow> map_option (\<lambda>j. ec_StationURLs (sc_connections s j)) (FindConnectionByPID s pidTarget)))
       (\<lambda>requested. case requested of
         None \<Rightarrow> throwM Core_InvalidArgument
       | Some urls \<Rightarrow> retM (rmcSuccess SecureConnection_Protocol MethodRequestURLs callID [SBool True, SStationURLs urls])))"

definition sendReport ::
  "'u sc_protocol \<Rightarrow> bool \<Rightarrow> u32 \<Rightarrow> u32 \<Rightarrow> u32 \<Rightarrow> bytes \<Rightarrow> ('u, 'u sc_response) sc" where
  "sendReport P err i callID reportID reportData = (case sp_CreateReportDBRecord P of
     None \<Rightarrow> throwM Core_NotImplemented
   | Some createRecord \<Rightarrow>
       if err then throwM Core_Unknown
       else bindM (getM (\<lambda>s. ec_PID (sc_connections s i))) (\<lambda>p.
         bindM (catchM (createRecord p reportID reportData)) (\<lambda>r. case r of
           Inl _ \<Rightarrow> throwM Core_Unknown
         | Inr _ \<Rightarrow> retM (rmcSuccess SecureConnection_Protocol MethodSendReport callID []))))"

section \<open>Report files\<close>

definition file_call :: "('u sc_world \<Rightarrow> 'u sc_world) \<Rightarrow> ('u, unit) sc" where
  "file_call f s = (case sc_file_faults s of
      [] \<Rightarrow> (Ok (), f s)
    | b # bs \<Rightarrow> if b then (Err Core_Unknown, s\<lparr>sc_file_faults := bs\<rparr>) else (Ok (), f (s\<lparr>sc_file_faults := bs\<rparr>)))"

text \<open>\<open>time.Now().Format\<close> depends on the time zone of the machine: a parameter, to the second.\<close>

definition report_file :: "(int \<Rightarrow> string) \<Rightarrow> pid \<Rightarrow> u32 \<Rightarrow> int \<Rightarrow> string" where
  "report_file format p reportID now = ''reports/report_pid'' @ decimal (unat p) @ ''_id'' @
     decimal (unat reportID) @ ''_'' @ format (now div 1000000000) @ ''.bin''"

definition CreateReportDBRecord :: "(int \<Rightarrow> string) \<Rightarrow> pid \<Rightarrow> u32 \<Rightarrow> bytes \<Rightarrow> ('u, unit) sc" where
  "CreateReportDBRecord format p reportID reportData =
     bindM (file_call (\<lambda>s. s)) (\<lambda>_.
     bindM (getM (\<lambda>s. report_file format p reportID (au_now s))) (\<lambda>path.
     file_call (\<lambda>s. s\<lparr>sc_files := (sc_files s)(path \<mapsto> reportData)\<rparr>)))"

section \<open>NAT traversal\<close>

text \<open>
  \<open>reportNATProperties\<close> changes the loop variable, a copy of the structure in the slice; what this
  does to the URL of the connection is the library's matter (its parameters may be shared between
  such copies): \<open>ThroughCopy f u\<close> is the URL \<open>u\<close> after \<open>f\<close> ran on a copy of it.
\<close>

definition reported_url :: "'u station_lib \<Rightarrow> pid \<Rightarrow> u32 \<Rightarrow> u32 \<Rightarrow> u32 \<Rightarrow> 'u \<Rightarrow> 'u" where
  "reported_url U p i natmapping natfiltering station =
     SetPrincipalID U p (SetRVConnectionID U i
       (if \<not> IsPublic U station then SetNATFiltering U (ucast natfiltering) (SetNATMapping U (ucast natmapping) station)
        else station))"

definition reportNATProperties ::
  "'u station_lib \<Rightarrow> bool \<Rightarrow> u32 \<Rightarrow> u32 \<Rightarrow> u32 \<Rightarrow> u32 \<Rightarrow> ('u, 'u sc_response) sc" where
  "reportNATProperties U err i callID natmapping natfiltering =
    (if err then throwM Core_InvalidArgument
     else bindM (getM (\<lambda>s. ec_PID (sc_connections s i))) (\<lambda>p.
       bindM (modM (set_urls i (map (ThroughCopy U (reported_url U p i natmapping natfiltering))))) (\<lambda>_.
       retM (rmcSuccess NATTraversal_Protocol MethodReportNATProperties callID []))))"

definition reportNATTraversalResult :: "bool \<Rightarrow> u32 \<Rightarrow> ('u, 'u sc_response) sc" where
  "reportNATTraversalResult err callID =
    (if err then throwM Core_InvalidArgument
     else retM (rmcSuccess NATTraversal_Protocol MethodReportNATTraversalResult callID []))"

definition reportNATTraversalResultDetail :: "bool \<Rightarrow> u32 \<Rightarrow> ('u, 'u sc_response) sc" where
  "reportNATTraversalResultDetail err callID =
    (if err then throwM Core_InvalidArgument
     else retM (rmcSuccess NATTraversal_Protocol MethodReportNATTraversalResultDetail callID []))"

definition getRelaySignatureKey :: "(int \<Rightarrow> u64) \<Rightarrow> bool \<Rightarrow> u32 \<Rightarrow> ('u, 'u sc_response) sc" where
  "getRelaySignatureKey dateTime err callID =
    (if err then throwM Core_InvalidArgument
     else bindM (getM au_now) (\<lambda>now.
       retM (rmcSuccess NATTraversal_Protocol MethodGetRelaySignatureKey callID
         [SInt32 0, SDateTime (dateTime now), SString [], SUInt16 0, SInt32 0, SUInt32 0])))"

text \<open>A target whose URL names no connection, or one that is gone, is skipped.\<close>

definition send_probe :: "'u station_lib \<Rightarrow> u32 \<Rightarrow> string \<Rightarrow> string \<Rightarrow> ('u, unit) sc" where
  "send_probe U callID stationToProbe target = (case RVConnectionID U (NewStationURL U target) of
     None \<Rightarrow> retM ()
   | Some connectionID \<Rightarrow> bindM (getM (\<lambda>s. FindConnectionByID s connectionID)) (\<lambda>found. case found of
       None \<Rightarrow> retM ()
     | Some j \<Rightarrow> modM (\<lambda>s. s\<lparr>sc_sent := sc_sent s @ [(j, 0xFFFF0000 + callID, stationToProbe)]\<rparr>)))"

definition requestProbeInitiationExt ::
  "'u station_lib \<Rightarrow> bool \<Rightarrow> u32 \<Rightarrow> string list \<Rightarrow> string \<Rightarrow> ('u, 'u sc_response) sc" where
  "requestProbeInitiationExt U err callID targetList stationToProbe =
    (if err then throwM Core_InvalidArgument
     else bindM (forM targetList (send_probe U callID stationToProbe)) (\<lambda>_.
       retM (rmcSuccess NATTraversal_Protocol MethodRequestProbeInitiationExt callID [])))"

section \<open>Utility\<close>

definition acquireNexUniqueID :: "u64 option \<Rightarrow> bool \<Rightarrow> u32 \<Rightarrow> ('u, 'u sc_response) sc" where
  "acquireNexUniqueID generate err callID =
    (if err then throwM Core_InvalidArgument
     else case generate of
       None \<Rightarrow> throwM Core_NotImplemented
     | Some pNexUniqueID \<Rightarrow> retM (rmcSuccess Utility_Protocol MethodAcquireNexUniqueID callID [SUInt64 pNexUniqueID]))"

section \<open>The server\<close>

text \<open>
  \<open>nex/secure.go\<close> allows the insecure registration and stores reports; it sets neither a
  validation of login data nor a generator of unique IDs.
\<close>

definition server_secure :: "(int \<Rightarrow> string) \<Rightarrow> 'u sc_protocol" where
  "server_secure format = (EnableInsecureRegister new_sc_protocol)
     \<lparr>sp_CreateReportDBRecord := Some (CreateReportDBRecord format)\<rparr>"

datatype 'u sc_request =
    Register "'u list"
  | RegisterEx "'u list" login_data
  | ReplaceURL 'u 'u
  | RequestURLs u32 pid
  | SendReport u32 bytes
  | RequestProbeInitiationExt "string list" string
  | ReportNATProperties u32 u32 u32
  | ReportNATTraversalResult u32 bool u32
  | GetRelaySignatureKey
  | ReportNATTraversalResultDetail u32 bool int u32
  | AcquireNexUniqueID

fun handle_secure :: "'u station_lib \<Rightarrow> (int \<Rightarrow> string) \<Rightarrow> (int \<Rightarrow> u64) \<Rightarrow> bool \<Rightarrow> u32 \<Rightarrow> u32 \<Rightarrow> 'u sc_request \<Rightarrow>
    ('u, 'u sc_response) sc" where
  "handle_secure U format dateTime err i callID (Register urls) = register U (server_secure format) err i callID urls"
| "handle_secure U format dateTime err i callID (RegisterEx urls extra) =
     registerEx U (server_secure format) err i callID urls extra"
| "handle_secure U format dateTime err i callID (ReplaceURL target url) = replaceURL U err i callID target url"
| "handle_secure U format dateTime err i callID (RequestURLs cid p) = requestURLs err callID cid p"
| "handle_secure U format dateTime err i callID (SendReport reportID reportData) =
     sendReport (server_secure format) err i callID reportID reportData"
| "handle_secure U format dateTime err i callID (RequestProbeInitiationExt targets station) =
     requestProbeInitiationExt U err callID targets station"
| "handle_secure U format dateTime err i callID (ReportNATProperties natm natf rtt) =
     reportNATProperties U err i callID natm natf"
| "handle_secure U format dateTime err i callID (ReportNATTraversalResult cid result rtt) =
     reportNATTraversalResult err callID"
| "handle_secure U format dateTime err i callID GetRelaySignatureKey = getRelaySignatureKey dateTime err callID"
| "handle_secure U format dateTime err i callID (ReportNATTraversalResultDetail cid result detail rtt) =
     reportNATTraversalResultDetail err callID"
| "handle_secure U format dateTime err i callID AcquireNexUniqueID = acquireNexUniqueID None err callID"

end
