(* ===== verification/Secure_Runs.thy ===== *)
theory Secure_Runs
  imports Secure_Connection Triples
begin

text \<open>
  The registration in closed form, what a request does to the connections, and the reachable states
  of the secure endpoint.
\<close>

lemma server_secure_config [simp]:
  "sp_CreateReportDBRecord (server_secure format) = Some (CreateReportDBRecord format)"
  "sp_ValidateLoginData (server_secure format) = None" "sp_allowInsecureRegisterMethod (server_secure format)"
  by (simp_all add: server_secure_def EnableInsecureRegister_def new_sc_protocol_def)

section \<open>Registration\<close>

text \<open>The loop over the client's URLs finds the first of each kind.\<close>

definition reports_nat :: "'u station_lib \<Rightarrow> 'u \<Rightarrow> bool" where
  "reports_nat U u \<longleftrightarrow> NATFiltering U u \<noteq> None \<and> NATMapping U u \<noteq> None"

definition is_local :: "'u station_lib \<Rightarrow> 'u \<Rightarrow> bool" where
  "is_local U u \<longleftrightarrow> reports_nat U u \<and> (\<not> IsPublic U u \<or>
     NATFiltering U u = Some (UnknownNATFiltering U) \<and> NATMapping U u = Some (UnknownNATMapping U))"

definition is_public :: "'u station_lib \<Rightarrow> 'u \<Rightarrow> bool" where
  "is_public U u \<longleftrightarrow> reports_nat U u \<and> IsPublic U u"

lemma scan_stations:
  "foldl (scan_station U) stations urls =
    (case fst stations of Some u \<Rightarrow> Some u | None \<Rightarrow> find (is_local U) urls,
     case snd stations of Some u \<Rightarrow> Some u | None \<Rightarrow> find (is_public U) urls)"
proof (induction urls arbitrary: stations)
  case Nil
  then show ?case by (cases stations) (auto split: option.splits)
next
  case (Cons u urls)
  show ?case
    unfolding foldl_Cons Cons.IH
    by (cases stations; cases "fst stations"; cases "snd stations")
      (auto simp: scan_station_def is_local_def is_public_def reports_nat_def Let_def split: option.splits)
qed

text \<open>The public station: a public one of the client, or the local one at the address of the packet.\<close>

definition public_station :: "'u station_lib \<Rightarrow> net_addr \<Rightarrow> 'u \<Rightarrow> 'u list \<Rightarrow> 'u" where
  "public_station U a localStation urls =
     (case find (is_public U) urls of Some u \<Rightarrow> u | None \<Rightarrow> derived_public U a localStation)"

definition registered_urls :: "'u station_lib \<Rightarrow> 'u endpoint_connection \<Rightarrow> u32 \<Rightarrow> 'u \<Rightarrow> 'u list \<Rightarrow> 'u list" where
  "registered_urls U c i localStation urls = [owned_url U (ec_PID c) i localStation,
     owned_url U (ec_PID c) i (public_station U (ec_Address c) localStation urls)]"

lemma run_register_stations:
  "register_stations U i urls s = (case find (is_local U) urls of
     None \<Rightarrow> (Err Core_InvalidArgument, s)
   | Some l \<Rightarrow> (Ok (last (registered_urls U (sc_connections s i) i l urls)),
       set_urls i (\<lambda>old. old @ registered_urls U (sc_connections s i) i l urls) s))"
  by (auto simp: register_stations_def scan_stations registered_urls_def public_station_def Let_def run_simps
    split: option.splits)

section \<open>What a request does to the connections\<close>

text \<open>
  The URLs that a request leaves in the sender's connection: old ones, those stamped with the
  player and perhaps the connection, and old ones after a report of NAT properties.
\<close>

definition new_url :: "'u station_lib \<Rightarrow> pid \<Rightarrow> u32 \<Rightarrow> 'u list \<Rightarrow> 'u \<Rightarrow> bool" where
  "new_url U p i old u \<longleftrightarrow> u \<in> set old \<or> (\<exists>v. u = owned_url U p i v) \<or> (\<exists>v. u = SetPrincipalID U p v) \<or>
     (\<exists>v\<in>set old. \<exists>m f. u = ThroughCopy U (reported_url U p i m f) v)"

definition confined ::
  "'u station_lib \<Rightarrow> u32 \<Rightarrow> (u32 \<Rightarrow> 'u endpoint_connection) \<Rightarrow> (u32 \<Rightarrow> 'u endpoint_connection) \<Rightarrow> bool" where
  "confined U i C C' \<longleftrightarrow> (\<exists>urls. C' = C(i := (C i)\<lparr>ec_StationURLs := urls\<rparr>) \<and>
     (\<forall>u\<in>set urls. new_url U (ec_PID (C i)) i (ec_StationURLs (C i)) u))"

lemma confined_refl [simp]: "confined U i C C"
  unfolding confined_def by (rule exI [of _ "ec_StationURLs (C i)"]) (simp add: new_url_def)

lemma confined_set_urls:
  "sc_connections s = C \<Longrightarrow> (\<And>u. u \<in> set (f (ec_StationURLs (C i))) \<Longrightarrow> new_url U (ec_PID (C i)) i (ec_StationURLs (C i)) u) \<Longrightarrow>
   confined U i C (sc_connections (set_urls i f s))"
  unfolding confined_def by (rule exI [of _ "f (ec_StationURLs (C i))"]) (simp add: set_urls_def)

text \<open>An operation after which the connections are as they were, whatever it returns.\<close>

abbreviation harmless :: "('u, 'a) sc \<Rightarrow> bool" where
  "harmless m \<equiv> (\<forall>C. keeps (\<lambda>s. sc_connections s = C) m)"

abbreviation writes_own :: "'u station_lib \<Rightarrow> u32 \<Rightarrow> ('u, 'a) sc \<Rightarrow> bool" where
  "writes_own U i m \<equiv> (\<forall>C. triple (\<lambda>s. sc_connections s = C) m (\<lambda>_ s. confined U i C (sc_connections s))
     (\<lambda>s. sc_connections s = C))"

lemma keeps_file [keeps_rules]: "(\<And>s. I s \<Longrightarrow> I (f s)) \<Longrightarrow> (\<And>s b. I s \<Longrightarrow> I (s\<lparr>sc_file_faults := b\<rparr>)) \<Longrightarrow> keeps I (file_call f)"
  by (auto simp: keeps_def file_call_def split: list.splits)

lemma harmless_writes: "harmless m \<Longrightarrow> writes_own U i m"
  by (auto simp: keeps_def triple_def split: outcome.splits)

lemma writes_register: "writes_own U i (register_stations U i urls)"
proof -
  have "new_url U p i old u" if "u \<in> set (old @ registered_urls U c i l urls)" "ec_PID c = p" for p old u c l
    using that by (auto simp: new_url_def registered_urls_def)
  then show ?thesis
    by (auto simp: triple_def run_register_stations intro!: confined_set_urls split: option.splits)
qed

lemma triple_then_ret: "triple P m (\<lambda>_. Q) E \<Longrightarrow> triple P (bindM m (\<lambda>a. retM (f a))) (\<lambda>_. Q) E"
  by (erule triple_bind) (simp add: triple_ret)

lemma handle_secure_confined: "writes_own U i (handle_secure U format dateTime err i callID req)"
proof (cases req)
  case (Register urls)
  show ?thesis
    unfolding Register handle_secure.simps register_def
    by (intro allI triple_if triple_then_ret writes_register [rule_format]) (auto intro: triple_throw triple_ret)
next
  case (ReplaceURL target url)
  have "new_url U p i old u" if "u \<in> set (map (replaced_url U p target url) old)" for p old u
    using that by (auto simp: new_url_def replaced_url_def split: option.splits)
  then show ?thesis
    unfolding ReplaceURL handle_secure.simps replaceURL_def
    by (auto simp: triple_def run_simps intro!: confined_set_urls)
next
  case (ReportNATProperties natm natf rtt)
  have "new_url U p i old u" if "u \<in> set (map (ThroughCopy U (reported_url U p i natm natf)) old)" for p old u
    using that unfolding new_url_def set_map image_iff by blast
  then show ?thesis
    unfolding ReportNATProperties handle_secure.simps reportNATProperties_def
    by (auto simp: triple_def run_simps intro!: confined_set_urls)
next
  case (RegisterEx urls extra)
  show ?thesis
    unfolding RegisterEx handle_secure.simps
    by (simp add: registerEx_def triple_throw)
next
  case (SendReport reportID reportData)
  show ?thesis
    unfolding SendReport handle_secure.simps sendReport_def CreateReportDBRecord_def server_secure_config option.case
    by (intro harmless_writes allI keeps_rules) simp_all
next
  case (RequestProbeInitiationExt targets station)
  have "harmless (send_probe U callID station target)" for target
    unfolding send_probe_def by (intro allI keeps_rules keeps_mod) simp
  then show ?thesis
    unfolding RequestProbeInitiationExt handle_secure.simps requestProbeInitiationExt_def
    by (intro harmless_writes allI keeps_rules) simp
qed (simp_all add: requestURLs_def reportNATTraversalResult_def reportNATTraversalResultDetail_def getRelaySignatureKey_def
    acquireNexUniqueID_def, (intro harmless_writes allI keeps_rules impI conjI)+)

section \<open>No request panics or waits\<close>

lemma safe_file [safe_rules]: "result_in safe (file_call f)"
  by (auto simp: result_in_def file_call_def split: list.splits)

lemma safe_register: "result_in safe (register_stations U i urls)"
  by (auto simp: result_in_def run_register_stations split: option.splits)

lemma handle_secure_safe: "result_in safe (handle_secure U format dateTime err i callID req)"
  by (cases req) (simp_all add: register_def registerEx_def replaceURL_def requestURLs_def sendReport_def
    CreateReportDBRecord_def requestProbeInitiationExt_def send_probe_def reportNATProperties_def
    reportNATTraversalResult_def reportNATTraversalResultDetail_def getRelaySignatureKey_def acquireNexUniqueID_def
    safe_rules safe_register)

section \<open>Report files\<close>

text \<open>
  Two reports of a player with one ID within a second: the second overwrites the first, and both
  are acknowledged.
\<close>

lemma run_sendReport:
  assumes "sc_file_faults s = []"
  shows "sendReport (server_secure format) False i callID reportID reportData s =
    (Ok (rmcSuccess SecureConnection_Protocol MethodSendReport callID []),
     s\<lparr>sc_files := (sc_files s)(report_file format (ec_PID (sc_connections s i)) reportID (au_now s) \<mapsto> reportData)\<rparr>)"
  using assms by (simp add: sendReport_def CreateReportDBRecord_def file_call_def bindM_def catchM_def getM_def retM_def)

lemma reports_overwrite:
  assumes "sc_file_faults s = []" and "sendReport (server_secure format) False i 1 reportID first s = (r, t)"
    and "now div 1000000000 = au_now s div 1000000000"
  shows "sc_files (snd (sendReport (server_secure format) False i 2 reportID second (t\<lparr>au_now := now\<rparr>))) =
    (sc_files s)(report_file format (ec_PID (sc_connections s i)) reportID (au_now s) \<mapsto> second)"
  using assms by (auto simp: run_sendReport report_file_def)

section \<open>Reachable states\<close>

text \<open>
  The endpoint starts without URLs; then requests are handled, connections open with no URLs and
  under any lookups of the endpoint, and time passes.
\<close>

inductive sc_reachable :: "'u station_lib \<Rightarrow> (int \<Rightarrow> string) \<Rightarrow> (int \<Rightarrow> u64) \<Rightarrow> 'u sc_world \<Rightarrow> bool"
  for U format dateTime where
  sc_start: "(\<And>i. ec_StationURLs (sc_connections s i) = []) \<Longrightarrow> sc_reachable U format dateTime s"
| sc_request: "sc_reachable U format dateTime s \<Longrightarrow> handle_secure U format dateTime err i callID req s = (r, t) \<Longrightarrow>
    sc_reachable U format dateTime t"
| sc_connect: "sc_reachable U format dateTime s \<Longrightarrow>
    sc_reachable U format dateTime (s\<lparr>sc_connections := (sc_connections s)
      (i := \<lparr> ec_PID = p, ec_Address = a, ec_StationURLs = [] \<rparr>), FindConnectionByID := f, FindConnectionByPID := g\<rparr>)"
| sc_environment: "sc_reachable U format dateTime s \<Longrightarrow>
    sc_reachable U format dateTime (s\<lparr>au_now := now, sc_file_faults := faults\<rparr>)"

text \<open>
  What the library promises of the player that a URL names: it is the one set last, and a change
  through a copy of the structure either reaches it or does not.
\<close>

definition naming_laws :: "'u station_lib \<Rightarrow> ('u \<Rightarrow> pid option) \<Rightarrow> bool" where
  "naming_laws U named \<longleftrightarrow> (\<forall>p u. named (SetPrincipalID U p u) = Some p) \<and>
     (\<forall>i u. named (SetRVConnectionID U i u) = named u) \<and>
     (\<forall>f u. named (ThroughCopy U f u) = named u \<or> named (ThroughCopy U f u) = named (f u))"

definition urls_named :: "('u \<Rightarrow> pid option) \<Rightarrow> (u32 \<Rightarrow> 'u endpoint_connection) \<Rightarrow> bool" where
  "urls_named named C \<longleftrightarrow> (\<forall>i. \<forall>u \<in> set (ec_StationURLs (C i)). named u = Some (ec_PID (C i)))"

lemma new_url_named:
  assumes "naming_laws U named" and "\<And>v. v \<in> set old \<Longrightarrow> named v = Some p" and "new_url U p i old u"
  shows "named u = Some p"
proof -
  have set: "named (SetPrincipalID U q v) = Some q" and rv: "named (SetRVConnectionID U j v) = named v"
    and copy: "named (ThroughCopy U f v) = named v \<or> named (ThroughCopy U f v) = named (f v)" for q j f v
    using assms(1) by (simp_all add: naming_laws_def)
  have "named (ThroughCopy U (reported_url U p i m f) v) = Some p" if "v \<in> set old" for m f v
    using copy [of "reported_url U p i m f" v] assms(2) [OF that] by (auto simp: reported_url_def set)
  then show ?thesis
    using assms(2,3) by (auto simp: new_url_def owned_url_def set rv)
qed

lemma confined_named:
  assumes "naming_laws U named" and "urls_named named C" and "confined U i C C'"
  shows "urls_named named C'"
proof -
  obtain urls where C': "C' = C(i := (C i)\<lparr>ec_StationURLs := urls\<rparr>)"
    and new: "\<And>u. u \<in> set urls \<Longrightarrow> new_url U (ec_PID (C i)) i (ec_StationURLs (C i)) u"
    using assms(3) unfolding confined_def by blast
  have "named u = Some (ec_PID (C i))" if "u \<in> set urls" for u
    using assms(2) by (intro new_url_named [OF assms(1) _ new [OF that]]) (simp add: urls_named_def)
  then show ?thesis using assms(2) by (simp add: C' urls_named_def)
qed

lemma request_confined:
  assumes "handle_secure U format dateTime err i callID req s = (r, t)"
  shows "confined U i (sc_connections s) (sc_connections t)"
    and "\<not> (\<exists>a. r = Ok a) \<Longrightarrow> sc_connections t = sc_connections s"
proof -
  have "triple (\<lambda>u. sc_connections u = sc_connections s) (handle_secure U format dateTime err i callID req)
      (\<lambda>_ u. confined U i (sc_connections s) (sc_connections u)) (\<lambda>u. sc_connections u = sc_connections s)"
    by (rule handle_secure_confined [rule_format])
  then have "case r of Ok a \<Rightarrow> confined U i (sc_connections s) (sc_connections t) | _ \<Rightarrow> sc_connections t = sc_connections s"
    using assms by (auto dest: tripleD1 [where s = s] split: outcome.splits)
  then show "confined U i (sc_connections s) (sc_connections t)"
    and "\<not> (\<exists>a. r = Ok a) \<Longrightarrow> sc_connections t = sc_connections s"
    by (cases r; simp)+
qed

lemma reachable_named:
  assumes "sc_reachable U format dateTime s" and "naming_laws U named"
  shows "urls_named named (sc_connections s)"
  using assms(1)
proof induction
  case (sc_request s err i callID req r t)
  then show ?case using confined_named [OF assms(2) _ request_confined(1)] by blast
qed (simp_all add: urls_named_def)

section \<open>The endpoint as the matchmaking sees it\<close>

text \<open>
  A connection with its URLs as texts, as the sender of a packet and as the answer of
  \<open>FindConnectionByPID\<close>.
\<close>

definition packet_connection :: "'u station_lib \<Rightarrow> 'u sc_world \<Rightarrow> u32 \<Rightarrow> connection" where
  "packet_connection U s i = \<lparr> conn_PID = ec_PID (sc_connections s i), conn_ID = i,
     conn_StationURLs = map (URL U) (ec_StationURLs (sc_connections s i)) \<rparr>"

definition endpoint_connections :: "'u station_lib \<Rightarrow> 'u sc_world \<Rightarrow> pid \<Rightarrow> connection option" where
  "endpoint_connections U s p = map_option (packet_connection U s) (FindConnectionByPID s p)"

section \<open>A concrete endpoint\<close>

text \<open>One connection, of the player 1001, whose console names one station that is not public.\<close>

definition local_url :: sample_station where
  "local_url = \<lparr> st_text = ''prudp:/'', st_address = Some ''192.168.0.2'', st_port = Some 60000, st_natf = Some 1,
     st_natm = Some 1, st_rvcid = None, st_pid = None, st_type = 0 \<rparr>"

definition sample_endpoint :: "sample_station sc_world" where
  "sample_endpoint = \<lparr> au_now = 0, au_random = (\<lambda>_. 0), au_random_pos = 0, au_random_faults = [], au_settings = None,
     sc_connections = (\<lambda>i. \<lparr> ec_PID = 1001, ec_Address = UDPAddr ''10.0.0.1'' 5000, ec_StationURLs = [] \<rparr>),
     FindConnectionByID = (\<lambda>i. if i = 7 then Some 7 else None),
     FindConnectionByPID = (\<lambda>p. if p = 1001 then Some 7 else None),
     sc_sent = [], sc_files = Map.empty, sc_file_faults = [] \<rparr>"

lemma sample_laws: "naming_laws sample_U st_pid"
  by (simp add: naming_laws_def sample_U_def)

lemma sample_endpoint_reachable: "sc_reachable U format dateTime sample_endpoint"
  by (rule sc_start) (simp add: sample_endpoint_def)

lemma local_url_kind [simp]: "is_local sample_U local_url" "\<not> is_public sample_U local_url"
  by (simp_all add: is_local_def is_public_def reports_nat_def local_url_def sample_U_def)

definition sample_registered :: "sample_station sc_world" where
  "sample_registered = set_urls 7 (\<lambda>old. old @ registered_urls sample_U (sc_connections sample_endpoint 7) 7 local_url [local_url])
     sample_endpoint"

lemma run_register_sample:
  "register sample_U (server_secure format) False 7 1 [local_url] sample_endpoint =
    (Ok (rmcSuccess SecureConnection_Protocol MethodRegister 1 [SResult (QSuccess Core_Unknown), SUInt32 7,
       SString (URL sample_U (last (registered_urls sample_U (sc_connections sample_endpoint 7) 7 local_url [local_url])))]),
     sample_registered)"
  by (simp add: register_def bindM_def run_register_stations retM_def sample_registered_def)

end
