(* ===== verification/Secure_Props.thy ===== *)
theory Secure_Props
  imports Secure_Runs Session_Runs Samples
begin

text \<open>
  The properties of the secure endpoint: registration, what a request may touch, whose name the
  station URLs carry, and that a host's URLs reach the participants of its gathering.
\<close>

section \<open>Registration\<close>

text \<open>
  The parameters of a station URL, as its readers give them; \<open>named\<close> and \<open>kind\<close> read the principal
  and the type, which the handlers only set. The library's promise: each setter sets its own
  parameter and leaves the others.
\<close>

record url_params =
  up_address :: "string option"
  up_port :: "u16 option"
  up_filtering :: "u8 option"
  up_mapping :: "u8 option"
  up_connection :: "u32 option"
  up_principal :: "pid option"
  up_type :: "u8 option"

definition url_params :: "'u station_lib \<Rightarrow> ('u \<Rightarrow> pid option) \<Rightarrow> ('u \<Rightarrow> u8 option) \<Rightarrow> 'u \<Rightarrow> url_params" where
  "url_params U named kind u = \<lparr> up_address = Address U u, up_port = PortNumber U u, up_filtering = NATFiltering U u,
     up_mapping = NATMapping U u, up_connection = RVConnectionID U u, up_principal = named u, up_type = kind u \<rparr>"

definition setter_laws :: "'u station_lib \<Rightarrow> ('u \<Rightarrow> url_params) \<Rightarrow> bool" where
  "setter_laws U params \<longleftrightarrow>
     (\<forall>x u. params (SetAddress U x u) = (params u)\<lparr>up_address := Some x\<rparr>) \<and>
     (\<forall>x u. params (SetPortNumber U x u) = (params u)\<lparr>up_port := Some x\<rparr>) \<and>
     (\<forall>x u. params (SetNATFiltering U x u) = (params u)\<lparr>up_filtering := Some x\<rparr>) \<and>
     (\<forall>x u. params (SetNATMapping U x u) = (params u)\<lparr>up_mapping := Some x\<rparr>) \<and>
     (\<forall>x u. params (SetRVConnectionID U x u) = (params u)\<lparr>up_connection := Some x\<rparr>) \<and>
     (\<forall>x u. params (SetPrincipalID U x u) = (params u)\<lparr>up_principal := Some x\<rparr>) \<and>
     (\<forall>x u. params (SetStationType U x u) = (params u)\<lparr>up_type := Some x\<rparr>)"

lemma owned_params:
  assumes "setter_laws U params"
  shows "params (owned_url U p i u) = (params u)\<lparr>up_connection := Some i, up_principal := Some p\<rparr>"
  using assms by (simp add: setter_laws_def owned_url_def)

lemma derived_params:
  assumes "setter_laws U params"
  shows "params (derived_public U a u) = (params u)
    \<lparr>up_address := Some (fst (client_address a)), up_port := Some (snd (client_address a)),
     up_filtering := Some (UnknownNATFiltering U), up_mapping := Some (UnknownNATMapping U),
     up_type := Some (StationURLFlagPublic U OR StationURLFlagBehindNAT U)\<rparr>"
  using assms by (simp add: setter_laws_def derived_public_def)

text \<open>
  C24: The outcome of a registration, for every list of URLs. The local station is the first URL
  that reports both NAT properties and is not public, or has both unknown; without one the request
  is refused and nothing changes. Otherwise two URLs are added behind those that the connection has:
  the local station, and a public one. The public one is the first public URL that reports its NAT
  properties; without one it is the local station with the IP address and the low 16 bits of the
  port that the packet came from over UDP or TCP (no address and port 0 over anything else), unknown
  NAT properties, and the type of a public station behind a NAT. Both name the player as their
  principal and carry the ID of the connection; every other parameter is as the client sent it. The
  response carries the connection's ID and the public station's URL. Nothing else changes. This
  assumes of the library that each setter of a URL sets its own parameter only.
\<close>

theorem register_outcome:
  assumes "setter_laws U (url_params U named kind)"
    and "register U (server_secure format) False i callID urls s = (r, t)"
  defines "params \<equiv> url_params U named kind"
  shows "case find (\<lambda>u. NATFiltering U u \<noteq> None \<and> NATMapping U u \<noteq> None \<and> (\<not> IsPublic U u \<or>
       NATFiltering U u = Some (UnknownNATFiltering U) \<and> NATMapping U u = Some (UnknownNATMapping U))) urls of
     None \<Rightarrow> r = Err Core_InvalidArgument \<and> t = s
   | Some localStation \<Rightarrow> \<exists>l p.
       t = s\<lparr>sc_connections := (sc_connections s)(i := (sc_connections s i)
             \<lparr>ec_StationURLs := ec_StationURLs (sc_connections s i) @ [l, p]\<rparr>)\<rparr> \<and>
       r = Ok (rmcSuccess SecureConnection_Protocol MethodRegister callID
          [SResult (QSuccess Core_Unknown), SUInt32 i, SString (URL U p)]) \<and>
       params l = (params localStation)\<lparr>up_connection := Some i, up_principal := Some (ec_PID (sc_connections s i))\<rparr> \<and>
       (case find (\<lambda>u. NATFiltering U u \<noteq> None \<and> NATMapping U u \<noteq> None \<and> IsPublic U u) urls of
          Some publicStation \<Rightarrow>
            params p = (params publicStation)\<lparr>up_connection := Some i, up_principal := Some (ec_PID (sc_connections s i))\<rparr>
        | None \<Rightarrow> up_principal (params p) = Some (ec_PID (sc_connections s i)) \<and> up_connection (params p) = Some i \<and>
            up_filtering (params p) = Some (UnknownNATFiltering U) \<and> up_mapping (params p) = Some (UnknownNATMapping U) \<and>
            up_type (params p) = Some (StationURLFlagPublic U OR StationURLFlagBehindNAT U) \<and>
            (case ec_Address (sc_connections s i) of
               UDPAddr ip port \<Rightarrow> up_address (params p) = Some ip \<and> up_port (params p) = Some (word_of_int port)
             | TCPAddr ip port \<Rightarrow> up_address (params p) = Some ip \<and> up_port (params p) = Some (word_of_int port)
             | OtherAddr \<Rightarrow> up_address (params p) = Some [] \<and> up_port (params p) = Some 0))"
proof -
  have find_local: "(\<lambda>u. NATFiltering U u \<noteq> None \<and> NATMapping U u \<noteq> None \<and> (\<not> IsPublic U u \<or>
       NATFiltering U u = Some (UnknownNATFiltering U) \<and> NATMapping U u = Some (UnknownNATMapping U))) = is_local U"
    and find_public: "(\<lambda>u. NATFiltering U u \<noteq> None \<and> NATMapping U u \<noteq> None \<and> IsPublic U u) = is_public U"
    by (auto simp: is_local_def is_public_def reports_nat_def)
  note laws = owned_params [OF assms(1), folded params_def] derived_params [OF assms(1), folded params_def]
  show ?thesis
  proof (cases "find (is_local U) urls")
    case None
    then show ?thesis
      using assms(2) unfolding find_local by (simp add: register_def bindM_def run_register_stations)
  next
    case (Some localStation)
    let ?C = "sc_connections s i"
    let ?l = "owned_url U (ec_PID ?C) i localStation"
    let ?p = "owned_url U (ec_PID ?C) i (public_station U (ec_Address ?C) localStation urls)"
    have "r = Ok (rmcSuccess SecureConnection_Protocol MethodRegister callID
          [SResult (QSuccess Core_Unknown), SUInt32 i, SString (URL U ?p)])"
      and "t = s\<lparr>sc_connections := (sc_connections s)(i := ?C\<lparr>ec_StationURLs := ec_StationURLs ?C @ [?l, ?p]\<rparr>)\<rparr>"
      using assms(2) Some
      by (simp_all add: register_def bindM_def run_register_stations registered_urls_def set_urls_def run_ret)
    then show ?thesis
      unfolding find_local find_public Some option.case(2)
      by (intro exI [of _ ?l] exI [of _ ?p])
        (simp add: laws public_station_def client_address_def split: option.split net_addr.split)
  qed
qed

lemma sample_setters: "setter_laws sample_U (url_params sample_U st_pid (\<lambda>u. Some (st_type u)))"
  by (simp add: setter_laws_def url_params_def sample_U_def)

lemma sample_params [simp]:
  "up_address (url_params sample_U st_pid (\<lambda>u. Some (st_type u)) u) = st_address u"
  "up_port (url_params sample_U st_pid (\<lambda>u. Some (st_type u)) u) = st_port u"
  "up_connection (url_params sample_U st_pid (\<lambda>u. Some (st_type u)) u) = st_rvcid u"
  "up_principal (url_params sample_U st_pid (\<lambda>u. Some (st_type u)) u) = st_pid u"
  by (simp_all add: url_params_def sample_U_def)

lemma register_outcome_witness:
  "\<exists>r t l p. register sample_U (server_secure (\<lambda>_. [])) False 7 1 [local_url] sample_endpoint = (r, t) \<and>
    ec_StationURLs (sc_connections t 7) = [l, p] \<and> st_pid l = Some 1001 \<and> st_address l = Some ''192.168.0.2'' \<and>
    st_pid p = Some 1001 \<and> st_rvcid p = Some 7 \<and> st_address p = Some ''10.0.0.1'' \<and> st_port p = Some 5000"
proof -
  let ?params = "url_params sample_U st_pid (\<lambda>u. Some (st_type u))"
  let ?C = "sc_connections sample_endpoint 7"
  obtain r t where run: "register sample_U (server_secure (\<lambda>_. [])) False 7 1 [local_url] sample_endpoint = (r, t)" by fastforce
  have kinds: "NATFiltering sample_U local_url \<noteq> None" "NATMapping sample_U local_url \<noteq> None" "\<not> IsPublic sample_U local_url"
    by (simp_all add: local_url_def sample_U_def)
  have C: "ec_PID ?C = 1001" "ec_Address ?C = UDPAddr ''10.0.0.1'' 5000" "ec_StationURLs ?C = []"
    by (simp_all add: sample_endpoint_def)
  obtain l p where t: "t = sample_endpoint\<lparr>sc_connections := (sc_connections sample_endpoint)(7 := ?C\<lparr>ec_StationURLs := [l, p]\<rparr>)\<rparr>"
    and l: "?params l = (?params local_url)\<lparr>up_connection := Some 7, up_principal := Some 1001\<rparr>"
    and p: "up_principal (?params p) = Some 1001" "up_connection (?params p) = Some 7"
      "up_address (?params p) = Some ''10.0.0.1''" "up_port (?params p) = Some 5000"
    using register_outcome [OF sample_setters run] kinds by (auto simp: C)
  have "st_address l = st_address local_url" "st_pid l = Some 1001"
    using arg_cong [OF l, of up_address] arg_cong [OF l, of up_principal] by simp_all
  then have "st_address l = Some ''192.168.0.2''" "st_pid l = Some 1001" by (simp_all add: local_url_def)
  moreover have "ec_StationURLs (sc_connections t 7) = [l, p]" by (simp add: t)
  ultimately show ?thesis using run p by auto
qed

section \<open>Requests\<close>

text \<open>
  C26: Requests to the secure connection, NAT traversal and utility protocols stay apart. No request
  panics the server or waits; the URLs, player and address of every other connection are as before;
  the sender keeps its player and address; and a refused request leaves the sender's URLs as well.
\<close>

theorem secure_requests_stay_apart:
  assumes "handle_secure U format dateTime err i callID req s = (r, t)"
  shows "r \<noteq> Panic \<and> r \<noteq> Blocked \<and>
    sc_connections t = (sc_connections s)(i := (sc_connections s i)\<lparr>ec_StationURLs := ec_StationURLs (sc_connections t i)\<rparr>) \<and>
    (case r of Ok _ \<Rightarrow> True | _ \<Rightarrow> sc_connections t = sc_connections s)"
proof (intro conjI)
  have "safe r" using handle_secure_safe [of U format dateTime err i callID req] assms by (auto simp: result_in_def dest: spec [of _ s])
  then show "r \<noteq> Panic" and "r \<noteq> Blocked" by (simp_all add: safe_def)
  show "sc_connections t = (sc_connections s)(i := (sc_connections s i)\<lparr>ec_StationURLs := ec_StationURLs (sc_connections t i)\<rparr>)"
    using request_confined(1) [OF assms] by (auto simp: confined_def)
  show "case r of Ok _ \<Rightarrow> True | _ \<Rightarrow> sc_connections t = sc_connections s"
    using request_confined(2) [OF assms] by (cases r) simp_all
qed

lemma secure_requests_stay_apart_witness:
  "\<exists>r t. handle_secure sample_U (\<lambda>_. []) word_of_int False 7 1 (Register [local_url]) sample_endpoint = (r, t) \<and>
    sc_connections t 8 = sc_connections sample_endpoint 8"
proof -
  obtain r t where run: "handle_secure sample_U (\<lambda>_. []) word_of_int False 7 1 (Register [local_url]) sample_endpoint = (r, t)"
    by fastforce
  have "sc_connections t = (sc_connections sample_endpoint)
      (7 := (sc_connections sample_endpoint 7)\<lparr>ec_StationURLs := ec_StationURLs (sc_connections t 7)\<rparr>)"
    using secure_requests_stay_apart [OF run] by (elim conjE)
  moreover have "(8 :: u32) \<noteq> 7" by simp
  ultimately have "sc_connections t 8 = sc_connections sample_endpoint 8" by (metis fun_upd_other)
  then show ?thesis using run by blast
qed

text \<open>
  Station URLs carry the name of their player. In every state that the endpoint can reach, by
  any requests of any players with connections opening in between, each URL of a connection names
  the player of this connection as its principal: whatever a client registers, replaces or
  reports, it cannot offer a URL in the name of another player. This assumes of the library that
  the principal set last is the one a URL names.
\<close>

lemma station_urls_name_their_player:
  assumes "sc_reachable U format dateTime s" and "naming_laws U named"
    and "url \<in> set (ec_StationURLs (sc_connections s i))"
  shows "named url = Some (ec_PID (sc_connections s i))"
  using reachable_named [OF assms(1,2)] assms(3) by (simp add: urls_named_def)

lemma station_urls_name_their_player_witness:
  "\<exists>(t :: sample_station sc_world) url. url \<in> set (ec_StationURLs (sc_connections t 7)) \<and> st_text url = ''prudp:/'' \<and> st_pid url = Some 1001"
proof -
  let ?u = "owned_url sample_U 1001 7 local_url"
  let ?t = sample_registered
  have pid: "ec_PID (sc_connections ?t 7) = 1001" by (simp add: sample_registered_def set_urls_def sample_endpoint_def)
  have "sc_reachable sample_U (\<lambda>_. []) word_of_int ?t" using run_register_sample by (intro sc_request [OF sample_endpoint_reachable, where req = "Register [local_url]"]) simp
  moreover have u: "?u \<in> set (ec_StationURLs (sc_connections ?t 7))"
    by (simp add: sample_registered_def set_urls_def registered_urls_def sample_endpoint_def)
  ultimately have "st_pid ?u = Some (ec_PID (sc_connections ?t 7))"
    by (rule station_urls_name_their_player [OF _ sample_laws])
  moreover have "st_text ?u = ''prudp:/''" by (simp add: owned_url_def sample_U_def local_url_def)
  ultimately show ?thesis using u pid by (intro exI [of _ ?t] exI [of _ ?u]) simp
qed

text \<open>
  C25: The URLs that a host registers are those that the participants of its gathering are given.
  After a successful registration, on the connection under which the endpoint finds the host, the
  session URLs of a gathering with this host are the host's earlier URLs, its local station and its
  public station, in this order, for every participant that asks; nothing changes by asking.
\<close>

theorem host_urls_reach_participants:
  assumes "register U (server_secure format) False i callID urls e = (Ok r, e')"
    and "FindConnectionByPID e' (g_host_pid g) = Some i"
    and "w_connections w = endpoint_connections U e'" and "db_faults w = []" and "w_mutex w = Unlocked"
    and "filter g_registered (gathering_rows gid w) = [g]" and "conn_PID c \<in> set (g_participants g)"
  shows "\<exists>localStation. find (is_local U) urls = Some localStation \<and>
    getSessionURLs K False c callID' gid w = (Ok (rmcSuccess MatchMaking_Protocol MethodGetSessionURLs callID'
      [WStationURLs (map (URL U) (ec_StationURLs (sc_connections e i) @
         registered_urls U (sc_connections e i) i localStation urls))]), w)"
proof -
  obtain l where l: "find (is_local U) urls = Some l" and
    e': "e' = set_urls i (\<lambda>old. old @ registered_urls U (sc_connections e i) i l urls) e"
    using assms(1) by (auto simp: register_def bindM_def run_register_stations retM_def split: option.splits)
  have "map_option conn_StationURLs (w_connections w (g_host_pid g)) =
      Some (map (URL U) (ec_StationURLs (sc_connections e i) @ registered_urls U (sc_connections e i) i l urls))"
    using assms(2,3) by (simp add: endpoint_connections_def packet_connection_def e' set_urls_def)
  then have "getSessionURLs K False c callID' gid w = (Ok (rmcSuccess MatchMaking_Protocol MethodGetSessionURLs callID'
      [WStationURLs (map (URL U) (ec_StationURLs (sc_connections e i) @
         registered_urls U (sc_connections e i) i l urls))]), w)"
    using run_getSessionURLs [OF assms(4-7), of K callID'] by auto
  then show ?thesis using l by blast
qed

lemma host_urls_reach_participants_witness:
  "\<exists>r e' l. register sample_U (server_secure (\<lambda>_. [])) False 7 1 [local_url] sample_endpoint = (Ok r, e') \<and>
    (\<forall>K. fst (getSessionURLs K False player2 1 1 (sample_world\<lparr>w_connections := endpoint_connections sample_U e'\<rparr>)) =
      Ok (rmcSuccess MatchMaking_Protocol MethodGetSessionURLs 1 [WStationURLs (map st_text
        (registered_urls sample_U (sc_connections sample_endpoint 7) 7 l [local_url]))]))"
proof -
  let ?w = "sample_world\<lparr>w_connections := endpoint_connections sample_U sample_registered\<rparr>"
  have host: "FindConnectionByPID sample_registered (g_host_pid sample_row) = Some 7" by (simp add: sample_registered_def set_urls_def sample_endpoint_def)
  have "gathering_rows 1 ?w = gathering_rows 1 sample_world" by (simp add: gathering_rows_def)
  then have row: "filter g_registered (gathering_rows 1 ?w) = [sample_row]" by simp
  have c: "conn_PID player2 \<in> set (g_participants sample_row)" by simp
  have none: "ec_StationURLs (sc_connections sample_endpoint 7) = []" "URL sample_U = st_text"
    by (simp_all add: sample_endpoint_def sample_U_def)
  show ?thesis
    using host_urls_reach_participants [OF run_register_sample host _ _ _ row c] run_register_sample [of "\<lambda>_. []"]
    by (intro exI [of _ local_url] exI conjI allI) (assumption, simp add: none)
qed

end
