(* ===== verification/Ranking_Store.thy ===== *)
theory Ranking_Store
  imports Ranking
begin

text \<open>
  What the requests of the ranking protocol may do to the tables: the locale \<open>rank_store\<close> states
  what a predicate must allow so that every handler keeps it. It is interpreted for the
  consistency of the tables in every reachable state, and for a row that stays as it is.
\<close>

section \<open>Operations that keep a predicate\<close>

lemma order_bit: "w \<le> 1 \<Longrightarrow> uint w \<in> {0, 1}" for w :: u8
proof -
  assume "w \<le> 1"
  then have "uint w \<le> 1" by (simp add: word_le_def)
  moreover have "0 \<le> uint w" by simp
  ultimately have "uint w = 0 \<or> uint w = 1" by linarith
  then show ?thesis by simp
qed

locale rank_store =
  fixes I :: "rk_world \<Rightarrow> bool" and allowed :: "pid \<Rightarrow> score_data \<Rightarrow> u64 \<Rightarrow> bool"
  assumes faults: "I s \<Longrightarrow> I (s\<lparr>db_faults := bs\<rparr>)"
    and rolls_back: "I begin \<Longrightarrow> I s \<Longrightarrow> I (rollback begin s)"
    and category: "rc_order_by new \<in> {0, 1} \<Longrightarrow> I s \<Longrightarrow>
      I (s\<lparr>t_categories := upsert rc_category (\<lambda>c. c) new (t_categories s)\<rparr>)"
    and score: "allowed p d u \<Longrightarrow> sd_OrderBy d \<le> 1 \<Longrightarrow> I s \<Longrightarrow>
      I (s\<lparr>t_rankings := upsert ranking_key (overwrite (score_row p d u now)) (score_row p d u now) (t_rankings s)\<rparr>)"
    and common: "I s \<Longrightarrow> I (s\<lparr>t_common :=
      upsert common_key (overwrite_common (common_row p u bytes now)) (common_row p u bytes now) (t_common s)\<rparr>)"
begin

lemma keeps_transaction: "keeps I body \<Longrightarrow> keeps I (transaction body)"
proof -
  assume body: "keeps I body"
  have call: "keeps I (db_call (\<lambda>s. ((), s)))" by (rule keeps_db_call) (simp_all add: faults)
  have "keeps I (\<lambda>s. commit_or_rollback s (body s))"
  proof (rule keepsI)
    fix s assume s: "I s"
    obtain r t where run: "body s = (r, t)" by fastforce
    have t: "I t" using keeps_run [OF body s run] .
    obtain q u where q: "db_call (\<lambda>s. ((), s)) t = (q, u)" by fastforce
    have u: "I u" using keeps_run [OF call t q] .
    show "I (snd (commit_or_rollback s (body s)))"
      using s t u rolls_back [OF s t] rolls_back [OF s u]
      by (simp add: commit_or_rollback_def run q split: outcome.splits sum.splits)
  qed
  then show ?thesis unfolding transaction_def by (intro keeps_rules call)
qed

lemma keeps_insert_score:
  assumes "allowed p d u"
  shows "keeps I (HyruleWarriorsInsertRankingByPIDAndRankingScoreData p d u)"
proof (cases "sd_OrderBy d > 1")
  case False
  then have "sd_OrderBy d \<le> 1" by simp
  moreover from this have "uint (sd_OrderBy d) \<in> {0, 1}" by (rule order_bit)
  ultimately show ?thesis
    unfolding HyruleWarriorsInsertRankingByPIDAndRankingScoreData_def
    by (intro keeps_rules keeps_transaction keeps_exec keeps_ok_or faults category score assms) simp_all
qed (simp add: HyruleWarriorsInsertRankingByPIDAndRankingScoreData_def keeps_throw)

lemma keeps_or_error: "keeps I m \<Longrightarrow> (\<And>a. keeps I (k a)) \<Longrightarrow> keeps I (or_error e m k)"
  unfolding or_error_def by (intro keeps_rules)

lemma keeps_rankings: "keeps I (HyruleWarriorsGetRankings L mode p u cat q)"
  unfolding HyruleWarriorsGetRankings_def by (intro keeps_rules keeps_query keeps_ok_or faults)

lemma keeps_cached: "keeps I (cached_result L (HyruleWarriorsGetRankingsAndCountByCategoryAndRankingOrderParam L) cat q)"
  unfolding cached_result_def HyruleWarriorsGetRankingsAndCountByCategoryAndRankingOrderParam_def
  by (intro keeps_rules keeps_or_error keeps_rankings)

lemma keeps_get_common: "keeps I (HyruleWarriorsGetCommonData p u)"
  unfolding HyruleWarriorsGetCommonData_def by (intro keeps_rules keeps_query_row keeps_row_or faults)

lemma keeps_upload_common: "keeps I (HyruleWarriorsUploadCommonData p u d)"
  unfolding HyruleWarriorsUploadCommonData_def by (intro keeps_rules keeps_exec keeps_ok_or faults common)

lemma keeps_handle_ranking:
  assumes "\<And>d u. req = ReqUploadScore d u \<Longrightarrow> allowed (conn_PID c) d u"
  shows "keeps I (handle_ranking L (server_ranking L) err c callID req)"
  using assms
  by (cases req) (auto simp: server_ranking_def getCachedTopXRanking_def getCachedTopXRankings_def getCommonData_def
    getRanking_def uploadCommonData_def uploadScore_def Let_def intro!: keeps_rules keeps_or_error keeps_cached
    keeps_rankings keeps_get_common keeps_upload_common keeps_insert_score)

end

section \<open>Consistent tables\<close>

text \<open>The keys of the three tables are unique, and the orders of categories and rows are 0 or 1.\<close>

definition ranks_ok :: "rk_world \<Rightarrow> bool" where
  "ranks_ok s \<longleftrightarrow> distinct (map ranking_key (t_rankings s)) \<and> distinct (map rc_category (t_categories s)) \<and>
     distinct (map common_key (t_common s)) \<and>
     (\<forall>r \<in> set (t_rankings s). r_order_by r \<in> {0, 1}) \<and> (\<forall>k \<in> set (t_categories s). rc_order_by k \<in> {0, 1})"

interpretation categories: upsert_table rc_category "\<lambda>c. c" new for new
  by unfold_locales simp

lemma upsert_rows: "r \<in> set (upsert key change new rows) \<Longrightarrow> r = new \<or> r \<in> set rows \<or> (\<exists>q \<in> set rows. r = change q)"
  by (auto simp: upsert_def split: if_splits)

lemma score_order: "sd_OrderBy d \<le> 1 \<Longrightarrow> r_order_by (score_row p d u now) \<in> {0, 1}"
  using order_bit [of "sd_OrderBy d"] by (simp add: score_row_def)

interpretation ranks: rank_store ranks_ok "\<lambda>_ _ _. True"
proof unfold_locales
  fix p u now and d :: score_data and s :: rk_world assume d: "sd_OrderBy d \<le> 1" and s: "ranks_ok s"
  let ?new = "score_row p d u now"
  have "r_order_by r \<in> {0, 1}" if "r \<in> set (upsert ranking_key (overwrite ?new) ?new (t_rankings s))" for r
  proof -
    have "r_order_by q \<in> {0, 1}" if "q \<in> set (t_rankings s)" for q using s that by (simp add: ranks_ok_def)
    moreover have "r_order_by (overwrite ?new q) \<in> {r_order_by ?new, r_order_by q}" for q by (simp add: overwrite_def)
    ultimately show ?thesis using upsert_rows [OF that] score_order [OF d, of p u now] by (metis insertE singletonD)
  qed
  then show "ranks_ok (s\<lparr>t_rankings := upsert ranking_key (overwrite ?new) ?new (t_rankings s)\<rparr>)"
    using s by (simp add: ranks_ok_def rankings.distinct_upsert)
next
  fix new :: category_row and s :: rk_world assume n: "rc_order_by new \<in> {0, 1}" and s: "ranks_ok s"
  have "rc_order_by r \<in> {0, 1}" if "r \<in> set (upsert rc_category (\<lambda>c. c) new (t_categories s))" for r
    using upsert_rows [OF that] s n by (auto simp: ranks_ok_def)
  then show "ranks_ok (s\<lparr>t_categories := upsert rc_category (\<lambda>c. c) new (t_categories s)\<rparr>)"
    using s by (simp add: ranks_ok_def categories.distinct_upsert)
qed (simp_all add: ranks_ok_def rollback_def commons.distinct_upsert)

text \<open>The leaderboards start empty; requests come, statements fail, time passes.\<close>

inductive rk_reachable :: "rank_lib \<Rightarrow> rk_world \<Rightarrow> bool" for L where
  rk_start: "t_rankings s = [] \<Longrightarrow> t_categories s = [] \<Longrightarrow> t_common s = [] \<Longrightarrow> rk_reachable L s"
| rk_request: "rk_reachable L s \<Longrightarrow> rk_reachable L (snd (handle_ranking L (server_ranking L) err c callID req s))"
| rk_environment: "rk_reachable L s \<Longrightarrow> rk_reachable L (s\<lparr>db_faults := bs, rk_now := now\<rparr>)"

lemma reachable_ranks_ok: "rk_reachable L s \<Longrightarrow> ranks_ok s"
proof (induction rule: rk_reachable.induct)
  case (rk_request s err c callID req)
  have "keeps ranks_ok (handle_ranking L (server_ranking L) err c callID req)"
    by (rule ranks.keeps_handle_ranking) simp
  then show ?case using rk_request.IH by (rule keepsD)
qed (simp_all add: ranks_ok_def)

section \<open>A row that stays\<close>

definition replaced_by :: "ranking_row \<Rightarrow> pid \<Rightarrow> score_data \<Rightarrow> u64 \<Rightarrow> bool" where
  "replaced_by r p d u \<longleftrightarrow> r_owner_pid r = int64 p \<and> r_unique_id r = int64 u \<and> r_category r = uint (sd_Category d) \<and>
     (sd_UpdateMode d = 1 \<or> r_order_by r = 0 \<and> uint (sd_Score d) < r_score r \<or> r_order_by r = 1 \<and> uint (sd_Score d) > r_score r)"

lemma overwrite_stays: "ranking_key r = ranking_key (score_row p d u now) \<Longrightarrow> \<not> replaced_by r p d u \<Longrightarrow>
    overwrite (score_row p d u now) r = r"
  using word_uint_eq_iff [of "sd_UpdateMode d" 1]
  by (auto simp: overwrite_def replaces_def replaced_by_def score_row_def ranking_key_def)

interpretation stays: rank_store "\<lambda>s. r \<in> set (t_rankings s)" "\<lambda>p d u. \<not> replaced_by r p d u" for r
proof unfold_locales
  fix p u now and d :: score_data and s :: rk_world assume a: "\<not> replaced_by r p d u" and r: "r \<in> set (t_rankings s)"
  let ?new = "score_row p d u now"
  have "r \<in> (\<lambda>q. if ranking_key q = ranking_key ?new then overwrite ?new q else q) ` set (t_rankings s)"
    using r overwrite_stays [OF _ a] by (intro image_eqI [of _ _ r]) auto
  then show "r \<in> set (t_rankings (s\<lparr>t_rankings := upsert ranking_key (overwrite ?new) ?new (t_rankings s)\<rparr>))"
    using r by (simp add: upsert_def)
qed (simp_all add: rollback_def)

end
