(* ===== verification/Game_Server.thy ===== *)
theory Game_Server
  imports Secure_Runs Mm_Server Ranking_Store Datastore_Store
begin

text \<open>
  The secure server as a whole: the protocols that \<open>nex/secure.go\<close> registers on one endpoint, each
  on its part of the state, with the sender of a packet and the connections that matchmaking sees
  taken from the endpoint. A panic ends the process, which loses its memory and starts again on
  the same tables.
\<close>

section \<open>State and requests\<close>

record 'u game_server =
  gs_mm :: mm_world
  gs_rk :: rk_world
  gs_ds :: ds_world
  gs_sc :: "'u sc_world"

text \<open>What the protocols take from the library and the configuration.\<close>

record 'u game_lib =
  gl_nex :: nexlib
  gl_rank :: rank_lib
  gl_ds :: ds_lib
  gl_minio :: "minio_client option"
  gl_bucket :: string
  gl_stations :: "'u station_lib"
  gl_format :: "int \<Rightarrow> string"
  gl_dateTime :: "int \<Rightarrow> u64"

datatype 'u game_request =
    Matchmaking mm_request
  | Leaderboards rk_request
  | Objects ds_request
  | Connections "'u sc_request"

datatype 'u game_response =
    MatchmakingResponse mm_response
  | LeaderboardsResponse rk_response
  | ObjectsResponse ds_response
  | ConnectionsResponse "'u sc_response"

abbreviation object_store :: "'u game_lib \<Rightarrow> ds_protocol" where
  "object_store G \<equiv> server_datastore (gl_ds G) (gl_minio G) (gl_bucket G)"

abbreviation matchmaking_view :: "'u game_lib \<Rightarrow> 'u game_server \<Rightarrow> mm_world" where
  "matchmaking_view G w \<equiv> (gs_mm w)\<lparr>w_connections := endpoint_connections (gl_stations G) (gs_sc w)\<rparr>"

text \<open>An operation on a part of the state.\<close>

definition on_part ::
  "('w \<Rightarrow> 's) \<Rightarrow> ('s \<Rightarrow> 'w \<Rightarrow> 'w) \<Rightarrow> ('a \<Rightarrow> 'b) \<Rightarrow> ('s, 'a) nex \<Rightarrow> ('w, 'b) nex" where
  "on_part get put respond m w = (case m (get w) of (r, s) \<Rightarrow> (map_outcome respond r, put s w))"

lemma on_partD:
  assumes "on_part get put respond m w = (r, v)"
  obtains x s where "m (get w) = (x, s)" and "r = map_outcome respond x" and "v = put s w"
  using assms by (cases "m (get w)") (simp add: on_part_def)

lemma on_part_PanicD:
  assumes "on_part get put respond m w = (Panic, v)"
  obtains s where "m (get w) = (Panic, s)" and "v = put s w"
  using assms by (cases "fst (m (get w))"; cases "m (get w)") (simp_all add: on_part_def)

lemma map_outcome_Panic: "map_outcome f x = Panic \<longleftrightarrow> x = Panic"
  by (cases x) simp_all

fun serve :: "'u game_lib \<Rightarrow> bool \<Rightarrow> u32 \<Rightarrow> u32 \<Rightarrow> 'u game_request \<Rightarrow> 'u game_server \<Rightarrow>
    'u game_response outcome \<times> 'u game_server" where
  "serve G err i callID (Matchmaking req) w =
     on_part (matchmaking_view G) (\<lambda>s w. w\<lparr>gs_mm := s\<rparr>) MatchmakingResponse
       (handle (gl_nex G) server_protocol server_manager err (packet_connection (gl_stations G) (gs_sc w) i) callID req) w"
| "serve G err i callID (Leaderboards req) w =
     on_part gs_rk (\<lambda>s w. w\<lparr>gs_rk := s\<rparr>) LeaderboardsResponse
       (handle_ranking (gl_rank G) (server_ranking (gl_rank G)) err (packet_connection (gl_stations G) (gs_sc w) i) callID req) w"
| "serve G err i callID (Objects req) w =
     on_part gs_ds (\<lambda>s w. w\<lparr>gs_ds := s\<rparr>) ObjectsResponse
       (handle_datastore (gl_ds G) (object_store G) err (packet_connection (gl_stations G) (gs_sc w) i) callID req) w"
| "serve G err i callID (Connections req) w =
     on_part gs_sc (\<lambda>s w. w\<lparr>gs_sc := s\<rparr>) ConnectionsResponse
       (handle_secure (gl_stations G) (gl_format G) (gl_dateTime G) err i callID req) w"

definition game_request_ok :: "'u game_request \<Rightarrow> bool" where
  "game_request_ok req \<longleftrightarrow> (case req of Matchmaking r \<Rightarrow> request_ok r | _ \<Rightarrow> True)"

section \<open>The running server\<close>

text \<open>What the library promises of the lookup: the connection found for a player is the player's.\<close>

definition lookup_ok :: "'u sc_world \<Rightarrow> bool" where
  "lookup_ok s \<longleftrightarrow> (\<forall>p i. FindConnectionByPID s p = Some i \<longrightarrow> ec_PID (sc_connections s i) = p)"

definition no_urls :: "'u sc_world \<Rightarrow> bool" where
  "no_urls s \<longleftrightarrow> (\<forall>i. ec_StationURLs (sc_connections s i) = [])"

definition connected :: "'u sc_world \<Rightarrow> u32 \<Rightarrow> pid \<Rightarrow> net_addr \<Rightarrow> (u32 \<Rightarrow> u32 option) \<Rightarrow> (pid \<Rightarrow> u32 option) \<Rightarrow> 'u sc_world" where
  "connected s i p a f g = s\<lparr>sc_connections := (sc_connections s)(i := \<lparr> ec_PID = p, ec_Address = a, ec_StationURLs = [] \<rparr>),
     FindConnectionByID := f, FindConnectionByPID := g\<rparr>"

inductive game_reachable :: "'u game_lib \<Rightarrow> 'u game_server \<Rightarrow> bool" for G where
  game_start: "initial (gs_mm w) \<Longrightarrow> t_rankings (gs_rk w) = [] \<Longrightarrow> t_categories (gs_rk w) = [] \<Longrightarrow> t_common (gs_rk w) = [] \<Longrightarrow>
    t_objects (gs_ds w) = [] \<Longrightarrow> next_data_id (gs_ds w) = 1 \<Longrightarrow> no_urls (gs_sc w) \<Longrightarrow> lookup_ok (gs_sc w) \<Longrightarrow>
    game_reachable G w"
| game_serve: "game_reachable G w \<Longrightarrow> game_request_ok req \<Longrightarrow> serve G err i callID req w = (r, v) \<Longrightarrow> r \<noteq> Panic \<Longrightarrow>
    game_reachable G v"
| game_crash: "game_reachable G w \<Longrightarrow> game_request_ok req \<Longrightarrow> serve G err i callID req w = (Panic, v) \<Longrightarrow>
    restart (gs_mm v) = (q, m) \<Longrightarrow> no_urls e \<Longrightarrow> lookup_ok e \<Longrightarrow> game_reachable G (v\<lparr>gs_mm := m, gs_sc := e\<rparr>)"
| game_connect: "game_reachable G w \<Longrightarrow> lookup_ok (connected (gs_sc w) i p a f g) \<Longrightarrow>
    game_reachable G (w\<lparr>gs_sc := connected (gs_sc w) i p a f g\<rparr>)"
| game_disconnect: "game_reachable G w \<Longrightarrow>
    connectionEnded (gl_nex G) (packet_connection (gl_stations G) (gs_sc w) i) (matchmaking_view G w) = (q, m) \<Longrightarrow>
    game_reachable G (w\<lparr>gs_mm := m\<rparr>)"
| game_environment: "game_reachable G w \<Longrightarrow>
    game_reachable G (w\<lparr>gs_mm := (gs_mm w)\<lparr>db_faults := mf, w_now := now\<rparr>, gs_rk := (gs_rk w)\<lparr>db_faults := rf, rk_now := now\<rparr>,
      gs_ds := (gs_ds w)\<lparr>db_faults := df, ds_now := now\<rparr>, gs_sc := (gs_sc w)\<lparr>au_now := fine, sc_file_faults := ff\<rparr>\<rparr>)"
| game_upload: "game_reachable G w \<Longrightarrow>
    game_reachable G (w\<lparr>gs_ds := (gs_ds w)\<lparr>s3_sizes :=
      (s3_sizes (gs_ds w))(bucket := (s3_sizes (gs_ds w) bucket)(key := Some n))\<rparr>\<rparr>)"

section \<open>The parts of a reachable state are reachable\<close>

abbreviation mm_reachable :: "'u game_lib \<Rightarrow> mm_world \<Rightarrow> bool" where
  "mm_reachable G \<equiv> reachable (gl_nex G) server_protocol server_manager"

lemma view_reachable:
  assumes "mm_reachable G (gs_mm w)"
  shows "mm_reachable G (matchmaking_view G w)"
proof -
  have "mm_step (gl_nex G) server_protocol server_manager (gs_mm w)
      ((gs_mm w)\<lparr>db_faults := db_faults (gs_mm w), w_now := w_now (gs_mm w),
         w_connections := endpoint_connections (gl_stations G) (gs_sc w)\<rparr>)"
    by (rule step_surroundings)
  then show ?thesis using reach_step [OF assms] by simp
qed

lemma lookups_stay: "keeps (\<lambda>s. FindConnectionByPID s = f) (handle_secure U format dateTime err i callID req)"
proof -
  have "keeps (\<lambda>s. FindConnectionByPID s = f) (register_stations U i urls)" for urls
    by (auto simp: keeps_def run_register_stations set_urls_def split: option.splits)
  moreover have "keeps (\<lambda>s. FindConnectionByPID s = f) (send_probe U callID station target)" for station target
    unfolding send_probe_def by (intro keeps_rules keeps_mod) simp
  ultimately show ?thesis
    by (cases req) (simp_all add: register_def registerEx_def replaceURL_def requestURLs_def sendReport_def
      CreateReportDBRecord_def requestProbeInitiationExt_def reportNATProperties_def
      reportNATTraversalResult_def reportNATTraversalResultDetail_def getRelaySignatureKey_def acquireNexUniqueID_def
      keeps_rules keeps_mod set_urls_def)
qed

lemma lookup_ok_request:
  assumes "handle_secure U format dateTime err i callID req s = (r, t)" and "lookup_ok s"
  shows "lookup_ok t"
proof -
  have "FindConnectionByPID t = FindConnectionByPID s" using keeps_run [OF lookups_stay refl assms(1)] .
  moreover have "ec_PID (sc_connections t j) = ec_PID (sc_connections s j)" for j
    using request_confined(1) [OF assms(1)] by (auto simp: confined_def)
  ultimately show ?thesis using assms(2) by (simp add: lookup_ok_def)
qed

definition parts_reachable :: "'u game_lib \<Rightarrow> 'u game_server \<Rightarrow> bool" where
  "parts_reachable G w \<longleftrightarrow> mm_reachable G (gs_mm w) \<and> rk_reachable (gl_rank G) (gs_rk w) \<and>
     ds_reachable (gl_ds G) (object_store G) (gs_ds w) \<and>
     sc_reachable (gl_stations G) (gl_format G) (gl_dateTime G) (gs_sc w) \<and> lookup_ok (gs_sc w)"

text \<open>One request, case by case: what it does to the part it is for, and that the others stay.\<close>

lemma leaderboards_parts:
  assumes "serve G err i callID req w = (r, v)" and "parts_reachable G w" and "req = Leaderboards q"
  shows "parts_reachable G v"
proof -
  obtain x s where run: "handle_ranking (gl_rank G) (server_ranking (gl_rank G)) err
      (packet_connection (gl_stations G) (gs_sc w) i) callID q (gs_rk w) = (x, s)" and v: "v = w\<lparr>gs_rk := s\<rparr>"
    using assms(1) unfolding assms(3) serve.simps by (rule on_partD)
  have "rk_reachable (gl_rank G) s"
    using rk_request [of "gl_rank G" "gs_rk w" err "packet_connection (gl_stations G) (gs_sc w) i" callID q] assms(2)
    by (simp add: run parts_reachable_def)
  then show ?thesis using assms(2) by (simp add: v parts_reachable_def)
qed

lemma objects_parts:
  assumes "serve G err i callID req w = (r, v)" and "parts_reachable G w" and "req = Objects q"
  shows "parts_reachable G v"
proof -
  obtain x s where run: "handle_datastore (gl_ds G) (object_store G) err
      (packet_connection (gl_stations G) (gs_sc w) i) callID q (gs_ds w) = (x, s)" and v: "v = w\<lparr>gs_ds := s\<rparr>"
    using assms(1) unfolding assms(3) serve.simps by (rule on_partD)
  have "ds_reachable (gl_ds G) (object_store G) s"
    using ds_reachable.request [of "gl_ds G" "object_store G" "gs_ds w" err "packet_connection (gl_stations G) (gs_sc w) i" callID q]
      assms(2)
    by (simp add: run parts_reachable_def)
  then show ?thesis using assms(2) by (simp add: v parts_reachable_def)
qed

lemma connections_parts:
  assumes "serve G err i callID req w = (r, v)" and "parts_reachable G w" and "req = Connections q"
  shows "parts_reachable G v"
proof -
  obtain x s where run: "handle_secure (gl_stations G) (gl_format G) (gl_dateTime G) err i callID q (gs_sc w) = (x, s)"
    and v: "v = w\<lparr>gs_sc := s\<rparr>"
    using assms(1) unfolding assms(3) serve.simps by (rule on_partD)
  show ?thesis
    using assms(2) sc_request [OF _ run] lookup_ok_request [OF run] by (simp add: v parts_reachable_def)
qed

lemma serve_parts:
  assumes "serve G err i callID req w = (r, v)" and "parts_reachable G w" and "game_request_ok req" and "r \<noteq> Panic"
  shows "parts_reachable G v"
proof (cases req)
  case (Matchmaking q)
  obtain x s where run: "handle (gl_nex G) server_protocol server_manager err
      (packet_connection (gl_stations G) (gs_sc w) i) callID q (matchmaking_view G w) = (x, s)"
    and x: "r = map_outcome MatchmakingResponse x" and v: "v = w\<lparr>gs_mm := s\<rparr>"
    using assms(1) unfolding Matchmaking serve.simps by (rule on_partD)
  have "mm_reachable G s"
  proof (rule reach_step [OF view_reachable [of G w] step_request [OF _ run]])
    show "mm_reachable G (gs_mm w)" "request_ok q" "x \<noteq> Panic"
      using assms(2-4) x by (auto simp: parts_reachable_def game_request_ok_def Matchmaking)
  qed
  then show ?thesis using assms(2) by (simp add: parts_reachable_def v)
next
  case (Leaderboards q)
  then show ?thesis by (rule leaderboards_parts [OF assms(1,2)])
next
  case (Objects q)
  then show ?thesis by (rule objects_parts [OF assms(1,2)])
next
  case (Connections q)
  then show ?thesis by (rule connections_parts [OF assms(1,2)])
qed

text \<open>A request that panics, and the start after it.\<close>

lemma restarted_parts:
  assumes "parts_reachable G v" and "restart (gs_mm v) = (q, m)" and "no_urls e" and "lookup_ok e"
  shows "parts_reachable G (v\<lparr>gs_mm := m, gs_sc := e\<rparr>)"
proof -
  have "mm_reachable G m"
    using reach_step [OF _ step_restart [OF assms(2)]] assms(1) by (simp add: parts_reachable_def)
  moreover have "sc_reachable (gl_stations G) (gl_format G) (gl_dateTime G) e"
    using assms(3) by (intro sc_start) (simp add: no_urls_def)
  ultimately show ?thesis using assms(1,4) by (simp add: parts_reachable_def)
qed

lemma crash_parts:
  assumes "serve G err i callID req w = (Panic, v)" and "parts_reachable G w" and "game_request_ok req"
    and "restart (gs_mm v) = (q, m)" and "no_urls e" and "lookup_ok e"
  shows "parts_reachable G (v\<lparr>gs_mm := m, gs_sc := e\<rparr>)"
proof (cases req)
  case (Matchmaking x)
  obtain s where run: "handle (gl_nex G) server_protocol server_manager err
      (packet_connection (gl_stations G) (gs_sc w) i) callID x (matchmaking_view G w) = (Panic, s)"
    and v: "v = w\<lparr>gs_mm := s\<rparr>"
    using assms(1) unfolding Matchmaking serve.simps by (rule on_part_PanicD)
  have "mm_reachable G m"
  proof (rule reach_step [OF view_reachable [of G w] step_crash [OF _ run]])
    show "mm_reachable G (gs_mm w)" "request_ok x"
      using assms(2,3) by (simp_all add: parts_reachable_def game_request_ok_def Matchmaking)
    show "restart s = (q, m)" using assms(4) v by simp
  qed
  moreover have "sc_reachable (gl_stations G) (gl_format G) (gl_dateTime G) e"
    using assms(5) by (intro sc_start) (simp add: no_urls_def)
  ultimately show ?thesis using assms(2,6) by (simp add: parts_reachable_def v)
next
  case (Leaderboards x)
  show ?thesis by (rule restarted_parts [OF leaderboards_parts [OF assms(1,2) Leaderboards] assms(4-6)])
next
  case (Objects x)
  show ?thesis by (rule restarted_parts [OF objects_parts [OF assms(1,2) Objects] assms(4-6)])
next
  case (Connections x)
  show ?thesis by (rule restarted_parts [OF connections_parts [OF assms(1,2) Connections] assms(4-6)])
qed

lemma game_parts: "game_reachable G w \<Longrightarrow> parts_reachable G w"
proof (induction rule: game_reachable.induct)
  case (game_start w)
  have "sc_reachable (gl_stations G) (gl_format G) (gl_dateTime G) (gs_sc w)"
    using game_start(7) by (intro sc_start) (simp add: no_urls_def)
  then show ?case
    using game_start by (simp add: parts_reachable_def reach_initial rk_start ds_reachable.start)
next
  case (game_serve w req err i callID r v)
  show ?case by (rule serve_parts [OF game_serve(3) game_serve.IH game_serve(2,4)])
next
  case (game_crash w req err i callID v q m e)
  show ?case by (rule crash_parts [OF game_crash(3) game_crash.IH game_crash(2,4-6)])
next
  case (game_connect w i p a f g)
  then show ?case
    using sc_connect [of "gl_stations G" "gl_format G" "gl_dateTime G" "gs_sc w"]
    by (simp add: parts_reachable_def connected_def)
next
  case (game_disconnect w i q m)
  from game_disconnect.IH have "mm_reachable G (matchmaking_view G w)" by (simp add: parts_reachable_def view_reachable)
  from reach_step [OF this step_ended [OF game_disconnect(2)]] have "mm_reachable G m" .
  then show ?case using game_disconnect by (simp add: parts_reachable_def)
next
  case (game_environment w)
  have "mm_reachable G ((gs_mm w)\<lparr>db_faults := bs, w_now := at\<rparr>)" for bs at
  proof -
    have "mm_step (gl_nex G) server_protocol server_manager (gs_mm w)
        ((gs_mm w)\<lparr>db_faults := bs, w_now := at, w_connections := w_connections (gs_mm w)\<rparr>)" by (rule step_surroundings)
    with game_environment.IH show ?thesis using reach_step by (fastforce simp: parts_reachable_def)
  qed
  then show ?case
    using game_environment by (auto simp: parts_reachable_def lookup_ok_def intro: rk_environment ds_reachable.environment sc_environment)
next
  case (game_upload w bucket key n)
  then show ?case by (simp add: parts_reachable_def ds_reachable.upload)
qed

section \<open>Session URLs\<close>

lemma catch_query_row:
  assumes "sql_query_row q s = (r, t)" and "r = Ok (Inr row)"
  shows "\<exists>rows. q s = row # rows \<or> (\<exists>bs. q (s\<lparr>db_faults := bs\<rparr>) = row # rows)"
  using assms by (auto simp: sql_query_row_def sql_query_def db_call_def bindM_def retM_def first_row_def
    split: list.splits if_splits prod.splits)

lemma FindGathering_row:
  assumes "FindGatheringByID K gid s = (Ok x, t)"
  shows "\<exists>g. g \<in> set (t_gatherings s) \<and> g_id g = unat gid \<and> g_registered g \<and> HostPID (fst x) = g_host_pid g \<and>
    fst (snd (snd x)) = g_participants g \<and> w_connections t = w_connections s"
proof -
  from assms obtain r u where q: "sql_query_row (\<lambda>s. filter g_registered (gathering_rows gid s)) s = (Ok r, u)" and
    k: "row_or RendezVous_SessionVoid r (\<lambda>row. retM ((row_gathering row)\<lparr>ID := gid\<rparr>, g_type row, g_participants row,
      DateTime_FromTimestamp K (g_started_time row))) u = (Ok x, t)"
    unfolding FindGatheringByID_def by (rule bind_OkD)
  obtain g where r: "r = Inr g" and x: "x = ((row_gathering g)\<lparr>ID := gid\<rparr>, g_type g, g_participants g,
      DateTime_FromTimestamp K (g_started_time g))" and t: "t = u"
    using k by (cases r) (auto simp: row_or_def retM_def throwM_def split: sql_error.splits)
  obtain rows where "filter g_registered (gathering_rows gid s) = g # rows"
    using catch_query_row [OF q] r by (auto simp: gathering_rows_def)
  then have "g \<in> set (filter g_registered (gathering_rows gid s))" by simp
  moreover have "keeps (\<lambda>u. w_connections u = w_connections s)
      (sql_query_row (\<lambda>s. filter g_registered (gathering_rows gid s)))"
    by (rule keeps_query_row) simp
  from keepsD [OF this refl] have "w_connections u = w_connections s" by (simp add: q)
  ultimately show ?thesis using x t by (auto simp: gathering_rows_def row_gathering_def)
qed

lemma or_unlock_OkD:
  assumes "or_unlock m k s = (Ok r, t)"
  obtains a s' where "m s = (Ok a, s')" and "k a s' = (Ok r, t)"
proof -
  obtain x s' where m: "m s = (x, s')" by fastforce
  show thesis using assms m that unfolding or_unlock_def bindM_def catchM_def
    by (cases x) (simp_all add: unlock_throw_def bindM_def mutexUnlock_def modM_def throwM_def split: if_splits)
qed

lemma getSessionURLs_body:
  assumes "getSessionURLs K err c callID gid s = (Ok r, t)"
  shows "\<exists>g. g \<in> set (t_gatherings s) \<and> g_id g = unat gid \<and> g_registered g \<and> conn_PID c \<in> set (g_participants g) \<and>
    Body r = [WStationURLs (case w_connections s (g_host_pid g) of None \<Rightarrow> [] | Some h \<Rightarrow> conn_StationURLs h)]"
proof -
  have "\<not> err" using assms by (auto simp: getSessionURLs_def throwM_def)
  then obtain u1 s1 where l: "mutexRLock s = (Ok u1, s1)" and
    run: "or_unlock (FindGatheringByID K gid) (\<lambda>(gathering, _, participants, _).
       if conn_PID c \<notin> set participants then unlock_throw RendezVous_PermissionDenied
       else bindM (getM (\<lambda>s. w_connections s (HostPID gathering))) (\<lambda>host. bindM mutexRUnlock (\<lambda>_.
         retM (rmcSuccess MatchMaking_Protocol MethodGetSessionURLs callID
           [WStationURLs (case host of None \<Rightarrow> [] | Some h \<Rightarrow> conn_StationURLs h)])))) s1 = (Ok r, t)"
    using assms unfolding getSessionURLs_def by (auto elim!: bind_OkD)
  have s1: "t_gatherings s1 = t_gatherings s" "w_connections s1 = w_connections s"
    using l by (auto simp: mutexRLock_def split: if_splits)
  obtain x s2 where f: "FindGatheringByID K gid s1 = (Ok x, s2)" and
    k: "(\<lambda>(gathering, _, participants, _).
       if conn_PID c \<notin> set participants then unlock_throw RendezVous_PermissionDenied
       else bindM (getM (\<lambda>s. w_connections s (HostPID gathering))) (\<lambda>host. bindM mutexRUnlock (\<lambda>_.
         retM (rmcSuccess MatchMaking_Protocol MethodGetSessionURLs callID
           [WStationURLs (case host of None \<Rightarrow> [] | Some h \<Rightarrow> conn_StationURLs h)])))) x s2 = (Ok r, t)"
    using run by (rule or_unlock_OkD)
  obtain g where g: "g \<in> set (t_gatherings s)" "g_id g = unat gid" "g_registered g" "HostPID (fst x) = g_host_pid g"
    "fst (snd (snd x)) = g_participants g" "w_connections s2 = w_connections s"
    using FindGathering_row [OF f] s1 by auto
  show ?thesis
    using k g by (cases x)
      (auto simp: run_simps bindM_def getM_def rmcSuccess_def unlock_throw_def split: if_splits outcome.splits prod.splits)
qed

end
