(* ===== verification/Game_Props.thy ===== *)
theory Game_Props
  imports Game_Server Session_Props Ranking_Props Secure_Props
begin

text \<open>
  The properties of the secure server as a whole, in which the protocols share one endpoint: the
  consistency of every part of a reachable state, whose URLs a participant is given, and who may
  change a row of a leaderboard.
\<close>

section \<open>Consistency\<close>

text \<open>
  C19: Every reachable state of the whole server is consistent. Requests of all protocols, by any
  connections and in any order, failing statements, panics with the restart after them, connections
  that open and end, and uploads to the S3 store under any key leave the matchmaking mutex free, the
  matchmaking tables with unique keys and within the participant limits, the leaderboards with unique
  keys and orders 0 or 1, the objects with unique IDs and something in the S3 store for each completed
  one, and every station URL with the name of the player on whose connection it is registered.
\<close>

theorem whole_server_consistent:
  assumes "game_reachable G w" and "naming_laws (gl_stations G) named"
  shows "w_mutex (gs_mm w) = Unlocked \<and> world_ok (gs_mm w) \<and> ranks_ok (gs_rk w) \<and>
    distinct (map o_data_id (t_objects (gs_ds w))) \<and>
    (\<forall>r \<in> set (t_objects (gs_ds w)). o_upload_completed r \<longrightarrow> s3_sizes (gs_ds w) (dp_S3Bucket (object_store G))
      (object_key (object_store G) (word_of_int (o_data_id r))) \<noteq> None) \<and>
    urls_named named (sc_connections (gs_sc w))"
proof -
  note parts = game_parts [OF assms(1), unfolded parts_reachable_def]
  have "ds_reachable (gl_ds G) (object_store G) (gs_ds w)" using parts by blast
  then have inv: "store_inv UNIV (object_store G) (gs_ds w)" by (rule reachable_store_inv)
  then have "distinct (map o_data_id (t_objects (gs_ds w)))" by (simp add: store_inv_def)
  moreover note store_inv_completed [OF inv]
  ultimately show ?thesis
    using parts mutex_reachable world_ok_reachable [OF server_cleanup_ok] reachable_ranks_ok reachable_named [OF _ assms(2)]
    by metis
qed

text \<open>A server that has just started, and the same after its only player registered a URL.\<close>

definition sample_game :: "rank_lib \<Rightarrow> ds_lib \<Rightarrow> sample_station game_lib" where
  "sample_game L D = \<lparr> gl_nex = sample_lib, gl_rank = L, gl_ds = D, gl_minio = None, gl_bucket = [],
     gl_stations = sample_U, gl_format = (\<lambda>_. []), gl_dateTime = word_of_int \<rparr>"

definition sample_start :: "sample_station game_server" where
  "sample_start = \<lparr> gs_mm = empty_world,
     gs_rk = \<lparr> db_faults = [], t_rankings = [], t_categories = [], t_common = [], rk_now = 1000 \<rparr>,
     gs_ds = \<lparr> db_faults = [], t_objects = [], next_data_id = 1, ds_now = 1000, s3_sizes = (\<lambda>_ _. None) \<rparr>,
     gs_sc = sample_endpoint \<rparr>"

lemma sample_start_reachable: "game_reachable G sample_start"
  by (rule game_start)
    (simp_all add: sample_start_def initial_def empty_world_def no_urls_def lookup_ok_def sample_endpoint_def)

definition sample_online :: "sample_station game_server" where
  "sample_online = sample_start\<lparr>gs_sc := sample_registered\<rparr>"

lemma sample_online_reachable: "game_reachable (sample_game L D) sample_online"
proof (rule game_serve [OF sample_start_reachable])
  show "game_request_ok (Connections (Register [local_url]))" by (simp add: game_request_ok_def)
  show "serve (sample_game L D) False 7 1 (Connections (Register [local_url])) sample_start =
    (Ok (ConnectionsResponse (rmcSuccess SecureConnection_Protocol MethodRegister 1 [SResult (QSuccess Core_Unknown), SUInt32 7,
       SString (URL sample_U (last (registered_urls sample_U (sc_connections sample_endpoint 7) 7 local_url [local_url])))])),
     sample_online)"
    by (simp add: on_part_def sample_game_def sample_start_def sample_online_def run_register_sample)
qed simp

lemma whole_server_consistent_witness:
  "\<forall>L D. \<exists>w. game_reachable (sample_game L D) w \<and> urls_named st_pid (sc_connections (gs_sc w)) \<and> length (ec_StationURLs (sc_connections (gs_sc w) 7)) = 2"
proof (intro allI exI [of _ sample_online] conjI)
  fix L D
  show "game_reachable (sample_game L D) sample_online" by (rule sample_online_reachable)
  have "naming_laws (gl_stations (sample_game L D)) st_pid" by (simp add: sample_game_def sample_laws)
  from whole_server_consistent [OF sample_online_reachable this]
  show "urls_named st_pid (sc_connections (gs_sc sample_online))" by (elim conjE)
  show "length (ec_StationURLs (sc_connections (gs_sc sample_online) 7)) = 2"
    by (simp add: sample_online_def sample_registered_def set_urls_def sample_endpoint_def registered_urls_def Let_def)
qed

section \<open>Session URLs\<close>

lemma on_part_MatchmakingD:
  assumes "on_part get put MatchmakingResponse m w = (Ok (MatchmakingResponse r), v)"
  obtains s where "m (get w) = (Ok r, s)"
proof -
  obtain x s where m: "m (get w) = (x, s)" by fastforce
  show thesis using assms that m by (cases x) (simp_all add: on_part_def)
qed

lemma handle_get_session_urls:
  "handle K P mgr err c callID (ReqGetSessionURLs gid) = getSessionURLs K err c callID gid"
  by (simp add: handle_def)

text \<open>
  C20: A client that asks for the session URLs of a gathering is given URLs of its host only. In
  every reachable state of the whole server a successful answer means that the gathering is stored
  and registered and the sender is among its participants, and that each URL of the answer, if
  there are any, names the host of the gathering as its principal: nobody can lead the
  participants to another player's console.
\<close>

theorem session_urls_name_the_host:
  assumes "game_reachable G w" and "naming_laws (gl_stations G) named"
    and "serve G err i callID (Matchmaking (ReqGetSessionURLs gid)) w = (Ok (MatchmakingResponse r), v)"
  shows "\<exists>g \<in> set (t_gatherings (gs_mm w)). g_id g = unat gid \<and> g_registered g \<and>
    ec_PID (sc_connections (gs_sc w) i) \<in> set (g_participants g) \<and>
    (\<exists>urls. Body r = [WStationURLs (map (URL (gl_stations G)) urls)] \<and>
      (\<forall>url \<in> set urls. named url = Some (g_host_pid g)))"
proof -
  let ?U = "gl_stations G" and ?s = "gs_sc w" and ?m = "matchmaking_view G w"
  note parts = game_parts [OF assms(1), unfolded parts_reachable_def]
  obtain s where x: "handle (gl_nex G) server_protocol server_manager err (packet_connection ?U ?s i) callID
      (ReqGetSessionURLs gid) ?m = (Ok r, s)"
    using assms(3) unfolding serve.simps by (rule on_part_MatchmakingD)
  obtain g where g: "g \<in> set (t_gatherings (gs_mm w))" "g_id g = unat gid" "g_registered g"
      "ec_PID (sc_connections ?s i) \<in> set (g_participants g)"
    and body: "Body r = [WStationURLs (case endpoint_connections ?U ?s (g_host_pid g) of None \<Rightarrow> []
      | Some h \<Rightarrow> conn_StationURLs h)]"
    using getSessionURLs_body [OF x [unfolded handle_get_session_urls]] by (auto simp: packet_connection_def)
  have named: "named url = Some (ec_PID (sc_connections ?s j))" if "url \<in> set (ec_StationURLs (sc_connections ?s j))" for url j
    using reachable_named [OF _ assms(2)] parts that by (fastforce simp: urls_named_def)
  have "\<exists>urls. Body r = [WStationURLs (map (URL ?U) urls)] \<and> (\<forall>url \<in> set urls. named url = Some (g_host_pid g))"
  proof (cases "FindConnectionByPID ?s (g_host_pid g)")
    case None
    then show ?thesis by (intro exI [of _ "[]"]) (simp add: body endpoint_connections_def)
  next
    case (Some j)
    then have "ec_PID (sc_connections ?s j) = g_host_pid g" using parts by (simp add: lookup_ok_def)
    then show ?thesis
      using named [of _ j] Some
      by (intro exI [of _ "ec_StationURLs (sc_connections ?s j)"]) (simp add: body endpoint_connections_def packet_connection_def)
  qed
  then show ?thesis using g by blast
qed

text \<open>The player creates a session and asks for its URLs.\<close>

lemma sample_hosting:
  obtains w where "game_reachable (sample_game L D) w"
    and "serve (sample_game L D) False 7 9 (Matchmaking (ReqGetSessionURLs 1)) w =
      (Ok (MatchmakingResponse (rmcSuccess MatchMaking_Protocol MethodGetSessionURLs 9
        [WStationURLs (map st_text (registered_urls sample_U (sc_connections sample_endpoint 7) 7 local_url [local_url]))])),
       w\<lparr>gs_mm := matchmaking_view (sample_game L D) w\<rparr>)"
proof -
  let ?G = "sample_game L D" and ?c = "packet_connection sample_U sample_registered 7"
  let ?s = "matchmaking_view ?G sample_online"
  have c: "conn_PID ?c = 1001"
    by (simp add: packet_connection_def sample_registered_def set_urls_def sample_endpoint_def)
  have s: "db_faults ?s = []" "w_mutex ?s = Unlocked" "world_ok ?s" "next_gathering_id ?s = 1" "t_gatherings ?s = []"
    by (simp_all add: sample_online_def sample_start_def empty_world_def world_ok_def gatherings_ok_def ids_ok_def
      sessions_ok_def communities_ok_def keys_ok_def)
  have valid: "CheckValidMatchmakeSession sample_session"
    by (simp add: CheckValidMatchmakeSession_def CheckValidGathering_def sample_session_def)
  obtain u where u: "fine u" "world_ok u" "next_gathering_id u = next_gathering_id ?s"
    and starts: "createMatchmakeSession sample_lib False ?c 8 (HeldMatchmakeSession sample_session) [] 1 ?s =
      or_unlock (JoinMatchmakeSession sample_lib (created_session sample_lib (conn_PID ?c) sample_session u) ?c 1 [])
        (\<lambda>_. ext_success MethodCreateMatchmakeSession 8 (WUInt32 (word_of_nat (next_gathering_id ?s)) #
          (if MatchMaking_AtLeast_3_0_0 sample_lib
           then [WBuffer (SessionKey (created_session sample_lib (conn_PID ?c) sample_session u))] else [])))
        (session_created sample_lib (conn_PID ?c) sample_session u)"
    by (rule run_createMatchmakeSession [OF s(1-3) _ valid, of "[]"]) (simp_all add: s(4))
  let ?t = "(session_joined sample_lib 1001 sample_session 1 [] u)\<lparr>w_mutex := Unlocked\<rparr>"
  let ?w = "sample_online\<lparr>gs_mm := ?t\<rparr>"
  have join: "JoinMatchmakeSession sample_lib (created_session sample_lib 1001 sample_session u) ?c 1 []
      (session_created sample_lib 1001 sample_session u) = (Ok 1, session_joined sample_lib 1001 sample_session 1 [] u)"
    using run_join_created [OF u(1,2), of sample_session 1 sample_lib ?c "[]"] u(3) s(4)
    by (simp add: c sample_session_def sample_lib_def)
  have create: "serve ?G False 7 8 (Matchmaking (ReqCreateMatchmakeSession (HeldMatchmakeSession sample_session) [] 1)) sample_online =
      (Ok (MatchmakingResponse (rmcSuccess MatchmakeExtension_Protocol MethodCreateMatchmakeSession 8 (WUInt32 1 #
          (if MatchMaking_AtLeast_3_0_0 sample_lib
           then [WBuffer (SessionKey (created_session sample_lib 1001 sample_session u))] else [])))), ?w)"
    using starts s(4)
    by (simp add: on_part_def handle_def sample_game_def sample_online_def c run_or_unlock_Ok join run_ext_success)
  have reach: "game_reachable ?G ?w"
    by (rule game_serve [OF sample_online_reachable _ create]) (simp_all add: game_request_ok_def request_ok_def additional_participants_def)
  let ?row = "(created_row sample_lib 1001 sample_session u)\<lparr>g_participants := [1001]\<rparr>"
  have rows: "gathering_rows 1 (matchmaking_view ?G ?w) = [?row]"
  proof -
    have "gathering_rows 1 (session_joined sample_lib 1001 sample_session 1 [] u) = [?row]"
      using created_rows(1) [OF u(2), of sample_lib 1001 sample_session] u(3) s(4) by (simp add: session_joined_def Let_def)
    then show ?thesis by (simp add: gathering_rows_def)
  qed
  have faults: "db_faults (matchmaking_view ?G ?w) = []" and free: "w_mutex (matchmaking_view ?G ?w) = Unlocked"
    using u(1) by (simp_all add: session_joined_def Let_def)
  have host: "endpoint_connections sample_U sample_registered 1001 = Some ?c"
    "conn_StationURLs ?c = map st_text (registered_urls sample_U (sc_connections sample_endpoint 7) 7 local_url [local_url])"
    by (simp_all add: endpoint_connections_def packet_connection_def sample_registered_def set_urls_def sample_endpoint_def sample_U_def)
  have libs: "gl_nex ?G = sample_lib" "gl_stations ?G = sample_U" "gs_sc sample_online = sample_registered"
    by (simp_all add: sample_game_def sample_online_def)
  show thesis
  proof (rule that [OF reach])
    show "serve ?G False 7 9 (Matchmaking (ReqGetSessionURLs 1)) ?w =
      (Ok (MatchmakingResponse (rmcSuccess MatchMaking_Protocol MethodGetSessionURLs 9
        [WStationURLs (map st_text (registered_urls sample_U (sc_connections sample_endpoint 7) 7 local_url [local_url]))])),
       ?w\<lparr>gs_mm := matchmaking_view ?G ?w\<rparr>)"
      using run_getSessionURLs [OF faults free, of 1 ?row ?c sample_lib 9] rows host
      by (simp add: c on_part_def handle_get_session_urls libs)
  qed
qed

lemma session_urls_name_the_host_witness:
  "\<forall>L D. \<exists>(w :: sample_station game_server) r v. game_reachable (sample_game L D) w \<and>
    serve (sample_game L D) False 7 9 (Matchmaking (ReqGetSessionURLs 1)) w = (Ok (MatchmakingResponse r), v) \<and>
    (\<exists>(g :: gathering_row) (urls :: sample_station list). g_participants g \<noteq> [] \<and> Body r = [WStationURLs (map st_text urls)] \<and> urls \<noteq> [] \<and>
      (\<forall>url \<in> set urls. st_pid url = Some (g_host_pid g)))"
proof (intro allI)
  fix L D
  let ?G = "sample_game L D"
  obtain w where w: "game_reachable ?G w" and run: "serve ?G False 7 9 (Matchmaking (ReqGetSessionURLs 1)) w =
      (Ok (MatchmakingResponse (rmcSuccess MatchMaking_Protocol MethodGetSessionURLs 9
        [WStationURLs (map st_text (registered_urls sample_U (sc_connections sample_endpoint 7) 7 local_url [local_url]))])),
       w\<lparr>gs_mm := matchmaking_view ?G w\<rparr>)"
    by (rule sample_hosting)
  have laws: "naming_laws (gl_stations ?G) st_pid" by (simp add: sample_game_def sample_laws)
  have U: "URL (gl_stations ?G) = st_text" by (simp add: sample_game_def sample_U_def)
  have two: "length (registered_urls sample_U (sc_connections sample_endpoint 7) 7 local_url [local_url]) = 2"
    by (simp add: registered_urls_def Let_def)
  from session_urls_name_the_host [OF w laws run] obtain g :: gathering_row and urls
    where g: "ec_PID (sc_connections (gs_sc w) 7) \<in> set (g_participants g)"
    and body: "Body (rmcSuccess MatchMaking_Protocol MethodGetSessionURLs 9
        [WStationURLs (map st_text (registered_urls sample_U (sc_connections sample_endpoint 7) 7 local_url [local_url]))]) =
      [WStationURLs (map (URL (gl_stations ?G)) urls)]"
    and named: "\<forall>url \<in> set urls. st_pid url = Some (g_host_pid g)"
    by blast
  from body have "map st_text (registered_urls sample_U (sc_connections sample_endpoint 7) 7 local_url [local_url]) = map st_text urls"
    by (simp add: U)
  from arg_cong [OF this, of length] have "urls \<noteq> []" using two by auto
  moreover have "g_participants g \<noteq> []" using g by auto
  moreover have "Body (rmcSuccess MatchMaking_Protocol MethodGetSessionURLs 9
        [WStationURLs (map st_text (registered_urls sample_U (sc_connections sample_endpoint 7) 7 local_url [local_url]))]) =
      [WStationURLs (map st_text urls)]" using body unfolding U .
  ultimately show "\<exists>(w :: sample_station game_server) r v. game_reachable ?G w \<and>
      serve ?G False 7 9 (Matchmaking (ReqGetSessionURLs 1)) w = (Ok (MatchmakingResponse r), v) \<and>
      (\<exists>(g :: gathering_row) (urls :: sample_station list). g_participants g \<noteq> [] \<and> Body r = [WStationURLs (map st_text urls)] \<and>
        urls \<noteq> [] \<and> (\<forall>url \<in> set urls. st_pid url = Some (g_host_pid g)))"
    using w run named by blast
qed

section \<open>Leaderboards\<close>

text \<open>
  C21: A score belongs to its player. Whatever a request to the whole server does, in every state, if
  it makes a row of a leaderboard disappear or change then it is a score upload for the category
  and the ID of this row on a connection of the player who owns the row, and the upload asks for
  the replacement or beats the stored score in the order of the row.
\<close>

theorem scores_are_owned:
  assumes "serve G err i callID req w = (res, v)"
    and "r \<in> set (t_rankings (gs_rk w))" and "r \<notin> set (t_rankings (gs_rk v))"
  shows "\<exists>d u. req = Leaderboards (ReqUploadScore d u) \<and> replaced_by r (ec_PID (sc_connections (gs_sc w) i)) d u"
proof (rule ccontr)
  let ?c = "packet_connection (gl_stations G) (gs_sc w) i"
  assume none: "\<not> ?thesis"
  show False
  proof (cases req)
    case (Leaderboards q)
    obtain x s where run: "handle_ranking (gl_rank G) (server_ranking (gl_rank G)) err ?c callID q (gs_rk w) = (x, s)"
      and v: "v = w\<lparr>gs_rk := s\<rparr>"
      using assms(1) unfolding Leaderboards serve.simps by (rule on_partD)
    have "keeps (\<lambda>s. r \<in> set (t_rankings s)) (handle_ranking (gl_rank G) (server_ranking (gl_rank G)) err ?c callID q)"
      by (rule stays.keeps_handle_ranking) (use none in \<open>auto simp: Leaderboards packet_connection_def\<close>)
    from keepsD [OF this assms(2)] show False using assms(3) by (simp add: run v)
  qed (use assms in \<open>auto simp: on_part_def split: prod.splits\<close>)
qed

lemma scores_are_owned_witness:
  "\<forall>L D. \<exists>(v :: sample_station game_server) res. serve (sample_game L D) False 7 1 (Leaderboards (ReqUploadScore sample_score 5))
      (sample_online\<lparr>gs_rk := sample_ranks\<rparr>) = (res, v) \<and>
    replaced_by (hd (t_rankings sample_ranks)) 1001 sample_score 5 \<and> last (t_rankings (gs_rk v)) = last (t_rankings sample_ranks)"
proof (intro allI)
  fix L D
  let ?w = "sample_online\<lparr>gs_rk := sample_ranks\<rparr>" and ?row = "hd (t_rankings sample_ranks)"
  let ?t = "score_uploaded 1001 sample_score 5 sample_ranks"
  have pid: "ec_PID (sc_connections (gs_sc ?w) 7) = 1001"
    by (simp add: sample_online_def sample_registered_def set_urls_def sample_endpoint_def)
  then have c: "conn_PID (packet_connection sample_U (gs_sc sample_online) 7) = 1001" by (simp add: packet_connection_def)
  have upload: "HyruleWarriorsInsertRankingByPIDAndRankingScoreData 1001 sample_score 5 sample_ranks = (Ok (), ?t)"
    by (rule run_Insert) (simp_all add: sample_score_def)
  have rows: "?row \<in> set (t_rankings sample_ranks)" "?row \<notin> set (t_rankings ?t)" "last (t_rankings ?t) = last (t_rankings sample_ranks)"
    by (simp_all add: sample_ranks_def score_uploaded_def upsert_def ranking_key_def score_row_def overwrite_def
      replaces_def sample_score_def int64_def)
  obtain res where run: "serve (sample_game L D) False 7 1 (Leaderboards (ReqUploadScore sample_score 5)) ?w =
      (res, ?w\<lparr>gs_rk := ?t\<rparr>)"
    using upload by (simp add: on_part_def sample_game_def uploadScore_def server_ranking_def c or_error_def bindM_def
      catchM_def retM_def)
  have "replaced_by ?row 1001 sample_score 5" using scores_are_owned [OF run, of ?row] rows pid by simp
  then show "\<exists>(v :: sample_station game_server) res.
      serve (sample_game L D) False 7 1 (Leaderboards (ReqUploadScore sample_score 5)) ?w = (res, v) \<and>
      replaced_by ?row 1001 sample_score 5 \<and> last (t_rankings (gs_rk v)) = last (t_rankings sample_ranks)"
    using run rows(3) by (intro exI [of _ "?w\<lparr>gs_rk := ?t\<rparr>"] exI [of _ res]) simp
qed

end
