(* ===== verification/Schema.thy ===== *)
theory Schema
  imports Nex_Prelude
begin

text \<open>
  The database schema and how a start of the process brings it up: the statements of
  \<open>src/database/init_postgres.go\<close>, which end the process when they fail, and those of the two
  \<open>SetManager\<close> functions, which only log it. The catalog holds the schemas, sequences, tables and
  indexes that exist; the rows are in the worlds of the other theories, where the checks on values
  (\<open>CHECK (order_by IN (0, 1))\<close>, the ranges of the types) are part of the statements.
\<close>

section \<open>Tables\<close>

datatype column_type = Bigserial | Bigint | Int4 | Smallint | Numeric nat | Text | Bytea | Boolean | Timestamp
  | ArrayOf column_type

record column =
  c_name :: string
  c_type :: column_type
  c_not_null :: bool
  c_default :: bool

definition nullable :: "string \<Rightarrow> column_type \<Rightarrow> column" where
  "nullable n t = \<lparr> c_name = n, c_type = t, c_not_null = False, c_default = False \<rparr>"

definition required_column :: "string \<Rightarrow> column_type \<Rightarrow> column" where
  "required_column n t = \<lparr> c_name = n, c_type = t, c_not_null = True, c_default = False \<rparr>"

definition defaulted :: "string \<Rightarrow> column_type \<Rightarrow> column" where
  "defaulted n t = \<lparr> c_name = n, c_type = t, c_not_null = True, c_default = True \<rparr>"

text \<open>A \<open>bigserial\<close> is never null and has a default from a sequence of its own.\<close>

definition serial :: "string \<Rightarrow> column" where
  "serial n = \<lparr> c_name = n, c_type = Bigserial, c_not_null = True, c_default = True \<rparr>"

type_synonym relation = "string \<times> string"

record table_def =
  tb_relation :: relation
  tb_columns :: "column list"
  tb_primary :: "string list"
  tb_unique :: "string list list"
  tb_sequence :: "relation option"

subsection \<open>Leaderboards and objects (database/init_postgres.go)\<close>

definition table_rankings :: table_def where
  "table_rankings = \<lparr> tb_relation = (''public'', ''hyrulewarriors_rankings''), tb_columns =
     [nullable ''owner_pid'' Bigint, nullable ''unique_id'' Bigint, nullable ''category'' Bigint,
      nullable ''score'' Bigint, nullable ''order_by'' Smallint, nullable ''update_mode'' Smallint,
      nullable ''groups'' Bytea, nullable ''param'' Bigint, nullable ''updated_at'' Bigint],
     tb_primary = [''unique_id'', ''owner_pid'', ''category''], tb_unique = [], tb_sequence = None \<rparr>"

definition table_ranking_categories :: table_def where
  "table_ranking_categories = \<lparr> tb_relation = (''public'', ''hyrulewarriors_ranking_categories''), tb_columns =
     [nullable ''category'' Bigint, required_column ''order_by'' Smallint,
      required_column ''created_at'' Bigint],
     tb_primary = [''category''], tb_unique = [], tb_sequence = None \<rparr>"

definition table_common_datas :: table_def where
  "table_common_datas = \<lparr> tb_relation = (''public'', ''hyrulewarriors_common_datas''), tb_columns =
     [nullable ''unique_id'' Bigint, nullable ''owner_pid'' Bigint, nullable ''common_data'' Bytea,
      nullable ''updated_at'' Bigint],
     tb_primary = [''unique_id'', ''owner_pid''], tb_unique = [], tb_sequence = None \<rparr>"

definition table_objects :: table_def where
  "table_objects = \<lparr> tb_relation = (''datastore'', ''objects''), tb_columns =
     [defaulted ''data_id'' Bigint, defaulted ''upload_completed'' Boolean,
      defaulted ''deleted'' Boolean, nullable ''owner'' Bigint, nullable ''size'' Int4,
      nullable ''name'' Text, nullable ''data_type'' Int4, nullable ''meta_binary'' Bytea,
      nullable ''permission'' Int4, nullable ''permission_recipients'' (ArrayOf Int4),
      nullable ''delete_permission'' Int4, nullable ''delete_permission_recipients'' (ArrayOf Int4),
      nullable ''flag'' Int4, nullable ''period'' Int4, nullable ''refer_data_id'' Bigint,
      nullable ''tags'' (ArrayOf Text), nullable ''persistence_slot_id'' Int4,
      nullable ''extra_data'' (ArrayOf Text), defaulted ''access_password'' Bigint,
      defaulted ''update_password'' Bigint, nullable ''creation_date'' Timestamp,
      nullable ''update_date'' Timestamp],
     tb_primary = [''data_id''], tb_unique = [], tb_sequence = Some (''datastore'', ''object_data_id_seq'') \<rparr>"

subsection \<open>Gatherings and their tracking (match-making/protocol.go)\<close>

definition table_gatherings :: table_def where
  "table_gatherings = \<lparr> tb_relation = (''matchmaking'', ''gatherings''), tb_columns =
     [serial ''id'', nullable ''owner_pid'' (Numeric 10), nullable ''host_pid'' (Numeric 10),
      nullable ''min_participants'' Int4, nullable ''max_participants'' Int4,
      nullable ''participation_policy'' Bigint, nullable ''policy_argument'' Bigint,
      nullable ''flags'' Bigint, nullable ''state'' Bigint, nullable ''description'' Text,
      defaulted ''registered'' Boolean, defaulted ''type'' Text, nullable ''started_time'' Timestamp,
      defaulted ''participants'' (ArrayOf (Numeric 10))],
     tb_primary = [''id''], tb_unique = [], tb_sequence = None \<rparr>"

definition table_register_gathering :: table_def where
  "table_register_gathering = \<lparr> tb_relation = (''tracking'', ''register_gathering''), tb_columns =
     [serial ''id'', nullable ''date'' Timestamp, nullable ''source_pid'' (Numeric 10),
      nullable ''gathering_id'' Bigint],
     tb_primary = [''id''], tb_unique = [], tb_sequence = None \<rparr>"

definition table_join_gathering :: table_def where
  "table_join_gathering = \<lparr> tb_relation = (''tracking'', ''join_gathering''), tb_columns =
     [serial ''id'', nullable ''date'' Timestamp, nullable ''source_pid'' (Numeric 10),
      nullable ''gathering_id'' Bigint, defaulted ''new_participants'' (ArrayOf (Numeric 10)),
      defaulted ''total_participants'' (ArrayOf (Numeric 10))],
     tb_primary = [''id''], tb_unique = [], tb_sequence = None \<rparr>"

definition table_leave_gathering :: table_def where
  "table_leave_gathering = \<lparr> tb_relation = (''tracking'', ''leave_gathering''), tb_columns =
     [serial ''id'', nullable ''date'' Timestamp, nullable ''source_pid'' (Numeric 10),
      nullable ''gathering_id'' Bigint, defaulted ''total_participants'' (ArrayOf (Numeric 10))],
     tb_primary = [''id''], tb_unique = [], tb_sequence = None \<rparr>"

definition table_disconnect_gathering :: table_def where
  "table_disconnect_gathering = \<lparr> tb_relation = (''tracking'', ''disconnect_gathering''), tb_columns =
     [serial ''id'', nullable ''date'' Timestamp, nullable ''source_pid'' (Numeric 10),
      nullable ''gathering_id'' Bigint, defaulted ''total_participants'' (ArrayOf (Numeric 10))],
     tb_primary = [''id''], tb_unique = [], tb_sequence = None \<rparr>"

definition table_unregister_gathering :: table_def where
  "table_unregister_gathering = \<lparr> tb_relation = (''tracking'', ''unregister_gathering''), tb_columns =
     [serial ''id'', nullable ''date'' Timestamp, nullable ''source_pid'' (Numeric 10),
      nullable ''gathering_id'' Bigint],
     tb_primary = [''id''], tb_unique = [], tb_sequence = None \<rparr>"

definition table_change_host :: table_def where
  "table_change_host = \<lparr> tb_relation = (''tracking'', ''change_host''), tb_columns =
     [serial ''id'', nullable ''date'' Timestamp, nullable ''source_pid'' (Numeric 10),
      nullable ''gathering_id'' Bigint, nullable ''old_host_pid'' (Numeric 10),
      nullable ''new_host_pid'' (Numeric 10)],
     tb_primary = [''id''], tb_unique = [], tb_sequence = None \<rparr>"

definition table_change_owner :: table_def where
  "table_change_owner = \<lparr> tb_relation = (''tracking'', ''change_owner''), tb_columns =
     [serial ''id'', nullable ''date'' Timestamp, nullable ''source_pid'' (Numeric 10),
      nullable ''gathering_id'' Bigint, nullable ''old_owner_pid'' (Numeric 10),
      nullable ''new_owner_pid'' (Numeric 10)],
     tb_primary = [''id''], tb_unique = [], tb_sequence = None \<rparr>"

subsection \<open>Sessions, communities, notifications (matchmake-extension/protocol.go)\<close>

definition table_matchmake_sessions :: table_def where
  "table_matchmake_sessions = \<lparr> tb_relation = (''matchmaking'', ''matchmake_sessions''), tb_columns =
     [serial ''id'', nullable ''game_mode'' Bigint, nullable ''attribs'' (ArrayOf Bigint),
      nullable ''open_participation'' Boolean, nullable ''matchmake_system_type'' Bigint,
      nullable ''application_buffer'' Bytea, nullable ''flags'' Bigint, nullable ''state'' Bigint,
      nullable ''progress_score'' Smallint, nullable ''session_key'' Bytea,
      nullable ''option_zero'' Bigint, nullable ''matchmake_param'' Bytea,
      nullable ''user_password'' Text, nullable ''refer_gid'' Bigint,
      nullable ''user_password_enabled'' Boolean, nullable ''system_password_enabled'' Boolean,
      nullable ''codeword'' Text, defaulted ''system_password'' Text],
     tb_primary = [''id''], tb_unique = [], tb_sequence = None \<rparr>"

definition table_persistent_gatherings :: table_def where
  "table_persistent_gatherings = \<lparr> tb_relation = (''matchmaking'', ''persistent_gatherings''), tb_columns =
     [serial ''id'', nullable ''community_type'' Bigint, nullable ''password'' Text,
      nullable ''attribs'' (ArrayOf Bigint), nullable ''application_buffer'' Bytea,
      nullable ''participation_start_date'' Timestamp, nullable ''participation_end_date'' Timestamp],
     tb_primary = [''id''], tb_unique = [], tb_sequence = None \<rparr>"

definition table_community_participations :: table_def where
  "table_community_participations = \<lparr> tb_relation = (''matchmaking'', ''community_participations''), tb_columns =
     [serial ''id'', nullable ''user_pid'' (Numeric 10), nullable ''gathering_id'' Bigint,
      nullable ''participation_count'' Bigint],
     tb_primary = [''id''], tb_unique = [[''user_pid'', ''gathering_id'']], tb_sequence = None \<rparr>"

definition table_notifications :: table_def where
  "table_notifications = \<lparr> tb_relation = (''matchmaking'', ''notifications''), tb_columns =
     [serial ''id'', nullable ''source_pid'' (Numeric 10), nullable ''type'' Bigint,
      nullable ''param_1'' Bigint, nullable ''param_2'' Bigint, nullable ''param_str'' Text,
      defaulted ''active'' Boolean],
     tb_primary = [''id''], tb_unique = [[''source_pid'', ''type'']], tb_sequence = None \<rparr>"

definition table_participate_community :: table_def where
  "table_participate_community = \<lparr> tb_relation = (''tracking'', ''participate_community''), tb_columns =
     [serial ''id'', nullable ''date'' Timestamp, nullable ''source_pid'' (Numeric 10),
      nullable ''community_gid'' Bigint, nullable ''gathering_id'' Bigint,
      nullable ''participation_count'' Bigint],
     tb_primary = [''id''], tb_unique = [], tb_sequence = None \<rparr>"

definition table_notification_data :: table_def where
  "table_notification_data = \<lparr> tb_relation = (''tracking'', ''notification_data''), tb_columns =
     [serial ''id'', nullable ''date'' Timestamp, nullable ''source_pid'' (Numeric 10),
      nullable ''type'' Bigint, nullable ''param_1'' Bigint, nullable ''param_2'' Bigint,
      nullable ''param_str'' Text],
     tb_primary = [''id''], tb_unique = [], tb_sequence = None \<rparr>"

definition owned_tables :: "table_def list" where
  "owned_tables = [table_rankings, table_ranking_categories, table_common_datas, table_objects]"

definition library_tables :: "table_def list" where
  "library_tables =
     [table_gatherings, table_register_gathering, table_join_gathering, table_leave_gathering,
      table_disconnect_gathering, table_unregister_gathering, table_change_host, table_change_owner,
      table_matchmake_sessions, table_persistent_gatherings, table_community_participations,
      table_notifications, table_participate_community, table_notification_data]"

section \<open>The catalog and its statements\<close>

datatype ddl =
    CreateSchema string
  | CreateSequence relation
  | CreateTable table_def
  | CreateIndexes "(string \<times> relation \<times> string list) list"
  | UpdateRows relation "string list"

record catalog = db_env +
  cat_schemas :: "string list"
  cat_sequences :: "relation list"
  cat_tables :: "table_def list"
  cat_indexes :: "string list"

definition find_table :: "catalog \<Rightarrow> relation \<Rightarrow> table_def option" where
  "find_table c r = find (\<lambda>t. tb_relation t = r) (cat_tables c)"

definition columns :: "table_def \<Rightarrow> string list" where
  "columns t = map c_name (tb_columns t)"

definition has_columns :: "catalog \<Rightarrow> relation \<Rightarrow> string list \<Rightarrow> bool" where
  "has_columns c r names = (case find_table c r of None \<Rightarrow> False | Some t \<Rightarrow> set names \<subseteq> set (columns t))"

text \<open>Whether the database can carry out a statement, and what it then does.\<close>

fun accepted :: "catalog \<Rightarrow> ddl \<Rightarrow> bool" where
  "accepted c (CreateSchema n) = True"
| "accepted c (CreateSequence r) = (fst r \<in> set (cat_schemas c))"
| "accepted c (CreateTable t) = (find_table c (tb_relation t) \<noteq> None \<or>
     fst (tb_relation t) \<in> set (cat_schemas c) \<and>
     (case tb_sequence t of None \<Rightarrow> True | Some r \<Rightarrow> r \<in> set (cat_sequences c)))"
| "accepted c (CreateIndexes ixs) = (\<forall>(_, r, names) \<in> set ixs. has_columns c r names)"
| "accepted c (UpdateRows r names) = has_columns c r names"

definition add_missing :: "'a \<Rightarrow> 'a list \<Rightarrow> 'a list" where
  "add_missing x xs = (if x \<in> set xs then xs else xs @ [x])"

fun carried_out :: "ddl \<Rightarrow> catalog \<Rightarrow> catalog" where
  "carried_out (CreateSchema n) c = c\<lparr>cat_schemas := add_missing n (cat_schemas c)\<rparr>"
| "carried_out (CreateSequence r) c = c\<lparr>cat_sequences := add_missing r (cat_sequences c)\<rparr>"
| "carried_out (CreateTable t) c =
     (if find_table c (tb_relation t) \<noteq> None then c else c\<lparr>cat_tables := cat_tables c @ [t]\<rparr>)"
| "carried_out (CreateIndexes ixs) c = c\<lparr>cat_indexes := fold add_missing (map fst ixs) (cat_indexes c)\<rparr>"
| "carried_out (UpdateRows r names) c = c"

definition run_ddl :: "ddl \<Rightarrow> (catalog, sql_error + unit) nex" where
  "run_ddl d = sql_insert (\<lambda>c. \<not> accepted c d) (carried_out d)"

text \<open>One statement after another, up to the first error; whether there was none.\<close>

fun run_until_error :: "ddl list \<Rightarrow> (catalog, bool) nex" where
  "run_until_error [] = retM True"
| "run_until_error (d # ds) = bindM (run_ddl d) (\<lambda>r. case r of Inl _ \<Rightarrow> retM False | Inr _ \<Rightarrow> run_until_error ds)"

section \<open>The statements of a start\<close>

definition init_statements :: "ddl list" where
  "init_statements =
     [CreateTable table_rankings, CreateTable table_ranking_categories, CreateTable table_common_datas,
      CreateIndexes
        [(''hyrulewarriors_rankings_category_score_idx'', (''public'', ''hyrulewarriors_rankings''),
            [''category'', ''score'', ''updated_at'']),
         (''hyrulewarriors_rankings_owner_category_idx'', (''public'', ''hyrulewarriors_rankings''),
            [''owner_pid'', ''category'']),
         (''hyrulewarriors_common_datas_owner_updated_idx'', (''public'', ''hyrulewarriors_common_datas''),
            [''owner_pid'', ''updated_at''])],
      CreateSchema ''datastore'', CreateSequence (''datastore'', ''object_data_id_seq''), CreateTable table_objects]"

text \<open>\<open>False\<close>: \<open>mustExec\<close> has ended the process.\<close>

definition initPostgres :: "(catalog, bool) nex" where
  "initPostgres = run_until_error init_statements"

definition gathering_statements :: "ddl list" where
  "gathering_statements =
     [CreateSchema ''matchmaking'', CreateTable table_gatherings, CreateSchema ''tracking'',
      CreateTable table_register_gathering, CreateTable table_join_gathering, CreateTable table_leave_gathering,
      CreateTable table_disconnect_gathering, CreateTable table_unregister_gathering, CreateTable table_change_host,
      CreateTable table_change_owner]"

definition SetManager_gatherings :: "(catalog, unit) nex" where
  "SetManager_gatherings = bindM (run_until_error gathering_statements) (\<lambda>_. retM ())"

definition session_statements :: "ddl list" where
  "session_statements =
     [CreateTable table_matchmake_sessions, CreateTable table_persistent_gatherings,
      CreateTable table_community_participations, CreateTable table_notifications,
      CreateTable table_participate_community, CreateTable table_notification_data,
      UpdateRows (''matchmaking'', ''gatherings'') [''registered'', ''type''],
      UpdateRows (''matchmaking'', ''notifications'') [''active'']]"

definition SetManager_sessions :: "(catalog, unit) nex" where
  "SetManager_sessions = bindM (run_until_error session_statements) (\<lambda>_. retM ())"

text \<open>
  \<open>ConnectPostgres\<close>, then the two calls of \<open>SetManager\<close> in \<open>registerSecureServerProtocols\<close> that use the
  database; \<open>False\<close> when the process has ended. Opening the database and the ping are input and
  output: \<open>connects\<close> says whether both succeed.
\<close>

definition ConnectPostgres :: "bool \<Rightarrow> (catalog, bool) nex" where
  "ConnectPostgres connects = (if connects then initPostgres else retM False)"

definition start_database :: "bool \<Rightarrow> (catalog, bool) nex" where
  "start_database connects = bindM (ConnectPostgres connects) (\<lambda>ok.
     if ok then bindM SetManager_gatherings (\<lambda>_. bindM SetManager_sessions (\<lambda>_. retM True)) else retM False)"

section \<open>The statements that insert rows\<close>

record insert_statement =
  in_table :: relation
  in_columns :: "string list"
  in_values :: nat
  in_conflict :: "string list option"
  in_returning :: "string list"

definition insert_common_datas :: insert_statement where
  "insert_common_datas = \<lparr> in_table = (''public'', ''hyrulewarriors_common_datas''), in_columns =
     [''common_data'', ''unique_id'', ''owner_pid'', ''updated_at''],
     in_values = 4, in_conflict = Some [''unique_id'', ''owner_pid''], in_returning = [] \<rparr>"

definition insert_ranking_categories :: insert_statement where
  "insert_ranking_categories = \<lparr> in_table = (''public'', ''hyrulewarriors_ranking_categories''), in_columns =
     [''category'', ''order_by'', ''created_at''],
     in_values = 3, in_conflict = Some [''category''], in_returning = [] \<rparr>"

definition insert_rankings :: insert_statement where
  "insert_rankings = \<lparr> in_table = (''public'', ''hyrulewarriors_rankings''), in_columns =
     [''owner_pid'', ''unique_id'', ''category'', ''score'', ''order_by'', ''update_mode'', ''groups'',
      ''param'', ''updated_at''],
     in_values = 9, in_conflict = Some [''unique_id'', ''owner_pid'', ''category''], in_returning = [] \<rparr>"

definition insert_objects :: insert_statement where
  "insert_objects = \<lparr> in_table = (''datastore'', ''objects''), in_columns =
     [''upload_completed'', ''deleted'', ''owner'', ''size'', ''name'', ''data_type'', ''meta_binary'',
      ''permission'', ''permission_recipients'', ''delete_permission'',
      ''delete_permission_recipients'', ''flag'', ''period'', ''refer_data_id'', ''tags'',
      ''persistence_slot_id'', ''extra_data'', ''access_password'', ''update_password'',
      ''creation_date'', ''update_date''],
     in_values = 21, in_conflict = None, in_returning = [''data_id''] \<rparr>"

definition insert_gatherings :: insert_statement where
  "insert_gatherings = \<lparr> in_table = (''matchmaking'', ''gatherings''), in_columns =
     [''owner_pid'', ''host_pid'', ''min_participants'', ''max_participants'',
      ''participation_policy'', ''policy_argument'', ''flags'', ''state'', ''description'', ''type'',
      ''started_time''],
     in_values = 11, in_conflict = None, in_returning = [''id''] \<rparr>"

definition insert_change_host :: insert_statement where
  "insert_change_host = \<lparr> in_table = (''tracking'', ''change_host''), in_columns =
     [''date'', ''source_pid'', ''gathering_id'', ''old_host_pid'', ''new_host_pid''],
     in_values = 5, in_conflict = None, in_returning = [] \<rparr>"

definition insert_change_owner :: insert_statement where
  "insert_change_owner = \<lparr> in_table = (''tracking'', ''change_owner''), in_columns =
     [''date'', ''source_pid'', ''gathering_id'', ''old_owner_pid'', ''new_owner_pid''],
     in_values = 5, in_conflict = None, in_returning = [] \<rparr>"

definition insert_disconnect_gathering :: insert_statement where
  "insert_disconnect_gathering = \<lparr> in_table = (''tracking'', ''disconnect_gathering''), in_columns =
     [''date'', ''source_pid'', ''gathering_id'', ''total_participants''],
     in_values = 4, in_conflict = None, in_returning = [] \<rparr>"

definition insert_join_gathering :: insert_statement where
  "insert_join_gathering = \<lparr> in_table = (''tracking'', ''join_gathering''), in_columns =
     [''date'', ''source_pid'', ''gathering_id'', ''new_participants'', ''total_participants''],
     in_values = 5, in_conflict = None, in_returning = [] \<rparr>"

definition insert_leave_gathering :: insert_statement where
  "insert_leave_gathering = \<lparr> in_table = (''tracking'', ''leave_gathering''), in_columns =
     [''date'', ''source_pid'', ''gathering_id'', ''total_participants''],
     in_values = 4, in_conflict = None, in_returning = [] \<rparr>"

definition insert_register_gathering :: insert_statement where
  "insert_register_gathering = \<lparr> in_table = (''tracking'', ''register_gathering''), in_columns =
     [''date'', ''source_pid'', ''gathering_id''],
     in_values = 3, in_conflict = None, in_returning = [] \<rparr>"

definition insert_unregister_gathering :: insert_statement where
  "insert_unregister_gathering = \<lparr> in_table = (''tracking'', ''unregister_gathering''), in_columns =
     [''date'', ''source_pid'', ''gathering_id''],
     in_values = 3, in_conflict = None, in_returning = [] \<rparr>"

definition insert_matchmake_sessions :: insert_statement where
  "insert_matchmake_sessions = \<lparr> in_table = (''matchmaking'', ''matchmake_sessions''), in_columns =
     [''id'', ''game_mode'', ''attribs'', ''open_participation'', ''matchmake_system_type'',
      ''application_buffer'', ''progress_score'', ''session_key'', ''option_zero'',
      ''matchmake_param'', ''user_password'', ''refer_gid'', ''user_password_enabled'',
      ''system_password_enabled'', ''codeword''],
     in_values = 15, in_conflict = None, in_returning = [] \<rparr>"

definition insert_persistent_gatherings :: insert_statement where
  "insert_persistent_gatherings = \<lparr> in_table = (''matchmaking'', ''persistent_gatherings''), in_columns =
     [''id'', ''community_type'', ''password'', ''attribs'', ''application_buffer'',
      ''participation_start_date'', ''participation_end_date''],
     in_values = 7, in_conflict = None, in_returning = [] \<rparr>"

definition insert_notifications :: insert_statement where
  "insert_notifications = \<lparr> in_table = (''matchmaking'', ''notifications''), in_columns =
     [''source_pid'', ''type'', ''param_1'', ''param_2'', ''param_str''],
     in_values = 5, in_conflict = Some [''source_pid'', ''type''], in_returning = [] \<rparr>"

definition insert_community_participations :: insert_statement where
  "insert_community_participations = \<lparr> in_table = (''matchmaking'', ''community_participations''), in_columns =
     [''user_pid'', ''gathering_id'', ''participation_count''],
     in_values = 3, in_conflict = Some [''user_pid'', ''gathering_id''], in_returning = [''participation_count''] \<rparr>"

definition insert_notification_data :: insert_statement where
  "insert_notification_data = \<lparr> in_table = (''tracking'', ''notification_data''), in_columns =
     [''date'', ''source_pid'', ''type'', ''param_1'', ''param_2'', ''param_str''],
     in_values = 6, in_conflict = None, in_returning = [] \<rparr>"

definition insert_participate_community :: insert_statement where
  "insert_participate_community = \<lparr> in_table = (''tracking'', ''participate_community''), in_columns =
     [''date'', ''source_pid'', ''community_gid'', ''gathering_id'', ''participation_count''],
     in_values = 5, in_conflict = None, in_returning = [] \<rparr>"

definition owned_inserts :: "insert_statement list" where
  "owned_inserts = [insert_common_datas, insert_ranking_categories, insert_rankings, insert_objects]"

definition library_inserts :: "insert_statement list" where
  "library_inserts =
     [insert_gatherings, insert_change_host, insert_change_owner, insert_disconnect_gathering,
      insert_join_gathering, insert_leave_gathering, insert_register_gathering,
      insert_unregister_gathering, insert_matchmake_sessions, insert_persistent_gatherings,
      insert_notifications, insert_community_participations, insert_notification_data,
      insert_participate_community]"

text \<open>
  What makes an \<open>INSERT\<close> well-formed for its table: the columns are different columns of the table, one
  value each, a column that is left out has a default or may be null, the conflict target is a
  declared key, and what is returned exists.
\<close>

definition may_be_omitted :: "table_def \<Rightarrow> column \<Rightarrow> bool" where
  "may_be_omitted t k \<longleftrightarrow> c_default k \<or> \<not> c_not_null k \<and> c_name k \<notin> set (tb_primary t)"

definition fits :: "table_def \<Rightarrow> insert_statement \<Rightarrow> bool" where
  "fits t i \<longleftrightarrow> in_table i = tb_relation t \<and> distinct (in_columns i) \<and> set (in_columns i) \<subseteq> set (columns t) \<and>
     length (in_columns i) = in_values i \<and>
     (\<forall>k \<in> set (tb_columns t). c_name k \<in> set (in_columns i) \<or> may_be_omitted t k) \<and>
     (case in_conflict i of None \<Rightarrow> True | Some key \<Rightarrow> set key \<in> set (map set (tb_primary t # tb_unique t))) \<and>
     set (in_returning i) \<subseteq> set (columns t)"

end
