(* ===== verification/Schema_Props.thy ===== *)
theory Schema_Props
  imports Schema
begin

text \<open>
  What a start leaves behind in the database: after one in which no statement fails the schema is
  complete and every statement that inserts a row is well-formed for its table; whatever fails, a
  process that runs has the tables of the leaderboards and the objects, and nothing is lost.
\<close>

section \<open>Statements in a good order are accepted\<close>

definition declared_tables :: "table_def list" where
  "declared_tables = owned_tables @ library_tables"

definition catalog_ok :: "catalog \<Rightarrow> bool" where
  "catalog_ok c \<longleftrightarrow> set (cat_tables c) \<subseteq> set declared_tables \<and> ''public'' \<in> set (cat_schemas c)"

text \<open>The database at any time: fresh, or after starts in which any statements failed.\<close>

inductive db_reachable :: "catalog \<Rightarrow> bool" where
  fresh: "cat_schemas c = [''public''] \<Longrightarrow> cat_sequences c = [] \<Longrightarrow> cat_tables c = [] \<Longrightarrow> cat_indexes c = [] \<Longrightarrow> db_reachable c"
| started: "db_reachable c \<Longrightarrow> start_database connects c = (r, t) \<Longrightarrow> db_reachable t"
| environment: "db_reachable c \<Longrightarrow> db_reachable (c\<lparr>db_faults := bs\<rparr>)"

text \<open>What has been done, and what a statement needs to have been done before it.\<close>

fun provided :: "catalog \<Rightarrow> ddl \<Rightarrow> bool" where
  "provided c (CreateSchema n) = (n \<in> set (cat_schemas c))"
| "provided c (CreateSequence r) = (r \<in> set (cat_sequences c))"
| "provided c (CreateTable t) = (find_table c (tb_relation t) = Some t)"
| "provided c (CreateIndexes ixs) = (set (map fst ixs) \<subseteq> set (cat_indexes c))"
| "provided c (UpdateRows r names) = True"

fun creates_columns :: "relation \<Rightarrow> string list \<Rightarrow> ddl \<Rightarrow> bool" where
  "creates_columns r names (CreateTable t) = (tb_relation t = r \<and> set names \<subseteq> set (columns t))"
| "creates_columns r names _ = False"

fun ready :: "ddl list \<Rightarrow> ddl \<Rightarrow> bool" where
  "ready K (CreateSchema n) = True"
| "ready K (CreateSequence r) = (CreateSchema (fst r) \<in> set K)"
| "ready K (CreateTable t) = ((fst (tb_relation t) = ''public'' \<or> CreateSchema (fst (tb_relation t)) \<in> set K) \<and>
     (case tb_sequence t of None \<Rightarrow> True | Some r \<Rightarrow> CreateSequence r \<in> set K))"
| "ready K (CreateIndexes ixs) = (\<forall>(_, r, names) \<in> set ixs. list_ex (creates_columns r names) K)"
| "ready K (UpdateRows r names) = list_ex (creates_columns r names) K"

fun well_ordered :: "ddl list \<Rightarrow> ddl list \<Rightarrow> bool" where
  "well_ordered K [] = True"
| "well_ordered K (d # ds) = (ready K d \<and> well_ordered (K @ [d]) ds)"

fun declared :: "ddl \<Rightarrow> bool" where
  "declared (CreateTable t) = (t \<in> set declared_tables)"
| "declared _ = True"

lemmas table_defs = table_rankings_def table_ranking_categories_def table_common_datas_def table_objects_def
  table_gatherings_def table_register_gathering_def table_join_gathering_def table_leave_gathering_def
  table_disconnect_gathering_def table_unregister_gathering_def table_change_host_def table_change_owner_def
  table_matchmake_sessions_def table_persistent_gatherings_def table_community_participations_def
  table_notifications_def table_participate_community_def table_notification_data_def

lemmas statement_defs = init_statements_def gathering_statements_def session_statements_def

lemmas column_defs = columns_def nullable_def required_column_def defaulted_def serial_def

lemma relations_differ: "distinct (map tb_relation declared_tables)"
  by (simp add: declared_tables_def owned_tables_def library_tables_def table_defs)

lemma declared_unique: "t \<in> set declared_tables \<Longrightarrow> u \<in> set declared_tables \<Longrightarrow> tb_relation t = tb_relation u \<Longrightarrow> t = u"
  using relations_differ by (auto simp: distinct_map dest: inj_onD)

lemma find_table_in: "find_table c r = Some t \<Longrightarrow> t \<in> set (cat_tables c) \<and> tb_relation t = r"
  by (auto simp: find_table_def find_Some_iff)

lemma find_declared: "catalog_ok c \<Longrightarrow> t \<in> set declared_tables \<Longrightarrow> find_table c (tb_relation t) = Some u \<Longrightarrow> u = t"
  using find_table_in declared_unique by (fastforce simp: catalog_ok_def)

lemma find_append: "find_table (c\<lparr>cat_tables := cat_tables c @ [t]\<rparr>) r =
    (case find_table c r of Some u \<Rightarrow> Some u | None \<Rightarrow> if tb_relation t = r then Some t else None)"
proof -
  have "find P (xs @ [x]) = (case find P xs of Some u \<Rightarrow> Some u | None \<Rightarrow> if P x then Some x else None)"
    for P and xs :: "table_def list" and x by (induction xs) auto
  then show ?thesis by (simp add: find_table_def)
qed

lemma set_add_missing [simp]: "set (add_missing x xs) = insert x (set xs)"
  by (auto simp: add_missing_def)

lemma set_fold_add_missing [simp]: "set (fold add_missing xs ys) = set xs \<union> set ys"
  by (induction xs arbitrary: ys) auto

lemma fold_add_present: "set xs \<subseteq> set ys \<Longrightarrow> fold add_missing xs ys = ys"
  by (induction xs) (auto simp: add_missing_def)

lemma find_table_upd [simp]:
  "find_table (c\<lparr>cat_schemas := a\<rparr>) r = find_table c r" "find_table (c\<lparr>cat_sequences := b\<rparr>) r = find_table c r"
  "find_table (c\<lparr>cat_indexes := d\<rparr>) r = find_table c r" "find_table (c\<lparr>db_faults := bs\<rparr>) r = find_table c r"
  by (simp_all add: find_table_def)

lemma find_carried_out: "find_table c r = Some t \<Longrightarrow> find_table (carried_out d c) r = Some t"
  by (cases d) (auto simp: find_append)

lemma carried_out_ok: "catalog_ok c \<Longrightarrow> declared d \<Longrightarrow> catalog_ok (carried_out d c)"
  by (cases d) (auto simp: catalog_ok_def)

lemma carried_out_keeps: "provided c k \<Longrightarrow> provided (carried_out d c) k"
  by (cases k; cases d) (auto simp: find_append)

lemma carried_out_provides: "catalog_ok c \<Longrightarrow> declared d \<Longrightarrow> provided (carried_out d c) d"
  by (cases d) (auto simp: find_append find_declared split: option.split)

lemma carried_out_provided: "provided c d \<Longrightarrow> carried_out d c = c"
  by (cases d) (auto simp: add_missing_def fold_add_present)

lemma provided_faults [simp]: "provided (c\<lparr>db_faults := bs\<rparr>) k = provided c k"
  by (cases k) simp_all

lemma ready_accepted:
  assumes "catalog_ok c" and "\<forall>k \<in> set K. provided c k" and "ready K d"
  shows "accepted c d"
proof -
  have known: "has_columns c r names" if made: "list_ex (creates_columns r names) K" for r names
  proof -
    obtain k where k: "k \<in> set K" "creates_columns r names k" using made unfolding list_ex_iff by blast
    then have "provided c k" using assms(2) by blast
    then show ?thesis using k(2) by (cases k) (auto simp: has_columns_def)
  qed
  show ?thesis
    using assms known by (cases d) (fastforce simp: catalog_ok_def split: option.splits)+
qed

section \<open>Runs\<close>

lemma run_run_ddl: "db_faults c = [] \<Longrightarrow> accepted c d \<Longrightarrow> run_ddl d c = (Ok (Inr ()), carried_out d c)"
  by (simp add: run_ddl_def run_insert)

lemma carried_out_faults [simp]: "db_faults (carried_out d c) = db_faults c"
  by (cases d) simp_all

text \<open>Progress: without faults a well-ordered list runs to its end.\<close>

lemma run_well_ordered:
  assumes "db_faults c = []" and "catalog_ok c" and "\<forall>k \<in> set K. provided c k" and "well_ordered K ds" and "\<forall>d \<in> set ds. declared d"
  shows "\<exists>t. run_until_error ds c = (Ok True, t) \<and> db_faults t = [] \<and> catalog_ok t \<and> (\<forall>k \<in> set (K @ ds). provided t k)"
  using assms
proof (induction ds arbitrary: K c)
  case Nil
  then show ?case by (simp add: retM_def)
next
  case (Cons d ds)
  let ?c = "carried_out d c"
  have run: "run_ddl d c = (Ok (Inr ()), ?c)"
    using Cons.prems by (intro run_run_ddl ready_accepted) auto
  have "\<forall>k \<in> set (K @ [d]). provided ?c k"
    using Cons.prems carried_out_keeps carried_out_provides by fastforce
  then obtain t where "run_until_error ds ?c = (Ok True, t)" "db_faults t = []" "catalog_ok t"
      "\<forall>k \<in> set ((K @ [d]) @ ds). provided t k"
    using Cons.IH [of ?c "K @ [d]"] Cons.prems carried_out_ok by auto
  then show ?case by (simp add: bindM_def run)
qed

text \<open>Preservation: under any faults the catalog stays as it should be and nothing is lost.\<close>

definition stable_catalog :: "(catalog \<Rightarrow> bool) \<Rightarrow> (ddl \<Rightarrow> bool) \<Rightarrow> bool" where
  "stable_catalog I D \<longleftrightarrow> (\<forall>c bs. I c \<longrightarrow> I (c\<lparr>db_faults := bs\<rparr>)) \<and> (\<forall>c d. D d \<longrightarrow> I c \<longrightarrow> I (carried_out d c))"

lemma keeps_run_ddl: "stable_catalog I D \<Longrightarrow> D d \<Longrightarrow> keeps I (run_ddl d)"
  unfolding run_ddl_def by (rule keeps_insert) (auto simp: stable_catalog_def)

lemma keeps_run_until_error: "stable_catalog I D \<Longrightarrow> \<forall>d \<in> set ds. D d \<Longrightarrow> keeps I (run_until_error ds)"
  by (induction ds) (auto intro!: keeps_rules keeps_run_ddl)

lemma start_declared: "\<forall>d \<in> set (init_statements @ gathering_statements @ session_statements). declared d"
  by (simp add: statement_defs declared_tables_def owned_tables_def library_tables_def)

lemma keeps_start:
  assumes "stable_catalog I declared"
  shows "keeps I (start_database connects)"
  unfolding start_database_def ConnectPostgres_def initPostgres_def SetManager_gatherings_def SetManager_sessions_def
  using start_declared by (intro keeps_rules keeps_run_until_error [OF assms]) auto

lemma ok_stable: "stable_catalog catalog_ok declared"
  unfolding stable_catalog_def using carried_out_ok by (auto simp: catalog_ok_def)

lemma provided_stable: "stable_catalog (\<lambda>c. provided c k) D"
  unfolding stable_catalog_def using carried_out_keeps by auto

lemma reachable_catalog_ok: "db_reachable c \<Longrightarrow> catalog_ok c"
proof (induction rule: db_reachable.induct)
  case (started c connects r t)
  then show ?case using keeps_run [OF keeps_start [OF ok_stable]] by blast
qed (auto simp: catalog_ok_def)

lemma run_ddl_Inr:
  assumes "run_ddl d c = (Ok (Inr v), u)"
  shows "\<exists>bs. u = carried_out d (c\<lparr>db_faults := bs\<rparr>)"
proof (cases "db_faults c")
  case Nil
  then have "u = carried_out d c" using assms by (auto simp: run_ddl_def run_insert split: if_splits)
  moreover have "c\<lparr>db_faults := []\<rparr> = c" using Nil by (cases c) simp
  ultimately show ?thesis by metis
next
  case (Cons b bs)
  then have "u = carried_out d (c\<lparr>db_faults := bs\<rparr>)"
    using assms by (auto simp: run_ddl_def sql_insert_def db_call_def bindM_def retM_def split: if_splits)
  then show ?thesis by blast
qed

lemma run_True_provides:
  assumes "run_until_error ds c = (Ok True, t)" and "catalog_ok c" and "\<forall>d \<in> set ds. declared d" and "k \<in> set ds"
  shows "provided t k"
  using assms
proof (induction ds arbitrary: c)
  case (Cons d ds)
  obtain r u where one: "run_ddl d c = (Ok r, u)" and rest: "(case r of Inl _ \<Rightarrow> retM False | Inr _ \<Rightarrow> run_until_error ds) u = (Ok True, t)"
    using Cons.prems(1) by (auto elim: bind_OkD)
  then obtain v where r: "r = Inr v" and rest: "run_until_error ds u = (Ok True, t)"
    by (cases r) (auto simp: retM_def)
  obtain bs where u: "u = carried_out d (c\<lparr>db_faults := bs\<rparr>)" using run_ddl_Inr one r by blast
  have "catalog_ok u" using keeps_run [OF keeps_run_ddl [OF ok_stable] Cons.prems(2) one] Cons.prems(3) by simp
  moreover have "provided u d"
    using Cons.prems(2,3) carried_out_provides [of "c\<lparr>db_faults := bs\<rparr>" d] by (auto simp: u catalog_ok_def)
  ultimately show ?case
    using Cons.IH [OF rest] Cons.prems(3,4) keeps_run [OF keeps_run_until_error [OF provided_stable, of _ "\<lambda>_. True"] _ rest]
    by (cases "k = d") auto
qed simp

text \<open>A list whose statements have all been carried out changes nothing.\<close>

lemma run_again:
  assumes "db_faults c = []" and "catalog_ok c" and "\<forall>k \<in> set K. provided c k" and "well_ordered K ds" and "\<forall>d \<in> set ds. provided c d"
  shows "run_until_error ds c = (Ok True, c)"
  using assms
proof (induction ds arbitrary: K)
  case (Cons d ds)
  have run: "run_ddl d c = (Ok (Inr ()), c)"
    using Cons.prems run_run_ddl ready_accepted carried_out_provided by fastforce
  show ?case using Cons.IH [of "K @ [d]"] Cons.prems by (simp add: bindM_def run)
qed (simp add: retM_def)

section \<open>Inserted rows fit\<close>

lemmas insert_defs = insert_common_datas_def insert_ranking_categories_def insert_rankings_def insert_objects_def
  insert_gatherings_def insert_change_host_def insert_change_owner_def insert_disconnect_gathering_def
  insert_join_gathering_def insert_leave_gathering_def insert_register_gathering_def insert_unregister_gathering_def
  insert_matchmake_sessions_def insert_persistent_gatherings_def insert_notifications_def
  insert_community_participations_def insert_notification_data_def insert_participate_community_def

lemma fits_owned_table:
  "fits table_common_datas insert_common_datas"
  "fits table_ranking_categories insert_ranking_categories"
  "fits table_rankings insert_rankings"
  "fits table_objects insert_objects"
  by (simp_all add: fits_def may_be_omitted_def table_defs insert_defs column_defs)

lemma fits_library_table:
  "fits table_gatherings insert_gatherings"
  "fits table_change_host insert_change_host"
  "fits table_change_owner insert_change_owner"
  "fits table_disconnect_gathering insert_disconnect_gathering"
  "fits table_join_gathering insert_join_gathering"
  "fits table_leave_gathering insert_leave_gathering"
  "fits table_register_gathering insert_register_gathering"
  "fits table_unregister_gathering insert_unregister_gathering"
  "fits table_matchmake_sessions insert_matchmake_sessions"
  "fits table_persistent_gatherings insert_persistent_gatherings"
  "fits table_notifications insert_notifications"
  "fits table_community_participations insert_community_participations"
  "fits table_notification_data insert_notification_data"
  "fits table_participate_community insert_participate_community"
  by (simp_all add: fits_def may_be_omitted_def table_defs insert_defs column_defs)

lemma fits_owned: "\<forall>i \<in> set owned_inserts. \<exists>d \<in> set owned_tables. fits d i"
  using fits_owned_table by (simp add: owned_inserts_def owned_tables_def)

lemma fits_library: "\<forall>i \<in> set library_inserts. \<exists>d \<in> set library_tables. fits d i"
  using fits_library_table by (simp add: library_inserts_def library_tables_def)

lemma provided_fits:
  assumes "\<forall>d \<in> set ts. provided c (CreateTable d)" and "\<forall>i \<in> set is. \<exists>d \<in> set ts. fits d i" and "i \<in> set is"
  shows "\<exists>d. find_table c (in_table i) = Some d \<and> fits d i"
proof -
  obtain d where "d \<in> set ts" "fits d i" using assms(2,3) by blast
  then show ?thesis using assms(1) by (auto simp: fits_def)
qed

section \<open>What a start guarantees\<close>

lemma statements_ordered:
  "well_ordered [] init_statements" "well_ordered init_statements gathering_statements"
  "well_ordered (init_statements @ gathering_statements) session_statements"
  by (simp_all add: statement_defs table_defs column_defs)

lemma tables_created:
  "d \<in> set owned_tables \<Longrightarrow> CreateTable d \<in> set init_statements"
  "d \<in> set library_tables \<Longrightarrow> CreateTable d \<in> set (gathering_statements @ session_statements)"
  by (auto simp: owned_tables_def library_tables_def statement_defs)

lemma start_completes:
  assumes "db_reachable c" and "db_faults c = []"
  shows "\<exists>t. start_database True c = (Ok True, t) \<and> (\<forall>d \<in> set (owned_tables @ library_tables). provided t (CreateTable d)) \<and>
    start_database True t = (Ok True, t)"
proof -
  let ?I = init_statements and ?G = gathering_statements and ?S = session_statements
  note declared = start_declared [unfolded set_append ball_Un]
  obtain t1 where t1: "run_until_error ?I c = (Ok True, t1)" "db_faults t1 = []" "catalog_ok t1" "\<forall>k \<in> set ([] @ ?I). provided t1 k"
    using run_well_ordered [OF assms(2) reachable_catalog_ok [OF assms(1)] _ statements_ordered(1)] declared by auto
  obtain t2 where t2: "run_until_error ?G t1 = (Ok True, t2)" "db_faults t2 = []" "catalog_ok t2" "\<forall>k \<in> set (?I @ ?G). provided t2 k"
    using run_well_ordered [OF t1(2,3) _ statements_ordered(2)] t1(4) declared by auto
  obtain t where t: "run_until_error ?S t2 = (Ok True, t)" "db_faults t = []" "catalog_ok t" "\<forall>k \<in> set ((?I @ ?G) @ ?S). provided t k"
    using run_well_ordered [OF t2(2,3,4) statements_ordered(3)] declared by auto
  have "start_database True c = (Ok True, t)"
    by (simp add: start_database_def ConnectPostgres_def initPostgres_def SetManager_gatherings_def SetManager_sessions_def
      bindM_def retM_def t1(1) t2(1) t(1))
  moreover have "run_until_error ?I t = (Ok True, t)" "run_until_error ?G t = (Ok True, t)" "run_until_error ?S t = (Ok True, t)"
    using t(4) by (auto intro!: run_again [OF t(2,3) _ statements_ordered(1)] run_again [OF t(2,3) _ statements_ordered(2)]
      run_again [OF t(2,3) _ statements_ordered(3)])
  then have "start_database True t = (Ok True, t)"
    by (simp add: start_database_def ConnectPostgres_def initPostgres_def SetManager_gatherings_def SetManager_sessions_def
      bindM_def retM_def)
  moreover have "\<forall>d \<in> set (owned_tables @ library_tables). provided t (CreateTable d)"
    using t(4) tables_created unfolding set_append ball_Un by blast
  ultimately show ?thesis by blast
qed

lemma always_ok_run: "always_ok (run_until_error ds)"
proof (induction ds)
  case (Cons d ds)
  have "always_ok (run_ddl d)"
    by (auto simp: always_ok_def run_ddl_def sql_insert_def db_call_def bindM_def retM_def split: list.splits)
  then show ?case using Cons by (auto intro!: always_ok_bind always_ok_ret split: sum.splits)
qed (simp add: always_ok_ret)

lemma always_ok_start: "always_ok (start_database connects)"
  unfolding start_database_def ConnectPostgres_def initPostgres_def SetManager_gatherings_def SetManager_sessions_def
  by (auto intro!: always_ok_bind always_ok_ret always_ok_run)

text \<open>
  C28: A start of the process in which no statement fails completes the database, from whatever
  earlier starts have left, however they were interrupted: it succeeds, each of the eighteen tables
  exists with the declared columns and keys, and every statement of the code that inserts a row is
  well-formed for its table: distinct existing columns with one value each, no missing column
  without a default, a declared key as the conflict target. Starting once more changes nothing.
\<close>

theorem clean_start_completes:
  assumes "db_reachable c" and "db_faults c = []"
  shows "\<exists>t. start_database True c = (Ok True, t) \<and>
    (\<forall>d \<in> set (owned_tables @ library_tables). find_table t (tb_relation d) = Some d) \<and>
    (\<forall>i \<in> set (owned_inserts @ library_inserts). \<exists>d. find_table t (in_table i) = Some d \<and> fits d i) \<and>
    start_database True t = (Ok True, t)"
proof -
  obtain t where t: "start_database True c = (Ok True, t)" "start_database True t = (Ok True, t)"
    and tables: "\<forall>d \<in> set (owned_tables @ library_tables). provided t (CreateTable d)"
    using start_completes [OF assms] by blast
  have "\<forall>i \<in> set (owned_inserts @ library_inserts). \<exists>d \<in> set (owned_tables @ library_tables). fits d i"
    using fits_owned fits_library by fastforce
  from provided_fits [OF tables this] show ?thesis using t tables by auto
qed

definition fresh_database :: "bool list \<Rightarrow> catalog" where
  "fresh_database bs = \<lparr> db_faults = bs, cat_schemas = [''public''], cat_sequences = [], cat_tables = [], cat_indexes = [] \<rparr>"

lemma fresh_reachable: "db_reachable (fresh_database bs)"
  by (rule fresh) (simp_all add: fresh_database_def)

lemma clean_start_completes_witness:
  "\<exists>t d. start_database True (fresh_database []) = (Ok True, t) \<and>
    find_table t (''matchmaking'', ''notifications'') = Some d \<and> fits d insert_notifications"
proof -
  have "insert_notifications \<in> set (owned_inserts @ library_inserts)" by (simp add: library_inserts_def)
  moreover have "in_table insert_notifications = (''matchmaking'', ''notifications'')" by (simp add: insert_notifications_def)
  moreover have "db_faults (fresh_database []) = []" by (simp add: fresh_database_def)
  ultimately show ?thesis using clean_start_completes [OF fresh_reachable] by metis
qed

text \<open>
  C29: Whatever statements fail during a start, the start ends without a panic and nothing that was
  in the schema is lost or altered; and a process that is running after it can store scores, common
  data and objects: their tables exist and their statements are well-formed. Only the tables of
  matchmaking may be missing then, as \<open>SetManager\<close> logs its errors and goes on.
\<close>

theorem running_process_can_store:
  assumes "db_reachable c" and "start_database connects c = (r, t)"
  shows "(\<exists>running. r = Ok running) \<and>
    (\<forall>rel d. find_table c rel = Some d \<longrightarrow> find_table t rel = Some d) \<and>
    (r = Ok True \<longrightarrow> connects \<and> (\<forall>i \<in> set owned_inserts. \<exists>d. find_table t (in_table i) = Some d \<and> fits d i))"
proof (intro conjI impI allI)
  show "\<exists>running. r = Ok running" using always_ok_start assms(2) unfolding always_ok_def by (metis prod.inject)
  show "find_table t rel = Some d" if "find_table c rel = Some d" for rel d
    using keeps_run [OF keeps_start _ assms(2), of "\<lambda>c. find_table c rel = Some d"] that
    by (simp add: stable_catalog_def find_carried_out)
next
  assume True: "r = Ok True"
  then show "connects" using assms(2) by (cases connects) (auto simp: start_database_def ConnectPostgres_def bindM_def retM_def)
  then obtain u where u: "run_until_error init_statements c = (Ok True, u)"
    and rest: "bindM SetManager_gatherings (\<lambda>_. bindM SetManager_sessions (\<lambda>_. retM True)) u = (Ok True, t)"
    using assms(2) True unfolding start_database_def ConnectPostgres_def initPostgres_def
    by (auto elim!: bind_OkD simp: retM_def split: if_splits)
  have "provided t (CreateTable d)" if "d \<in> set owned_tables" for d
  proof -
    have "provided u (CreateTable d)"
      by (rule run_True_provides [OF u reachable_catalog_ok [OF assms(1)] _ tables_created(1) [OF that]]) (use start_declared in auto)
    moreover have "keeps (\<lambda>c. provided c (CreateTable d)) (bindM SetManager_gatherings (\<lambda>_. bindM SetManager_sessions (\<lambda>_. retM True)))"
      unfolding SetManager_gatherings_def SetManager_sessions_def
      by (intro keeps_rules keeps_run_until_error [OF provided_stable, where D = "\<lambda>_. True"]) simp_all
    ultimately have "provided (snd (bindM SetManager_gatherings (\<lambda>_. bindM SetManager_sessions (\<lambda>_. retM True)) u)) (CreateTable d)"
      by (rule keepsD [rotated])
    then show ?thesis by (simp add: rest)
  qed
  then show "\<forall>i \<in> set owned_inserts. \<exists>d. find_table t (in_table i) = Some d \<and> fits d i"
    using provided_fits [OF _ fits_owned] by blast
qed

text \<open>The third statement fails: the process ends; at the next start all is well.\<close>

lemma running_process_can_store_witness:
  "\<exists>c t. start_database True (fresh_database [False, False, True]) = (Ok False, c) \<and>
    start_database True c = (Ok True, t) \<and> (\<exists>d. find_table t (''datastore'', ''objects'') = Some d \<and> fits d insert_objects)"
proof -
  obtain c where c: "start_database True (fresh_database [False, False, True]) = (Ok False, c)" "db_faults c = []"
    by (simp add: start_database_def ConnectPostgres_def initPostgres_def init_statements_def run_ddl_def sql_insert_def
      db_call_def bindM_def retM_def fresh_database_def table_defs find_table_def)
  have reach: "db_reachable c" using started [OF fresh_reachable c(1)] .
  obtain t where t: "start_database True c = (Ok True, t)"
    using start_completes [OF reach c(2)] by blast
  have i: "insert_objects \<in> set owned_inserts" "in_table insert_objects = (''datastore'', ''objects'')"
    by (simp_all add: owned_inserts_def insert_objects_def)
  have "\<forall>i \<in> set owned_inserts. \<exists>d. find_table t (in_table i) = Some d \<and> fits d i"
    using running_process_can_store [OF reach t] by simp
  then show ?thesis using c(1) t i by metis
qed

end
