(* ===== verification/Leaderboard_Spec.thy ===== *)
theory Leaderboard_Spec
  imports Ranking_Props Ranking_Store
begin

text \<open>
  What a leaderboard promises: a board gives every player's key a score, and an upload keeps the better
  of the two in the order of the category. The tables refine it: after any sequence of uploads the
  board holds the best score among the stored and the accepted ones, so their order does not matter.
\<close>

section \<open>The board\<close>

type_synonym score_key = "int \<times> int \<times> int"

type_synonym board = "score_key \<Rightarrow> int option"

text \<open>Category by category, an order: 0 is the least score first, everything else the greatest.\<close>

definition better :: "int \<Rightarrow> int \<Rightarrow> int \<Rightarrow> int" where
  "better order a b = (if order = 0 then min a b else max a b)"

definition record_score :: "int \<Rightarrow> score_key \<Rightarrow> int \<Rightarrow> board \<Rightarrow> board" where
  "record_score order k score B = B(k \<mapsto> (case B k of None \<Rightarrow> score | Some old \<Rightarrow> better order old score))"

text \<open>The best score of a list.\<close>

definition best :: "int \<Rightarrow> int list \<Rightarrow> int option" where
  "best order scores = (if scores = [] then None
     else Some (if order = 0 then Min (set scores) else Max (set scores)))"

lemma best_Cons: "best order (a # scores) = Some (case best order scores of None \<Rightarrow> a | Some b \<Rightarrow> better order a b)"
  by (simp add: best_def better_def)

lemma best_append_one:
  "best order (scores @ [a]) = Some (case best order scores of None \<Rightarrow> a | Some b \<Rightarrow> better order b a)"
  by (simp add: best_def better_def min.commute max.commute)

lemma best_set: "set xs = set ys \<Longrightarrow> best order xs = best order ys"
  by (cases xs; cases ys) (simp_all add: best_def)

section \<open>The board of the tables\<close>

definition board_of :: "rk_world \<Rightarrow> board" where
  "board_of s k = (case filter (\<lambda>r. ranking_key r = k) (t_rankings s) of [] \<Rightarrow> None | r # _ \<Rightarrow> Some (r_score r))"

text \<open>An upload: the time, the player, the data and the unique ID.\<close>

type_synonym upload = "int \<times> pid \<times> score_data \<times> u64"

fun upload_key :: "upload \<Rightarrow> score_key" where
  "upload_key (_, p, d, u) = (int64 u, int64 p, uint (sd_Category d))"

fun upload_score :: "upload \<Rightarrow> int" where
  "upload_score (_, _, d, _) = uint (sd_Score d)"

text \<open>The uploads run one after the other; the first result lists those that were answered with success.\<close>

fun run_uploads :: "upload list \<Rightarrow> rk_world \<Rightarrow> upload list \<times> rk_world" where
  "run_uploads [] s = ([], s)"
| "run_uploads ((now, p, d, u) # us) s =
     (case HyruleWarriorsInsertRankingByPIDAndRankingScoreData p d u (s\<lparr>rk_now := now\<rparr>) of
        (Ok _, t) \<Rightarrow> (case run_uploads us t of (accepted, v) \<Rightarrow> ((now, p, d, u) # accepted, v))
      | (_, t) \<Rightarrow> run_uploads us t)"

text \<open>Rows and uploads that follow the order of their category; uploads that do not force their score.\<close>

definition rows_follow :: "(int \<Rightarrow> int) \<Rightarrow> rk_world \<Rightarrow> bool" where
  "rows_follow order s \<longleftrightarrow> distinct (map ranking_key (t_rankings s)) \<and>
     (\<forall>r \<in> set (t_rankings s). r_order_by r = order (r_category r))"

fun upload_follows :: "(int \<Rightarrow> int) \<Rightarrow> upload \<Rightarrow> bool" where
  "upload_follows order (_, _, d, _) \<longleftrightarrow> sd_UpdateMode d = 0 \<and> uint (sd_OrderBy d) = order (uint (sd_Category d))"

section \<open>One upload\<close>

lemma db_call_InrD: "db_call q s = (Ok (Inr a), t) \<Longrightarrow> \<exists>bs. q (s\<lparr>db_faults := bs\<rparr>) = (a, t)"
proof (cases "db_faults s")
  case Nil
  assume run: "db_call q s = (Ok (Inr a), t)"
  have "q s = (a, t)" using run Nil by (simp add: db_call_def split: prod.splits)
  then have "q (s\<lparr>db_faults := db_faults s\<rparr>) = (a, t)" by simp
  then show ?thesis ..
next
  case (Cons b bs)
  assume "db_call q s = (Ok (Inr a), t)"
  then show ?thesis using Cons by (intro exI [of _ bs]) (auto simp: db_call_def split: prod.splits if_splits)
qed

lemma exec_InrD: "sql_exec n f s = (Ok (Inr a), t) \<Longrightarrow> \<exists>bs. t = f (s\<lparr>db_faults := bs\<rparr>)"
  using db_call_InrD [of "\<lambda>s. (n s, f s)"] by (fastforce simp: sql_exec_def)

lemma ok_or_OkD: "ok_or e r k s = (Ok a, t) \<Longrightarrow> \<exists>x. r = Inr x \<and> k x s = (Ok a, t)"
  by (cases r) (simp_all add: run_simps)

lemma transaction_OkD:
  assumes "transaction body s = (Ok (), t)"
  shows "\<exists>bs u. body (s\<lparr>db_faults := bs\<rparr>) = (Ok (), u) \<and> t_rankings t = t_rankings u"
proof -
  obtain r b where call: "db_call (\<lambda>s. ((), s)) s = (Ok r, b)" and
    rest: "(case r of Inl _ \<Rightarrow> throwM Core_Unknown | Inr _ \<Rightarrow> (\<lambda>s. commit_or_rollback s (body s))) b = (Ok (), t)"
    using assms unfolding transaction_def by (rule bind_OkD)
  obtain x where r: "r = Inr x" using rest by (cases r) (simp_all add: run_simps)
  obtain bs where b: "b = s\<lparr>db_faults := bs\<rparr>" using db_call_InrD [OF call [unfolded r]] by auto
  have commit: "commit_or_rollback b (body b) = (Ok (), t)" using rest r by simp
  obtain q u where body: "body b = (q, u)" by fastforce
  obtain c v where c: "db_call (\<lambda>t. ((), t)) u = (c, v)" by fastforce
  have "q = Ok ()" using commit body c by (cases q) (auto simp: commit_or_rollback_def)
  moreover from this obtain y where y: "c = Ok (Inr y)" "t = v"
    using commit body c by (auto simp: commit_or_rollback_def split: outcome.splits sum.splits)
  moreover obtain cs where "v = u\<lparr>db_faults := cs\<rparr>" using db_call_InrD [OF c [unfolded y]] by auto
  ultimately show ?thesis using body b by auto
qed

lemma accepted_order:
  "HyruleWarriorsInsertRankingByPIDAndRankingScoreData p d u s = (Ok (), t) \<Longrightarrow> sd_OrderBy d \<le> 1"
  by (auto simp: HyruleWarriorsInsertRankingByPIDAndRankingScoreData_def run_simps not_less split: if_splits)

lemma accepted_upload:
  assumes "HyruleWarriorsInsertRankingByPIDAndRankingScoreData p d u s = (Ok (), t)"
  shows "t_rankings t = upsert ranking_key (overwrite (score_row p d u (rk_now s))) (score_row p d u (rk_now s)) (t_rankings s)"
proof -
  let ?new = "score_row p d u (rk_now s)"
  let ?category = "\<lambda>s'. s'\<lparr>t_categories := upsert rc_category (\<lambda>c. c) \<lparr> rc_category = uint (sd_Category d),
      rc_order_by = uint (sd_OrderBy d), rc_created_at = rk_now s \<rparr> (t_categories s')\<rparr>"
  let ?score = "\<lambda>s'. s'\<lparr>t_rankings := upsert ranking_key (overwrite ?new) ?new (t_rankings s')\<rparr>"
  let ?rest = "\<lambda>r. ok_or Core_Unknown r (\<lambda>_. bindM (sql_exec (\<lambda>_. 1) ?score) (\<lambda>r. ok_or Core_Unknown r (\<lambda>_. retM ())))"
  have "transaction (bindM (sql_exec (\<lambda>_. 1) ?category) ?rest) s = (Ok (), t)"
    using assms by (simp add: HyruleWarriorsInsertRankingByPIDAndRankingScoreData_def run_simps split: if_splits)
  then obtain bs v where body: "bindM (sql_exec (\<lambda>_. 1) ?category) ?rest (s\<lparr>db_faults := bs\<rparr>) = (Ok (), v)"
    and t: "t_rankings t = t_rankings v" by (blast dest: transaction_OkD)
  obtain r s1 where category: "sql_exec (\<lambda>_. 1) ?category (s\<lparr>db_faults := bs\<rparr>) = (Ok r, s1)" and rest: "?rest r s1 = (Ok (), v)"
    using body by (rule bind_OkD)
  obtain x where r: "r = Inr x"
    and score: "bindM (sql_exec (\<lambda>_. 1) ?score) (\<lambda>r. ok_or Core_Unknown r (\<lambda>_. retM ())) s1 = (Ok (), v)"
    using ok_or_OkD [OF rest] by blast
  obtain r2 s2 where scored: "sql_exec (\<lambda>_. 1) ?score s1 = (Ok r2, s2)" and last: "ok_or Core_Unknown r2 (\<lambda>_. retM ()) s2 = (Ok (), v)"
    using score by (rule bind_OkD)
  have "t_rankings s1 = t_rankings s" using exec_InrD [OF category [unfolded r]] by auto
  moreover obtain y where r2: "r2 = Inr y" and "v = s2" using ok_or_OkD [OF last] by (auto simp: retM_def)
  moreover have "t_rankings s2 = upsert ranking_key (overwrite ?new) ?new (t_rankings s1)"
    using exec_InrD [OF scored [unfolded r2]] by auto
  ultimately show ?thesis using t by simp
qed


text \<open>The refinement of one upload: the tables do what the board does.\<close>

lemma one_upload:
  assumes "HyruleWarriorsInsertRankingByPIDAndRankingScoreData p d u (s\<lparr>rk_now := now\<rparr>) = (Ok (), t)"
    and "rows_follow order s" and "upload_follows order (now, p, d, u)"
  shows "rows_follow order t \<and> board_of t = record_score (order (uint (sd_Category d))) (upload_key (now, p, d, u))
    (upload_score (now, p, d, u)) (board_of s)"
proof
  let ?new = "score_row p d u now" and ?k = "upload_key (now, p, d, u)" and ?o = "order (uint (sd_Category d))"
  have rows: "t_rankings t = upsert ranking_key (overwrite ?new) ?new (t_rankings s)"
    using accepted_upload [OF assms(1)] by simp
  have key: "ranking_key ?new = ?k" by (simp add: ranking_key_def score_row_def)
  have new: "r_order_by ?new = ?o" "r_category ?new = uint (sd_Category d)" "r_score ?new = uint (sd_Score d)"
    and mode: "r_update_mode ?new \<noteq> 1"
    using assms(3) by (simp_all add: score_row_def)
  have stored: "r_order_by r = order (r_category r)" if "r \<in> set (t_rankings s)" for r
    using assms(2) that by (simp add: rows_follow_def)
  have same: "r_category r = uint (sd_Category d)" if "ranking_key r = ?k" for r
    using that by (simp add: ranking_key_def)
  have "r_order_by r = order (r_category r)" if r: "r \<in> set (t_rankings t)" for r
  proof -
    consider "r = ?new" | "r \<in> set (t_rankings s)" | q where "q \<in> set (t_rankings s)" "ranking_key q = ?k" "r = overwrite ?new q"
      using r by (auto simp: rows upsert_def key split: if_splits)
    then show ?thesis using stored same new by cases (auto simp: overwrite_def)
  qed
  then show "rows_follow order t"
    using rankings.distinct_upsert [of "t_rankings s" ?new] assms(2) by (simp add: rows_follow_def rows)
  have score: "r_score (overwrite ?new r) = better ?o (r_score r) (uint (sd_Score d))"
    if "r \<in> set (t_rankings s)" and "ranking_key r = ?k" for r
  proof -
    have "r_order_by r = ?o" using stored [OF that(1)] same [OF that(2)] by simp
    moreover have "?o = 0 \<or> ?o = 1" using assms(1,3) accepted_order [OF assms(1)] order_bit [of "sd_OrderBy d"] by auto
    ultimately show ?thesis using mode new(3) by (auto simp: overwrite_def replaces_def better_def)
  qed
  show "board_of t = record_score ?o ?k (upload_score (now, p, d, u)) (board_of s)"
  proof
    fix k
    show "board_of t k = record_score ?o ?k (upload_score (now, p, d, u)) (board_of s) k"
    proof (cases "k = ?k")
      case True
      have "filter (\<lambda>r. ranking_key r = ?k) (t_rankings t) =
          (case filter (\<lambda>r. ranking_key r = ?k) (t_rankings s) of [] \<Rightarrow> [?new] | rs \<Rightarrow> map (overwrite ?new) rs)"
        using rankings.key_rows_upsert [of ?new "t_rankings s"] by (simp add: key rows)
      moreover have "r_score (overwrite ?new r) = better ?o (r_score r) (uint (sd_Score d))"
        if "filter (\<lambda>r. ranking_key r = ?k) (t_rankings s) = r # rs" for r rs
        using score [of r] arg_cong [OF that, of set] by auto
      ultimately show ?thesis
        using True new(3) by (auto simp: board_of_def record_score_def split: list.splits)
    next
      case False
      then show ?thesis
        using rankings.other_rows_upsert [of k ?new "t_rankings s"] by (simp add: key rows board_of_def record_score_def)
    qed
  qed
qed


section \<open>Any number of uploads\<close>

lemma best_better: "best order (better order a b # scores) = best order (a # b # scores)"
  by (simp add: best_Cons better_def split: option.split) (simp add: ac_simps)

definition stored_score :: "board \<Rightarrow> score_key \<Rightarrow> int list" where
  "stored_score B k = (case B k of None \<Rightarrow> [] | Some score \<Rightarrow> [score])"

definition scores_for :: "score_key \<Rightarrow> upload list \<Rightarrow> int list" where
  "scores_for k us = map upload_score (filter (\<lambda>x. upload_key x = k) us)"

lemma best_recorded:
  "best (order (snd (snd k))) (stored_score (record_score (order (snd (snd (upload_key x)))) (upload_key x) (upload_score x) B) k @ scores) =
   best (order (snd (snd k))) (stored_score B k @ scores_for k [x] @ scores)"
  by (cases "B k") (auto simp: stored_score_def record_score_def scores_for_def best_better)

lemma refused_board:
  assumes "HyruleWarriorsInsertRankingByPIDAndRankingScoreData p d u (s\<lparr>rk_now := now\<rparr>) = (r, t)" and "r \<noteq> Ok ()"
  shows "board_of t = board_of s" and "rows_follow order t = rows_follow order s"
  using refused_upload [OF assms] by (simp_all add: board_of_def fun_eq_iff rows_follow_def)

lemma run_uploads_best:
  assumes "run_uploads us s = (accepted, t)" and "rows_follow order s" and "\<And>x. x \<in> set us \<Longrightarrow> upload_follows order x"
  shows "board_of t k = best (order (snd (snd k))) (stored_score (board_of s) k @ scores_for k accepted)"
  using assms
proof (induction us arbitrary: s accepted)
  case Nil
  then show ?case by (cases "board_of s k") (simp_all add: stored_score_def scores_for_def best_def)
next
  case (Cons x us)
  obtain now p d u where x: "x = (now, p, d, u)" by (cases x)
  obtain r v where run: "HyruleWarriorsInsertRankingByPIDAndRankingScoreData p d u (s\<lparr>rk_now := now\<rparr>) = (r, v)" by fastforce
  have follows: "upload_follows order (now, p, d, u)" using Cons.prems(3) [of x] by (simp add: x)
  show ?case
  proof (cases "r = Ok ()")
    case True
    obtain rest where rest: "run_uploads us v = (rest, t)" and accepted: "accepted = x # rest"
      using Cons.prems(1) by (auto simp: x run True split: prod.splits)
    note step = one_upload [OF run [unfolded True] Cons.prems(2) follows]
    have "board_of t k = best (order (snd (snd k))) (stored_score (board_of v) k @ scores_for k rest)"
      using Cons.IH [OF rest] step Cons.prems(3) by simp
    also have "\<dots> = best (order (snd (snd k))) (stored_score (board_of s) k @ scores_for k [x] @ scores_for k rest)"
      using step best_recorded [of order k x "board_of s"] by (simp add: x)
    finally show ?thesis by (simp add: accepted scores_for_def)
  next
    case False
    then have "run_uploads us v = (accepted, t)" using Cons.prems(1) by (cases r) (simp_all add: x run)
    then show ?thesis
      using Cons.IH [of v accepted] Cons.prems refused_board [OF run False] by simp
  qed
qed

text \<open>
  C17: A leaderboard keeps the best score, in whatever order and however often the players upload, and
  whichever statements fail. When the stored rows and the uploads of a category have one order and no
  upload forces its score, then after any sequence of uploads the score under every key of player,
  unique ID and category is the least (order 0) or the greatest (order 1) among the one stored before
  and those uploaded for this key with success. Two sequences with the same successful uploads, in any
  order, therefore leave the same scores.
\<close>

theorem leaderboard_keeps_the_best:
  assumes "run_uploads us s = (accepted, t)" and "rows_follow order s" and "\<forall>x \<in> set us. upload_follows order x"
  shows "board_of t k = best (order (snd (snd k))) (stored_score (board_of s) k @ scores_for k accepted) \<and>
    (\<forall>vs also_accepted t'. run_uploads vs s = (also_accepted, t') \<and> (\<forall>x \<in> set vs. upload_follows order x) \<and>
       set also_accepted = set accepted \<longrightarrow> board_of t' = board_of t)"
proof (intro conjI allI impI)
  show "board_of t k = best (order (snd (snd k))) (stored_score (board_of s) k @ scores_for k accepted)"
    using run_uploads_best [OF assms(1,2)] assms(3) by simp
next
  fix vs also_accepted t'
  assume vs: "run_uploads vs s = (also_accepted, t') \<and> (\<forall>x \<in> set vs. upload_follows order x) \<and> set also_accepted = set accepted"
  show "board_of t' = board_of t"
  proof
    fix k
    have "set (stored_score (board_of s) k @ scores_for k also_accepted) = set (stored_score (board_of s) k @ scores_for k accepted)"
      using vs by (simp add: scores_for_def)
    moreover have "board_of t' k = best (order (snd (snd k))) (stored_score (board_of s) k @ scores_for k also_accepted)"
      using run_uploads_best [of vs s also_accepted t' order] vs assms(2) by simp
    ultimately show "board_of t' k = board_of t k"
      using run_uploads_best [OF assms(1,2), of k] assms(3) best_set by metis
  qed
qed

text \<open>Without failures every admissible upload is accepted.\<close>

lemma all_accepted:
  assumes "db_faults s = []" and "\<And>x. x \<in> set us \<Longrightarrow> sd_OrderBy (fst (snd (snd x))) \<le> 1 \<and> sd_UpdateMode (fst (snd (snd x))) \<le> 1"
  shows "\<exists>t. run_uploads us s = (us, t)"
  using assms
proof (induction us arbitrary: s)
  case (Cons x us)
  obtain now p d u where x: "x = (now, p, d, u)" by (cases x)
  have "HyruleWarriorsInsertRankingByPIDAndRankingScoreData p d u (s\<lparr>rk_now := now\<rparr>) = (Ok (), score_uploaded p d u (s\<lparr>rk_now := now\<rparr>))"
    using Cons.prems(1) Cons.prems(2) [of x] by (intro run_Insert) (simp_all add: x)
  moreover obtain t where "run_uploads us (score_uploaded p d u (s\<lparr>rk_now := now\<rparr>)) = (us, t)"
    using Cons.IH [of "score_uploaded p d u (s\<lparr>rk_now := now\<rparr>)"] Cons.prems by (auto simp: score_uploaded_def)
  ultimately show ?case by (simp add: x)
qed simp

lemma leaderboard_keeps_the_best_witness:
  "\<exists>t. run_uploads [(1, 1001, sample_score, 5), (2, 1001, sample_score\<lparr>sd_Score := 650\<rparr>, 5)] sample_ranks =
      ([(1, 1001, sample_score, 5), (2, 1001, sample_score\<lparr>sd_Score := 650\<rparr>, 5)], t) \<and> board_of t (5, 1001, 3) = Some 700"
proof -
  let ?us = "[(1, 1001, sample_score, 5), (2, 1001, sample_score\<lparr>sd_Score := 650\<rparr>, 5)] :: upload list"
  have admissible: "sd_OrderBy (fst (snd (snd x))) \<le> 1 \<and> sd_UpdateMode (fst (snd (snd x))) \<le> 1" if "x \<in> set ?us" for x
  proof -
    have "x = (1, 1001, sample_score, 5) \<or> x = (2, 1001, sample_score\<lparr>sd_Score := 650\<rparr>, 5)" using that by simp
    then show ?thesis by (elim disjE) (simp_all add: sample_score_def)
  qed
  obtain t where run: "run_uploads ?us sample_ranks = (?us, t)"
    using all_accepted [OF sample_ranks_simps(1) admissible] by blast
  have rows: "rows_follow (\<lambda>_. 1) sample_ranks" by (simp add: rows_follow_def) (simp add: sample_ranks_def)
  have follow: "\<forall>x \<in> set ?us. upload_follows (\<lambda>_. 1) x" by (simp add: sample_score_def)
  have i: "int64 1001 = 1001" "int64 5 = 5" by (simp_all add: int64_def)
  have "stored_score (board_of sample_ranks) (5, 1001, 3) = [500]"
    by (simp add: stored_score_def board_of_def sample_ranks_def ranking_key_def)
  moreover have "scores_for (5, 1001, 3) ?us = [700, 650]" by (simp add: scores_for_def i sample_score_def)
  ultimately have "board_of t (5, 1001, 3) = Some 700"
    using conjunct1 [OF leaderboard_keeps_the_best [OF run rows follow, of "(5, 1001, 3)"]] by (simp add: best_def)
  then show ?thesis using run by blast
qed

end
