(* ===== verification/Endpoints.thy ===== *)
theory Endpoints
  imports Startup Game_Server
begin

text \<open>
  The two endpoints: what \<open>nex/authentication.go\<close> and \<open>nex/secure.go\<close> hand to the library before
  they listen. The protocols of an endpoint are the calls of \<open>RegisterServiceProtocol\<close> in their order,
  the handlers of a protocol are the calls of \<open>SetHandler...\<close> in its \<open>NewCommonProtocol\<close>.
\<close>

section \<open>Handlers\<close>

datatype game_method = MmMethod rmc_method | RkMethod rk_method | DsMethod ds_method | ScMethod sc_method | TgMethod tg_method

record service =
  sv_Protocol :: rmc_protocol
  sv_Handlers :: "game_method list"

definition ticket_granting_service :: service where
  "ticket_granting_service = \<lparr> sv_Protocol = TicketGranting_Protocol,
     sv_Handlers = map TgMethod [MethodLogin, MethodLoginEx, MethodRequestTicket] \<rparr>"

definition secure_connection_service :: service where
  "secure_connection_service = \<lparr> sv_Protocol = SecureConnection_Protocol,
     sv_Handlers = map ScMethod [MethodRegister, MethodRequestURLs, MethodRegisterEx, MethodReplaceURL, MethodSendReport] \<rparr>"

definition utility_service :: service where
  "utility_service = \<lparr> sv_Protocol = Utility_Protocol, sv_Handlers = map ScMethod [MethodAcquireNexUniqueID] \<rparr>"

definition ranking_service :: service where
  "ranking_service = \<lparr> sv_Protocol = Ranking_Protocol,
     sv_Handlers = map RkMethod [MethodGetCachedTopXRanking, MethodGetCachedTopXRankings, MethodGetCommonData,
       MethodGetRanking, MethodUploadCommonData, MethodUploadScore] \<rparr>"

definition datastore_service :: service where
  "datastore_service = \<lparr> sv_Protocol = DataStore_Protocol,
     sv_Handlers = map DsMethod [MethodDeleteObject, MethodGetMeta, MethodGetMetas, MethodSearchObject, MethodRateObject,
       MethodPostMetaBinary, MethodPreparePostObject, MethodPrepareGetObject, MethodCompletePostObject,
       MethodGetMetasMultipleParam, MethodCompletePostObjects, MethodChangeMeta, MethodRateObjects] \<rparr>"

definition nat_traversal_service :: service where
  "nat_traversal_service = \<lparr> sv_Protocol = NATTraversal_Protocol,
     sv_Handlers = map ScMethod [MethodRequestProbeInitiationExt, MethodReportNATProperties,
       MethodReportNATTraversalResult, MethodGetRelaySignatureKey, MethodReportNATTraversalResultDetail] \<rparr>"

definition match_making_service :: service where
  "match_making_service = \<lparr> sv_Protocol = MatchMaking_Protocol,
     sv_Handlers = map MmMethod [MethodUnregisterGathering, MethodFindBySingleID, MethodUpdateSessionURL,
       MethodUpdateSessionHostV1, MethodGetSessionURLs, MethodUpdateSessionHost] \<rparr>"

definition match_making_ext_service :: service where
  "match_making_ext_service = \<lparr> sv_Protocol = MatchMakingExt_Protocol, sv_Handlers = map MmMethod [MethodEndParticipation] \<rparr>"

definition matchmake_extension_service :: service where
  "matchmake_extension_service = \<lparr> sv_Protocol = MatchmakeExtension_Protocol,
     sv_Handlers = map MmMethod [MethodOpenParticipation, MethodCloseParticipation, MethodCreateMatchmakeSession,
       MethodGetSimplePlayingSession, MethodAutoMatchmakePostpone, MethodAutoMatchmakeWithParamPostpone,
       MethodAutoMatchmakeWithSearchCriteriaPostpone, MethodCreateCommunity, MethodFindCommunityByGatheringID,
       MethodFindOfficialCommunity, MethodFindCommunityByParticipant, MethodUpdateProgressScore,
       MethodCreateMatchmakeSessionWithParam, MethodUpdateApplicationBuffer, MethodJoinMatchmakeSession,
       MethodJoinMatchmakeSessionWithParam, MethodModifyCurrentGameAttribute, MethodBrowseMatchmakeSession,
       MethodJoinMatchmakeSessionEx, MethodGetSimpleCommunity, MethodUpdateNotificationData,
       MethodGetFriendNotificationData, MethodGetlstFriendNotificationData] \<rparr>"

section \<open>The secure server's protocols\<close>

text \<open>
  The S3 client is built from the environment when \<open>PN_S3_ENDPOINT\<close> is set; \<open>minio.New\<close>, which may
  fail, is a parameter over the endpoint and the two keys.
\<close>

definition s3_client :: "(string \<Rightarrow> string \<Rightarrow> string \<Rightarrow> minio_client option) \<Rightarrow> environment \<Rightarrow> minio_client option" where
  "s3_client minio_New env = (let s3Endpoint = env ''PN_S3_ENDPOINT'' in
     if s3Endpoint \<noteq> [] then minio_New s3Endpoint (env ''PN_S3_ACCESS_KEY'') (env ''PN_S3_SECRET_KEY'') else None)"

record 'u secure_protocols =
  pr_services :: "service list"
  pr_secure :: "'u sc_protocol"
  pr_ranking :: ranking_protocol
  pr_datastore :: ds_protocol
  pr_matchmaking :: mm_protocol
  pr_manager :: manager
  pr_connectionEnded :: "(nexlib \<Rightarrow> connection \<Rightarrow> unit mm) list"

text \<open>
  \<open>GetRatings\<close> is set on the DataStore protocol itself, after its common handlers. Two of the
  \<open>NewCommonProtocol\<close> functions add a callback for ended connections. All three matchmaking protocols
  are given the same manager.
\<close>

definition registerSecureServerProtocols ::
  "'u game_lib \<Rightarrow> (string \<Rightarrow> string \<Rightarrow> string \<Rightarrow> minio_client option) \<Rightarrow> environment \<Rightarrow> manager \<Rightarrow>
   'u secure_protocols" where
  "registerSecureServerProtocols G minio_New env manager = \<lparr>
     pr_services = [secure_connection_service, utility_service, ranking_service,
       datastore_service\<lparr>sv_Handlers := sv_Handlers datastore_service @ [DsMethod MethodGetRatings]\<rparr>,
       nat_traversal_service, match_making_service, match_making_ext_service, matchmake_extension_service],
     pr_secure = server_secure (gl_format G),
     pr_ranking = server_ranking (gl_rank G),
     pr_datastore = server_datastore (gl_ds G) (s3_client minio_New env) (env ''PN_S3_BUCKET''),
     pr_matchmaking = server_protocol,
     pr_manager = manager,
     pr_connectionEnded = [matchMaking_connectionEnded, \<lambda>_. matchmakeExtension_connectionEnded] \<rparr>"

text \<open>What the library does when a connection ends: the callbacks, in the order of their registration.\<close>

definition endConnection :: "'u secure_protocols \<Rightarrow> nexlib \<Rightarrow> connection \<Rightarrow> unit mm" where
  "endConnection P K connection = forM (pr_connectionEnded P) (\<lambda>callback. callback K connection)"

section \<open>The two servers\<close>

record library_version =
  lv_Major :: nat
  lv_Minor :: nat
  lv_Patch :: nat

record prudp_endpoint =
  ep_StreamID :: nat
  ep_IsSecureEndPoint :: bool
  ep_ServerAccount :: account
  ep_AccountDetailsByPID :: "pid \<Rightarrow> account au"
  ep_AccountDetailsByUsername :: "string \<Rightarrow> account au"
  ep_Services :: "service list"

record prudp_server =
  ps_LegacyConnectionSignature :: bool
  ps_EndPoint :: prudp_endpoint
  ps_LibraryVersion :: library_version
  ps_AccessKey :: string
  ps_UseStructureHeader :: bool
  ps_Listen :: int

definition NEXVersion :: library_version where
  "NEXVersion = \<lparr> lv_Major = 3, lv_Minor = 8, lv_Patch = 13 \<rparr>"

definition AccessKey :: string where
  "AccessKey = ''7fcc1f7c''"

definition registerAuthenticationServerProtocols ::
  "auth_config \<Rightarrow> 'u station_lib \<Rightarrow> environment \<Rightarrow> service list \<times> 'u tg_protocol" where
  "registerAuthenticationServerProtocols C U env =
    (let securePort = Atoi_value (env ''PN_HYRULEWARRIORS_SECURE_PORT'');
         secureHost = env ''PN_HYRULEWARRIORS_SECURE_HOST'' in
     ([ticket_granting_service], server_ticket_granting C U secureHost securePort))"

definition StartAuthenticationServer ::
  "auth_config \<Rightarrow> 'u station_lib \<Rightarrow> environment \<Rightarrow> prudp_server \<times> 'u tg_protocol" where
  "StartAuthenticationServer C U env =
    (let (services, ticketGranting) = registerAuthenticationServerProtocols C U env;
         endpoint = \<lparr> ep_StreamID = 1, ep_IsSecureEndPoint = False, ep_ServerAccount = AuthenticationServerAccount C,
           ep_AccountDetailsByPID = AccountDetailsByPID C, ep_AccountDetailsByUsername = AccountDetailsByUsername C,
           ep_Services = services \<rparr> in
     (\<lparr> ps_LegacyConnectionSignature = False, ps_EndPoint = endpoint, ps_LibraryVersion = NEXVersion,
        ps_AccessKey = AccessKey, ps_UseStructureHeader = True,
        ps_Listen = Atoi_value (env ''PN_HYRULEWARRIORS_AUTH_PORT'') \<rparr>, ticketGranting))"

definition StartSecureServer ::
  "auth_config \<Rightarrow> 'u game_lib \<Rightarrow> (string \<Rightarrow> string \<Rightarrow> string \<Rightarrow> minio_client option) \<Rightarrow> environment \<Rightarrow>
   prudp_server \<times> 'u secure_protocols" where
  "StartSecureServer C G minio_New env =
    (let protocols = registerSecureServerProtocols G minio_New env server_manager;
         endpoint = \<lparr> ep_StreamID = 1, ep_IsSecureEndPoint = True, ep_ServerAccount = SecureServerAccount C,
           ep_AccountDetailsByPID = AccountDetailsByPID C, ep_AccountDetailsByUsername = AccountDetailsByUsername C,
           ep_Services = pr_services protocols \<rparr> in
     (\<lparr> ps_LegacyConnectionSignature = False, ps_EndPoint = endpoint, ps_LibraryVersion = NEXVersion,
        ps_AccessKey = AccessKey, ps_UseStructureHeader = True,
        ps_Listen = Atoi_value (env ''PN_HYRULEWARRIORS_SECURE_PORT'') \<rparr>, protocols))"

text \<open>\<open>main\<close> runs after \<open>init\<close> and starts both servers, each on its own goroutine.\<close>

record 'u running_process =
  rp_config :: auth_config
  rp_authentication :: prudp_server
  rp_ticket_granting :: "'u tg_protocol"
  rp_secure :: prudp_server
  rp_protocols :: "'u secure_protocols"

definition run_main ::
  "auth_config \<Rightarrow> 'u game_lib \<Rightarrow> (string \<Rightarrow> string \<Rightarrow> string \<Rightarrow> minio_client option) \<Rightarrow> environment \<Rightarrow> 'u running_process" where
  "run_main C G minio_New env =
    (let (authentication, ticketGranting) = StartAuthenticationServer C (gl_stations G) env;
         (secure, protocols) = StartSecureServer C G minio_New env in
     \<lparr> rp_config = C, rp_authentication = authentication, rp_ticket_granting = ticketGranting,
       rp_secure = secure, rp_protocols = protocols \<rparr>)"

definition run_process ::
  "(bytes \<Rightarrow> bytes \<Rightarrow> bytes) \<Rightarrow> (bytes \<Rightarrow> bytes \<Rightarrow> bytes) \<Rightarrow> 'u game_lib \<Rightarrow>
   (string \<Rightarrow> string \<Rightarrow> string \<Rightarrow> minio_client option) \<Rightarrow> bool \<Rightarrow> environment \<Rightarrow> 'u running_process option" where
  "run_process decrypt hmac G minio_New postgres env =
     (case start_servers decrypt hmac (gl_stations G) postgres env of
        None \<Rightarrow> None | Some S \<Rightarrow> Some (run_main (su_config S) G minio_New env))"

section \<open>Requests and answers on the wire\<close>

text \<open>The handler that the endpoint runs for a request.\<close>

fun mm_route :: "mm_request \<Rightarrow> rmc_protocol \<times> rmc_method" where
  "mm_route (ReqUnregisterGathering _) = (MatchMaking_Protocol, MethodUnregisterGathering)"
| "mm_route (ReqFindBySingleID _) = (MatchMaking_Protocol, MethodFindBySingleID)"
| "mm_route (ReqUpdateSessionURL _ _) = (MatchMaking_Protocol, MethodUpdateSessionURL)"
| "mm_route (ReqUpdateSessionHostV1 _) = (MatchMaking_Protocol, MethodUpdateSessionHostV1)"
| "mm_route (ReqGetSessionURLs _) = (MatchMaking_Protocol, MethodGetSessionURLs)"
| "mm_route (ReqUpdateSessionHost _ _) = (MatchMaking_Protocol, MethodUpdateSessionHost)"
| "mm_route (ReqEndParticipation _ _) = (MatchMakingExt_Protocol, MethodEndParticipation)"
| "mm_route (ReqOpenParticipation _) = (MatchmakeExtension_Protocol, MethodOpenParticipation)"
| "mm_route (ReqCloseParticipation _) = (MatchmakeExtension_Protocol, MethodCloseParticipation)"
| "mm_route (ReqCreateMatchmakeSession _ _ _) = (MatchmakeExtension_Protocol, MethodCreateMatchmakeSession)"
| "mm_route (ReqGetSimplePlayingSession _ _) = (MatchmakeExtension_Protocol, MethodGetSimplePlayingSession)"
| "mm_route (ReqAutoMatchmakePostpone _ _) = (MatchmakeExtension_Protocol, MethodAutoMatchmakePostpone)"
| "mm_route (ReqAutoMatchmakeWithParamPostpone _) = (MatchmakeExtension_Protocol, MethodAutoMatchmakeWithParamPostpone)"
| "mm_route (ReqAutoMatchmakeWithSearchCriteriaPostpone _ _ _) =
     (MatchmakeExtension_Protocol, MethodAutoMatchmakeWithSearchCriteriaPostpone)"
| "mm_route (ReqCreateCommunity _ _) = (MatchmakeExtension_Protocol, MethodCreateCommunity)"
| "mm_route (ReqFindCommunityByGatheringID _) = (MatchmakeExtension_Protocol, MethodFindCommunityByGatheringID)"
| "mm_route (ReqFindOfficialCommunity _ _) = (MatchmakeExtension_Protocol, MethodFindOfficialCommunity)"
| "mm_route (ReqFindCommunityByParticipant _ _) = (MatchmakeExtension_Protocol, MethodFindCommunityByParticipant)"
| "mm_route (ReqUpdateProgressScore _ _) = (MatchmakeExtension_Protocol, MethodUpdateProgressScore)"
| "mm_route (ReqCreateMatchmakeSessionWithParam _) = (MatchmakeExtension_Protocol, MethodCreateMatchmakeSessionWithParam)"
| "mm_route (ReqUpdateApplicationBuffer _ _) = (MatchmakeExtension_Protocol, MethodUpdateApplicationBuffer)"
| "mm_route (ReqJoinMatchmakeSession _ _) = (MatchmakeExtension_Protocol, MethodJoinMatchmakeSession)"
| "mm_route (ReqJoinMatchmakeSessionWithParam _) = (MatchmakeExtension_Protocol, MethodJoinMatchmakeSessionWithParam)"
| "mm_route (ReqModifyCurrentGameAttribute _ _ _) = (MatchmakeExtension_Protocol, MethodModifyCurrentGameAttribute)"
| "mm_route (ReqBrowseMatchmakeSession _ _) = (MatchmakeExtension_Protocol, MethodBrowseMatchmakeSession)"
| "mm_route (ReqJoinMatchmakeSessionEx _ _ _ _) = (MatchmakeExtension_Protocol, MethodJoinMatchmakeSessionEx)"
| "mm_route (ReqGetSimpleCommunity _) = (MatchmakeExtension_Protocol, MethodGetSimpleCommunity)"
| "mm_route (ReqUpdateNotificationData _ _ _ _) = (MatchmakeExtension_Protocol, MethodUpdateNotificationData)"
| "mm_route (ReqGetFriendNotificationData _) = (MatchmakeExtension_Protocol, MethodGetFriendNotificationData)"
| "mm_route (ReqGetlstFriendNotificationData _) = (MatchmakeExtension_Protocol, MethodGetlstFriendNotificationData)"

fun rk_route :: "rk_request \<Rightarrow> rmc_protocol \<times> rk_method" where
  "rk_route (ReqGetCachedTopXRanking _ _) = (Ranking_Protocol, MethodGetCachedTopXRanking)"
| "rk_route (ReqGetCachedTopXRankings _ _) = (Ranking_Protocol, MethodGetCachedTopXRankings)"
| "rk_route (ReqGetCommonData _) = (Ranking_Protocol, MethodGetCommonData)"
| "rk_route (ReqGetRanking _ _ _ _ _) = (Ranking_Protocol, MethodGetRanking)"
| "rk_route (ReqUploadCommonData _ _) = (Ranking_Protocol, MethodUploadCommonData)"
| "rk_route (ReqUploadScore _ _) = (Ranking_Protocol, MethodUploadScore)"

fun ds_route :: "ds_request \<Rightarrow> rmc_protocol \<times> ds_method" where
  "ds_route (ReqPreparePostObject _) = (DataStore_Protocol, MethodPreparePostObject)"
| "ds_route (ReqPostMetaBinary _) = (DataStore_Protocol, MethodPostMetaBinary)"
| "ds_route (ReqCompletePostObject _) = (DataStore_Protocol, MethodCompletePostObject)"
| "ds_route (ReqCompletePostObjects _) = (DataStore_Protocol, MethodCompletePostObjects)"
| "ds_route (ReqPrepareGetObject _) = (DataStore_Protocol, MethodPrepareGetObject)"
| "ds_route (ReqGetMeta _) = (DataStore_Protocol, MethodGetMeta)"
| "ds_route (ReqGetMetas _ _) = (DataStore_Protocol, MethodGetMetas)"
| "ds_route (ReqGetMetasMultipleParam _) = (DataStore_Protocol, MethodGetMetasMultipleParam)"
| "ds_route (ReqSearchObject _) = (DataStore_Protocol, MethodSearchObject)"
| "ds_route (ReqChangeMeta _) = (DataStore_Protocol, MethodChangeMeta)"
| "ds_route (ReqDeleteObject _) = (DataStore_Protocol, MethodDeleteObject)"
| "ds_route (ReqRateObject _ _ _) = (DataStore_Protocol, MethodRateObject)"
| "ds_route (ReqRateObjects _ _ _ _) = (DataStore_Protocol, MethodRateObjects)"
| "ds_route (ReqGetRatings _ _) = (DataStore_Protocol, MethodGetRatings)"

fun sc_route :: "'u sc_request \<Rightarrow> rmc_protocol \<times> sc_method" where
  "sc_route (Register _) = (SecureConnection_Protocol, MethodRegister)"
| "sc_route (RegisterEx _ _) = (SecureConnection_Protocol, MethodRegisterEx)"
| "sc_route (ReplaceURL _ _) = (SecureConnection_Protocol, MethodReplaceURL)"
| "sc_route (RequestURLs _ _) = (SecureConnection_Protocol, MethodRequestURLs)"
| "sc_route (SendReport _ _) = (SecureConnection_Protocol, MethodSendReport)"
| "sc_route (RequestProbeInitiationExt _ _) = (NATTraversal_Protocol, MethodRequestProbeInitiationExt)"
| "sc_route (ReportNATProperties _ _ _) = (NATTraversal_Protocol, MethodReportNATProperties)"
| "sc_route (ReportNATTraversalResult _ _ _) = (NATTraversal_Protocol, MethodReportNATTraversalResult)"
| "sc_route GetRelaySignatureKey = (NATTraversal_Protocol, MethodGetRelaySignatureKey)"
| "sc_route (ReportNATTraversalResultDetail _ _ _ _) = (NATTraversal_Protocol, MethodReportNATTraversalResultDetail)"
| "sc_route AcquireNexUniqueID = (Utility_Protocol, MethodAcquireNexUniqueID)"

definition route :: "'u game_request \<Rightarrow> rmc_protocol \<times> game_method" where
  "route req = (case req of
     Matchmaking q \<Rightarrow> map_prod id MmMethod (mm_route q) | Leaderboards q \<Rightarrow> map_prod id RkMethod (rk_route q)
   | Objects q \<Rightarrow> map_prod id DsMethod (ds_route q) | Connections q \<Rightarrow> map_prod id ScMethod (sc_route q))"

text \<open>The three numbers by which a client tells what an answer answers.\<close>

definition rmc_label :: "('m, 'b) rmc_response \<Rightarrow> (rmc_protocol \<times> 'm) \<times> u32" where
  "rmc_label r = ((RmcProtocolID r, RmcMethodID r), RmcCallID r)"

definition game_label :: "'u game_response \<Rightarrow> (rmc_protocol \<times> game_method) \<times> u32" where
  "game_label r = (case r of
     MatchmakingResponse q \<Rightarrow> map_prod (map_prod id MmMethod) id (rmc_label q)
   | LeaderboardsResponse q \<Rightarrow> map_prod (map_prod id RkMethod) id (rmc_label q)
   | ObjectsResponse q \<Rightarrow> map_prod (map_prod id DsMethod) id (rmc_label q)
   | ConnectionsResponse q \<Rightarrow> map_prod (map_prod id ScMethod) id (rmc_label q))"

definition installed :: "service list \<Rightarrow> (rmc_protocol \<times> game_method) list" where
  "installed services = concat (map (\<lambda>s. map (Pair (sv_Protocol s)) (sv_Handlers s)) services)"

end
