(* ===== verification/Endpoints_Props.thy ===== *)
theory Endpoints_Props
  imports Endpoints Game_Props Startup_Props Authentication_Props
begin

text \<open>
  The endpoints as wholes: the labels of the answers, an answer to every request, and the way of a
  player from the authentication server to the secure server of the same process.
\<close>

section \<open>The installed handlers\<close>

lemma route_installed: "route req \<in> set (installed (pr_services (registerSecureServerProtocols G minio_New env mgr)))"
proof (cases req)
  case (Matchmaking q)
  then show ?thesis
    by (cases q) (simp_all add: route_def installed_def registerSecureServerProtocols_def match_making_service_def
      match_making_ext_service_def matchmake_extension_service_def)
next
  case (Leaderboards q)
  then show ?thesis
    by (cases q) (simp_all add: route_def installed_def registerSecureServerProtocols_def ranking_service_def)
next
  case (Objects q)
  then show ?thesis
    by (cases q) (simp_all add: route_def installed_def registerSecureServerProtocols_def datastore_service_def)
next
  case (Connections q)
  then show ?thesis
    by (cases q) (simp_all add: route_def installed_def registerSecureServerProtocols_def secure_connection_service_def
      utility_service_def nat_traversal_service_def)
qed

lemma mm_handled:
  "list_all (\<lambda>m. \<exists>q. mm_route q = (MatchMaking_Protocol, m)) [MethodUnregisterGathering, MethodFindBySingleID,
     MethodUpdateSessionURL, MethodUpdateSessionHostV1, MethodGetSessionURLs, MethodUpdateSessionHost]"
  "list_all (\<lambda>m. \<exists>q. mm_route q = (MatchMakingExt_Protocol, m)) [MethodEndParticipation]"
  "list_all (\<lambda>m. \<exists>q. mm_route q = (MatchmakeExtension_Protocol, m)) [MethodOpenParticipation, MethodCloseParticipation,
     MethodCreateMatchmakeSession, MethodGetSimplePlayingSession, MethodAutoMatchmakePostpone,
     MethodAutoMatchmakeWithParamPostpone, MethodAutoMatchmakeWithSearchCriteriaPostpone, MethodCreateCommunity,
     MethodFindCommunityByGatheringID, MethodFindOfficialCommunity, MethodFindCommunityByParticipant,
     MethodUpdateProgressScore, MethodCreateMatchmakeSessionWithParam, MethodUpdateApplicationBuffer,
     MethodJoinMatchmakeSession, MethodJoinMatchmakeSessionWithParam, MethodModifyCurrentGameAttribute,
     MethodBrowseMatchmakeSession, MethodJoinMatchmakeSessionEx, MethodGetSimpleCommunity,
     MethodUpdateNotificationData, MethodGetFriendNotificationData, MethodGetlstFriendNotificationData]"
  by (simp_all only: list.pred_inject simp_thms) (rule conjI | (rule exI, rule mm_route.simps))+

lemma rk_handled: "\<exists>q. rk_route q = (Ranking_Protocol, m)"
  by (cases m; simp; rule exI, rule rk_route.simps)

lemma ds_handled: "\<exists>q. ds_route q = (DataStore_Protocol, m)"
  by (cases m; simp; rule exI, rule ds_route.simps)

lemma sc_handled:
  "list_all (\<lambda>m. \<exists>q. sc_route q = (SecureConnection_Protocol, m))
     [MethodRegister, MethodRequestURLs, MethodRegisterEx, MethodReplaceURL, MethodSendReport]"
  "list_all (\<lambda>m. \<exists>q. sc_route q = (NATTraversal_Protocol, m)) [MethodRequestProbeInitiationExt, MethodReportNATProperties,
     MethodReportNATTraversalResult, MethodGetRelaySignatureKey, MethodReportNATTraversalResultDetail]"
  "list_all (\<lambda>m. \<exists>q. sc_route q = (Utility_Protocol, m)) [MethodAcquireNexUniqueID]"
  by (simp_all only: list.pred_inject simp_thms) (rule conjI | (rule exI, rule sc_route.simps))+

text \<open>The requests of the model are those of the installed handlers, all of them.\<close>

lemma routed:
  "mm_route a = (p, b) \<Longrightarrow> \<exists>req. route req = (p, MmMethod b)"
  "rk_route c = (p, d) \<Longrightarrow> \<exists>req. route req = (p, RkMethod d)"
  "ds_route e = (p, f) \<Longrightarrow> \<exists>req. route req = (p, DsMethod f)"
  "sc_route (g :: 'u sc_request) = (p, h) \<Longrightarrow> \<exists>req :: 'u game_request. route req = (p, ScMethod h)"
  using exI [of "\<lambda>req. route req = (p, MmMethod b)" "Matchmaking a"] exI [of "\<lambda>req. route req = (p, RkMethod d)" "Leaderboards c"]
    exI [of "\<lambda>req. route req = (p, DsMethod f)" "Objects e"] exI [of "\<lambda>req. route req = (p, ScMethod h)" "Connections g"]
  by (simp_all add: route_def)

lemma handled_route: "x \<in> set (installed (pr_services (registerSecureServerProtocols G minio_New env mgr))) \<Longrightarrow> \<exists>req. route req = x"
  using mm_handled sc_handled rk_handled ds_handled
  by (auto simp: installed_def registerSecureServerProtocols_def match_making_service_def match_making_ext_service_def
    matchmake_extension_service_def ranking_service_def datastore_service_def secure_connection_service_def
    utility_service_def nat_traversal_service_def intro: routed)


section \<open>Labels\<close>

text \<open>The three numbers of every value that an operation returns.\<close>

abbreviation labels :: "('s, ('m, 'b) rmc_response) nex \<Rightarrow> rmc_protocol \<times> 'm \<Rightarrow> u32 \<Rightarrow> bool" where
  "labels m x callID \<equiv> yields m (\<lambda>r. rmc_label r = (x, callID))"

lemma rmc_label_success [simp]: "rmc_label (rmcSuccess p m callID body) = ((p, m), callID)"
  by (simp add: rmc_label_def rmcSuccess_def)

lemma yields_option [yields_rules]:
  "yields m Q \<Longrightarrow> (\<And>a. yields (f a) Q) \<Longrightarrow> yields (case x of None \<Rightarrow> m | Some a \<Rightarrow> f a) Q"
  by (cases x) simp_all

lemma yields_sum [yields_rules]:
  "(\<And>a. yields (f a) Q) \<Longrightarrow> (\<And>a. yields (g a) Q) \<Longrightarrow> yields (case x of Inl a \<Rightarrow> f a | Inr a \<Rightarrow> g a) Q"
  by (cases x) simp_all

lemma yields_required [yields_rules]: "(\<And>a. yields (k a) Q) \<Longrightarrow> yields (required f k) Q"
  unfolding required_def by (intro yields_rules)

lemma yields_or_error [yields_rules]: "(\<And>a. yields (k a) Q) \<Longrightarrow> yields (or_error e m k) Q"
  unfolding or_error_def by (intro yields_rules)

lemma yields_ds_ok [yields_rules]: "Q (rmcSuccess DataStore_Protocol m callID body) \<Longrightarrow> yields (ds_ok m callID body) Q"
  unfolding ds_ok_def by (intro yields_rules)

lemma datastore_labels: "labels (handle_datastore L P err c callID req) (ds_route req) callID"
  by (cases req) (simp_all add: preparePostObject_def postMetaBinary_def completePostObject_def completePostObjects_def
    prepareGetObject_def getMeta_def getMetas_def getMetasMultipleParam_def searchObject_def changeMeta_def deleteObject_def
    rateObject_def rateObjects_def HyruleWarriorsGetRatings_def yields_rules)

lemma ranking_labels: "labels (handle_ranking L P err c callID req) (rk_route req) callID"
  by (cases req) (simp_all add: getCachedTopXRanking_def getCachedTopXRankings_def getCommonData_def getRanking_def
    uploadCommonData_def uploadScore_def yields_rules)

lemma secure_labels: "labels (handle_secure U format dateTime err i callID req) (sc_route req) callID"
  by (cases req) (simp_all add: register_def registerEx_def replaceURL_def requestURLs_def sendReport_def
    requestProbeInitiationExt_def reportNATProperties_def reportNATTraversalResult_def
    reportNATTraversalResultDetail_def getRelaySignatureKey_def acquireNexUniqueID_def yields_rules)


text \<open>
  \<open>match-making/update_session_url.go\<close> labels its answer with the method of \<open>GetSessionURLs\<close>.
\<close>

definition mm_answer :: "mm_request \<Rightarrow> rmc_protocol \<times> rmc_method" where
  "mm_answer req = (case req of
     ReqUpdateSessionURL _ _ \<Rightarrow> (MatchMaking_Protocol, MethodGetSessionURLs) | _ \<Rightarrow> mm_route req)"

lemma yields_or_denied [yields_rules]: "yields m Q \<Longrightarrow> yields (or_denied e m) Q"
  unfolding or_denied_def by (intro yields_rules)

lemma yields_take [yields_rules]:
  "Q response \<Longrightarrow> yields (takeHost c gid gathering response) Q"
  "Q response \<Longrightarrow> yields (takeOwnership K c gid gathering participants response) Q"
  unfolding takeHost_def takeOwnership_def by (intro yields_rules; assumption)+

lemma yields_extension [yields_rules]:
  "(\<And>body. Q (rmcSuccess MatchmakeExtension_Protocol method callID body)) \<Longrightarrow>
    yields (owner_update K c gid check update method callID) Q"
  "(\<And>body. Q (rmcSuccess MatchmakeExtension_Protocol method callID body)) \<Longrightarrow>
    yields (join_by_id K P mgr err c callID gid message n method) Q"
  unfolding owner_update_def join_by_id_def by (intro yields_rules; simp)+

lemma matchmaking_labels: "labels (handle K P mgr err c callID req) (mm_answer req) callID"
  unfolding handle_def mm_answer_def
  by (cases req) (simp_all add: unregisterGathering_def findBySingleID_def updateSessionURL_def updateSessionHostV1_def
    getSessionURLs_def updateSessionHost_def endParticipation_def openParticipation_def closeParticipation_def
    createMatchmakeSession_def getSimplePlayingSession_def autoMatchmakePostpone_def autoMatchmakeWithParamPostpone_def
    autoMatchmakeWithSearchCriteriaPostpone_def createCommunity_def findCommunityByGatheringID_def
    findOfficialCommunity_def findCommunityByParticipant_def communities_response_def updateProgressScore_def
    createMatchmakeSessionWithParam_def updateApplicationBuffer_def joinMatchmakeSession_def
    joinMatchmakeSessionWithParam_def modifyCurrentGameAttribute_def browseMatchmakeSession_def
    joinMatchmakeSessionEx_def getSimpleCommunity_def updateNotificationData_def getFriendNotificationData_def
    getlstFriendNotificationData_def Let_def yields_rules)


lemma on_part_OkD:
  assumes "on_part get put respond m w = (Ok x, v)"
  obtains a s where "m (get w) = (Ok a, s)" and "x = respond a" and "v = put s w"
  using assms by (cases "m (get w)"; cases "fst (m (get w))") (auto simp: on_part_def)

lemma secure_services:
  "ep_Services (ps_EndPoint (fst (StartSecureServer C G minio_New env))) =
    pr_services (registerSecureServerProtocols G minio_New env server_manager)"
  by (simp add: StartSecureServer_def Let_def)

definition answer_route :: "'u game_request \<Rightarrow> rmc_protocol \<times> game_method" where
  "answer_route req = (case req of Matchmaking q \<Rightarrow> map_prod id MmMethod (mm_answer q) | _ \<Rightarrow> route req)"

text \<open>
  C18: Every successful answer of the secure server is labelled: with the protocol of the request, its
  call ID, and the method of the handler that the endpoint installed for it, in every state and
  whatever fails; only the answer to \<open>UpdateSessionURL\<close> carries the method of \<open>GetSessionURLs\<close>. The
  handlers that the endpoint of a started process installs are those of the requests of the model,
  no more and no fewer.
\<close>

theorem answers_are_labelled:
  assumes "serve G err i callID req w = (Ok resp, v)"
  shows "game_label resp = (answer_route req, callID) \<and>
    set (installed (ep_Services (ps_EndPoint (fst (StartSecureServer C G minio_New env))))) =
      range (route :: 'u game_request \<Rightarrow> rmc_protocol \<times> game_method)"
proof
  show "game_label resp = (answer_route req, callID)"
  proof (cases req)
    case (Matchmaking q)
    then show ?thesis
      using assms by (auto simp: game_label_def answer_route_def elim!: on_part_OkD dest!: yieldsD [OF matchmaking_labels])
  next
    case (Leaderboards q)
    then show ?thesis
      using assms by (auto simp: game_label_def answer_route_def route_def elim!: on_part_OkD dest!: yieldsD [OF ranking_labels])
  next
    case (Objects q)
    then show ?thesis
      using assms by (auto simp: game_label_def answer_route_def route_def elim!: on_part_OkD dest!: yieldsD [OF datastore_labels])
  next
    case (Connections q)
    then show ?thesis
      using assms by (auto simp: game_label_def answer_route_def route_def elim!: on_part_OkD dest!: yieldsD [OF secure_labels])
  qed
next
  show "set (installed (ep_Services (ps_EndPoint (fst (StartSecureServer C G minio_New env))))) =
      range (route :: 'u game_request \<Rightarrow> rmc_protocol \<times> game_method)"
    unfolding secure_services using route_installed handled_route [THEN exE] by (blast intro: range_eqI)
qed


lemma answers_are_labelled_witness:
  "\<forall>L D. \<exists>resp (v :: sample_station game_server).
    serve (sample_game L D) False 7 1 (Connections (Register [local_url])) sample_start = (Ok resp, v) \<and>
    game_label resp = ((SecureConnection_Protocol, ScMethod MethodRegister), 1)"
proof (intro allI)
  fix L D
  obtain resp where run: "serve (sample_game L D) False 7 1 (Connections (Register [local_url])) sample_start =
      (Ok resp, sample_online)"
    by (simp add: on_part_def sample_game_def sample_start_def sample_online_def run_register_sample)
  have "game_label resp = ((SecureConnection_Protocol, ScMethod MethodRegister), 1)"
    using conjunct1 [OF answers_are_labelled [OF run]] by (simp add: answer_route_def route_def)
  with run show "\<exists>resp (v :: sample_station game_server).
      serve (sample_game L D) False 7 1 (Connections (Register [local_url])) sample_start = (Ok resp, v) \<and>
      game_label resp = ((SecureConnection_Protocol, ScMethod MethodRegister), 1)" by blast
qed

section \<open>An answer to every request\<close>

text \<open>An operation that does not wait; it may panic.\<close>

definition returns :: "('s, 'a) nex \<Rightarrow> bool" where
  "returns m \<longleftrightarrow> result_in (\<lambda>r. r \<noteq> Blocked) m"

named_theorems returns_rules "introduction rules for operations that do not wait"

lemma returns_safe: "result_in safe m \<Longrightarrow> returns m"
  by (simp add: returns_def result_in_def safe_def)

lemma returns_simple [returns_rules]: "returns (retM a)" "returns (throwM e)" "returns (getM f)" "returns panicM"
  by (simp_all add: returns_def result_in_def run_simps)

lemma returns_bind [returns_rules]: "returns m \<Longrightarrow> (\<And>a. returns (f a)) \<Longrightarrow> returns (bindM m f)"
  by (auto simp: returns_def result_in_def bindM_def split: prod.splits outcome.splits) (metis fst_conv)+

lemma returns_catch [returns_rules]: "returns m \<Longrightarrow> returns (catchM m)"
  by (auto simp: returns_def result_in_def catchM_def split: prod.splits outcome.splits) (metis fst_conv)+

lemma returns_cases [returns_rules]:
  "returns m \<Longrightarrow> returns n \<Longrightarrow> returns (if b then m else n)"
  "(\<And>x. returns (f x)) \<Longrightarrow> returns (Let v f)"
  "(\<And>a b. returns (g a b)) \<Longrightarrow> returns (case p of (a, b) \<Rightarrow> g a b)"
  "returns m \<Longrightarrow> (\<And>a. returns (h a)) \<Longrightarrow> returns (case x of None \<Rightarrow> m | Some a \<Rightarrow> h a)"
  "(\<And>a. returns (j a)) \<Longrightarrow> (\<And>a. returns (k a)) \<Longrightarrow> returns (case y of Inl a \<Rightarrow> j a | Inr a \<Rightarrow> k a)"
  by (auto split: prod.splits option.splits sum.splits)

lemma returns_loops [returns_rules]:
  "(\<And>x. returns (f x)) \<Longrightarrow> returns (forM xs f)"
  "(\<And>b x. returns (g b x)) \<Longrightarrow> returns (foldM g b xs)"
proof -
  show "returns (forM xs f)" if "\<And>x. returns (f x)" using that by (induction xs) (auto intro: returns_rules)
  show "returns (foldM g b xs)" if "\<And>b x. returns (g b x)" using that by (induction xs arbitrary: b) (auto intro: returns_rules)
qed


lemma returns_sql [returns_rules]:
  "returns (sql_query q)" "returns (sql_query_row qr)" "returns (sql_exec n f)" "returns (sql_returning ret g)"
  "returns (sql_insert c h)" "(\<And>a. returns (k a)) \<Longrightarrow> returns (ok_or e r k)" "(\<And>a. returns (l a)) \<Longrightarrow> returns (row_or e r' l)"
  by (auto intro: returns_safe safe_rules simp: ok_or_def row_or_def returns_rules split: sum.splits sql_error.splits)

lemma returns_list [returns_rules]:
  "returns m \<Longrightarrow> (\<And>y ys. returns (f y ys)) \<Longrightarrow> returns (case xs of [] \<Rightarrow> m | y # ys \<Rightarrow> f y ys)"
  "returns m \<Longrightarrow> returns n \<Longrightarrow> returns (case e of ErrNoRows \<Rightarrow> m | ErrDatabase \<Rightarrow> n)"
  "returns (db_call q)"
  by (auto intro: returns_safe safe_rules split: list.splits sql_error.splits)

lemma returns_collect [returns_rules]: "(\<And>x. returns (f x)) \<Longrightarrow> returns (collectM f xs)"
  unfolding collectM_def by (intro returns_rules)

lemma returns_permission [returns_rules]:
  "returns (VerifyObjectPermission (server_datastore L cl b) p q permission)" "returns (S3ObjectSize bucket key)"
  unfolding called_def VerifyObjectPermission_def S3ObjectSize_def by (simp_all add: returns_rules)

lemma returns_object_callbacks [returns_rules]:
  "returns (GetObjectInfoByDataID L dataID)" "returns (GetObjectInfoByDataIDWithPassword L dataID password)"
  "returns (GetObjectInfoByPersistenceTargetWithPassword L target password)"
  "returns (GetObjectInfosByDataStoreSearchParam L param p)" "returns (GetObjectOwnerByDataID dataID)"
  "returns (GetObjectSizeByDataID dataID)" "returns (InitializeObjectByPreparePostParam L p post)"
  "returns (InitializeObjectRatingWithSlot dataID slot)" "returns (UpdateObjectPeriodByDataIDWithPassword dataID period password)"
  "returns (UpdateObjectMetaBinaryByDataIDWithPassword dataID metaBinary password)"
  "returns (UpdateObjectDataTypeByDataIDWithPassword dataID dataType password)"
  "returns (UpdateObjectUploadCompletedByDataID dataID completed)" "returns (DeleteObjectByDataID dataID)"
  unfolding GetObjectInfoByDataID_def GetObjectInfoByDataIDWithPassword_def GetObjectInfoByPersistenceTargetWithPassword_def
    GetObjectInfosByDataStoreSearchParam_def GetObjectOwnerByDataID_def GetObjectSizeByDataID_def object_column_def
    InitializeObjectByPreparePostParam_def InitializeObjectRatingWithSlot_def UpdateObjectPeriodByDataIDWithPassword_def
    UpdateObjectMetaBinaryByDataIDWithPassword_def UpdateObjectDataTypeByDataIDWithPassword_def
    UpdateObjectUploadCompletedByDataID_def DeleteObjectByDataID_def object_exec_def first_object_def
  by (intro returns_rules)+

lemma returns_meta [returns_rules]:
  "(\<And>x. returns (entry x)) \<Longrightarrow> returns (meta_entries entry xs)"
  "returns m \<Longrightarrow> returns (meta_entry L (server_datastore L' cl b) c resultOption m)"
  by (auto simp: meta_entries_def meta_entry_def intro!: returns_rules split: prod.splits)

lemma datastore_returns: "returns (handle_datastore L (server_datastore L cl b) err c callID req)"
  by (cases req) (simp_all add: preparePostObject_def postMetaBinary_def completePostObject_def completePostObjects_def
    prepareGetObject_def getMeta_def getMetas_def getMetasMultipleParam_def searchObject_def changeMeta_def deleteObject_def
    rateObject_def rateObjects_def HyruleWarriorsGetRatings_def required_def called_def ds_ok_def new_posted_object_def
    complete_upload_def requested_object_def returns_rules split: option.split)

lemma safe_transaction [safe_rules]: "result_in safe body \<Longrightarrow> result_in safe (transaction body)"
proof -
  assume body: "result_in safe body"
  have "safe (fst (commit_or_rollback s (body s)))" for s
    using body [unfolded result_in_def, rule_format, of s]
    by (cases "body s"; cases "fst (body s)") (auto simp: commit_or_rollback_def split: prod.splits outcome.splits sum.splits)
  then have "result_in safe (\<lambda>s. commit_or_rollback s (body s))" by (simp add: result_in_def)
  then show ?thesis unfolding transaction_def by (intro safe_rules)
qed

lemma ranking_safe: "result_in safe (handle_ranking L (server_ranking L) err c callID req)"
  by (cases req) (auto simp: getCachedTopXRanking_def getCachedTopXRankings_def getCommonData_def getRanking_def
    uploadCommonData_def uploadScore_def server_ranking_def cached_result_def or_error_def HyruleWarriorsGetRankings_def
    HyruleWarriorsGetRankingsAndCountByCategoryAndRankingOrderParam_def HyruleWarriorsGetCommonData_def
    HyruleWarriorsUploadCommonData_def HyruleWarriorsInsertRankingByPIDAndRankingScoreData_def Let_def intro!: safe_rules)


lemma map_outcome_Blocked: "map_outcome f x = Blocked \<longleftrightarrow> x = Blocked"
  by (cases x) simp_all

lemma game_serve_returns:
  assumes "game_reachable G w" and "serve G err i callID req w = (r, v)"
  shows "r \<noteq> Blocked \<and> (r \<noteq> Panic \<longrightarrow> w_mutex (gs_mm v) = Unlocked) \<and>
    (r = Panic \<longrightarrow> (\<exists>q. req = Matchmaking q) \<or> (\<exists>q. req = Objects q))"
proof -
  have free: "w_mutex (gs_mm w) = Unlocked"
    using game_parts [OF assms(1)] mutex_reachable by (auto simp: parts_reachable_def)
  note outcome = map_outcome_Panic map_outcome_Blocked
  show ?thesis
  proof (cases req)
    case (Matchmaking q)
    have lock: "lock_ok (handle (gl_nex G) server_protocol server_manager err
        (packet_connection (gl_stations G) (gs_sc w) i) callID q)" by (rule lock_ok_handle)
    obtain x s where run: "handle (gl_nex G) server_protocol server_manager err
        (packet_connection (gl_stations G) (gs_sc w) i) callID q (matchmaking_view G w) = (x, s)"
      and "r = map_outcome MatchmakingResponse x" and "v = w\<lparr>gs_mm := s\<rparr>"
      using assms(2) unfolding Matchmaking serve.simps by (rule on_partD)
    then show ?thesis
      using lock [unfolded lock_ok_def, rule_format, of "matchmaking_view G w"] free by (simp add: outcome Matchmaking)
  next
    case (Leaderboards q)
    obtain x s where run: "handle_ranking (gl_rank G) (server_ranking (gl_rank G)) err
        (packet_connection (gl_stations G) (gs_sc w) i) callID q (gs_rk w) = (x, s)"
      and "r = map_outcome LeaderboardsResponse x" and "v = w\<lparr>gs_rk := s\<rparr>"
      using assms(2) unfolding Leaderboards serve.simps by (rule on_partD)
    then show ?thesis
      using ranking_safe [unfolded result_in_def, rule_format, of "gl_rank G" err
        "packet_connection (gl_stations G) (gs_sc w) i" callID q "gs_rk w"] free by (auto simp: outcome safe_def)
  next
    case (Objects q)
    obtain x s where run: "handle_datastore (gl_ds G) (object_store G) err
        (packet_connection (gl_stations G) (gs_sc w) i) callID q (gs_ds w) = (x, s)"
      and "r = map_outcome ObjectsResponse x" and "v = w\<lparr>gs_ds := s\<rparr>"
      using assms(2) unfolding Objects serve.simps by (rule on_partD)
    then show ?thesis
      using datastore_returns [unfolded returns_def result_in_def, rule_format, of "gl_ds G" "gl_minio G" "gl_bucket G"
        err "packet_connection (gl_stations G) (gs_sc w) i" callID q "gs_ds w"] free by (simp add: outcome Objects)
  next
    case (Connections q)
    obtain x s where run: "handle_secure (gl_stations G) (gl_format G) (gl_dateTime G) err i callID q (gs_sc w) = (x, s)"
      and "r = map_outcome ConnectionsResponse x" and "v = w\<lparr>gs_sc := s\<rparr>"
      using assms(2) unfolding Connections serve.simps by (rule on_partD)
    then show ?thesis
      using handle_secure_safe [unfolded result_in_def, rule_format, of "gl_stations G" "gl_format G" "gl_dateTime G"
        err i callID q "gs_sc w"] free by (auto simp: outcome safe_def)
  qed
qed


lemma registered_callbacks: "endConnection (snd (StartSecureServer C G minio_New env)) K c = connectionEnded K c"
  by (rule ext)
    (simp add: endConnection_def StartSecureServer_def registerSecureServerProtocols_def connectionEnded_def bindM_def retM_def split: prod.split outcome.split)

text \<open>
  C15: The server never hangs. In every reachable state of the whole server every request is answered:
  with a result or with an error, both of which leave the matchmaking mutex free, unless it panics,
  which only requests to the matchmaking and the DataStore protocols do. No request waits for a mutex
  that an earlier one left locked. The callbacks of a connection that ends, as they are registered at
  the start, run to their end from every such state, without an error.
\<close>

theorem every_request_is_answered:
  assumes "game_reachable G w"
  shows "(case serve G err i callID req w of
      (Ok _, v) \<Rightarrow> w_mutex (gs_mm v) = Unlocked
    | (Err _, v) \<Rightarrow> w_mutex (gs_mm v) = Unlocked
    | (Panic, v) \<Rightarrow> (\<exists>q. req = Matchmaking q) \<or> (\<exists>q. req = Objects q)
    | (Blocked, v) \<Rightarrow> False) \<and>
    (\<exists>m. endConnection (snd (StartSecureServer C G minio_New env)) (gl_nex G)
        (packet_connection (gl_stations G) (gs_sc w) i) (matchmaking_view G w) = (Ok (), m) \<and> w_mutex m = Unlocked)"
proof
  show "case serve G err i callID req w of
      (Ok _, v) \<Rightarrow> w_mutex (gs_mm v) = Unlocked
    | (Err _, v) \<Rightarrow> w_mutex (gs_mm v) = Unlocked
    | (Panic, v) \<Rightarrow> (\<exists>q. req = Matchmaking q) \<or> (\<exists>q. req = Objects q)
    | (Blocked, v) \<Rightarrow> False"
  proof (cases "serve G err i callID req w")
    case (Pair r v)
    then show ?thesis using game_serve_returns [OF assms Pair] by (cases r) simp_all
  qed
  have "w_mutex (matchmaking_view G w) = Unlocked"
    using game_parts [OF assms] mutex_reachable by (auto simp: parts_reachable_def)
  then show "\<exists>m. endConnection (snd (StartSecureServer C G minio_New env)) (gl_nex G)
        (packet_connection (gl_stations G) (gs_sc w) i) (matchmaking_view G w) = (Ok (), m) \<and> w_mutex m = Unlocked"
    unfolding registered_callbacks by (rule connectionEnded_returns)
qed

lemma every_request_is_answered_witness:
  "\<forall>L D. game_reachable (sample_game L D) sample_start \<and>
    fst (serve (sample_game L D) False 7 1 (Leaderboards (ReqGetCommonData 5)) sample_start) \<noteq> Panic \<and>
    fst (serve (sample_game L D) False 7 1 (Matchmaking (ReqUnregisterGathering 1)) sample_start) \<noteq> Blocked"
proof (intro allI conjI sample_start_reachable)
  fix L D
  let ?G = "sample_game L D"
  note answered = conjunct1 [OF every_request_is_answered [OF sample_start_reachable, where G = ?G and err = False and i = 7 and callID = 1]]
  show "fst (serve ?G False 7 1 (Leaderboards (ReqGetCommonData 5)) sample_start) \<noteq> Panic"
    using answered [of "Leaderboards (ReqGetCommonData 5)"] by (auto split: prod.splits outcome.splits)
  show "fst (serve ?G False 7 1 (Matchmaking (ReqUnregisterGathering 1)) sample_start) \<noteq> Blocked"
    using answered [of "Matchmaking (ReqUnregisterGathering 1)"] by (auto split: prod.splits outcome.splits)
qed

end
