(* ===== verification/Process_Props.thy ===== *)
theory Process_Props
  imports Endpoints Startup_Props Authentication_Props Game_Props
begin

text \<open>
  The process as a whole: its two servers fit together, so that the login on the one leads to the
  other.
\<close>

section \<open>Ports with white space\<close>

lemma digits_visible: "digits_value s = Some n \<Longrightarrow> s \<noteq> [] \<and> visible (hd s) \<and> visible (last s)"
proof -
  assume n: "digits_value s = Some n"
  then have s: "s \<noteq> []" and digits: "list_all is_digit s" by (auto simp: digits_value_def split: if_splits)
  have "visible c" if "is_digit c" for c
  proof -
    have "(of_char c :: int) = int (of_char c)" using of_nat_of_char [of c, where 'a = int] by simp
    then show ?thesis using that by (simp add: is_digit_def digit_value_def visible_def)
  qed
  then show ?thesis using s digits by (auto simp: list_all_iff)
qed

lemma Atoi_value_untrimmed:
  assumes "TrimSpace s \<noteq> s"
  shows "Atoi_value s = 0"
proof (rule ccontr)
  assume "Atoi_value s \<noteq> 0"
  then obtain n t where n: "digits_value t = Some n" and t: "t = s \<or> s = CHR ''-'' # t \<or> s = CHR ''+'' # t"
    by (cases s) (auto simp: Atoi_value_def Let_def split: option.splits if_splits)
  have "s \<noteq> [] \<and> visible (hd s) \<and> visible (last s)"
    using digits_visible [OF n] t by (auto simp: visible_def)
  then show False using TrimSpace_visible assms by blast
qed

lemma listened_port:
  assumes "requiredPort env name \<noteq> None"
  shows "uint (word_of_int (Atoi_value (env name)) :: u16) = Atoi_value (env name)"
  using requiredPort_value [OF assms] by (cases "TrimSpace (env name) = env name") (simp_all add: Atoi_value_untrimmed)

section \<open>The URL of the secure server\<close>

text \<open>The parameters of a URL are read back as they were set, and setting another one leaves them.\<close>

definition station_laws :: "'u station_lib \<Rightarrow> bool" where
  "station_laws U \<longleftrightarrow>
     (\<forall>a u. Address U (SetAddress U a u) = Some a) \<and> (\<forall>p u. PortNumber U (SetPortNumber U p u) = Some p) \<and>
     (\<forall>p u. Address U (SetPortNumber U p u) = Address U u) \<and>
     (\<forall>x u. Address U (SetConnectionID U x u) = Address U u \<and> PortNumber U (SetConnectionID U x u) = PortNumber U u) \<and>
     (\<forall>x u. Address U (SetPrincipalID U x u) = Address U u \<and> PortNumber U (SetPrincipalID U x u) = PortNumber U u) \<and>
     (\<forall>x u. Address U (SetStreamID U x u) = Address U u \<and> PortNumber U (SetStreamID U x u) = PortNumber U u) \<and>
     (\<forall>x u. Address U (SetStreamType U x u) = Address U u \<and> PortNumber U (SetStreamType U x u) = PortNumber U u) \<and>
     (\<forall>x u. Address U (SetStationType U x u) = Address U u \<and> PortNumber U (SetStationType U x u) = PortNumber U u)"

lemma sample_station_laws: "station_laws sample_U"
  by (simp add: station_laws_def sample_U_def)

lemma secure_url_parameters:
  assumes "station_laws U" and "host \<noteq> []"
  shows "Address U (secure_station_url U host port) = Some host"
    and "PortNumber U (secure_station_url U host port) = Some (word_of_int port)"
  using assms by (simp_all add: station_laws_def secure_station_url_def)

lemma running_servers:
  assumes "run_process decrypt hmac G minio_New postgres env = Some R"
  shows "rp_ticket_granting R = server_ticket_granting (rp_config R) (gl_stations G)
      (env ''PN_HYRULEWARRIORS_SECURE_HOST'') (ps_Listen (rp_secure R))"
    and "ep_ServerAccount (ps_EndPoint (rp_secure R)) = SecureServerAccount (rp_config R)"
    and "ps_Listen (rp_secure R) = Atoi_value (env ''PN_HYRULEWARRIORS_SECURE_PORT'')"
    and "ps_AccessKey (rp_authentication R) = ps_AccessKey (rp_secure R)"
    and "ps_LibraryVersion (rp_authentication R) = ps_LibraryVersion (rp_secure R)"
    and "ps_UseStructureHeader (rp_authentication R) = ps_UseStructureHeader (rp_secure R)"
    and "requiredPort env ''PN_HYRULEWARRIORS_SECURE_PORT'' \<noteq> None"
    and "env ''PN_HYRULEWARRIORS_SECURE_HOST'' \<noteq> []"
    and "LocalAuthMode (rp_config R) \<or> 32 \<le> length (NEXPasswordSecret (rp_config R))"
  using assms
  by (auto simp: run_process_def run_main_def start_servers_def StartAuthenticationServer_def StartSecureServer_def
    registerAuthenticationServerProtocols_def Let_def requiredEnv_def dest!: read_config_keys split: option.splits if_splits)


section \<open>From the login to the secure server\<close>

text \<open>
  C16: The login leads to the secure server. In a process that started outside of the local mode, a
  player with a valid token logs in on the authentication server, whenever the random source and the
  encryption work, and what the player gets fits the other server of the process: the answer names the
  configured host and exactly the port on which the secure server was told to listen, which is a port
  if it was written without white space; the ticket opens with the account of the secure endpoint,
  which reads in it the player's PID and the session key that the player reads; and both servers
  speak with the same access key, library version and structure headers.
\<close>

theorem login_leads_to_the_secure_server:
  assumes "run_process decrypt hmac G minio_New postgres env = Some R" and "\<not> LocalAuthMode (rp_config R)"
    and "block_cipher (rp_config R) E" and "station_laws (gl_stations G)"
    and "encrypts K" and "tickets_decrypt K decI decT" and "au_random_faults s = []"
    and "TokenType tk = 3" and "au_now s \<le> uint (ExpireTime tk div 1000) * 1000000000"
    and "0 \<le> sint (AccessLevel tk)" and "extra \<in> carriers (seal_token E tk)"
  shows "\<exists>r t ticket connection password. loginEx (rp_config R) K (rp_ticket_granting R) False callID
      (decimal (unat (UserPID tk))) extra s = (Ok r, t) \<and>
    Body r = [TResult (QSuccess Core_Unknown), TPID (ucast (UserPID tk)), TBuffer ticket, TConnectionData connection, TString []] \<and>
    Address (gl_stations G) (rv_StationURL connection) = Some (env ''PN_HYRULEWARRIORS_SECURE_HOST'') \<and>
    map_option uint (PortNumber (gl_stations G) (rv_StationURL connection)) = Some (ps_Listen (rp_secure R)) \<and>
    (TrimSpace (env ''PN_HYRULEWARRIORS_SECURE_PORT'') = env ''PN_HYRULEWARRIORS_SECURE_PORT'' \<longrightarrow>
      1 \<le> ps_Listen (rp_secure R) \<and> ps_Listen (rp_secure R) \<le> 65535) \<and>
    agreed_ticket K decI decT \<lparr> acc_PID = ucast (UserPID tk), acc_Username = decimal (unat (UserPID tk)),
      acc_Password = password \<rparr> (ep_ServerAccount (ps_EndPoint (rp_secure R))) (au_now s) (next_key 32 s) ticket \<and>
    ps_AccessKey (rp_authentication R) = ps_AccessKey (rp_secure R) \<and>
    ps_LibraryVersion (rp_authentication R) = ps_LibraryVersion (rp_secure R) \<and>
    ps_UseStructureHeader (rp_authentication R) = ps_UseStructureHeader (rp_secure R)"
proof -
  let ?C = "rp_config R" and ?host = "env ''PN_HYRULEWARRIORS_SECURE_HOST''" and ?port = "ps_Listen (rp_secure R)"
  let ?P = "server_ticket_granting ?C (gl_stations G) ?host ?port"
  note R = running_servers [OF assms(1)]
  have secret: "32 \<le> length (NEXPasswordSecret ?C)" using R(9) assms(2) by simp
  obtain r t ticket now where run: "loginEx ?C K ?P False callID (decimal (unat (UserPID tk))) extra s = (Ok r, t)"
    and body: "Body r = [TResult (QSuccess Core_Unknown), TPID (ucast (UserPID tk)), TBuffer ticket,
      TConnectionData (connection_data K ?P now), TString []]"
    and agreed: "agreed_ticket K decI decT \<lparr> acc_PID = ucast (UserPID tk), acc_Username = decimal (unat (UserPID tk)),
      acc_Password = derived_password ?C (ucast (UserPID tk)) \<rparr> (SecureServerAccount ?C) (au_now s) (next_key 32 s) ticket"
    using login_with_token_succeeds [OF assms(2) secret assms(3,5-11)] by blast
  have url: "rv_StationURL (connection_data K ?P now) = secure_station_url (gl_stations G) ?host ?port"
    by (simp add: connection_data_def)
  have address: "Address (gl_stations G) (rv_StationURL (connection_data K ?P now)) = Some ?host"
    unfolding url by (rule secure_url_parameters(1) [OF assms(4) R(8)])
  have number: "map_option uint (PortNumber (gl_stations G) (rv_StationURL (connection_data K ?P now))) = Some ?port"
    unfolding url secure_url_parameters(2) [OF assms(4) R(8)] using listened_port [OF R(7)] R(3) by simp
  have valid: "TrimSpace (env ''PN_HYRULEWARRIORS_SECURE_PORT'') = env ''PN_HYRULEWARRIORS_SECURE_PORT'' \<longrightarrow>
      1 \<le> ?port \<and> ?port \<le> 65535"
    using requiredPort_value [OF R(7)] R(3) by simp
  show ?thesis unfolding R(1,2) using run body address number valid agreed R(4-6) by blast
qed

text \<open>The environment of a shared deployment.\<close>

definition shared_env :: environment where
  "shared_env name = (if name = ''PN_HYRULEWARRIORS_LOCAL_MODE'' then []
     else if name = ''PN_HYRULEWARRIORS_NEX_TOKEN_AES_KEY'' then concat (replicate 32 ''07'')
     else if name = ''PN_HYRULEWARRIORS_NEX_PASSWORD_SECRET'' then concat (replicate 32 ''01'')
     else sample_env name)"

lemma hex_repeated:
  "hex_DecodeString (concat (replicate n ''07'')) = Some (replicate n 7)"
  "hex_DecodeString (concat (replicate n ''01'')) = Some (replicate n 1)"
  by (induction n) (simp_all add: hex_value_def is_digit_def digit_value_def)

lemma trim_repeated:
  assumes "visible a" and "visible b"
  shows "TrimSpace (concat (replicate (Suc n) [a, b])) = concat (replicate (Suc n) [a, b])"
proof (rule TrimSpace_visible)
  show "visible (last (concat (replicate (Suc n) [a, b])))" using assms by (induction n) simp_all
qed (use assms in simp_all)

lemma shared_start:
  "\<exists>R. run_process (\<lambda>key b. xor_bytes b (take 16 key)) (\<lambda>key m. take 3 m) (sample_game L D) minio_New True shared_env = Some R \<and>
    rp_config R = sample_auth"
proof -
  have trim: "TrimSpace (concat (replicate 32 ''07'')) = concat (replicate 32 ''07'')"
    "TrimSpace (concat (replicate 32 ''01'')) = concat (replicate 32 ''01'')"
    using trim_repeated [of _ _ 31] by (simp_all add: visible_def)
  have nonempty: "concat (replicate 32 ''07'') \<noteq> []" "concat (replicate 32 ''01'') \<noteq> []" by simp_all
  have "read_config (\<lambda>key b. xor_bytes b (take 16 key)) (\<lambda>key m. take 3 m) shared_env = Some sample_auth"
    using trim nonempty by (simp add: read_config_def shared_env_def decoded_key_def requiredEnv_def hex_repeated sample_env_def
      local_env_def sample_auth_def Let_def del: concat_replicate_trivial)
  moreover have "requiredPort shared_env ''PN_HYRULEWARRIORS_AUTH_PORT'' = Some ()"
    "requiredPort shared_env ''PN_HYRULEWARRIORS_SECURE_PORT'' = Some ()"
    "requiredEnv shared_env ''PN_HYRULEWARRIORS_SECURE_HOST'' = Some ''host''"
    by (simp_all add: requiredPort_def requiredEnv_def shared_env_def sample_env_def local_env_def Atoi_sample TrimSpace_visible
      visible_def Let_def)
  ultimately show ?thesis
    by (simp add: run_process_def run_main_def start_servers_def StartAuthenticationServer_def StartSecureServer_def
      registerAuthenticationServerProtocols_def Let_def)
qed


lemma login_leads_to_the_secure_server_witness:
  "\<forall>L D minio_New. \<exists>R r t. run_process (\<lambda>key b. xor_bytes b (take 16 key)) (\<lambda>key m. take 3 m) (sample_game L D) minio_New
      True shared_env = Some R \<and>
    loginEx (rp_config R) sample_kerb (rp_ticket_granting R) False 1 (decimal 1001)
      (NintendoLoginData (Base64_EncodeToString (seal_token sample_cipher sample_token))) sample_auth_world = (Ok r, t) \<and>
    TResult (QSuccess Core_Unknown) \<in> set (Body r) \<and> 1 \<le> ps_Listen (rp_secure R)"
proof (intro allI)
  fix L D minio_New
  obtain R where R: "run_process (\<lambda>key b. xor_bytes b (take 16 key)) (\<lambda>key m. take 3 m) (sample_game L D) minio_New
      True shared_env = Some R" and C: "rp_config R = sample_auth"
    using shared_start [of L D minio_New] by blast
  have port: "TrimSpace (shared_env ''PN_HYRULEWARRIORS_SECURE_PORT'') = shared_env ''PN_HYRULEWARRIORS_SECURE_PORT''"
    by (simp add: shared_env_def sample_env_def local_env_def TrimSpace_visible visible_def)
  have local: "\<not> LocalAuthMode (rp_config R)" and cipher: "block_cipher (rp_config R) sample_cipher"
    by (simp_all add: C sample_block_cipher)
  have stations: "station_laws (gl_stations (sample_game L D))" by (simp add: sample_game_def sample_station_laws)
  have random: "au_random_faults sample_auth_world = []" and token: "TokenType sample_token = 3"
    "au_now sample_auth_world \<le> uint (ExpireTime sample_token div 1000) * 1000000000" "0 \<le> sint (AccessLevel sample_token)"
    by simp_all
  obtain r t ticket where "loginEx (rp_config R) sample_kerb (rp_ticket_granting R) False 1 (decimal (unat (UserPID sample_token)))
      (NintendoLoginData (Base64_EncodeToString (seal_token sample_cipher sample_token))) sample_auth_world = (Ok r, t)"
    and "TResult (QSuccess Core_Unknown) \<in> set (Body r)" and "1 \<le> ps_Listen (rp_secure R)"
    using login_leads_to_the_secure_server [OF R local cipher stations sample_encrypts sample_decrypts random token in_carriers,
      where callID = 1] port by auto
  then show "\<exists>R r t. run_process (\<lambda>key b. xor_bytes b (take 16 key)) (\<lambda>key m. take 3 m) (sample_game L D) minio_New
      True shared_env = Some R \<and>
    loginEx (rp_config R) sample_kerb (rp_ticket_granting R) False 1 (decimal 1001)
      (NintendoLoginData (Base64_EncodeToString (seal_token sample_cipher sample_token))) sample_auth_world = (Ok r, t) \<and>
    TResult (QSuccess Core_Unknown) \<in> set (Body r) \<and> 1 \<le> ps_Listen (rp_secure R)"
    using R by auto
qed


section \<open>The store of objects\<close>

text \<open>
  The warning of \<open>nex/secure.go\<close>: without \<open>PN_S3_ENDPOINT\<close> no object can be uploaded or downloaded, and
  the requests for it are refused before they touch anything.
\<close>

lemma no_endpoint_no_objects:
  assumes "env ''PN_S3_ENDPOINT'' = []"
  shows "preparePostObject (pr_datastore (snd (StartSecureServer C G minio_New env))) err c callID param s = (Err Core_NotImplemented, s)"
    and "completePostObjects (pr_datastore (snd (StartSecureServer C G minio_New env))) err c callID ids s = (Err Core_NotImplemented, s)"
    and "prepareGetObject (pr_datastore (snd (StartSecureServer C G minio_New env))) err c callID get s = (Err Core_NotImplemented, s)"
proof -
  have "dp_S3Presigner (server_datastore L None b) = None" for L b by (simp add: server_datastore_def new_ds_protocol_def)
  then show "preparePostObject (pr_datastore (snd (StartSecureServer C G minio_New env))) err c callID param s = (Err Core_NotImplemented, s)"
    and "completePostObjects (pr_datastore (snd (StartSecureServer C G minio_New env))) err c callID ids s = (Err Core_NotImplemented, s)"
    and "prepareGetObject (pr_datastore (snd (StartSecureServer C G minio_New env))) err c callID get s = (Err Core_NotImplemented, s)"
    using assms by (simp_all add: StartSecureServer_def registerSecureServerProtocols_def s3_client_def Let_def preparePostObject_def
      completePostObjects_def prepareGetObject_def required_def run_simps)
qed

end
