(* ===== verification/Spec2Isabelle.thy ===== *)
theory Spec2Isabelle
  imports Gathering_Props Session_Props Search_Props Ranking_Props Datastore_Props Startup_Props Authentication_Props Secure_Props Game_Props Schema_Props
    Leaderboard_Spec Endpoints_Props Process_Props
begin

text \<open>
  This development models the game server's request handlers and their database functions, and
  proves what makes them correct: matchmaking (the packages \<open>match-making\<close>, \<open>match-making-ext\<close>,
  \<open>matchmake-extension\<close> and \<open>globals\<close> of \<open>src/internal/nex-protocols-common-go-patch\<close>), the
  leaderboards (\<open>ranking\<close> and \<open>src/database\<close>), the object store (\<open>datastore\<close> and \<open>src/database\<close>),
  accounts and logins (\<open>src/globals\<close>, \<open>globals/authentication.go\<close>, \<open>ticket-granting\<close>), the connections of
  the secure endpoint (\<open>secure-connection\<close>, \<open>nat-traversal\<close>, \<open>utility\<close>), and the start of the process
  (\<open>src/init.go\<close>, \<open>src/nex\<close>).

  How the parts interact. Clients send requests; a handler (\<open>joinMatchmakeSession\<close>, ...) checks
  the parameters, takes the manager's mutex, calls functions of the package \<open>database\<close>, which run
  SQL statements and send notification events to other clients, releases the mutex and replies.
  A lost connection and a restart of the process run handlers of their own.

  Theories, in the order of import:
  \<^item> \<open>Nex_Prelude\<close>: the state-and-error monad of the handlers (\<open>Ok\<close>, \<open>Err\<close>, \<open>Panic\<close>, \<open>Blocked\<close>), loops,
    SQL calls that may fail (\<open>db_faults\<close> decides which), rules for invariants, the locale
    \<open>upsert_table\<close> of tables with \<open>ON CONFLICT DO UPDATE\<close>.
  \<^item> \<open>Nex_Types\<close>: the wire types and the library constants (\<open>nexlib\<close> holds what the code takes from
    modules outside the repository: flag values, notification numbers, codecs).
  \<^item> \<open>Mm_World\<close>: the state (tables, mutex, connections, sent events, clock, random sources), the
    mutex and the tracking log (\<open>match-making/tracking\<close>, \<open>matchmake-extension/tracking\<close>).
  \<^item> \<open>Global_Utils\<close>: \<open>globals/utils.go\<close>.
  \<^item> \<open>Match_Making_Db\<close>, \<open>Match_Making\<close>: gatherings (\<open>match-making/database\<close>) and their handlers; the
    locale \<open>gathering_store\<close> states what an invariant must allow so that every operation keeps it.
  \<^item> \<open>Matchmake_Session_Db\<close>, \<open>Community_Db\<close>, \<open>Search_Criteria\<close>: sessions, communities and
    notifications, and the search by criteria (\<open>matchmake-extension/database\<close>), with the locales
    \<open>session_store\<close> and \<open>mm_store\<close>.
  \<^item> \<open>Matchmake_Extension\<close>, \<open>Mm_Server\<close>: the handlers of \<open>matchmake-extension\<close>, the dispatch of
    requests and the step relation of the running server.
  \<^item> \<open>Gathering_Spec\<close>, \<open>Gathering_Runs\<close>, \<open>Gathering_Props\<close>: the abstract join and leave of one row and
    the refinement of the operations to them.
  \<^item> \<open>Session_Runs\<close>, \<open>Session_Props\<close>, \<open>Search_Props\<close>: runs of the session functions, and the properties
    of sessions, communities, notifications and searches. \<open>Samples\<close> holds a concrete state.
  \<^item> \<open>Sql_Lists\<close>, \<open>Decimal\<close>, \<open>Triples\<close>: SQL on lists of rows, decimal numbers as strings, and triples
    (what an operation guarantees when it returns and when it fails) with one rule per combinator.
  \<^item> \<open>Ranking_Db\<close>, \<open>Ranking\<close>, \<open>Ranking_Props\<close>: the ranking tables, the upload as a transaction, the
    ranking query with its window functions (\<open>src/database/hyrulewarriors_*.go\<close>), the handlers, and
    what they promise. \<open>Leaderboard_Spec\<close>: the abstract leaderboard, which keeps the best score of
    every key, and the refinement of any sequence of uploads to it.
  \<^item> \<open>Datastore_Db\<close>, \<open>Datastore\<close>: the table of objects with the callbacks of \<open>src/database\<close>, and the
    handlers of \<open>datastore\<close> over them and an S3 store whose signing is a parameter.
  \<^item> \<open>Datastore_Runs\<close>, \<open>Datastore_Store\<close>, \<open>Datastore_Props\<close>: triples and runs of the callbacks, the
    reachable states of the store with their invariant, and the properties: uploads completed only with
    the announced size, protection of objects, reading by permission (one object, lists of objects, download
    URLs), searches, posting and reading back. Clients may put anything into the S3 store at any time, in
    place of what is there, too: the signed policy names a bucket, a key and a time of expiry only.

  \<^item> \<open>Go_Codecs\<close>: the codecs of Go's standard library that login tokens go through, with their round
    trips: integers as bytes, base64, CRC-32, cipher block chaining over a block cipher.
  \<^item> \<open>Accounts\<close>, \<open>Stations\<close>, \<open>Ticket_Granting\<close>: passwords, accounts and tokens; the operations on station
    URLs that the library provides; the handlers of the authentication endpoint and the tickets.
  \<^item> \<open>Authentication_Runs\<close>, \<open>Authentication_Samples\<close>, \<open>Authentication_Props\<close>: how a token is sealed and
    what a ticket must let both ends read; a player with a valid token logs in, nobody else gets a
    ticket by logging in, both ends share the session key.
  \<^item> \<open>Secure_Connection\<close>, \<open>Secure_Runs\<close>, \<open>Secure_Props\<close>: a store of connection objects, the handlers that
    register, replace, report and request station URLs, the reachable states, and what a request
    may touch; a host's URLs reach the participants of its gathering (with \<open>Match_Making\<close>).
  \<^item> \<open>Ranking_Store\<close>: the locale \<open>rank_store\<close> of predicates that every ranking request keeps, for the
    consistency of the tables and for rows that stay as they are.
  \<^item> \<open>Game_Server\<close>, \<open>Game_Props\<close>: the secure server as a whole (\<open>registerSecureServerProtocols\<close> in
    \<open>src/nex/secure.go\<close>): one endpoint under all protocols, connections that open and end, panics with
    the restart after them; each part of a reachable state is reachable in its own theory, so the
    parts' invariants hold together, and participants get URLs of their host only.
  \<^item> \<open>Startup\<close>, \<open>Startup_Props\<close>: the checks of the environment, and what a started process has.
  \<^item> \<open>Endpoints\<close>: the two servers as \<open>StartAuthenticationServer\<close>, \<open>StartSecureServer\<close> and \<open>main\<close> configure
    them: endpoint, access key, library version, port, the protocols with the handlers that their
    \<open>NewCommonProtocol\<close> functions install, the S3 client, the callbacks of ended connections; and the
    labels (protocol, method, call ID) of requests and answers. \<open>Endpoints_Props\<close>: every answer is
    labelled for its request and every request is answered. \<open>Process_Props\<close>: the two servers of a
    process fit together, so that a login leads to the secure server.
  \<^item> \<open>Schema\<close>, \<open>Schema_Props\<close>: the schema of the database, the statements with which a start creates it
    (\<open>src/database/init_postgres.go\<close>, the \<open>SetManager\<close> functions), and the \<open>INSERT\<close> statements of all
    components checked against the tables; what is left when statements of a start fail.

  Matchmaking, leaderboards, objects, authentication and connections keep their own tables, so each
  has a world of its own: \<open>mm_world\<close>, \<open>rk_world\<close> and \<open>ds_world\<close>, which extend the database environment of
  \<open>Nex_Prelude\<close>, \<open>auth_world\<close>, and \<open>sc_world\<close>, which extends it. Matchmaking sees the connections of the
  endpoint through \<open>w_connections\<close>; \<open>endpoint_connections\<close> is that view of an \<open>sc_world\<close>, and a
  \<open>game_server\<close> joins the worlds of the secure server, where every request sees it.

  How the code is represented. A table is a list of rows in insertion order, a statement a
  function on these lists; array columns are lists, and \<open>NULL\<close> is \<open>None\<close>. Every statement may fail,
  as the list \<open>db_faults\<close> says; the properties that need statements to succeed have the hypothesis
  \<open>db_faults s = []\<close>, all others hold under any faults. Integers keep their width (\<open>u8\<close> to \<open>u64\<close>);
  serial keys are unbounded naturals, as the statement that reads one of more than 32 bits fails (a
  gathering whose ID does not fit gets no row of a session or community, so no later scan meets it).
  A handler runs as one step of the server: the matchmaking handlers hold the mutex while they touch
  the tables, and an upload of a score is a transaction. The leaderboard and object handlers take
  no lock; how the statements of two of them interleave is not modelled.
  All loops are structural recursions over lists, or recursions with a length as their measure, so
  no fuel is needed. Cryptographic primitives are parameters: the decryption of one block, HMAC, the
  derivation of keys and the encryption of tickets; properties that need them to be inverse to
  their counterparts have the hypotheses \<open>block_cipher\<close>, \<open>tickets_decrypt\<close> and \<open>encrypts\<close>.

  Not modelled: the callbacks \<open>OnAfter...\<close>, which this server leaves unset; the network transport
  and the codecs of the library; SQL beyond the effect of the statements of the code (locks,
  transactions between processes).
  The sockets and the connection to the database at the start of the process are input and output:
  \<open>run_process\<close> stops where both servers are told to listen, and \<open>start_servers\<close> and \<open>start_database\<close> have
  the outcome of the connection as an argument. The order in which the library hands packets to the
  handlers is left open: the step relations take any request of any connection at any time. Log lines
  and the diagnostic dump of packets (\<open>OnData\<close>) are not modelled.
\<close>

text \<open>
  C1: In every reachable state of the matchmaking server the tables are consistent: keys are
  unique and already issued, no gathering with a participant limit exceeds it, every session and
  every community row has six attributes and belongs to a gathering of its type, and the
  participation and notification tables have one row per key.
\<close>

theorem reachable_tables_consistent:
  assumes "cleanup_ok P" and "reachable K P mgr s"
  shows "distinct (map g_id (t_gatherings s)) \<and>
    (\<forall>g \<in> set (t_gatherings s). g_id g < next_gathering_id s \<and>
       (g_max_participants g = 0 \<or> length (g_participants g) \<le> unat (g_max_participants g))) \<and>
    distinct (map ms_id (t_sessions s)) \<and>
    (\<forall>r \<in> set (t_sessions s). length (ms_attribs r) = 6 \<and>
       (\<exists>g \<in> set (t_gatherings s). g_id g = ms_id r \<and> g_type g = ''MatchmakeSession'')) \<and>
    distinct (map pg_id (t_persistent s)) \<and>
    (\<forall>r \<in> set (t_persistent s). length (pg_attribs r) = 6 \<and>
       (\<exists>g \<in> set (t_gatherings s). g_id g = pg_id r \<and> g_type g = ''PersistentGathering'')) \<and>
    distinct (map participation_key (t_participations s)) \<and>
    distinct (map notification_key (t_notifications s))"
  using world_ok_reachable [OF assms]
  by (simp add: world_ok_def gatherings_ok_def ids_ok_def within_capacity_def sessions_ok_def
    communities_ok_def keys_ok_def)

lemma reachable_tables_consistent_witness:
  "distinct (map g_id (t_gatherings empty_world)) \<and> distinct (map notification_key (t_notifications empty_world))"
proof -
  have "reachable sample_lib server_protocol server_manager empty_world"
    by (rule reach_initial) (simp add: initial_def empty_world_def)
  then show ?thesis using reachable_tables_consistent [OF server_cleanup_ok] by blast
qed

end
